(* ===== verification/Prelude.thy ===== *)
theory Prelude
  imports Main "HOL-Library.Char_ord" "HOL-Library.List_Lexorder"
begin

text \<open>
  Shared vocabulary of the development: Python exceptions as values, the result type
  \<open>py_error + 'a\<close> with its sequencing operator, association lists read as
  insertion-ordered dictionaries, and the \<^theory_text>\<open>named_theorems\<close> collections that the component
  theories extend.
\<close>

named_theorems code_defs \<open>definitions of the model that proofs unfold on demand\<close>
named_theorems py_consts \<open>module constants of the source\<close>

section \<open>Exceptions as values\<close>

datatype py_error =
    RuntimeError string
  | ValueError string
  | TypeError string
  | AttributeError string
  | KeyError string
  | IndexError string
  | PermissionError string
  | AssertionError string
  | OverflowError string
  | OSError string
  | SqliteError string
  | InvalidSignature string
  | ZeroDivisionError string
  | OtherError string string   \<comment> \<open>any other class, by its name\<close>

text \<open>\<open>str(exc)\<close>: the message of the exception.\<close>

fun exc_message :: "py_error \<Rightarrow> string" where
  "exc_message (RuntimeError m) = m"
| "exc_message (ValueError m) = m"
| "exc_message (TypeError m) = m"
| "exc_message (AttributeError m) = m"
| "exc_message (KeyError m) = m"
| "exc_message (IndexError m) = m"
| "exc_message (PermissionError m) = m"
| "exc_message (AssertionError m) = m"
| "exc_message (OverflowError m) = m"
| "exc_message (OSError m) = m"
| "exc_message (SqliteError m) = m"
| "exc_message (InvalidSignature m) = m"
| "exc_message (ZeroDivisionError m) = m"
| "exc_message (OtherError c m) = m"

text \<open>\<open>exc.__class__.__name__\<close>\<close>

fun exc_class :: "py_error \<Rightarrow> string" where
  "exc_class (RuntimeError m) = ''RuntimeError''"
| "exc_class (ValueError m) = ''ValueError''"
| "exc_class (TypeError m) = ''TypeError''"
| "exc_class (AttributeError m) = ''AttributeError''"
| "exc_class (KeyError m) = ''KeyError''"
| "exc_class (IndexError m) = ''IndexError''"
| "exc_class (PermissionError m) = ''PermissionError''"
| "exc_class (AssertionError m) = ''AssertionError''"
| "exc_class (OverflowError m) = ''OverflowError''"
| "exc_class (OSError m) = ''OSError''"
| "exc_class (SqliteError m) = ''OperationalError''"
| "exc_class (InvalidSignature m) = ''InvalidSignature''"
| "exc_class (ZeroDivisionError m) = ''ZeroDivisionError''"
| "exc_class (OtherError c m) = c"

type_synonym 'a py = "py_error + 'a"

text \<open>Sequencing of fallible steps: the first exception wins.\<close>

fun bindE :: "'e + 'a \<Rightarrow> ('a \<Rightarrow> 'e + 'b) \<Rightarrow> 'e + 'b" where
  "bindE (Inl e) f = Inl e"
| "bindE (Inr x) f = f x"

lemma bindE_eq_Inr [simp]: "bindE m f = Inr y \<longleftrightarrow> (\<exists>x. m = Inr x \<and> f x = Inr y)"
  by (cases m) auto

lemma bindE_eq_Inl: "bindE m f = Inl e \<longleftrightarrow> m = Inl e \<or> (\<exists>x. m = Inr x \<and> f x = Inl e)"
  by (cases m) auto

lemma bindE_Inr_right [simp]: "bindE m Inr = m"
  by (cases m) auto

lemma bindE_assoc: "bindE (bindE m f) g = bindE m (\<lambda>x. bindE (f x) g)"
  by (cases m) auto

lemma bindE_cong [fundef_cong]:
  "m = m' \<Longrightarrow> (\<And>x. m' = Inr x \<Longrightarrow> f x = g x) \<Longrightarrow> bindE m f = bindE m' g"
  by (cases m') auto

text \<open>A loop that stops at the first exception, collecting the results.\<close>

fun mapE :: "('a \<Rightarrow> 'e + 'b) \<Rightarrow> 'a list \<Rightarrow> 'e + 'b list" where
  "mapE f [] = Inr []"
| "mapE f (x # xs) = bindE (f x) (\<lambda>y. bindE (mapE f xs) (\<lambda>ys. Inr (y # ys)))"

lemma mapE_length: "mapE f xs = Inr ys \<Longrightarrow> length ys = length xs"
  by (induction xs arbitrary: ys) auto

lemma mapE_Inr_map: "(\<And>x. x \<in> set xs \<Longrightarrow> f x = Inr (g x)) \<Longrightarrow> mapE f xs = Inr (map g xs)"
  by (induction xs) auto

section \<open>Dictionaries\<close>

text \<open>
  A dictionary is an insertion-ordered association list with distinct keys: assignment keeps
  the position of an existing key, as Python does.
\<close>

fun dset :: "'k \<Rightarrow> 'v \<Rightarrow> ('k \<times> 'v) list \<Rightarrow> ('k \<times> 'v) list" where
  "dset k v [] = [(k, v)]"
| "dset k v ((k', v') # d) = (if k = k' then (k, v) # d else (k', v') # dset k v d)"

definition ddel :: "'k \<Rightarrow> ('k \<times> 'v) list \<Rightarrow> ('k \<times> 'v) list" where
  "ddel k d = filter (\<lambda>(k', _). k' \<noteq> k) d"

lemma map_of_dset [simp]: "map_of (dset k v d) = (map_of d)(k \<mapsto> v)"
  by (induction d) (auto simp: fun_eq_iff)

lemma keys_dset [simp]: "fst ` set (dset k v d) = insert k (fst ` set d)"
  by (induction k v d rule: dset.induct) (simp_all add: insert_commute)

lemma set_keys_dset: "set (map fst (dset k v d)) = insert k (set (map fst d))"
  using keys_dset [of k v d] by simp

lemma distinct_dset [simp]: "distinct (map fst d) \<Longrightarrow> distinct (map fst (dset k v d))"
proof (induction k v d rule: dset.induct)
  case (2 k v k' v' d)
  then show ?case using set_keys_dset [of k v d] by simp
qed simp

lemma map_of_ddel [simp]: "map_of (ddel k d) = (map_of d)(k := None)"
  unfolding ddel_def by (induction d) (auto simp: fun_eq_iff)

lemma distinct_ddel [simp]: "distinct (map fst d) \<Longrightarrow> distinct (map fst (ddel k d))"
  unfolding ddel_def by (induction d) auto

lemma map_fst_dset_present: "k \<in> set (map fst d) \<Longrightarrow> map fst (dset k v d) = map fst d"
  by (induction k v d rule: dset.induct) (simp_all, blast)

lemma dset_absent: "k \<notin> set (map fst d) \<Longrightarrow> dset k v d = d @ [(k, v)]"
  by (induction k v d rule: dset.induct) simp_all

section \<open>Lists\<close>

lemma takeWhile_append_all:
  assumes "\<forall>x \<in> set xs. P x" and "ys = [] \<or> \<not> P (hd ys)"
  shows "takeWhile P (xs @ ys) = xs"
proof -
  have "takeWhile P ys = []" using assms(2) by (cases ys) auto
  then show ?thesis using assms(1) by (simp add: takeWhile_append2)
qed

lemma split_by_class:
  assumes "xs @ ys = xs' @ ys'"
    and "\<forall>x \<in> set xs. P x" and "ys = [] \<or> \<not> P (hd ys)"
    and "\<forall>x \<in> set xs'. P x" and "ys' = [] \<or> \<not> P (hd ys')"
  shows "xs = xs' \<and> ys = ys'"
proof -
  have "xs = takeWhile P (xs @ ys)" using takeWhile_append_all [OF assms(2,3)] by simp
  also have "\<dots> = xs'" using assms(1) takeWhile_append_all [OF assms(4,5)] by simp
  finally show ?thesis using assms(1) by simp
qed

text \<open>Joining with a separator: \<open>sep.join(xs)\<close>.\<close>

fun join :: "'a list \<Rightarrow> 'a list list \<Rightarrow> 'a list" where
  "join sep [] = []"
| "join sep [x] = x"
| "join sep (x # y # xs) = x @ sep @ join sep (y # xs)"

text \<open>The order on strings used by \<open>sort_keys\<close>: sorting an association list by its keys.\<close>

lemma sort_key_map_snd:
  "sort_key fst (map (map_prod id f) kvs) = map (map_prod id f) (sort_key fst kvs)"
proof -
  have "insort_key fst (map_prod id f kv) (map (map_prod id f) xs) =
        map (map_prod id f) (insort_key fst kv xs)" for kv xs
    by (induction xs) auto
  note ins = this
  show ?thesis
  proof (induction kvs)
    case (Cons kv kvs)
    then show ?case using ins [of kv "sort_key fst kvs"] by (simp add: id_def)
  qed simp
qed

end
