(* ===== verification/PyText.thy ===== *)
theory PyText
  imports Prelude
begin

text \<open>
  The operations on \<open>str\<close> and \<open>bytes\<close> that the source uses. A Python string is a list of
  characters with code points below 256 (Latin-1); a byte string is the same type. On this
  range every operation below is the one of CPython.
\<close>

type_synonym bytes = string

section \<open>Characters\<close>

definition ord :: "char \<Rightarrow> nat" where
  "ord c = of_char c"

definition chr :: "nat \<Rightarrow> char" where
  "chr n = char_of n"

lemma ord_less [simp]: "ord c < 256"
  by (simp add: ord_def)

lemma chr_ord [simp]: "chr (ord c) = c"
  by (simp add: ord_def chr_def)

lemma ord_chr [simp]: "n < 256 \<Longrightarrow> ord (chr n) = n"
  by (simp add: ord_def chr_def of_char_of)

lemma ord_inject [simp]: "ord c = ord d \<longleftrightarrow> c = d"
  by (metis chr_ord)

text \<open>\<open>str.strip()\<close> and \<open>str.lower()\<close>.\<close>

definition is_space :: "char \<Rightarrow> bool" where
  "is_space c \<longleftrightarrow> (let n = ord c in (9 \<le> n \<and> n \<le> 13) \<or> (28 \<le> n \<and> n \<le> 32) \<or> n = 133 \<or> n = 160)"

definition py_lstrip :: "string \<Rightarrow> string" where
  "py_lstrip s = dropWhile is_space s"

definition py_rstrip :: "string \<Rightarrow> string" where
  "py_rstrip s = rev (dropWhile is_space (rev s))"

definition py_strip :: "string \<Rightarrow> string" where
  "py_strip s = py_lstrip (py_rstrip s)"

definition lower_char :: "char \<Rightarrow> char" where
  "lower_char c = (let n = ord c in
     if (65 \<le> n \<and> n \<le> 90) \<or> (192 \<le> n \<and> n \<le> 222 \<and> n \<noteq> 215) then chr (n + 32) else c)"

definition py_lower :: "string \<Rightarrow> string" where
  "py_lower s = map lower_char s"

lemma lower_char_idem: "lower_char (lower_char c) = lower_char c"
  by (auto simp: lower_char_def Let_def)

lemma py_lower_idem [simp]: "py_lower (py_lower s) = py_lower s"
  by (simp add: py_lower_def lower_char_idem)

text \<open>\<open>s.startswith(p)\<close>, \<open>s.removeprefix(p)\<close> and \<open>p in s\<close>.\<close>

definition startswith :: "string \<Rightarrow> string \<Rightarrow> bool" where
  "startswith s p \<longleftrightarrow> take (length p) s = p"

definition removeprefix :: "string \<Rightarrow> string \<Rightarrow> string" where
  "removeprefix s p = (if startswith s p then drop (length p) s else s)"

fun contains :: "string \<Rightarrow> string \<Rightarrow> bool" where
  "contains [] p \<longleftrightarrow> p = []"
| "contains (c # s) p \<longleftrightarrow> startswith (c # s) p \<or> contains s p"

lemma startswith_append [simp]: "startswith (p @ s) p"
  by (simp add: startswith_def)

lemma startswith_iff: "startswith s p \<longleftrightarrow> (\<exists>r. s = p @ r)"
  by (metis append_take_drop_id startswith_append startswith_def)

lemma contains_iff: "contains s p \<longleftrightarrow> (\<exists>a b. s = a @ p @ b)"
proof (induction s)
  case Nil
  then show ?case by auto
next
  case (Cons c s)
  show ?case
  proof
    assume "contains (c # s) p"
    then consider "startswith (c # s) p" | "contains s p" by auto
    then show "\<exists>a b. c # s = a @ p @ b"
    proof cases
      case 1
      then show ?thesis by (metis append_Nil startswith_iff)
    next
      case 2
      then show ?thesis using Cons.IH by (metis append_Cons)
    qed
  next
    assume "\<exists>a b. c # s = a @ p @ b"
    then obtain a b where ab: "c # s = a @ p @ b" by blast
    show "contains (c # s) p"
    proof (cases a)
      case Nil
      then have "startswith (c # s) p" using ab startswith_append [of p b] by simp
      then show ?thesis by simp
    next
      case (Cons x a')
      then show ?thesis using ab Cons.IH by auto
    qed
  qed
qed

lemma contains_itself: "contains s s"
  unfolding contains_iff by (metis append_Nil append_Nil2)

lemma contains_within: "contains s p \<Longrightarrow> contains (a @ s @ b) p"
  unfolding contains_iff by (metis append.assoc)

lemma contains_join: "x \<in> set xs \<Longrightarrow> contains x p \<Longrightarrow> contains (join sep xs) p"
proof (induction sep xs rule: join.induct)
  case (3 sep y z ys)
  consider "x = y" | "x \<in> set (z # ys)" using "3.prems"(1) by auto
  then show ?case
  proof cases
    case 1
    then obtain a b where "y = a @ p @ b" using "3.prems"(2) by (auto simp: contains_iff)
    then have "join sep (y # z # ys) = a @ p @ (b @ sep @ join sep (z # ys))" by simp
    then show ?thesis unfolding contains_iff by blast
  next
    case 2
    then obtain a b where "join sep (z # ys) = a @ p @ b" using "3.IH" "3.prems"(2) by (auto simp: contains_iff)
    then have "join sep (y # z # ys) = (y @ sep @ a) @ p @ b" by simp
    then show ?thesis unfolding contains_iff by blast
  qed
qed auto

section \<open>Hexadecimal\<close>

definition hexdigit :: "nat \<Rightarrow> char" where
  "hexdigit n = (if n < 10 then chr (48 + n) else chr (87 + n))"

definition hexval :: "char \<Rightarrow> nat option" where
  "hexval c = (let n = ord c in
     if 48 \<le> n \<and> n \<le> 57 then Some (n - 48)
     else if 97 \<le> n \<and> n \<le> 102 then Some (n - 87)
     else if 65 \<le> n \<and> n \<le> 70 then Some (n - 55)
     else None)"

lemma hexval_hexdigit [simp]: "n < 16 \<Longrightarrow> hexval (hexdigit n) = Some n"
  by (auto simp: hexval_def hexdigit_def Let_def)

lemma hexval_less: "hexval c = Some n \<Longrightarrow> n < 16"
  by (auto simp: hexval_def Let_def split: if_splits)

definition hex2 :: "char \<Rightarrow> string" where
  "hex2 c = [hexdigit (ord c div 16), hexdigit (ord c mod 16)]"

text \<open>\<open>bytes.hex()\<close> and \<open>bytes.fromhex(s)\<close>, which skips ASCII white space before a byte.\<close>

definition to_hex :: "bytes \<Rightarrow> string" where
  "to_hex b = concat (map hex2 b)"

definition ascii_space :: "char \<Rightarrow> bool" where
  "ascii_space c \<longleftrightarrow> (9 \<le> ord c \<and> ord c \<le> 13) \<or> ord c = 32"

fun fromhex :: "string \<Rightarrow> bytes option" where
  "fromhex [] = Some []"
| "fromhex [c] = (if ascii_space c then Some [] else None)"
| "fromhex (c # d # cs) =
     (if ascii_space c then fromhex (d # cs)
      else case (hexval c, hexval d) of
        (Some h, Some l) \<Rightarrow> map_option ((#) (chr (16 * h + l))) (fromhex cs)
      | _ \<Rightarrow> None)"

lemma hexdigit_not_space: "n < 16 \<Longrightarrow> \<not> ascii_space (hexdigit n)"
  by (auto simp: ascii_space_def hexdigit_def)

lemma fromhex_to_hex [simp]: "fromhex (to_hex b) = Some b"
proof (induction b)
  case Nil
  then show ?case by (simp add: to_hex_def)
next
  case (Cons c b)
  have n: "ord c div 16 < 16" using ord_less [of c] by linarith
  have "16 * (ord c div 16) + ord c mod 16 = ord c" by simp
  then show ?case using Cons n by (simp add: to_hex_def hex2_def hexdigit_not_space)
qed

lemma length_to_hex [simp]: "length (to_hex b) = 2 * length b"
  by (induction b) (auto simp: to_hex_def hex2_def)

lemma length_fromhex_le: "fromhex s = Some b \<Longrightarrow> 2 * length b \<le> length s"
proof (induction s arbitrary: b rule: fromhex.induct)
  case (3 c d cs)
  then show ?case by (auto split: if_splits option.splits)
qed (auto split: if_splits)

section \<open>UTF-8\<close>

text \<open>\<open>s.encode()\<close> for code points below 256.\<close>

definition utf8_char :: "char \<Rightarrow> bytes" where
  "utf8_char c = (let n = ord c in
     if n < 128 then [c] else [chr (192 + n div 64), chr (128 + n mod 64)])"

definition utf8 :: "string \<Rightarrow> bytes" where
  "utf8 s = concat (map utf8_char s)"

lemma utf8_ascii: "\<forall>c \<in> set s. ord c < 128 \<Longrightarrow> utf8 s = s"
  by (induction s) (auto simp: utf8_def utf8_char_def Let_def)

lemma utf8_char_decode:
  assumes "utf8_char c @ x = utf8_char d @ y"
  shows "c = d \<and> x = y"
proof -
  have lt: "ord c < 256" "ord d < 256" by simp_all
  then have q: "192 + ord c div 64 < 256" "192 + ord d div 64 < 256" by linarith+
  have ge: "128 \<le> ord (chr (192 + ord c div 64))" "128 \<le> ord (chr (192 + ord d div 64))"
    using q by simp_all
  consider (aa) "ord c < 128" "ord d < 128" | (ab) "ord c < 128" "\<not> ord d < 128"
    | (ba) "\<not> ord c < 128" "ord d < 128" | (bb) "\<not> ord c < 128" "\<not> ord d < 128" by blast
  then show ?thesis
  proof cases
    case aa
    then show ?thesis using assms by (simp add: utf8_char_def Let_def)
  next
    case ab
    then have "c = chr (192 + ord d div 64)" using assms by (simp add: utf8_char_def Let_def)
    then show ?thesis using ab(1) ge(2) by simp
  next
    case ba
    then have "d = chr (192 + ord c div 64)" using assms by (simp add: utf8_char_def Let_def)
    then show ?thesis using ba(2) ge(1) by simp
  next
    case bb
    have "192 + ord c div 64 = 192 + ord d div 64"
    proof -
      have "chr (192 + ord c div 64) = chr (192 + ord d div 64)"
        using bb assms by (simp add: utf8_char_def Let_def)
      then show ?thesis using q by (metis ord_chr)
    qed
    moreover have "128 + ord c mod 64 = 128 + ord d mod 64"
    proof -
      have m: "128 + ord c mod 64 < 256" "128 + ord d mod 64 < 256"
        using mod_less_divisor [of 64 "ord c"] mod_less_divisor [of 64 "ord d"] by linarith+
      have "chr (128 + ord c mod 64) = chr (128 + ord d mod 64)"
        using bb assms by (simp add: utf8_char_def Let_def)
      then show ?thesis using m by (metis ord_chr)
    qed
    ultimately have "ord c = ord d" by (metis add_left_cancel div_mult_mod_eq)
    then show ?thesis using bb assms by (simp add: utf8_char_def Let_def)
  qed
qed

lemma utf8_char_nonempty [simp]: "utf8_char c \<noteq> []"
  by (simp add: utf8_char_def Let_def)

lemma utf8_inject [simp]: "utf8 s = utf8 t \<longleftrightarrow> s = t"
proof
  show "utf8 s = utf8 t \<Longrightarrow> s = t"
  proof (induction s arbitrary: t)
    case Nil
    then show ?case by (cases t) (auto simp: utf8_def)
  next
    case (Cons c s)
    then obtain d t' where t: "t = d # t'" by (cases t) (auto simp: utf8_def)
    have "utf8_char c @ utf8 s = utf8_char d @ utf8 t'"
      using Cons.prems t by (simp add: utf8_def)
    from utf8_char_decode [OF this] show ?case using Cons.IH t by simp
  qed
qed simp

section \<open>Decimal integers\<close>

fun dec :: "nat \<Rightarrow> string" where
  "dec n = (if n < 10 then [chr (48 + n)] else dec (n div 10) @ [chr (48 + n mod 10)])"

declare dec.simps [simp del]

definition int_text :: "int \<Rightarrow> string" where
  "int_text i = (if i < 0 then CHR ''-'' # dec (nat (- i)) else dec (nat i))"

definition is_digit :: "char \<Rightarrow> bool" where
  "is_digit c \<longleftrightarrow> 48 \<le> ord c \<and> ord c \<le> 57"

lemma dec_digits: "\<forall>c \<in> set (dec n). is_digit c"
proof (induction n rule: dec.induct)
  case (1 n)
  have m: "n mod 10 < 10" by simp
  have d: "is_digit (chr (48 + k))" if "k < 10" for k
    using that by (simp add: is_digit_def)
  show ?case
  proof (cases "n < 10")
    case True
    then show ?thesis by (simp add: dec.simps [of n] d)
  next
    case False
    then show ?thesis using "1.IH" d [OF m] by (simp add: dec.simps [of n])
  qed
qed

lemma dec_nonempty [simp]: "dec n \<noteq> []"
  by (subst dec.simps) simp

definition undec :: "string \<Rightarrow> nat" where
  "undec s = foldl (\<lambda>a c. 10 * a + (ord c - 48)) 0 s"

lemma undec_dec [simp]: "undec (dec n) = n"
proof (induction n rule: dec.induct)
  case (1 n)
  show ?case
  proof (cases "n < 10")
    case True
    then show ?thesis by (simp add: dec.simps [of n] undec_def)
  next
    case False
    have m: "48 + n mod 10 < 256" using mod_less_divisor [of 10 n] by linarith
    have "undec (dec n) = 10 * undec (dec (n div 10)) + n mod 10"
      using False m by (simp add: dec.simps [of n] undec_def)
    then show ?thesis using "1.IH" [OF False] by simp
  qed
qed

lemma dec_inject [simp]: "dec m = dec n \<longleftrightarrow> m = n"
  by (metis undec_dec)

lemma minus_not_digit [simp]: "\<not> is_digit CHR ''-''"
  by (simp add: is_digit_def ord_def)

lemma int_text_chars: "c \<in> set (int_text i) \<Longrightarrow> is_digit c \<or> c = CHR ''-''"
  using dec_digits by (auto simp: int_text_def split: if_splits)

lemma int_text_inject [simp]: "int_text i = int_text j \<longleftrightarrow> i = j"
proof
  assume eq: "int_text i = int_text j"
  have hd: "hd (dec n) \<noteq> CHR ''-''" for n
    using dec_digits [of n] hd_in_set [OF dec_nonempty [of n]] minus_not_digit by metis
  show "i = j"
  proof (cases "i < 0"; cases "j < 0")
    assume "i < 0" "j < 0"
    then show ?thesis using eq by (simp add: int_text_def)
  next
    assume "i < 0" "\<not> j < 0"
    then have "CHR ''-'' # dec (nat (- i)) = dec (nat j)" using eq by (simp add: int_text_def)
    then show ?thesis using hd [of "nat j"] by (metis list.sel(1))
  next
    assume "\<not> i < 0" "j < 0"
    then have "dec (nat i) = CHR ''-'' # dec (nat (- j))" using eq by (simp add: int_text_def)
    then show ?thesis using hd [of "nat i"] by (metis list.sel(1))
  next
    assume "\<not> i < 0" "\<not> j < 0"
    then show ?thesis using eq by (simp add: int_text_def)
  qed
qed simp

lemma int_text_nonempty [simp]: "int_text i \<noteq> []"
  by (simp add: int_text_def)

end
