(* ===== verification/PyValue.thy ===== *)
theory PyValue
  imports Complex_Main PyText
begin

text \<open>
  Python values as they travel through the protocol: everything the JSON layer can carry.
  A \<open>float\<close> is an exact rational number of its value (the non-finite floats are not modelled
  and rounding of arithmetic is not either); an \<open>int\<close> is unbounded. Equality, truth value,
  comparison, \<open>str()\<close> and \<open>repr()\<close> follow the language.
\<close>

datatype pyval =
    PNone
  | PBool bool
  | PInt int
  | PFloat rat
  | PStr string
  | PList "pyval list"
  | PDict "(string \<times> pyval) list"

type_synonym pydict = "(string \<times> pyval) list"

text \<open>Dictionaries with distinct keys, everywhere inside the value.\<close>

primrec wf_val :: "pyval \<Rightarrow> bool" where
  "wf_val PNone = True"
| "wf_val (PBool b) = True"
| "wf_val (PInt i) = True"
| "wf_val (PFloat q) = True"
| "wf_val (PStr s) = True"
| "wf_val (PList xs) = list_all id (map wf_val xs)"
| "wf_val (PDict d) = (distinct (map fst d) \<and> list_all snd (map (map_prod id wf_val) d))"

text \<open>\<open>d.get(k, dflt)\<close>.\<close>

definition dget :: "pydict \<Rightarrow> string \<Rightarrow> pyval \<Rightarrow> pyval" where
  "dget d k dflt = (case map_of d k of Some v \<Rightarrow> v | None \<Rightarrow> dflt)"

lemma dget_simps [simp]:
  "dget [] k v = v"
  "dget ((k', v') # d) k v = (if k = k' then v' else dget d k v)"
  by (simp_all add: dget_def)

lemma dget_append:
  "dget (d @ e) k v = (if k \<in> fst ` set d then dget d k v else dget e k v)"
proof (cases "map_of d k")
  case None
  then have "k \<notin> fst ` set d" by (metis map_of_eq_None_iff)
  then show ?thesis using None by (simp add: dget_def map_add_def)
next
  case (Some w)
  then have "k \<in> fst ` set d" by (metis map_of_eq_None_iff option.distinct(1))
  then show ?thesis using Some by (simp add: dget_def map_add_def)
qed

fun truthy :: "pyval \<Rightarrow> bool" where
  "truthy PNone = False"
| "truthy (PBool b) = b"
| "truthy (PInt i) = (i \<noteq> 0)"
| "truthy (PFloat q) = (q \<noteq> 0)"
| "truthy (PStr s) = (s \<noteq> [])"
| "truthy (PList xs) = (xs \<noteq> [])"
| "truthy (PDict d) = (d \<noteq> [])"

text \<open>\<open>a or b\<close> on values.\<close>

definition py_or :: "pyval \<Rightarrow> pyval \<Rightarrow> pyval" where
  "py_or a b = (if truthy a then a else b)"

fun py_type :: "pyval \<Rightarrow> string" where
  "py_type PNone = ''NoneType''"
| "py_type (PBool b) = ''bool''"
| "py_type (PInt i) = ''int''"
| "py_type (PFloat q) = ''float''"
| "py_type (PStr s) = ''str''"
| "py_type (PList xs) = ''list''"
| "py_type (PDict d) = ''dict''"

text \<open>The numeric value of a number (booleans are numbers in Python).\<close>

fun num_of :: "pyval \<Rightarrow> rat option" where
  "num_of (PBool b) = Some (if b then 1 else 0)"
| "num_of (PInt i) = Some (of_int i)"
| "num_of (PFloat q) = Some q"
| "num_of _ = None"

text \<open>\<open>a == b\<close>: numbers by value, lists elementwise, dictionaries regardless of order.\<close>

primrec py_eq :: "pyval \<Rightarrow> pyval \<Rightarrow> bool" where
  "py_eq PNone w = (w = PNone)"
| "py_eq (PBool b) w = (num_of w = Some (if b then 1 else 0))"
| "py_eq (PInt i) w = (num_of w = Some (of_int i))"
| "py_eq (PFloat q) w = (num_of w = Some q)"
| "py_eq (PStr s) w = (w = PStr s)"
| "py_eq (PList xs) w = (case w of
     PList ys \<Rightarrow> length xs = length ys \<and> list_all (\<lambda>(p, y). p y) (zip (map py_eq xs) ys)
   | _ \<Rightarrow> False)"
| "py_eq (PDict d) w = (case w of
     PDict d' \<Rightarrow> length d = length d' \<and>
       list_all (\<lambda>(k, p). case map_of d' k of Some y \<Rightarrow> p y | None \<Rightarrow> False)
         (map (map_prod id py_eq) d)
   | _ \<Rightarrow> False)"

lemma py_eq_PStr_right [simp]: "py_eq v (PStr s) \<longleftrightarrow> v = PStr s"
  by (cases v) auto

lemma py_eq_PNone_right [simp]: "py_eq v PNone \<longleftrightarrow> v = PNone"
  by (cases v) auto

lemma py_eq_refl: "wf_val v \<Longrightarrow> py_eq v v"
proof (induction v)
  case (PList xs)
  have "list_all (\<lambda>(p, y). p y) (zip (map py_eq xs) xs)"
    using PList by (auto simp: list_all_iff set_zip)
  then show ?case by simp
next
  case (PDict d)
  have "py_eq v v" if "(k, v) \<in> set d" for k v
    using PDict that by (fastforce simp: list_all_iff)
  then show ?case using PDict.prems by (auto simp: list_all_iff)
qed auto

text \<open>Only some values can be dictionary keys or set members.\<close>

fun hashable :: "pyval \<Rightarrow> bool" where
  "hashable (PList xs) = False"
| "hashable (PDict d) = False"
| "hashable _ = True"

definition unhashable_error :: "pyval \<Rightarrow> py_error" where
  "unhashable_error v = TypeError (''unhashable type: '' @ [CHR 0x27] @ py_type v @ [CHR 0x27])"

text \<open>\<open>d.get(...)\<close> on a value that need not be a dictionary.\<close>

definition as_dict :: "pyval \<Rightarrow> pydict py" where
  "as_dict v = (case v of
     PDict d \<Rightarrow> Inr d
   | _ \<Rightarrow> Inl (AttributeError
       ([CHR 0x27] @ py_type v @ [CHR 0x27] @ '' object has no attribute '' @ [CHR 0x27] @ ''get'' @ [CHR 0x27])))"

lemma as_dict_Inr [simp]: "as_dict v = Inr d \<longleftrightarrow> v = PDict d"
  by (cases v) (auto simp: as_dict_def)

text \<open>\<open>now > v\<close> for a float \<open>now\<close>, and \<open>v + n\<close> for an int \<open>n\<close>.\<close>

definition float_greater :: "rat \<Rightarrow> pyval \<Rightarrow> bool py" where
  "float_greater now v = (case num_of v of
     Some q \<Rightarrow> Inr (now > q)
   | None \<Rightarrow> Inl (TypeError
       ([CHR 0x27] @ ''>'' @ [CHR 0x27] @ '' not supported between instances of '' @
        [CHR 0x27] @ ''float'' @ [CHR 0x27] @ '' and '' @ [CHR 0x27] @ py_type v @ [CHR 0x27])))"

definition add_int :: "pyval \<Rightarrow> int \<Rightarrow> pyval py" where
  "add_int v n = (case v of
     PBool b \<Rightarrow> Inr (PInt ((if b then 1 else 0) + n))
   | PInt i \<Rightarrow> Inr (PInt (i + n))
   | PFloat q \<Rightarrow> Inr (PFloat (q + of_int n))
   | PStr s \<Rightarrow> Inl (TypeError (''can only concatenate str (not '' @ [CHR 0x22] @ ''int'' @ [CHR 0x22] @ '') to str''))
   | PList xs \<Rightarrow> Inl (TypeError (''can only concatenate list (not '' @ [CHR 0x22] @ ''int'' @ [CHR 0x22] @ '') to list''))
   | _ \<Rightarrow> Inl (TypeError (''unsupported operand type(s) for +: '' @ [CHR 0x27] @ py_type v @ [CHR 0x27]
        @ '' and '' @ [CHR 0x27] @ ''int'' @ [CHR 0x27])))"

section \<open>Text of values\<close>

definition repr_char :: "char \<Rightarrow> char \<Rightarrow> string" where
  "repr_char quote c = (let n = ord c in
     if c = quote \<or> n = 92 then [CHR 0x5C, c]
     else if n = 10 then [CHR 0x5C, CHR ''n'']
     else if n = 13 then [CHR 0x5C, CHR ''r'']
     else if n = 9 then [CHR 0x5C, CHR ''t'']
     else if n < 32 \<or> (127 \<le> n \<and> n \<le> 160) \<or> n = 173 then [CHR 0x5C, CHR ''x''] @ hex2 c
     else [c])"

definition repr_str :: "string \<Rightarrow> string" where
  "repr_str s = (let quote = (if CHR 0x27 \<in> set s \<and> CHR 0x22 \<notin> set s then CHR 0x22 else CHR 0x27)
     in [quote] @ concat (map (repr_char quote) s) @ [quote])"

text \<open>\<open>repr(v)\<close> and \<open>str(v)\<close>; \<open>fl\<close> is \<open>float.__repr__\<close>.\<close>

primrec py_repr :: "(rat \<Rightarrow> string) \<Rightarrow> pyval \<Rightarrow> string" where
  "py_repr fl PNone = ''None''"
| "py_repr fl (PBool b) = (if b then ''True'' else ''False'')"
| "py_repr fl (PInt i) = int_text i"
| "py_repr fl (PFloat q) = fl q"
| "py_repr fl (PStr s) = repr_str s"
| "py_repr fl (PList xs) = ''['' @ join '', '' (map (py_repr fl) xs) @ '']''"
| "py_repr fl (PDict d) =
     ''{'' @ join '', '' (map (\<lambda>(k, t). repr_str k @ '': '' @ t) (map (map_prod id (py_repr fl)) d)) @ ''}''"

definition py_str :: "(rat \<Rightarrow> string) \<Rightarrow> pyval \<Rightarrow> string" where
  "py_str fl v = (case v of PStr s \<Rightarrow> s | _ \<Rightarrow> py_repr fl v)"

lemma py_str_PStr [simp]: "py_str fl (PStr s) = s"
  by (simp add: py_str_def)

end
