(* ===== verification/CanonicalJson.thy ===== *)
theory CanonicalJson
  imports PyValue
begin

text \<open>
  The canonical JSON text that every hash and signature of the system is computed over
  (\<^verbatim>\<open>_canonical\<close> of \<^verbatim>\<open>terminal3_agent_auth_adapter.py\<close>, \<^verbatim>\<open>canonical_json\<close> of
  \<^verbatim>\<open>verify_release.py\<close>): compact, keys sorted at every level. The two encoders differ in
  how they quote strings only, so the text is defined over a quoting function, and the fact that
  the text determines the value is proved once, in a locale over any prefix-decodable quoting.
\<close>

section \<open>The text\<close>

primrec json_text :: "(string \<Rightarrow> string) \<Rightarrow> (rat \<Rightarrow> string) \<Rightarrow> pyval \<Rightarrow> string" where
  "json_text q fl PNone = ''null''"
| "json_text q fl (PBool b) = (if b then ''true'' else ''false'')"
| "json_text q fl (PInt i) = int_text i"
| "json_text q fl (PFloat r) = fl r"
| "json_text q fl (PStr s) = q s"
| "json_text q fl (PList xs) = ''['' @ join '','' (map (json_text q fl) xs) @ '']''"
| "json_text q fl (PDict d) = ''{'' @ join '',''
     (map (\<lambda>(k, t). q k @ '':'' @ t) (sort_key fst (map (map_prod id (json_text q fl)) d))) @ ''}''"

text \<open>Sorting the keys first, then writing the dictionaries in the order they have.\<close>

primrec sort_keys :: "pyval \<Rightarrow> pyval" where
  "sort_keys PNone = PNone"
| "sort_keys (PBool b) = PBool b"
| "sort_keys (PInt i) = PInt i"
| "sort_keys (PFloat r) = PFloat r"
| "sort_keys (PStr s) = PStr s"
| "sort_keys (PList xs) = PList (map sort_keys xs)"
| "sort_keys (PDict d) = PDict (sort_key fst (map (map_prod id sort_keys) d))"

primrec render :: "(string \<Rightarrow> string) \<Rightarrow> (rat \<Rightarrow> string) \<Rightarrow> pyval \<Rightarrow> string" where
  "render q fl PNone = ''null''"
| "render q fl (PBool b) = (if b then ''true'' else ''false'')"
| "render q fl (PInt i) = int_text i"
| "render q fl (PFloat r) = fl r"
| "render q fl (PStr s) = q s"
| "render q fl (PList xs) = ''['' @ join '','' (map (render q fl) xs) @ '']''"
| "render q fl (PDict d) = ''{'' @ join '',''
     (map (\<lambda>(k, t). q k @ '':'' @ t) (map (map_prod id (render q fl)) d)) @ ''}''"

lemma map_prod_cong_list:
  assumes "\<And>k v. (k, v) \<in> set d \<Longrightarrow> f v = g v"
  shows "map (map_prod id f) d = map (map_prod id g) d"
proof (rule map_cong [OF refl])
  fix kv assume "kv \<in> set d"
  then have "f (snd kv) = g (snd kv)" using assms [of "fst kv" "snd kv"] by simp
  then show "map_prod id f kv = map_prod id g kv" by (simp add: map_prod_def split_def)
qed

lemma map_prod_map_prod: "map (map_prod id f) (map (map_prod id g) d) = map (map_prod id (\<lambda>v. f (g v))) d"
  by (induction d) auto

lemma json_text_norm: "json_text q fl v = render q fl (sort_keys v)"
proof (induction v)
  case (PList xs)
  then show ?case by (simp add: comp_def cong: map_cong)
next
  case (PDict d)
  have "map (map_prod id (json_text q fl)) d = map (map_prod id (\<lambda>v. render q fl (sort_keys v))) d"
    by (rule map_prod_cong_list) (use PDict in auto)
  then have "map (map_prod id (json_text q fl)) d = map (map_prod id (render q fl)) (map (map_prod id sort_keys) d)"
    by (simp only: map_prod_map_prod)
  then have "sort_key fst (map (map_prod id (json_text q fl)) d) =
      map (map_prod id (render q fl)) (sort_key fst (map (map_prod id sort_keys) d))"
    by (simp only: sort_key_map_snd)
  then show ?case by simp
qed simp_all

text \<open>Sorted keys keep every lookup.\<close>

lemma map_of_sort_key:
  "distinct (map fst d) \<Longrightarrow> map_of (sort_key fst d) = map_of d"
  by (rule map_of_inject_set [THEN iffD2]) (auto simp: distinct_map inj_on_def)

lemma map_of_map_snd: "map_of (map (map_prod id f) d) k = map_option f (map_of d k)"
  by (induction d) auto

lemma norm_dict_lookup:
  assumes "distinct (map fst d)" and "distinct (map fst d')" and "sort_keys (PDict d) = sort_keys (PDict d')"
  shows "map_option sort_keys (map_of d k) = map_option sort_keys (map_of d' k)"
proof -
  have dist: "distinct (map fst (map (map_prod id sort_keys) d))" "distinct (map fst (map (map_prod id sort_keys) d'))"
    using assms(1,2) by (simp_all add: comp_def)
  have "map_of (map (map_prod id sort_keys) d) = map_of (map (map_prod id sort_keys) d')"
    using assms(3) map_of_sort_key [OF dist(1)] map_of_sort_key [OF dist(2)] by simp
  then show ?thesis using map_of_map_snd [of sort_keys d k] map_of_map_snd [of sort_keys d' k] by simp
qed

lemma sort_keys_same_keys: "sort_keys (PDict d) = sort_keys (PDict d') \<Longrightarrow> fst ` set d = fst ` set d'"
proof -
  assume "sort_keys (PDict d) = sort_keys (PDict d')"
  then have "fst ` set (sort_key fst (map (map_prod id sort_keys) d)) =
      fst ` set (sort_key fst (map (map_prod id sort_keys) d'))" by simp
  then show ?thesis by (simp add: image_image)
qed

lemma norm_PStr [simp]: "sort_keys v = PStr s \<longleftrightarrow> v = PStr s"
  by (cases v) auto

lemma norm_PBool [simp]: "sort_keys v = PBool b \<longleftrightarrow> v = PBool b"
  by (cases v) auto

section \<open>The text determines the value\<close>

definition num_char :: "char \<Rightarrow> bool" where
  "num_char c \<longleftrightarrow> is_digit c \<or> c = CHR ''-'' \<or> c = CHR ''+'' \<or> c = CHR ''.'' \<or> c = CHR ''e''"

text \<open>
  What is relied on of \<open>float.__repr__\<close>: distinct floats have distinct texts, made of digits,
  signs, a point and an exponent mark, never the text of an integer.
\<close>

definition float_ok :: "(rat \<Rightarrow> string) \<Rightarrow> bool" where
  "float_ok fl \<longleftrightarrow> inj fl \<and> (\<forall>r. fl r \<noteq> [] \<and> (\<forall>c \<in> set (fl r). num_char c) \<and>
     (\<exists>c \<in> set (fl r). c = CHR ''.'' \<or> c = CHR ''e''))"

definition delim :: "string \<Rightarrow> bool" where
  "delim r \<longleftrightarrow> r = [] \<or> hd r \<in> {CHR '','', CHR '']'', CHR ''}''}"

lemma delim_Cons [simp]: "delim (c # r) \<longleftrightarrow> c = CHR '','' \<or> c = CHR '']'' \<or> c = CHR ''}''"
  by (simp add: delim_def)

lemma num_char_facts [simp]:
  "\<not> num_char CHR '',''" "\<not> num_char CHR '']''" "\<not> num_char CHR ''}''" "\<not> num_char CHR ''n''"
  "\<not> num_char CHR ''t''" "\<not> num_char CHR ''f''" "\<not> num_char CHR ''[''" "\<not> num_char CHR ''{''"
  "\<not> num_char CHR 0x22"
  by (simp_all add: num_char_def is_digit_def ord_def)

lemma delim_not_num: "delim r \<Longrightarrow> r = [] \<or> \<not> num_char (hd r)"
  by (cases r) auto

lemma int_text_num: "\<forall>c \<in> set (int_text i). num_char c"
  using int_text_chars by (auto simp: num_char_def)

lemma int_text_not_float: "float_ok fl \<Longrightarrow> int_text i \<noteq> fl r"
proof
  assume ok: "float_ok fl" and eq: "int_text i = fl r"
  then obtain c where "c \<in> set (int_text i)" "c = CHR ''.'' \<or> c = CHR ''e''"
    unfolding float_ok_def by metis
  then show False using int_text_chars [of c i] by (auto simp: is_digit_def ord_def)
qed

lemma num_text_split:
  assumes "s @ r = t @ u" and "\<forall>c \<in> set s. num_char c" and "\<forall>c \<in> set t. num_char c"
    and "delim r" and "delim u"
  shows "s = t \<and> r = u"
  using split_by_class [OF assms(1,2) delim_not_num [OF assms(4)] assms(3) delim_not_num [OF assms(5)]] .

text \<open>A separated, closed sequence determines its elements when each element does.\<close>

definition decodes :: "('a \<Rightarrow> string) \<Rightarrow> ('a \<Rightarrow> string) \<Rightarrow> 'a \<Rightarrow> bool" where
  "decodes f g x \<longleftrightarrow> (\<forall>y r s. f x @ r = g y @ s \<longrightarrow> delim r \<longrightarrow> delim s \<longrightarrow> x = y \<and> r = s)"

lemma join_decodes:
  assumes "\<forall>x \<in> set xs. decodes f g x" and "\<forall>y. f y \<noteq> [] \<and> hd (f y) \<noteq> c"
    and "c = CHR '']'' \<or> c = CHR ''}''"
    and "join '','' (map f xs) @ c # r = join '','' (map g ys) @ c # s"
    and "\<forall>y. g y \<noteq> [] \<and> hd (g y) \<noteq> c"
  shows "xs = ys \<and> r = s"
  using assms
proof (induction "'',''" "map f xs" arbitrary: xs ys rule: join.induct)
  case 1
  then have "xs = []" by simp
  moreover have "ys = []"
  proof (rule ccontr)
    assume "ys \<noteq> []"
    then obtain y ys' where "ys = y # ys'" by (cases ys) auto
    then have "hd (join '','' (map g ys) @ c # s) = hd (g y)"
      using 1 by (cases ys') auto
    moreover have "hd (join '','' (map g ys) @ c # s) = c"
      using 1(5) \<open>xs = []\<close> by (metis append_Nil join.simps(1) list.sel(1) list.simps(8))
    ultimately show False using 1(6) by metis
  qed
  ultimately show ?case using 1 by simp
next
  case (2 t)
  then obtain x where xs: "xs = [x]" and t: "t = f x" by auto
  show ?case
  proof (cases ys)
    case Nil
    then have "f x @ c # r = c # s" using 2 xs by simp
    moreover have "f x \<noteq> [] \<and> hd (f x) \<noteq> c" using 2 by blast
    ultimately show ?thesis by (metis hd_append2 list.sel(1))
  next
    case (Cons y ys')
    define rest where "rest = (case ys' of [] \<Rightarrow> c # s | _ \<Rightarrow> '','' @ join '','' (map g ys') @ c # s)"
    have eq: "f x @ c # r = g y @ rest"
      using 2 xs Cons by (cases ys') (simp_all add: rest_def)
    have d: "delim rest" "delim (c # r)" using 2 by (cases ys'; auto simp: rest_def)+
    have "decodes f g x" using 2 xs by simp
    then have "x = y" "c # r = rest" using eq d unfolding decodes_def by blast+
    then show ?thesis using 2 xs Cons by (cases ys') (auto simp: rest_def)
  qed
next
  case (3 t u us)
  then obtain x x' xs' where xs: "xs = x # x' # xs'" by (metis map_eq_Cons_conv)
  have t: "t = f x" and us: "u # us = map f (x' # xs')" using 3(2) xs by auto
  show ?case
  proof (cases ys)
    case Nil
    then have "hd (f x @ '','' @ join '','' (map f (x' # xs')) @ c # r) = c" using 3 xs by simp
    moreover have "f x \<noteq> [] \<and> hd (f x) \<noteq> c" using 3 by blast
    ultimately show ?thesis by (metis hd_append2)
  next
    case (Cons y ys')
    define rest where "rest = (case ys' of [] \<Rightarrow> c # s | _ \<Rightarrow> '','' @ join '','' (map g ys') @ c # s)"
    have eq: "f x @ '','' @ join '','' (map f (x' # xs')) @ c # r = g y @ rest"
      using 3 xs Cons by (cases ys') (simp_all add: rest_def)
    have d: "delim rest" using 3 by (cases ys'; auto simp: rest_def)
    have "decodes f g x" using 3 xs by simp
    then have "x = y" and rest: "'','' @ join '','' (map f (x' # xs')) @ c # r = rest"
      using eq d unfolding decodes_def by (metis append_Cons delim_Cons)+
    moreover have "ys' \<noteq> []" using rest 3(5) by (auto simp: rest_def)
    then have "join '','' (map f (x' # xs')) @ c # r = join '','' (map g ys') @ c # s"
      using rest by (cases ys') (auto simp: rest_def)
    then have "x' # xs' = ys' \<and> r = s"
      using 3(1) [of "x' # xs'" ys'] us 3 xs by simp
    ultimately show ?thesis using xs Cons by simp
  qed
qed

text \<open>The first character tells the kind of the value.\<close>

definition kind_char :: "pyval \<Rightarrow> char \<Rightarrow> bool" where
  "kind_char v c = (case v of
     PNone \<Rightarrow> c = CHR ''n'' | PBool b \<Rightarrow> c = (if b then CHR ''t'' else CHR ''f'')
   | PInt i \<Rightarrow> num_char c | PFloat r \<Rightarrow> num_char c | PStr s \<Rightarrow> c = CHR 0x22
   | PList xs \<Rightarrow> c = CHR ''['' | PDict d \<Rightarrow> c = CHR ''{'')"

lemma float_first_num: "float_ok fl \<Longrightarrow> num_char (hd (fl r))"
  unfolding float_ok_def by (meson hd_in_set)

lemma int_first_num: "num_char (hd (int_text i))"
  using int_text_num [of i] hd_in_set [OF int_text_nonempty [of i]] by blast

locale quote_prefix =
  fixes q :: "string \<Rightarrow> string"
  assumes quote_start: "\<exists>r. q s = CHR 0x22 # r"
begin

lemma quote_nonempty [simp]: "q s \<noteq> []" and hd_quote [simp]: "hd (q s) = CHR 0x22"
  using quote_start [of s] by auto

lemma render_nonempty: "float_ok fl \<Longrightarrow> render q fl v \<noteq> []"
  by (cases v) (auto simp: float_ok_def)

lemma render_kind: "float_ok fl \<Longrightarrow> kind_char v (hd (render q fl v))"
  by (cases v) (auto simp: kind_char_def float_first_num int_first_num)

lemma render_not_close: "float_ok fl \<Longrightarrow> hd (render q fl v) \<noteq> CHR '']''"
  using render_kind [of fl v] by (cases v) (auto simp: kind_char_def)

end

text \<open>
  Two quotings, each the inverse of the same reading: then a text of the one encoder is a text of
  the other only for one and the same value.
\<close>

locale quoting_pair = left: quote_prefix q + right: quote_prefix q'
  for q :: "string \<Rightarrow> string" and q' :: "string \<Rightarrow> string" +
  assumes quote_decode: "q s @ r = q' t @ u \<Longrightarrow> s = t \<and> r = u"
begin

lemma render_kind_append:
  assumes "float_ok fl" and "render q fl v @ r = render q' fl w @ s"
  shows "\<exists>c. kind_char v c \<and> kind_char w c"
proof -
  have "hd (render q fl v) = hd (render q' fl w)"
    using assms(2) left.render_nonempty [OF assms(1)] right.render_nonempty [OF assms(1)] by (metis hd_append2)
  then show ?thesis using left.render_kind [OF assms(1)] right.render_kind [OF assms(1)] by metis
qed

lemma render_decodes:
  assumes ok: "float_ok fl"
  shows "decodes (render q fl) (render q' fl) v"
proof (induction v)
  case (PInt i)
  have "PInt i = w \<and> r = s" if "int_text i @ r = render q' fl w @ s" "delim r" "delim s" for w r s
  proof -
    have "render q fl (PInt i) @ r = render q' fl w @ s" using that(1) by simp
    from render_kind_append [OF ok this] obtain c where "kind_char (PInt i) c" "kind_char w c" by blast
    then consider j where "w = PInt j" | x where "w = PFloat x"
      by (cases w) (auto simp: kind_char_def split: if_splits)
    then show ?thesis
    proof cases
      case 1
      then show ?thesis using num_text_split [OF _ int_text_num int_text_num that(2,3)] that(1) by auto
    next
      case 2
      have "\<forall>c \<in> set (fl x). num_char c" using ok by (auto simp: float_ok_def)
      then show ?thesis
        using num_text_split [OF _ int_text_num _ that(2,3), of i "fl x"] that(1) 2
          int_text_not_float [OF ok, of i x] by auto
    qed
  qed
  then show ?case unfolding decodes_def by simp
next
  case (PFloat x)
  have fx: "\<forall>c \<in> set (fl y). num_char c" for y using ok by (auto simp: float_ok_def)
  have "PFloat x = w \<and> r = s" if "fl x @ r = render q' fl w @ s" "delim r" "delim s" for w r s
  proof -
    have "render q fl (PFloat x) @ r = render q' fl w @ s" using that(1) by simp
    from render_kind_append [OF ok this] obtain c where "kind_char (PFloat x) c" "kind_char w c" by blast
    then consider j where "w = PInt j" | y where "w = PFloat y"
      by (cases w) (auto simp: kind_char_def split: if_splits)
    then show ?thesis
    proof cases
      case 1
      then show ?thesis
        using num_text_split [OF _ fx int_text_num that(2,3), of x j] that(1)
          int_text_not_float [OF ok, of j x] by auto
    next
      case 2
      then have "fl x = fl y \<and> r = s" using num_text_split [OF _ fx fx that(2,3)] that(1) by simp
      then show ?thesis using 2 ok by (auto simp: float_ok_def inj_def)
    qed
  qed
  then show ?case unfolding decodes_def by simp
next
  case (PList xs)
  have "PList xs = w \<and> r = s" if eq: "render q fl (PList xs) @ r = render q' fl w @ s" for w r s
  proof -
    obtain c where "kind_char (PList xs) c" "kind_char w c"
      using render_kind_append [OF ok eq] by blast
    then obtain ys where w: "w = PList ys"
      by (cases w) (auto simp: kind_char_def split: if_splits)
    have "join '','' (map (render q fl) xs) @ CHR '']'' # r = join '','' (map (render q' fl) ys) @ CHR '']'' # s"
      using eq w by simp
    then have "xs = ys \<and> r = s"
      by (intro join_decodes) (use PList left.render_nonempty [OF ok] right.render_nonempty [OF ok] left.render_not_close [OF ok] right.render_not_close [OF ok] in auto)
    then show ?thesis using w by simp
  qed
  then show ?case unfolding decodes_def by simp
next
  case (PDict d)
  define f where "f = (\<lambda>(k, v). q k @ '':'' @ render q fl v)"
  define g where "g = (\<lambda>(k, v). q' k @ '':'' @ render q' fl v)"
  have rtext: "render q fl (PDict e) = ''{'' @ join '','' (map f e) @ ''}''"
    "render q' fl (PDict e) = ''{'' @ join '','' (map g e) @ ''}''" for e
    by (simp_all add: f_def g_def comp_def split_def)
  have item: "decodes f g (k, v)" if "(k, v) \<in> set d" for k v
    unfolding decodes_def
  proof (intro allI impI)
    fix y :: "string \<times> pyval" and r s :: string
    assume a: "f (k, v) @ r = g y @ s" "delim r" "delim s"
    obtain k' v' where y: "y = (k', v')" by (cases y)
    have "q k @ ('':'' @ render q fl v @ r) = q' k' @ ('':'' @ render q' fl v' @ s)"
      using a(1) y by (simp add: f_def g_def)
    from quote_decode [OF this] have "k = k'" and "render q fl v @ r = render q' fl v' @ s" by auto
    moreover have "decodes (render q fl) (render q' fl) v" using PDict that by auto
    ultimately show "(k, v) = y \<and> r = s" using a(2,3) y by (auto simp: decodes_def)
  qed
  have "PDict d = w \<and> r = s" if eq: "render q fl (PDict d) @ r = render q' fl w @ s" for w r s
  proof -
    obtain c where "kind_char (PDict d) c" "kind_char w c"
      using render_kind_append [OF ok eq] by blast
    then obtain e where w: "w = PDict e"
      by (cases w) (auto simp: kind_char_def split: if_splits)
    have "join '','' (map f d) @ CHR ''}'' # r = join '','' (map g e) @ CHR ''}'' # s"
      using eq w by (simp only: rtext) simp
    then have "d = e \<and> r = s"
      by (intro join_decodes) (use item in \<open>auto simp: f_def g_def\<close>)
    then show ?thesis using w by simp
  qed
  then show ?case unfolding decodes_def by simp
next
  case (PStr t)
  have "PStr t = w \<and> r = s" if eq: "q t @ r = render q' fl w @ s" for w r s
  proof -
    have "render q fl (PStr t) @ r = render q' fl w @ s" using eq by simp
    from render_kind_append [OF ok this] obtain c where "kind_char (PStr t) c" "kind_char w c" by blast
    then obtain u where w: "w = PStr u"
      by (cases w) (auto simp: kind_char_def split: if_splits)
    then show ?thesis using quote_decode [of t r u s] eq by auto
  qed
  then show ?case unfolding decodes_def by simp
next
  case PNone
  have "PNone = w \<and> r = s" if eq: "render q fl PNone @ r = render q' fl w @ s" for w r s
  proof -
    obtain c where "kind_char PNone c" "kind_char w c"
      using render_kind_append [OF ok eq] by blast
    then have "w = PNone"
      by (cases w) (auto simp: kind_char_def split: if_splits)
    then show ?thesis using eq by simp
  qed
  then show ?case unfolding decodes_def by simp
next
  case (PBool b)
  have "PBool b = w \<and> r = s" if eq: "render q fl (PBool b) @ r = render q' fl w @ s" for w r s
  proof -
    obtain c where "kind_char (PBool b) c" "kind_char w c"
      using render_kind_append [OF ok eq] by blast
    then have "w = PBool b"
      by (cases w) (auto simp: kind_char_def split: if_splits)
    then show ?thesis using eq by simp
  qed
  then show ?case unfolding decodes_def by blast
qed

lemma json_text_cross:
  assumes "float_ok fl" and "json_text q fl v = json_text q' fl w"
  shows "sort_keys v = sort_keys w"
proof -
  have "render q fl (sort_keys v) @ [] = render q' fl (sort_keys w) @ []" using assms(2) by (simp add: json_text_norm)
  then show ?thesis
    using render_decodes [OF assms(1), of "sort_keys v"] unfolding decodes_def by (metis delim_def)
qed

end

locale string_quoting = quote_prefix q for q :: "string \<Rightarrow> string" +
  assumes quote_same: "q s @ r = q t @ u \<Longrightarrow> s = t \<and> r = u"

sublocale string_quoting \<subseteq> same: quoting_pair q q
  by unfold_locales (rule quote_same)

context string_quoting
begin

lemma json_text_inject: "float_ok fl \<Longrightarrow> json_text q fl v = json_text q fl w \<longleftrightarrow> sort_keys v = sort_keys w"
  using same.json_text_cross [of fl v w] by (auto simp: json_text_norm)

end

text \<open>Quoting character by character, with an escape code that no quote mark starts.\<close>

definition quote_with :: "(char \<Rightarrow> string) \<Rightarrow> string \<Rightarrow> string" where
  "quote_with esc s = CHR 0x22 # concat (map esc s) @ [CHR 0x22]"

locale escape_pair =
  fixes esc :: "char \<Rightarrow> string" and esc' :: "char \<Rightarrow> string"
  assumes esc_decode: "esc c @ x = esc' d @ y \<Longrightarrow> c = d \<and> x = y"
    and esc_no_quote: "esc c \<noteq> [] \<and> hd (esc c) \<noteq> CHR 0x22" "esc' c \<noteq> [] \<and> hd (esc' c) \<noteq> CHR 0x22"
begin

lemma escaped_decode:
  "concat (map esc s) @ CHR 0x22 # r = concat (map esc' t) @ CHR 0x22 # u \<Longrightarrow> s = t \<and> r = u"
proof (induction s arbitrary: t)
  case Nil
  show ?case
  proof (cases t)
    case (Cons d t')
    then have "hd (CHR 0x22 # r) = hd (esc' d @ concat (map esc' t') @ CHR 0x22 # u)"
      using Nil by simp
    then show ?thesis using esc_no_quote(2) [of d] by (metis hd_append2 list.sel(1))
  qed (use Nil in simp)
next
  case (Cons c s)
  show ?case
  proof (cases t)
    case Nil
    then have "hd (CHR 0x22 # u) = hd (esc c @ concat (map esc s) @ CHR 0x22 # r)"
      using Cons by simp
    then show ?thesis using esc_no_quote(1) [of c] by (metis hd_append2 list.sel(1))
  next
    case (Cons d t')
    have "esc c @ (concat (map esc s) @ CHR 0x22 # r) = esc' d @ (concat (map esc' t') @ CHR 0x22 # u)"
      using Cons.prems local.Cons by simp
    from esc_decode [OF this] show ?thesis using Cons.IH local.Cons by blast
  qed
qed

end

sublocale escape_pair \<subseteq> quoting_pair "quote_with esc" "quote_with esc'"
proof unfold_locales
  fix s r t u
  show "\<exists>r. quote_with esc s = CHR 0x22 # r" "\<exists>r. quote_with esc' s = CHR 0x22 # r"
    by (simp_all add: quote_with_def)
  assume "quote_with esc s @ r = quote_with esc' t @ u"
  then have "concat (map esc s) @ CHR 0x22 # r = concat (map esc' t) @ CHR 0x22 # u"
    by (simp add: quote_with_def)
  then show "s = t \<and> r = u" by (rule escaped_decode)
qed

locale char_escape = escape_pair esc esc for esc :: "char \<Rightarrow> string"

sublocale char_escape \<subseteq> single: string_quoting "quote_with esc"
  by unfold_locales (rule quote_decode)

end
