(* ===== verification/JsonEncoders.thy ===== *)
theory JsonEncoders
  imports CanonicalJson
begin

text \<open>
  The two JSON encoders of the repository: \<^verbatim>\<open>json.dumps(obj, sort_keys=True, separators=(",", ":"))\<close>
  of \<^verbatim>\<open>_canonical\<close> (every character outside printable ASCII is escaped) and the hand-written
  \<^verbatim>\<open>canonical_json\<close>/\<^verbatim>\<open>quote_json_string\<close> of \<^verbatim>\<open>scripts/verify_release.py\<close> (control characters only).
  Both are shown to be prefix-decodable, which gives \<open>json_text_inject\<close> for each of them.
\<close>

section \<open>Escapes\<close>

definition short_escape :: "nat \<Rightarrow> string option" where
  "short_escape n =
     (if n = 34 then Some [CHR 0x5C, CHR 0x22]
      else if n = 92 then Some [CHR 0x5C, CHR 0x5C]
      else if n = 8 then Some [CHR 0x5C, CHR ''b'']
      else if n = 9 then Some [CHR 0x5C, CHR ''t'']
      else if n = 10 then Some [CHR 0x5C, CHR ''n'']
      else if n = 12 then Some [CHR 0x5C, CHR ''f'']
      else if n = 13 then Some [CHR 0x5C, CHR ''r'']
      else None)"

definition u_escape :: "char \<Rightarrow> string" where
  "u_escape c = [CHR 0x5C, CHR ''u'', CHR ''0'', CHR ''0''] @ hex2 c"

text \<open>Python's \<open>ensure_ascii\<close> encoder, and the replacement table of \<open>quote_json_string\<close>.\<close>

definition ascii_escape :: "char \<Rightarrow> string" where
  "ascii_escape c = (case short_escape (ord c) of
     Some e \<Rightarrow> e
   | None \<Rightarrow> if ord c < 32 \<or> 127 \<le> ord c then u_escape c else [c])"

definition quote_char :: "char \<Rightarrow> string" where
  "quote_char c = (case short_escape (ord c) of
     Some e \<Rightarrow> e
   | None \<Rightarrow> if ord c < 32 then u_escape c else [c])"

definition dumps_quote :: "string \<Rightarrow> string" where
  "dumps_quote s = CHR 0x22 # concat (map ascii_escape s) @ [CHR 0x22]"

definition quote_json_string :: "string \<Rightarrow> string" where
  "quote_json_string value = CHR 0x22 # concat (map quote_char value) @ [CHR 0x22]"

section \<open>Decoding\<close>

text \<open>The inverse of the escapes, for one leading character.\<close>

definition unescape_short :: "char \<Rightarrow> nat option" where
  "unescape_short e =
     (if e = CHR 0x22 then Some 34 else if e = CHR 0x5C then Some 92 else if e = CHR ''b'' then Some 8
      else if e = CHR ''t'' then Some 9 else if e = CHR ''n'' then Some 10 else if e = CHR ''f'' then Some 12
      else if e = CHR ''r'' then Some 13 else None)"

definition unescape_u4 :: "string \<Rightarrow> (char \<times> string) option" where
  "unescape_u4 x = (case x of
     _ # _ # h # l # y \<Rightarrow>
       (case (hexval h, hexval l) of (Some m, Some n) \<Rightarrow> Some (chr (16 * m + n), y) | _ \<Rightarrow> None)
   | _ \<Rightarrow> None)"

definition unescape :: "string \<Rightarrow> (char \<times> string) option" where
  "unescape s = (case s of
     [] \<Rightarrow> None
   | c # x \<Rightarrow>
       if c \<noteq> CHR 0x5C then Some (c, x)
       else (case x of
           [] \<Rightarrow> None
         | d # y \<Rightarrow> if d = CHR ''u'' then unescape_u4 y
                    else map_option (\<lambda>n. (chr n, y)) (unescape_short d)))"

lemma unescape_plain: "c \<noteq> CHR 0x5C \<Longrightarrow> unescape (c # x) = Some (c, x)"
  by (simp add: unescape_def)

lemma unescape_short_Some:
  "unescape_short e = Some n \<Longrightarrow> unescape (CHR 0x5C # e # x) = Some (chr n, x)"
  by (cases "e = CHR ''u''") (simp_all add: unescape_def unescape_short_def)

lemma unescape_u: "unescape (u_escape c @ x) = Some (c, x)"
proof -
  have d: "ord c div 16 < 16" using ord_less [of c] by linarith
  have "16 * (ord c div 16) + ord c mod 16 = ord c" by simp
  then show ?thesis using d by (simp add: u_escape_def hex2_def unescape_def unescape_u4_def)
qed

lemma unescape_short_table [simp]:
  "unescape_short CHR 0x22 = Some 34" "unescape_short CHR 0x5C = Some 92"
  "unescape_short CHR ''b'' = Some 8" "unescape_short CHR ''t'' = Some 9"
  "unescape_short CHR ''n'' = Some 10" "unescape_short CHR ''f'' = Some 12"
  "unescape_short CHR ''r'' = Some 13"
  by (simp_all add: unescape_short_def)

lemma short_escape_Some:
  "short_escape n = Some e \<Longrightarrow> e = [CHR 0x5C, e ! 1] \<and> unescape_short (e ! 1) = Some n"
  unfolding short_escape_def by (simp split: if_split_asm; hypsubst; simp)

lemma short_escape_hd: "short_escape n = Some e \<Longrightarrow> hd e = CHR 0x5C"
  unfolding short_escape_def by (simp split: if_split_asm; hypsubst; simp)

lemma short_escape_None: "short_escape (ord c) = None \<Longrightarrow> c \<noteq> CHR 0x5C \<and> c \<noteq> CHR 0x22"
  by (auto simp: short_escape_def ord_def split: if_split_asm)

lemma unescape_short_escape:
  assumes "short_escape (ord c) = Some e"
  shows "unescape (e @ x) = Some (c, x)"
proof -
  have e: "e = [CHR 0x5C, e ! 1]" and "unescape_short (e ! 1) = Some (ord c)"
    using short_escape_Some [OF assms] by blast+
  then have "unescape (CHR 0x5C # e ! 1 # x) = Some (c, x)"
    using unescape_short_Some [of "e ! 1" "ord c" x] by simp
  then show ?thesis by (subst e) simp
qed

lemma unescape_ascii: "unescape (ascii_escape c @ x) = Some (c, x)"
  by (auto simp: ascii_escape_def unescape_short_escape unescape_u dest: short_escape_None
      intro: unescape_plain split: option.split)

lemma unescape_quote: "unescape (quote_char c @ x) = Some (c, x)"
  by (auto simp: quote_char_def unescape_short_escape unescape_u dest: short_escape_None
      intro: unescape_plain split: option.split)

lemma escapes_no_quote:
  "ascii_escape c \<noteq> [] \<and> hd (ascii_escape c) \<noteq> CHR 0x22" "quote_char c \<noteq> [] \<and> hd (quote_char c) \<noteq> CHR 0x22"
proof -
  have "ascii_escape c \<noteq> []" "quote_char c \<noteq> []"
    using unescape_ascii [of c "[]"] unescape_quote [of c "[]"] by (auto simp: unescape_def)
  moreover have "hd (ascii_escape c) \<noteq> CHR 0x22" "hd (quote_char c) \<noteq> CHR 0x22"
    by (auto simp: ascii_escape_def quote_char_def u_escape_def dest: short_escape_None short_escape_hd
        split: option.split)
  ultimately show "ascii_escape c \<noteq> [] \<and> hd (ascii_escape c) \<noteq> CHR 0x22"
    "quote_char c \<noteq> [] \<and> hd (quote_char c) \<noteq> CHR 0x22" by auto
qed

interpretation dumps: char_escape ascii_escape
proof unfold_locales
  fix c d x y
  show "ascii_escape c @ x = ascii_escape d @ y \<Longrightarrow> c = d \<and> x = y"
    by (metis unescape_ascii option.inject prod.inject)
qed (rule escapes_no_quote)+

interpretation release: char_escape quote_char
proof unfold_locales
  fix c d x y
  show "quote_char c @ x = quote_char d @ y \<Longrightarrow> c = d \<and> x = y"
    by (metis unescape_quote option.inject prod.inject)
qed (rule escapes_no_quote)+

text \<open>The two encoders read back alike, so their texts agree on equal values only.\<close>

interpretation mixed: escape_pair ascii_escape quote_char
proof unfold_locales
  fix c d x y
  show "ascii_escape c @ x = quote_char d @ y \<Longrightarrow> c = d \<and> x = y"
    by (metis unescape_ascii unescape_quote option.inject prod.inject)
qed (rule escapes_no_quote)+

lemma dumps_quoted [simp]: "quote_with ascii_escape = dumps_quote"
  by (simp add: fun_eq_iff quote_with_def dumps_quote_def)

lemma release_quoted [simp]: "quote_with quote_char = quote_json_string"
  by (simp add: fun_eq_iff quote_with_def quote_json_string_def)

section \<open>The encoders\<close>

text \<open>\<open>json.dumps(obj, sort_keys=True, separators=(",", ":"))\<close> and \<open>canonical_json\<close>.\<close>

definition json_dumps :: "(rat \<Rightarrow> string) \<Rightarrow> pyval \<Rightarrow> string" where
  "json_dumps fl v = json_text dumps_quote fl v"

definition canonical_json :: "(rat \<Rightarrow> string) \<Rightarrow> pyval \<Rightarrow> string" where
  "canonical_json fl v = json_text quote_json_string fl v"

lemma json_dumps_inject:
  "float_ok fl \<Longrightarrow> json_dumps fl v = json_dumps fl w \<longleftrightarrow> sort_keys v = sort_keys w"
  unfolding json_dumps_def using dumps.single.json_text_inject by simp

lemma canonical_json_inject:
  "float_ok fl \<Longrightarrow> canonical_json fl v = canonical_json fl w \<longleftrightarrow> sort_keys v = sort_keys w"
  unfolding canonical_json_def using release.single.json_text_inject by simp

lemma encoders_cross: "float_ok fl \<Longrightarrow> json_dumps fl v = canonical_json fl w \<Longrightarrow> sort_keys v = sort_keys w"
  unfolding json_dumps_def canonical_json_def using mixed.json_text_cross by simp

text \<open>A float text that satisfies \<open>float_ok\<close>: numerator and denominator with an exponent mark.\<close>

definition ratio_text :: "rat \<Rightarrow> string" where
  "ratio_text r = (let (n, d) = quotient_of r in int_text n @ ''e'' @ int_text d)"

lemma ratio_text_ok: "float_ok ratio_text"
proof -
  have e: "\<not> (is_digit CHR ''e'' \<or> CHR ''e'' = CHR ''-'')" by (simp add: is_digit_def ord_def)
  have inj: "r = s" if eq: "ratio_text r = ratio_text s" for r s
  proof -
    obtain n d where r: "quotient_of r = (n, d)" by (cases "quotient_of r")
    obtain m c where s: "quotient_of s = (m, c)" by (cases "quotient_of s")
    have "int_text n @ (''e'' @ int_text d) = int_text m @ (''e'' @ int_text c)"
      using eq r s by (simp add: ratio_text_def)
    from split_by_class [OF this, of "\<lambda>c. is_digit c \<or> c = CHR ''-''"]
    have "int_text n = int_text m \<and> ''e'' @ int_text d = ''e'' @ int_text c"
      using int_text_chars e by simp
    then have "quotient_of r = quotient_of s" using r s by simp
    then show "r = s" by (metis quotient_of_div surj_pair)
  qed
  have chars: "num_char c" if "c \<in> set (ratio_text r)" for c r
    using that int_text_chars
    by (cases "quotient_of r") (auto simp: ratio_text_def num_char_def)
  have "\<exists>c \<in> set (ratio_text r). c = CHR ''.'' \<or> c = CHR ''e''" and "ratio_text r \<noteq> []" for r
    by (cases "quotient_of r"; auto simp: ratio_text_def)+
  then show ?thesis unfolding float_ok_def inj_def using inj chars by blast
qed

end
