(* ===== verification/Runtime.thy ===== *)
theory Runtime
  imports JsonEncoders
begin

text \<open>
  The process a model function runs in (\<open>py_env\<close>): the environment variables and the code the
  repository calls but does not contain (hash functions, Ed25519, the text forms of floats and
  dates, the JSON reader). Then \<^verbatim>\<open>src/runtime_security.py\<close>, and the configuration readers of
  \<^verbatim>\<open>src/terminal3_api_client.py\<close>.
\<close>

text \<open>What the operating system answers about files: the permission bits are those of \<open>stat.S_IMODE\<close>.\<close>

datatype file_kind = Regular_File | Symbolic_Link | Other_File

record file_status =
  st_kind :: file_kind
  st_mode :: nat
  st_uid :: nat

record file_system =
  os_lstat :: "string \<Rightarrow> file_status py"      \<comment> \<open>\<open>OSError\<close> when the path cannot be examined\<close>
  os_stat :: "string \<Rightarrow> file_status py"
  read_text :: "string \<Rightarrow> string py"          \<comment> \<open>\<open>Path.read_text(encoding="utf-8")\<close>\<close>
  read_bytes :: "string \<Rightarrow> bytes py"          \<comment> \<open>\<open>Path.read_bytes()\<close>\<close>
  path_exists :: "string \<Rightarrow> bool"
  os_is_nt :: bool                            \<comment> \<open>\<open>os.name == "nt"\<close>\<close>
  os_geteuid :: "nat option"                  \<comment> \<open>absent when the platform has no \<open>os.geteuid\<close>\<close>

record py_env =
  getenv :: "string \<Rightarrow> string option"                  \<comment> \<open>\<open>os.environ\<close>\<close>
  float_repr :: "rat \<Rightarrow> string"                        \<comment> \<open>\<open>float.__repr__\<close>\<close>
  sha256_hex :: "bytes \<Rightarrow> string"                      \<comment> \<open>\<open>hashlib.sha256(b).hexdigest()\<close>\<close>
  hmac_sha256_hex :: "bytes \<Rightarrow> bytes \<Rightarrow> string"         \<comment> \<open>\<open>hmac.new(key, msg, sha256).hexdigest()\<close>\<close>
  ed25519_public :: "bytes \<Rightarrow> bytes"                   \<comment> \<open>raw public key of a raw private key\<close>
  ed25519_sign :: "bytes \<Rightarrow> bytes \<Rightarrow> bytes"            \<comment> \<open>private key, message\<close>
  ed25519_verify :: "bytes \<Rightarrow> bytes \<Rightarrow> bytes \<Rightarrow> bool"  \<comment> \<open>public key, signature, message\<close>
  iso_format :: "rat \<Rightarrow> string"                        \<comment> \<open>\<open>isoformat()\<close> of a UTC instant\<close>
  iso_parse :: "string \<Rightarrow> rat option"
    \<comment> \<open>\<open>fromisoformat\<close> with a missing zone read as UTC; \<open>None\<close> is \<open>ValueError\<close>\<close>
  json_loads :: "string \<Rightarrow> pyval option"               \<comment> \<open>\<open>json.loads\<close>; \<open>None\<close> is \<open>JSONDecodeError\<close>\<close>
  float_parse :: "string \<Rightarrow> rat option"                \<comment> \<open>\<open>float(s)\<close>; \<open>None\<close> is \<open>ValueError\<close>\<close>
  int_parse :: "string \<Rightarrow> int option"                  \<comment> \<open>\<open>int(s)\<close>; \<open>None\<close> is \<open>ValueError\<close>\<close>
  re_fullmatch :: "string \<Rightarrow> string \<Rightarrow> bool"         \<comment> \<open>\<open>re.fullmatch(pattern, s)\<close> for a pattern read from a file\<close>
  sqlite_real_text :: "rat \<Rightarrow> string"                  \<comment> \<open>a \<open>REAL\<close> stored in a \<open>TEXT\<close> column\<close>
  filesystem :: file_system
  set_list :: "pyval list \<Rightarrow> pyval list"               \<comment> \<open>\<open>list(s)\<close> of a set: its order is not specified\<close>

definition getenv_or :: "py_env \<Rightarrow> string \<Rightarrow> string \<Rightarrow> string" where
  "getenv_or E name dflt = (case getenv E name of Some v \<Rightarrow> v | None \<Rightarrow> dflt)"

text \<open>\<open>a or b\<close> on strings and \<open>x or ""\<close> on optional strings.\<close>

definition str_or :: "string \<Rightarrow> string \<Rightarrow> string" where
  "str_or a b = (if a = [] then b else a)"

definition opt_str :: "string option \<Rightarrow> string" where
  "opt_str x = (case x of Some s \<Rightarrow> s | None \<Rightarrow> [])"

lemma str_or_simps [simp]: "str_or [] b = b" "a \<noteq> [] \<Longrightarrow> str_or a b = a"
  by (simp_all add: str_or_def)

lemma opt_str_simps [simp]: "opt_str None = []" "opt_str (Some s) = s"
  by (simp_all add: opt_str_def)

section \<open>Configuration of the Terminal 3 client\<close>

definition get_t3n_api_key :: "py_env \<Rightarrow> string" where
  "get_t3n_api_key E =
     str_or (py_strip (getenv_or E ''T3N_API_KEY'' [])) (py_strip (getenv_or E ''TERMINAL3_API_KEY'' []))"

definition get_configured_did :: "py_env \<Rightarrow> string" where
  "get_configured_did E =
     str_or (py_strip (getenv_or E ''DID'' [])) (py_strip (getenv_or E ''T3N_DID'' []))"

section \<open>Runtime mode and worker authorization context\<close>

definition VALID_RUNTIME_MODES :: "string list" where
  [py_consts]: "VALID_RUNTIME_MODES = [''live'', ''demo'', ''test'']"

definition RUNTIME_MODE_ERROR :: string where
  [py_consts]: "RUNTIME_MODE_ERROR = ''ADN_RUNTIME_MODE must be live, demo, or test''"

definition resolve_runtime_mode :: "py_env \<Rightarrow> string option \<Rightarrow> string py" where
  "resolve_runtime_mode E value =
     (let raw_mode = (case value of None \<Rightarrow> getenv_or E ''ADN_RUNTIME_MODE'' ''live'' | Some v \<Rightarrow> v);
          mode = py_lower (py_strip raw_mode)
      in if mode \<notin> set VALID_RUNTIME_MODES then Inl (RuntimeError RUNTIME_MODE_ERROR)
         else Inr mode)"

definition gateway_context_configured ::
  "string option \<Rightarrow> string option \<Rightarrow> string option \<Rightarrow> bool" where
  "gateway_context_configured gateway_public_key_hex gateway_key_id build_config_id \<longleftrightarrow>
     opt_str gateway_public_key_hex \<noteq> [] \<or> opt_str gateway_key_id \<noteq> [] \<or> opt_str build_config_id \<noteq> []"

record worker_authorization_context =
  ctx_runtime_mode :: string
  ctx_require_tee_authorization :: bool
  ctx_expected_gateway_public_key_hex :: string
  ctx_expected_gateway_key_id :: string
  ctx_expected_build_config_id :: string

definition from_trusted_config ::
  "py_env \<Rightarrow> string option \<Rightarrow> string option \<Rightarrow> string option \<Rightarrow> bool option \<Rightarrow>
    worker_authorization_context py" where
  "from_trusted_config E gateway_public_key_hex gateway_key_id build_config_id require =
     bindE (resolve_runtime_mode E None) (\<lambda>mode.
       let gateway_configured =
             gateway_context_configured gateway_public_key_hex gateway_key_id build_config_id;
           trusted_requirement = (mode = ''live'' \<or> gateway_configured \<or> require = Some True)
       in Inr \<lparr>ctx_runtime_mode = mode,
               ctx_require_tee_authorization = trusted_requirement,
               ctx_expected_gateway_public_key_hex = opt_str gateway_public_key_hex,
               ctx_expected_gateway_key_id = opt_str gateway_key_id,
               ctx_expected_build_config_id = opt_str build_config_id\<rparr>)"

definition runtime_requires_tee_authorization :: "py_env \<Rightarrow> bool py" where
  "runtime_requires_tee_authorization E =
     bindE (resolve_runtime_mode E None) (\<lambda>mode. Inr (mode = ''live''))"

definition trusted_tee_authorization_requirement ::
  "py_env \<Rightarrow> bool option \<Rightarrow> string option \<Rightarrow> string option \<Rightarrow> string option \<Rightarrow> bool py" where
  "trusted_tee_authorization_requirement E require gateway_public_key_hex gateway_key_id build_config_id =
     bindE (from_trusted_config E gateway_public_key_hex gateway_key_id build_config_id require)
       (\<lambda>ctx. Inr (ctx_require_tee_authorization ctx))"

subsection \<open>The mode is closed and fails closed\<close>

lemma resolve_runtime_mode_valid:
  "resolve_runtime_mode E v = Inr mode \<Longrightarrow> mode \<in> {''live'', ''demo'', ''test''}"
  by (auto simp: resolve_runtime_mode_def VALID_RUNTIME_MODES_def Let_def split: if_split_asm)

lemma resolve_runtime_mode_cases:
  "resolve_runtime_mode E v = Inl (RuntimeError RUNTIME_MODE_ERROR) \<or>
   (\<exists>mode. resolve_runtime_mode E v = Inr mode)"
  by (simp add: resolve_runtime_mode_def Let_def)

lemma py_strip_no_space: "\<forall>c \<in> set s. \<not> is_space c \<Longrightarrow> py_strip s = s"
proof -
  assume a: "\<forall>c \<in> set s. \<not> is_space c"
  have d: "dropWhile is_space t = t" if "\<forall>c \<in> set t. \<not> is_space c" for t
    using that by (cases t) auto
  have "dropWhile is_space (rev s) = rev s" and "dropWhile is_space s = s" using a by (intro d; simp)+
  then show ?thesis by (simp add: py_strip_def py_lstrip_def py_rstrip_def)
qed

lemma unset_mode_live: "getenv E ''ADN_RUNTIME_MODE'' = None \<Longrightarrow> resolve_runtime_mode E None = Inr ''live''"
proof -
  assume "getenv E ''ADN_RUNTIME_MODE'' = None"
  moreover have "py_strip ''live'' = ''live''"
    by (rule py_strip_no_space) (simp add: is_space_def ord_def)
  moreover have "py_lower ''live'' = ''live''"
    by (simp add: py_lower_def lower_char_def ord_def)
  ultimately show ?thesis
    by (simp add: resolve_runtime_mode_def getenv_or_def VALID_RUNTIME_MODES_def Let_def)
qed

lemma from_trusted_config_requires:
  "from_trusted_config E pk kid bid require = Inr ctx \<Longrightarrow>
     ctx_require_tee_authorization ctx \<longleftrightarrow>
       resolve_runtime_mode E None = Inr ''live'' \<or> gateway_context_configured pk kid bid \<or> require = Some True"
  by (auto simp: from_trusted_config_def Let_def)

lemma from_trusted_config_fields:
  "from_trusted_config E pk kid bid require = Inr ctx \<Longrightarrow>
     ctx_expected_gateway_public_key_hex ctx = opt_str pk \<and> ctx_expected_gateway_key_id ctx = opt_str kid \<and>
     ctx_expected_build_config_id ctx = opt_str bid"
  by (auto simp: from_trusted_config_def Let_def)

end
