(* ===== verification/AuthAdapter.thy ===== *)
theory AuthAdapter
  imports Runtime
begin

text \<open>
  \<^verbatim>\<open>src/terminal3_agent_auth_adapter.py\<close>: signing and verifying an action request. The clock is
  an argument (\<open>now\<close>, seconds); a request is a dictionary; a raised exception is \<open>Inl\<close>.
\<close>

definition AUDIENCE :: string where [py_consts]: "AUDIENCE = ''t3n-adn-v1''"

definition PROOF_TTL_SECONDS :: nat where [py_consts]: "PROOF_TTL_SECONDS = 300"

definition MOCK_AGENT_ID :: string where [py_consts]: "MOCK_AGENT_ID = ''mock-agent-001''"

definition MOCK_PUBLIC_KEY_HEX :: string where
  [py_consts]: "MOCK_PUBLIC_KEY_HEX = ''aabbcc'' @ replicate 58 CHR ''0''"

definition bytes_fromhex :: "string \<Rightarrow> bytes py" where
  "bytes_fromhex s = (case fromhex s of
     Some b \<Rightarrow> Inr b
   | None \<Rightarrow> Inl (ValueError ''non-hexadecimal number found in fromhex() arg''))"

definition key_fingerprint :: "py_env \<Rightarrow> string \<Rightarrow> string py" where
  "key_fingerprint E raw_key_hex =
     bindE (bytes_fromhex raw_key_hex) (\<lambda>b.
       Inr (take 12 (sha256_hex E (''terminal3'' @ [CHR 0x00] @ b))))"

definition canonical :: "py_env \<Rightarrow> pyval \<Rightarrow> string" where
  "canonical E obj = json_dumps (float_repr E) obj"

definition sha256 :: "py_env \<Rightarrow> string \<Rightarrow> string" where
  "sha256 E s = sha256_hex E (utf8 s)"

definition is_mock :: "py_env \<Rightarrow> bool" where
  "is_mock E \<longleftrightarrow> py_lower (getenv_or E ''T3_MOCK'' ''false'') = ''true''"

text \<open>A signing key: raw private key, public key in hex, agent id and DID.\<close>

record signing_key =
  sk_private :: bytes
  sk_pub_hex :: string
  sk_agent_id :: string
  sk_did :: string

definition from_private_bytes :: "bytes \<Rightarrow> bytes py" where
  "from_private_bytes b =
     (if length b \<noteq> 32 then Inl (ValueError ''An Ed25519 private key is 32 bytes long'') else Inr b)"

definition load_private_key :: "py_env \<Rightarrow> signing_key py" where
  "load_private_key E =
     (let raw0 = get_t3n_api_key E
      in if raw0 = [] then Inl (ValueError ''T3N_API_KEY not set'')
         else let raw = (if startswith raw0 ''0x'' then drop 2 raw0 else raw0)
           in if length raw \<noteq> 64
              then Inl (ValueError ''T3N_API_KEY must be 32 bytes (64 hex chars) after 0x'')
              else bindE (bytes_fromhex raw) (\<lambda>key_bytes.
                bindE (from_private_bytes key_bytes) (\<lambda>priv.
                  let pub_hex = to_hex (ed25519_public E priv)
                  in bindE (key_fingerprint E pub_hex) (\<lambda>agent_id.
                       Inr \<lparr>sk_private = priv, sk_pub_hex = pub_hex, sk_agent_id = agent_id,
                            sk_did = get_configured_did E\<rparr>))))"

section \<open>Signing\<close>

text \<open>The fields bound by the signature, in the order the code writes them.\<close>

definition signed_payload ::
  "py_env \<Rightarrow> rat \<Rightarrow> string \<Rightarrow> string \<Rightarrow> string \<Rightarrow> string \<Rightarrow> pyval \<Rightarrow> pyval option \<Rightarrow> pydict" where
  "signed_payload E now agent_id did pub_hex action nonce data =
     [(''agent_id'', PStr agent_id),
      (''did'', PStr did),
      (''public_key_hex'', PStr pub_hex),
      (''action'', PStr action),
      (''nonce'', nonce),
      (''issued_at'', PStr (iso_format E now)),
      (''expires_at'', PStr (iso_format E (now + of_nat PROOF_TTL_SECONDS))),
      (''audience'', PStr AUDIENCE)] @
     (case data of None \<Rightarrow> [] | Some d \<Rightarrow> [(''data_hash'', PStr (sha256 E (canonical E d)))])"

definition sign_action_request ::
  "py_env \<Rightarrow> rat \<Rightarrow> string \<Rightarrow> pyval \<Rightarrow> pyval option \<Rightarrow> signing_key option \<Rightarrow> pydict py" where
  "sign_action_request E now action nonce data private_key =
     (if is_mock E then
        let payload = signed_payload E now MOCK_AGENT_ID
              (str_or (get_configured_did E) ''did:t3n:mock-agent'') MOCK_PUBLIC_KEY_HEX action nonce data;
            payload_hash = sha256 E (canonical E (PDict payload))
        in Inr (payload @ [(''payload_hash'', PStr payload_hash),
                           (''signature_hex'', PStr (''deadbeef'' @ replicate 120 CHR ''0''))])
      else bindE (case private_key of Some k \<Rightarrow> Inr k | None \<Rightarrow> load_private_key E) (\<lambda>k.
        let payload = signed_payload E now (sk_agent_id k) (sk_did k) (sk_pub_hex k) action nonce data;
            payload_hash = sha256 E (canonical E (PDict payload));
            signature = ed25519_sign E (sk_private k) (utf8 payload_hash)
        in Inr (payload @ [(''payload_hash'', PStr payload_hash),
                           (''signature_hex'', PStr (to_hex signature))])))"

section \<open>Verification\<close>

definition required_fields :: "string list" where
  "required_fields =
     [''agent_id'', ''did'', ''public_key_hex'', ''action'', ''nonce'',
      ''issued_at'', ''expires_at'', ''audience'', ''signature_hex'', ''payload_hash'']"

definition payload_keys :: "pydict \<Rightarrow> string list" where
  "payload_keys proof =
     [''agent_id'', ''did'', ''public_key_hex'', ''action'', ''nonce'', ''issued_at'', ''expires_at'', ''audience''] @
     (if map_of proof ''data_hash'' \<noteq> None then [''data_hash''] else [])"

definition has_key :: "pydict \<Rightarrow> string \<Rightarrow> bool" where
  "has_key d k \<longleftrightarrow> map_of d k \<noteq> None"

definition payload_fields :: "pydict \<Rightarrow> pydict" where
  "payload_fields proof = map (\<lambda>k. (k, dget proof k PNone)) (payload_keys proof)"

text \<open>
  \<open>datetime.fromisoformat(v)\<close>: a \<open>TypeError\<close> unless \<open>v\<close> is a string, a \<open>ValueError\<close> when
  the text is no date.
\<close>

definition fromisoformat :: "py_env \<Rightarrow> pyval \<Rightarrow> rat py" where
  "fromisoformat E v = (case v of
     PStr s \<Rightarrow> (case iso_parse E s of
        Some t \<Rightarrow> Inr t
      | None \<Rightarrow> Inl (ValueError (''Invalid isoformat string: '' @ repr_str s)))
   | _ \<Rightarrow> Inl (TypeError ''fromisoformat: argument must be str''))"

definition bytes_fromhex_val :: "pyval \<Rightarrow> bytes py" where
  "bytes_fromhex_val v = (case v of
     PStr s \<Rightarrow> bytes_fromhex s
   | _ \<Rightarrow> Inl (TypeError (''fromhex() argument must be str, not '' @ py_type v)))"

text \<open>The \<open>agent_id\<close>/key check: \<open>ValueError\<close> is caught, any other exception propagates.\<close>

definition check_fingerprint :: "py_env \<Rightarrow> pydict \<Rightarrow> bool py" where
  "check_fingerprint E proof =
     (case bytes_fromhex_val (dget proof ''public_key_hex'' PNone) of
        Inl (ValueError m) \<Rightarrow> Inr False
      | Inl e \<Rightarrow> Inl e
      | Inr b \<Rightarrow>
          if length b \<noteq> 32 then Inr False
          else (case dget proof ''public_key_hex'' PNone of
              PStr pub_key_hex \<Rightarrow> (case key_fingerprint E pub_key_hex of
                  Inr expected_fp \<Rightarrow> Inr (dget proof ''agent_id'' PNone = PStr expected_fp)
                | Inl e \<Rightarrow> Inr False)
            | _ \<Rightarrow> Inr False))"

text \<open>The signature check: every exception is caught.\<close>

definition check_signature :: "py_env \<Rightarrow> pydict \<Rightarrow> bool" where
  "check_signature E proof =
     (case (bytes_fromhex_val (dget proof ''public_key_hex'' PNone),
            bytes_fromhex_val (dget proof ''signature_hex'' PNone),
            dget proof ''payload_hash'' PNone) of
        (Inr pub_bytes, Inr sig_bytes, PStr payload_hash) \<Rightarrow>
          length sig_bytes = 64 \<and> length pub_bytes = 32 \<and>
          ed25519_verify E pub_bytes sig_bytes (utf8 payload_hash)
      | _ \<Rightarrow> False)"

definition verify_action_request ::
  "py_env \<Rightarrow> rat \<Rightarrow> pydict \<Rightarrow> string \<Rightarrow> (bool \<times> string) py" where
  "verify_action_request E now proof expected_action =
     (if \<exists>field \<in> set required_fields. \<not> has_key proof field then Inr (False, ''IDENTITY_MISSING'')
      else if dget proof ''action'' PNone \<noteq> PStr expected_action then Inr (False, ''IDENTITY_INVALID'')
      else if dget proof ''audience'' PNone \<noteq> PStr AUDIENCE then Inr (False, ''IDENTITY_INVALID'')
      else (case fromisoformat E (dget proof ''expires_at'' PNone) of
          Inl (ValueError m) \<Rightarrow> Inr (False, ''IDENTITY_INVALID'')
        | Inl e \<Rightarrow> Inl e
        | Inr expires \<Rightarrow>
            if now > expires then Inr (False, ''PROOF_EXPIRED'')
            else if dget proof ''payload_hash'' PNone
                      \<noteq> PStr (sha256 E (canonical E (PDict (payload_fields proof))))
            then Inr (False, ''IDENTITY_INVALID'')
            else if is_mock E then Inr (True, [])
            else bindE (check_fingerprint E proof) (\<lambda>fingerprint_ok.
              if \<not> fingerprint_ok then Inr (False, ''IDENTITY_INVALID'')
              else if check_signature E proof then Inr (True, [])
              else Inr (False, ''IDENTITY_INVALID''))))"

text \<open>What a positive answer says, as one predicate over the request.\<close>

definition authentic :: "py_env \<Rightarrow> rat \<Rightarrow> pydict \<Rightarrow> string \<Rightarrow> bool" where
  "authentic E now proof expected_action \<longleftrightarrow>
     (\<forall>field \<in> set required_fields. has_key proof field) \<and>
     dget proof ''action'' PNone = PStr expected_action \<and>
     dget proof ''audience'' PNone = PStr AUDIENCE \<and>
     (\<exists>s t. dget proof ''expires_at'' PNone = PStr s \<and> iso_parse E s = Some t \<and> now \<le> t) \<and>
     dget proof ''payload_hash'' PNone = PStr (sha256 E (canonical E (PDict (payload_fields proof)))) \<and>
     (\<not> is_mock E \<longrightarrow>
        (\<exists>pk pub sg. dget proof ''public_key_hex'' PNone = PStr pk \<and> fromhex pk = Some pub \<and> length pub = 32 \<and>
           dget proof ''agent_id'' PNone = PStr (take 12 (sha256_hex E (''terminal3'' @ [CHR 0x00] @ pub))) \<and>
           bytes_fromhex_val (dget proof ''signature_hex'' PNone) = Inr sg \<and> length sg = 64 \<and>
           ed25519_verify E pub sg (utf8 (sha256 E (canonical E (PDict (payload_fields proof)))))))"

lemma fromisoformat_Inr:
  "fromisoformat E v = Inr t \<longleftrightarrow> (\<exists>s. v = PStr s \<and> iso_parse E s = Some t)"
  by (cases v) (simp_all add: fromisoformat_def split: option.split)

lemma bytes_fromhex_Inr [simp]: "bytes_fromhex s = Inr b \<longleftrightarrow> fromhex s = Some b"
  by (auto simp: bytes_fromhex_def split: option.split)

lemma check_fingerprint_True:
  "check_fingerprint E proof = Inr True \<longleftrightarrow>
     (\<exists>pk pub. dget proof ''public_key_hex'' PNone = PStr pk \<and> fromhex pk = Some pub \<and> length pub = 32 \<and>
        dget proof ''agent_id'' PNone = PStr (take 12 (sha256_hex E (''terminal3'' @ [CHR 0x00] @ pub))))"
proof (cases "dget proof ''public_key_hex'' PNone")
  case (PStr pk)
  then show ?thesis
    by (cases "fromhex pk")
       (auto simp: check_fingerprint_def bytes_fromhex_val_def bytes_fromhex_def key_fingerprint_def)
qed (auto simp: check_fingerprint_def bytes_fromhex_val_def)

lemma check_signature_True:
  "check_signature E proof \<longleftrightarrow>
     (\<exists>pk pub sg h. dget proof ''public_key_hex'' PNone = PStr pk \<and> fromhex pk = Some pub \<and> length pub = 32 \<and>
        bytes_fromhex_val (dget proof ''signature_hex'' PNone) = Inr sg \<and> length sg = 64 \<and>
        dget proof ''payload_hash'' PNone = PStr h \<and> ed25519_verify E pub sg (utf8 h))"
proof (cases "dget proof ''public_key_hex'' PNone")
  case (PStr pk)
  then show ?thesis
    by (cases "fromhex pk")
       (auto simp: check_signature_def bytes_fromhex_val_def bytes_fromhex_def
          split: sum.split pyval.split)
qed (auto simp: check_signature_def bytes_fromhex_val_def split: sum.split pyval.split)

text \<open>The checks before the key material, and the ones on it.\<close>

definition envelope_ok :: "py_env \<Rightarrow> rat \<Rightarrow> pydict \<Rightarrow> string \<Rightarrow> bool" where
  "envelope_ok E now proof expected_action \<longleftrightarrow>
     (\<forall>field \<in> set required_fields. has_key proof field) \<and>
     dget proof ''action'' PNone = PStr expected_action \<and>
     dget proof ''audience'' PNone = PStr AUDIENCE \<and>
     (\<exists>s t. dget proof ''expires_at'' PNone = PStr s \<and> iso_parse E s = Some t \<and> now \<le> t) \<and>
     dget proof ''payload_hash'' PNone = PStr (sha256 E (canonical E (PDict (payload_fields proof))))"

lemma authentic_iff:
  "authentic E now proof a \<longleftrightarrow> envelope_ok E now proof a \<and>
     (\<not> is_mock E \<longrightarrow> check_fingerprint E proof = Inr True \<and> check_signature E proof)"
proof (cases "envelope_ok E now proof a")
  case True
  then have "dget proof ''payload_hash'' PNone = PStr (sha256 E (canonical E (PDict (payload_fields proof))))"
    by (simp add: envelope_ok_def)
  then show ?thesis
    unfolding authentic_def envelope_ok_def check_fingerprint_True check_signature_True by auto
qed (auto simp: authentic_def envelope_ok_def)

lemma verify_envelope_bad:
  assumes "\<not> envelope_ok E now proof a"
  shows "verify_action_request E now proof a \<noteq> Inr (True, err)"
proof (cases "fromisoformat E (dget proof ''expires_at'' PNone)")
  case (Inl e)
  then show ?thesis by (cases e) (simp_all add: verify_action_request_def)
next
  case (Inr t)
  then obtain s where "dget proof ''expires_at'' PNone = PStr s" "iso_parse E s = Some t"
    unfolding fromisoformat_Inr by blast
  then have "\<not> ((\<forall>field \<in> set required_fields. has_key proof field) \<and>
     dget proof ''action'' PNone = PStr a \<and> dget proof ''audience'' PNone = PStr AUDIENCE \<and> now \<le> t \<and>
     dget proof ''payload_hash'' PNone = PStr (sha256 E (canonical E (PDict (payload_fields proof)))))"
    using assms unfolding envelope_ok_def by blast
  then show ?thesis unfolding verify_action_request_def Inr sum.case
    by auto
qed

lemma verify_envelope_good:
  assumes "envelope_ok E now proof a"
  shows "verify_action_request E now proof a =
    (if is_mock E then Inr (True, [])
     else bindE (check_fingerprint E proof) (\<lambda>ok.
       if \<not> ok then Inr (False, ''IDENTITY_INVALID'')
       else if check_signature E proof then Inr (True, []) else Inr (False, ''IDENTITY_INVALID'')))"
proof -
  obtain t where "fromisoformat E (dget proof ''expires_at'' PNone) = Inr t" "now \<le> t"
    using assms unfolding envelope_ok_def fromisoformat_Inr by auto
  then show ?thesis using assms unfolding envelope_ok_def verify_action_request_def
    by (simp only: sum.case) simp
qed

lemma verify_action_request_iff:
  "verify_action_request E now proof a = Inr (True, err) \<longleftrightarrow> authentic E now proof a \<and> err = []"
proof (cases "envelope_ok E now proof a")
  case True
  show ?thesis
  proof (cases "check_fingerprint E proof")
    case (Inl e)
    then show ?thesis unfolding authentic_iff verify_envelope_good [OF True] using True by auto
  next
    case (Inr ok)
    then show ?thesis unfolding authentic_iff verify_envelope_good [OF True] using True
      by (cases ok) auto
  qed
next
  case False
  then show ?thesis using verify_envelope_bad [OF False] authentic_iff by blast
qed

lemma verify_action_request_ok:
  "verify_action_request E now proof a = Inr (True, err) \<Longrightarrow> authentic E now proof a"
  by (simp add: verify_action_request_iff)

section \<open>A signed request verifies until it expires\<close>

text \<open>
  What is relied on of Ed25519 for one key pair, and of a key that \<open>load_private_key\<close> or
  \<open>AgentIdentity\<close> builds: signatures of the private key verify under the public key, keys and
  signatures have their fixed lengths, and the agent id is the fingerprint of the key.
\<close>

definition ed25519_ok :: "py_env \<Rightarrow> bytes \<Rightarrow> bool" where
  "ed25519_ok E priv \<longleftrightarrow> length (ed25519_public E priv) = 32 \<and>
     (\<forall>m. length (ed25519_sign E priv m) = 64 \<and>
          ed25519_verify E (ed25519_public E priv) (ed25519_sign E priv m) m)"

definition key_ok :: "py_env \<Rightarrow> signing_key \<Rightarrow> bool" where
  "key_ok E k \<longleftrightarrow> ed25519_ok E (sk_private k) \<and> sk_pub_hex k = to_hex (ed25519_public E (sk_private k)) \<and>
     key_fingerprint E (sk_pub_hex k) = Inr (sk_agent_id k)"

definition clock_text_ok :: "py_env \<Rightarrow> rat \<Rightarrow> bool" where
  "clock_text_ok E t \<longleftrightarrow> iso_parse E (iso_format E t) = Some t"

lemma load_private_key_ok:
  "load_private_key E = Inr k \<Longrightarrow> ed25519_ok E (sk_private k) \<Longrightarrow> key_ok E k"
  by (auto simp: load_private_key_def Let_def key_ok_def split: if_split_asm)

lemma signed_payload_no_proof [simp]:
  "map_of (signed_payload E now i did pk a n d) ''payload_hash'' = None"
  "map_of (signed_payload E now i did pk a n d) ''signature_hex'' = None"
  by (simp_all add: signed_payload_def split: option.split)

lemma payload_fields_signed:
  "payload_fields (signed_payload E now i did pk a n d @ [(''payload_hash'', h), (''signature_hex'', sg)])
     = signed_payload E now i did pk a n d"
  by (cases d) (simp_all add: payload_fields_def payload_keys_def signed_payload_def)

lemma signed_dget:
  "dget (signed_payload E now i did pk a n d @ r) ''action'' v = PStr a"
  "dget (signed_payload E now i did pk a n d @ r) ''nonce'' v = n"
  "dget (signed_payload E now i did pk a n d @ r) ''audience'' v = PStr AUDIENCE"
  "dget (signed_payload E now i did pk a n d @ r) ''agent_id'' v = PStr i"
  "dget (signed_payload E now i did pk a n d @ r) ''public_key_hex'' v = PStr pk"
  "dget (signed_payload E now i did pk a n d @ r) ''expires_at'' v = PStr (iso_format E (now + 300))"
  "dget (signed_payload E now i did pk a n None @ [(''payload_hash'', h), (''signature_hex'', sg)]) ''data_hash'' v = v"
  "dget (signed_payload E now i did pk a n (Some x) @ r) ''data_hash'' v = PStr (sha256 E (canonical E x))"
  "dget (signed_payload E now i did pk a n d @ [(''payload_hash'', h), (''signature_hex'', sg)]) ''payload_hash'' v = h"
  "dget (signed_payload E now i did pk a n d @ [(''payload_hash'', h), (''signature_hex'', sg)]) ''signature_hex'' v = sg"
  by (cases d; simp add: signed_payload_def PROOF_TTL_SECONDS_def)+

lemma signed_required:
  "\<forall>f \<in> set required_fields.
     has_key (signed_payload E now i did pk a n d @ [(''payload_hash'', h), (''signature_hex'', sg)]) f"
  by (cases d) (simp_all add: required_fields_def has_key_def signed_payload_def)

lemma signed_envelope_ok:
  assumes "clock_text_ok E (now + 300)" and "t \<le> now + 300"
  shows "envelope_ok E t (signed_payload E now i did pk a n d @
     [(''payload_hash'', PStr (sha256 E (canonical E (PDict (signed_payload E now i did pk a n d))))),
      (''signature_hex'', sg)]) a"
  using assms unfolding envelope_ok_def payload_fields_signed
  by (simp add: signed_required signed_dget clock_text_ok_def)

lemma sign_action_request_with_key:
  "\<not> is_mock E \<Longrightarrow> sign_action_request E now a n d (Some k) = Inr (
     signed_payload E now (sk_agent_id k) (sk_did k) (sk_pub_hex k) a n d @
     [(''payload_hash'', PStr (sha256 E (canonical E (PDict
         (signed_payload E now (sk_agent_id k) (sk_did k) (sk_pub_hex k) a n d))))),
      (''signature_hex'', PStr (to_hex (ed25519_sign E (sk_private k) (utf8 (sha256 E (canonical E (PDict
         (signed_payload E now (sk_agent_id k) (sk_did k) (sk_pub_hex k) a n d))))))))])"
  by (simp add: sign_action_request_def Let_def)

lemma sign_then_authentic:
  assumes "\<not> is_mock E" and k: "key_ok E k" and "clock_text_ok E (now + 300)" and "t \<le> now + 300"
    and sign: "sign_action_request E now a n d (Some k) = Inr p"
  shows "authentic E t p a"
proof -
  have fp: "check_fingerprint E p = Inr True" and sg: "check_signature E p"
    using k sign assms(1)
    unfolding check_fingerprint_True check_signature_True key_ok_def ed25519_ok_def key_fingerprint_def
    by (auto simp: sign_action_request_with_key signed_dget bytes_fromhex_val_def)
  have "envelope_ok E t p a"
    using sign [unfolded sign_action_request_with_key [OF assms(1)]] signed_envelope_ok [OF assms(3,4)]
    by auto
  then show ?thesis using fp sg by (simp add: authentic_iff)
qed

section \<open>What a hash binds\<close>

text \<open>Two distinct byte strings with one hash: what an attacker would have to exhibit.\<close>

definition collides :: "py_env \<Rightarrow> bytes \<Rightarrow> bytes \<Rightarrow> bool" where
  "collides E x y \<longleftrightarrow> x \<noteq> y \<and> sha256_hex E x = sha256_hex E y"

lemma canonical_hash_binds:
  assumes "float_ok (float_repr E)" and "sha256 E (canonical E v) = sha256 E (canonical E w)"
  shows "sort_keys v = sort_keys w \<or> collides E (utf8 (canonical E v)) (utf8 (canonical E w))"
proof (cases "canonical E v = canonical E w")
  case True
  then show ?thesis using json_dumps_inject [OF assms(1)] by (simp add: canonical_def)
next
  case False
  then show ?thesis using assms(2) by (simp add: collides_def sha256_def)
qed

end
