(* ===== verification/Identity.thy ===== *)
theory Identity
  imports AuthAdapter
begin

text \<open>
  \<^verbatim>\<open>src/agent_identity.py\<close>: an agent's key pair, id and DID. The object is a record; the lazily
  loaded key object is an option (absent in mock mode without an API key). The lemmas show that an
  identity built from a private key signs with that key, so its requests verify under its own id.
\<close>

record agent_identity =
  id_agent_name :: string
  id_private_key_hex :: "string option"
  id_private_key_obj :: "bytes option"
  id_did :: string
  id_agent_id :: string
  id_public_key_hex :: string
  id_authority :: string

text \<open>\<open>AgentIdentity.__init__\<close> and \<open>_load_identity\<close>; \<open>pid\<close> is \<open>os.getpid()\<close>.\<close>

definition default_name :: "string option \<Rightarrow> nat \<Rightarrow> string" where
  "default_name agent_name pid = str_or (opt_str agent_name) (''agent-'' @ dec pid)"

definition ephemeral_identity :: "py_env \<Rightarrow> string \<Rightarrow> string \<Rightarrow> agent_identity py" where
  "ephemeral_identity E name private_key_hex =
     bindE (bytes_fromhex private_key_hex) (\<lambda>key_bytes.
     bindE (from_private_bytes key_bytes) (\<lambda>priv.
       let pub_hex = to_hex (ed25519_public E priv)
       in bindE (key_fingerprint E pub_hex) (\<lambda>agent_id.
         Inr \<lparr>id_agent_name = name, id_private_key_hex = Some private_key_hex,
              id_private_key_obj = Some priv,
              id_did = ''did:key:ed25519:'' @ agent_id, id_agent_id = agent_id,
              id_public_key_hex = pub_hex, id_authority = ''ED25519_EPHEMERAL''\<rparr>)))"

definition load_identity :: "py_env \<Rightarrow> string \<Rightarrow> string option \<Rightarrow> agent_identity py" where
  "load_identity E name private_key_hex =
     (if opt_str private_key_hex \<noteq> [] then ephemeral_identity E name (opt_str private_key_hex)
      else (case load_private_key E of
          Inr k \<Rightarrow> Inr \<lparr>id_agent_name = name, id_private_key_hex = private_key_hex,
              id_private_key_obj = Some (sk_private k), id_did = sk_did k,
              id_agent_id = sk_agent_id k, id_public_key_hex = sk_pub_hex k,
              id_authority = ''T3N_SESSION''\<rparr>
        | Inl e \<Rightarrow>
            if is_mock E then
              bindE (key_fingerprint E MOCK_PUBLIC_KEY_HEX) (\<lambda>agent_id.
                Inr \<lparr>id_agent_name = name, id_private_key_hex = private_key_hex,
                     id_private_key_obj = None, id_did = ''did:t3n:mock-agent'',
                     id_agent_id = agent_id, id_public_key_hex = MOCK_PUBLIC_KEY_HEX,
                     id_authority = ''MOCK''\<rparr>)
            else Inl (RuntimeError (''Failed to load agent identity: '' @ exc_message e))))"

definition create_agent_identity ::
  "py_env \<Rightarrow> nat \<Rightarrow> string option \<Rightarrow> string option \<Rightarrow> agent_identity py" where
  "create_agent_identity E pid agent_name private_key_hex =
     load_identity E (default_name agent_name pid) private_key_hex"

text \<open>\<open>AgentIdentity.ephemeral\<close>; \<open>token\<close> is the value of \<open>secrets.token_hex(32)\<close>.\<close>

definition ephemeral :: "py_env \<Rightarrow> nat \<Rightarrow> string option \<Rightarrow> string \<Rightarrow> agent_identity py" where
  "ephemeral E pid agent_name token = create_agent_identity E pid agent_name (Some token)"

text \<open>The \<open>private_key_hex\<close> property.\<close>

definition identity_private_key_hex :: "agent_identity \<Rightarrow> string option" where
  "identity_private_key_hex a =
     (if opt_str (id_private_key_hex a) \<noteq> [] then id_private_key_hex a
      else map_option to_hex (id_private_key_obj a))"

definition identity_key :: "agent_identity \<Rightarrow> signing_key option" where
  "identity_key a = map_option
     (\<lambda>priv. \<lparr>sk_private = priv, sk_pub_hex = id_public_key_hex a, sk_agent_id = id_agent_id a,
             sk_did = id_did a\<rparr>) (id_private_key_obj a)"

definition sign_action ::
  "py_env \<Rightarrow> rat \<Rightarrow> agent_identity \<Rightarrow> string \<Rightarrow> pyval \<Rightarrow> pyval option \<Rightarrow> pydict py" where
  "sign_action E now a action nonce data = sign_action_request E now action nonce data (identity_key a)"

definition verify_action ::
  "py_env \<Rightarrow> rat \<Rightarrow> agent_identity \<Rightarrow> pydict \<Rightarrow> string \<Rightarrow> (bool \<times> string) py" where
  "verify_action E now a proof expected_action = verify_action_request E now proof expected_action"

definition identity_to_dict :: "agent_identity \<Rightarrow> pydict" where
  "identity_to_dict a =
     [(''agent_name'', PStr (id_agent_name a)),
      (''did'', PStr (id_did a)),
      (''authority'', PStr (id_authority a)),
      (''agent_id'', PStr (id_agent_id a)),
      (''public_key_hex'', PStr (id_public_key_hex a))]"

section \<open>Identities hold a consistent key\<close>

definition identity_ok :: "py_env \<Rightarrow> agent_identity \<Rightarrow> bool" where
  "identity_ok E a \<longleftrightarrow> (\<forall>priv. id_private_key_obj a = Some priv \<longrightarrow>
     length priv = 32 \<and> id_public_key_hex a = to_hex (ed25519_public E priv) \<and>
     key_fingerprint E (id_public_key_hex a) = Inr (id_agent_id a))"

lemma from_private_bytes_Inr [simp]:
  "from_private_bytes b = Inr p \<longleftrightarrow> p = b \<and> length b = 32"
  by (auto simp: from_private_bytes_def)

lemma load_private_key_consistent:
  "load_private_key E = Inr k \<Longrightarrow> length (sk_private k) = 32 \<and>
     sk_pub_hex k = to_hex (ed25519_public E (sk_private k)) \<and>
     key_fingerprint E (sk_pub_hex k) = Inr (sk_agent_id k)"
  by (auto simp: load_private_key_def Let_def split: if_split_asm)

lemma ephemeral_identity_ok: "ephemeral_identity E n h = Inr a \<Longrightarrow> identity_ok E a \<and> id_private_key_obj a \<noteq> None"
  by (auto simp: ephemeral_identity_def Let_def identity_ok_def)

lemma load_identity_ok: "load_identity E n h = Inr a \<Longrightarrow> identity_ok E a"
proof (cases "opt_str h = []")
  case True
  assume a: "load_identity E n h = Inr a"
  show ?thesis
  proof (cases "load_private_key E")
    case (Inl e)
    then show ?thesis using a True by (auto simp: load_identity_def identity_ok_def split: if_split_asm)
  next
    case (Inr k)
    then show ?thesis using a True load_private_key_consistent [OF Inr]
      by (auto simp: load_identity_def identity_ok_def)
  qed
next
  case False
  assume "load_identity E n h = Inr a"
  then show ?thesis using False ephemeral_identity_ok by (auto simp: load_identity_def)
qed

lemma identity_key_ok:
  "identity_ok E a \<Longrightarrow> id_private_key_obj a = Some priv \<Longrightarrow> ed25519_ok E priv \<Longrightarrow>
     \<exists>k. identity_key a = Some k \<and> key_ok E k"
  by (auto simp: identity_key_def key_ok_def identity_ok_def)

lemma sign_action_authentic:
  assumes "\<not> is_mock E" "identity_ok E a" "id_private_key_obj a = Some priv" "ed25519_ok E priv"
    and "clock_text_ok E (now + 300)" "t \<le> now + 300" "sign_action E now a action n d = Inr p"
  shows "authentic E t p action"
proof -
  obtain k where "identity_key a = Some k" "key_ok E k"
    using identity_key_ok [OF assms(2-4)] by blast
  then show ?thesis using sign_then_authentic assms by (simp add: sign_action_def)
qed

text \<open>A non-mock agent with a key always manages to sign.\<close>

lemma sign_action_total:
  "\<not> is_mock E \<Longrightarrow> id_private_key_obj a \<noteq> None \<Longrightarrow> \<exists>p. sign_action E now a action n d = Inr p"
  by (auto simp: sign_action_def identity_key_def sign_action_request_with_key)

end
