(* ===== verification/TeeAuthorization.thy ===== *)
theory TeeAuthorization
  imports Identity
begin

text \<open>
  \<^verbatim>\<open>src/tee_authorization.py\<close>: the gateway-signed receipt that binds a TEE routing decision to one
  worker request, its fingerprint, and its verification. Receipts are dictionaries as received.
\<close>

definition RECEIPT_VERSION :: string where [py_consts]: "RECEIPT_VERSION = ''adn.tee_authorization/1''"

definition RECEIPT_ACTION :: string where [py_consts]: "RECEIPT_ACTION = ''TEE_AUTHORIZATION''"

definition tee_authorization_request_hash :: "py_env \<Rightarrow> pyval \<Rightarrow> pyval \<Rightarrow> pyval \<Rightarrow> string" where
  "tee_authorization_request_hash E to_agent_id action parameters =
     sha256 E (canonical E (PDict
       [(''to_agent_id'', to_agent_id),
        (''action'', action),
        (''parameters'', py_or parameters (PDict []))]))"

definition receipt_keys :: "string list" where
  "receipt_keys =
     [''v'', ''delegation_id'', ''tee_delegation_id'', ''status'', ''to_agent_id'', ''action'',
      ''request_hash'', ''credential_fingerprint'', ''credential_enforced'', ''build_config_id'',
      ''tee_result_digest'', ''gateway_key_id'', ''authorization_expires_at'', ''authorized_at'']"

definition receipt_body :: "pydict \<Rightarrow> pydict" where
  "receipt_body receipt = map (\<lambda>key. (key, dget receipt key PNone)) receipt_keys"

definition receipt_fingerprint :: "py_env \<Rightarrow> pydict \<Rightarrow> string" where
  "receipt_fingerprint E receipt = sha256 E (canonical E (PDict (receipt_body receipt)))"

text \<open>\<open>authorized_at\<close> is the first clock reading, the gateway's signature the second.\<close>

definition build_tee_authorization_receipt ::
  "py_env \<Rightarrow> (nat \<Rightarrow> rat) \<Rightarrow> agent_identity \<Rightarrow> string \<Rightarrow> pydict \<Rightarrow> pyval \<Rightarrow> pyval \<Rightarrow> pydict py" where
  "build_tee_authorization_receipt E clk gateway_identity gateway_key_id tee_result action parameters =
     (let delegation_id = dget tee_result ''delegation_id'' PNone;
          to_agent_id = dget tee_result ''routed_to'' PNone;
          authorization_expires_at = dget tee_result ''authorization_expires_at'' PNone
      in if \<not> truthy delegation_id \<or> \<not> truthy to_agent_id
         then Inl (ValueError ''TEE authorization requires delegation_id and routed_to'')
         else if gateway_key_id = []
         then Inl (ValueError ''TEE authorization requires gateway_key_id'')
         else if \<not> truthy authorization_expires_at
         then Inl (ValueError ''TEE authorization requires authorization_expires_at'')
         else
           let body =
             [(''v'', PStr RECEIPT_VERSION),
              (''delegation_id'', delegation_id),
              (''tee_delegation_id'', delegation_id),
              (''status'', dget tee_result ''status'' PNone),
              (''to_agent_id'', to_agent_id),
              (''action'', action),
              (''request_hash'', PStr (tee_authorization_request_hash E to_agent_id action parameters)),
              (''credential_fingerprint'', dget tee_result ''credential_fingerprint'' PNone),
              (''credential_enforced'', dget tee_result ''credential_enforced'' PNone),
              (''build_config_id'', dget tee_result ''build_config_id'' PNone),
              (''tee_result_digest'', PStr (sha256 E (canonical E (PDict tee_result)))),
              (''gateway_key_id'', PStr gateway_key_id),
              (''authorization_expires_at'', authorization_expires_at),
              (''authorized_at'', PStr (iso_format E (clk 0)))]
           in bindE (sign_action E (clk 1) gateway_identity RECEIPT_ACTION delegation_id (Some (PDict body)))
                (\<lambda>proof. Inr (body @
                   [(''gateway_public_key_hex'', dget proof ''public_key_hex'' PNone),
                    (''gateway_proof'', PDict proof)])))"

text \<open>One \<open>if cond: raise RuntimeError(msg)\<close>.\<close>

definition raise_if :: "bool \<Rightarrow> string \<Rightarrow> unit py" where
  "raise_if cond msg = (if cond then Inl (RuntimeError msg) else Inr ())"

lemma raise_if_Inr [simp]: "raise_if c m = Inr u \<longleftrightarrow> \<not> c"
  by (simp add: raise_if_def)

fun raise_first :: "(bool \<times> string) list \<Rightarrow> unit py" where
  "raise_first [] = Inr ()"
| "raise_first ((cond, msg) # rest) = bindE (raise_if cond msg) (\<lambda>_. raise_first rest)"

lemma raise_first_Inr [simp]: "raise_first cs = Inr u \<longleftrightarrow> (\<forall>(c, m) \<in> set cs. \<not> c)"
  by (induction cs) auto

text \<open>The checks on the body, in the order of the code, up to the date.\<close>

definition receipt_field_checks ::
  "pydict \<Rightarrow> string \<Rightarrow> pyval \<Rightarrow> pyval \<Rightarrow> pyval \<Rightarrow> (bool \<times> string) list" where
  "receipt_field_checks body expected_gateway_key_id expected_delegation_id expected_to_agent_id expected_action =
     [(dget body ''v'' PNone \<noteq> PStr RECEIPT_VERSION, ''TEE authorization receipt version invalid''),
      (dget body ''status'' PNone \<noteq> PStr ''ROUTED'', ''TEE authorization receipt status is not ROUTED''),
      (\<not> py_eq (dget body ''delegation_id'' PNone) expected_delegation_id, ''TEE authorization delegation_id mismatch''),
      (\<not> py_eq (dget body ''tee_delegation_id'' PNone) expected_delegation_id,
        ''TEE authorization TEE delegation_id mismatch''),
      (\<not> py_eq (dget body ''to_agent_id'' PNone) expected_to_agent_id, ''TEE authorization target mismatch''),
      (\<not> py_eq (dget body ''action'' PNone) expected_action, ''TEE authorization action mismatch''),
      (\<not> truthy (dget body ''credential_fingerprint'' PNone), ''TEE authorization credential fingerprint missing''),
      (dget body ''credential_enforced'' PNone \<noteq> PBool True, ''TEE authorization credential enforcement missing''),
      (\<not> truthy (dget body ''build_config_id'' PNone), ''TEE authorization build_config_id missing''),
      (\<not> truthy (dget body ''tee_result_digest'' PNone), ''TEE authorization T3N result digest missing''),
      (\<not> truthy (dget body ''gateway_key_id'' PNone), ''TEE authorization gateway_key_id missing''),
      (expected_gateway_key_id = [], ''TEE authorization expected gateway_key_id required''),
      (dget body ''gateway_key_id'' PNone \<noteq> PStr expected_gateway_key_id, ''TEE authorization gateway_key_id mismatch''),
      (\<not> truthy (dget body ''authorization_expires_at'' PNone),
        ''TEE authorization authorization_expires_at missing'')]"

text \<open>The expiry: a text that is no date is a \<open>RuntimeError\<close>, a value that is no text stays a \<open>TypeError\<close>.\<close>

definition receipt_expiry :: "py_env \<Rightarrow> pydict \<Rightarrow> rat py" where
  "receipt_expiry E body = (case fromisoformat E (dget body ''authorization_expires_at'' PNone) of
     Inl (ValueError m) \<Rightarrow> Inl (RuntimeError ''TEE authorization authorization_expires_at invalid'')
   | Inl e \<Rightarrow> Inl e
   | Inr t \<Rightarrow> Inr t)"

text \<open>The gateway's proof over the body.\<close>

definition check_gateway_proof :: "py_env \<Rightarrow> rat \<Rightarrow> pydict \<Rightarrow> pydict \<Rightarrow> string \<Rightarrow> unit py" where
  "check_gateway_proof E now receipt body expected_gateway_pubkey_hex =
     (case dget receipt ''gateway_proof'' PNone of
        PDict proof \<Rightarrow>
          bindE (raise_first
            [(dget receipt ''gateway_public_key_hex'' PNone \<noteq> PStr expected_gateway_pubkey_hex,
                ''TEE authorization gateway key mismatch''),
             (dget proof ''public_key_hex'' PNone \<noteq> PStr expected_gateway_pubkey_hex,
                ''TEE authorization proof signer mismatch'')]) (\<lambda>_.
          bindE (verify_action_request E now proof RECEIPT_ACTION) (\<lambda>(ok, err).
          raise_first
            [(\<not> ok, ''TEE authorization proof invalid: '' @ err),
             (dget proof ''data_hash'' PNone \<noteq> PStr (sha256 E (canonical E (PDict body))),
                ''TEE authorization body does not match signed hash'')]))
      | _ \<Rightarrow> Inl (RuntimeError ''TEE authorization gateway proof missing''))"

text \<open>The clock is read for the authorization's expiry, then for the proof's.\<close>

definition verify_tee_authorization_receipt ::
  "py_env \<Rightarrow> (nat \<Rightarrow> rat) \<Rightarrow> pyval \<Rightarrow> string \<Rightarrow> string \<Rightarrow> pyval \<Rightarrow> pyval \<Rightarrow> pyval \<Rightarrow> pyval \<Rightarrow> string \<Rightarrow> pydict py"
where
  "verify_tee_authorization_receipt E clk receipt_val expected_gateway_pubkey_hex expected_gateway_key_id
     expected_delegation_id expected_to_agent_id expected_action expected_parameters
     expected_build_config_id =
     (case receipt_val of
        PDict receipt \<Rightarrow>
          let body = receipt_body receipt
          in bindE (raise_first (receipt_field_checks body expected_gateway_key_id
                      expected_delegation_id expected_to_agent_id expected_action)) (\<lambda>_.
             bindE (receipt_expiry E body) (\<lambda>authorization_expires.
             bindE (raise_first
               [(clk 0 > authorization_expires, ''TEE authorization authorization_expires_at expired''),
                (expected_build_config_id = [], ''TEE authorization expected build_config_id required''),
                (dget body ''build_config_id'' PNone \<noteq> PStr expected_build_config_id,
                   ''TEE authorization build_config_id mismatch''),
                (expected_parameters \<noteq> PNone \<and>
                   dget body ''request_hash'' PNone \<noteq>
                     PStr (tee_authorization_request_hash E expected_to_agent_id expected_action expected_parameters),
                   ''TEE authorization request_hash mismatch'')]) (\<lambda>_.
             bindE (check_gateway_proof E (clk 1) receipt body expected_gateway_pubkey_hex) (\<lambda>_.
             Inr receipt))))
      | _ \<Rightarrow> Inl (RuntimeError ''TEE authorization receipt missing''))"

section \<open>What an accepted receipt establishes\<close>

lemma receipt_body_dget [simp]: "k \<in> set receipt_keys \<Longrightarrow> dget (receipt_body r) k v = dget r k PNone"
  unfolding receipt_keys_def receipt_body_def by auto

lemma receipt_body_simps [simp]:
  "dget (receipt_body r) ''v'' x = dget r ''v'' PNone"
  "dget (receipt_body r) ''delegation_id'' x = dget r ''delegation_id'' PNone"
  "dget (receipt_body r) ''tee_delegation_id'' x = dget r ''tee_delegation_id'' PNone"
  "dget (receipt_body r) ''status'' x = dget r ''status'' PNone"
  "dget (receipt_body r) ''to_agent_id'' x = dget r ''to_agent_id'' PNone"
  "dget (receipt_body r) ''action'' x = dget r ''action'' PNone"
  "dget (receipt_body r) ''request_hash'' x = dget r ''request_hash'' PNone"
  "dget (receipt_body r) ''credential_fingerprint'' x = dget r ''credential_fingerprint'' PNone"
  "dget (receipt_body r) ''credential_enforced'' x = dget r ''credential_enforced'' PNone"
  "dget (receipt_body r) ''build_config_id'' x = dget r ''build_config_id'' PNone"
  "dget (receipt_body r) ''tee_result_digest'' x = dget r ''tee_result_digest'' PNone"
  "dget (receipt_body r) ''gateway_key_id'' x = dget r ''gateway_key_id'' PNone"
  "dget (receipt_body r) ''authorization_expires_at'' x = dget r ''authorization_expires_at'' PNone"
  "dget (receipt_body r) ''authorized_at'' x = dget r ''authorized_at'' PNone"
  by (rule receipt_body_dget; simp add: receipt_keys_def)+

lemma receipt_expiry_Inr:
  "receipt_expiry E body = Inr t \<longleftrightarrow>
     (\<exists>s. dget body ''authorization_expires_at'' PNone = PStr s \<and> iso_parse E s = Some t)"
proof (cases "fromisoformat E (dget body ''authorization_expires_at'' PNone)")
  case (Inl e)
  then have "\<not> (\<exists>s. dget body ''authorization_expires_at'' PNone = PStr s \<and> iso_parse E s = Some t)"
    using fromisoformat_Inr [of E "dget body ''authorization_expires_at'' PNone" t] by simp
  moreover have "receipt_expiry E body \<noteq> Inr t" using Inl by (cases e) (simp_all add: receipt_expiry_def)
  ultimately show ?thesis by blast
next
  case (Inr u)
  then show ?thesis
    using fromisoformat_Inr [of E "dget body ''authorization_expires_at'' PNone" u]
    by (auto simp: receipt_expiry_def)
qed

text \<open>
  The contract of the receipt (\<^verbatim>\<open>docs/architecture/security-invariants.md\<close>, worker execution
  gate): target, action, enforcement, gateway key, build configuration, expiry, and the gateway's
  signature over exactly this body.
\<close>

definition receipt_authorizes ::
  "py_env \<Rightarrow> (nat \<Rightarrow> rat) \<Rightarrow> pydict \<Rightarrow> string \<Rightarrow> string \<Rightarrow> pyval \<Rightarrow> pyval \<Rightarrow> pyval \<Rightarrow> pyval \<Rightarrow> string \<Rightarrow> bool"
where
  "receipt_authorizes E clk r gateway_pub key_id delegation_id to_agent action parameters build \<longleftrightarrow>
     dget r ''v'' PNone = PStr RECEIPT_VERSION \<and>
     dget r ''status'' PNone = PStr ''ROUTED'' \<and>
     py_eq (dget r ''delegation_id'' PNone) delegation_id \<and>
     py_eq (dget r ''tee_delegation_id'' PNone) delegation_id \<and>
     py_eq (dget r ''to_agent_id'' PNone) to_agent \<and>
     py_eq (dget r ''action'' PNone) action \<and>
     truthy (dget r ''credential_fingerprint'' PNone) \<and>
     dget r ''credential_enforced'' PNone = PBool True \<and>
     truthy (dget r ''tee_result_digest'' PNone) \<and>
     key_id \<noteq> [] \<and> dget r ''gateway_key_id'' PNone = PStr key_id \<and>
     build \<noteq> [] \<and> dget r ''build_config_id'' PNone = PStr build \<and>
     (\<exists>s t. dget r ''authorization_expires_at'' PNone = PStr s \<and> s \<noteq> [] \<and> iso_parse E s = Some t \<and> clk 0 \<le> t) \<and>
     (parameters \<noteq> PNone \<longrightarrow>
        dget r ''request_hash'' PNone = PStr (tee_authorization_request_hash E to_agent action parameters)) \<and>
     (\<exists>proof. dget r ''gateway_proof'' PNone = PDict proof \<and>
        dget r ''gateway_public_key_hex'' PNone = PStr gateway_pub \<and>
        dget proof ''public_key_hex'' PNone = PStr gateway_pub \<and>
        authentic E (clk 1) proof RECEIPT_ACTION \<and>
        dget proof ''data_hash'' PNone = PStr (receipt_fingerprint E r))"

lemma check_gateway_proof_Inr:
  "check_gateway_proof E now r body pk = Inr u \<longleftrightarrow>
     (\<exists>proof. dget r ''gateway_proof'' PNone = PDict proof \<and>
        dget r ''gateway_public_key_hex'' PNone = PStr pk \<and>
        dget proof ''public_key_hex'' PNone = PStr pk \<and>
        authentic E now proof RECEIPT_ACTION \<and>
        dget proof ''data_hash'' PNone = PStr (sha256 E (canonical E (PDict body))))"
proof (cases "dget r ''gateway_proof'' PNone")
  case (PDict pf)
  have "(\<exists>err. verify_action_request E now pf RECEIPT_ACTION = Inr (True, err)) \<longleftrightarrow> authentic E now pf RECEIPT_ACTION"
    by (simp add: verify_action_request_iff)
  moreover have "check_gateway_proof E now r body pk = Inr u \<longleftrightarrow>
      dget r ''gateway_public_key_hex'' PNone = PStr pk \<and> dget pf ''public_key_hex'' PNone = PStr pk \<and>
      (\<exists>err. verify_action_request E now pf RECEIPT_ACTION = Inr (True, err)) \<and>
      dget pf ''data_hash'' PNone = PStr (sha256 E (canonical E (PDict body)))"
    using PDict by (auto simp: check_gateway_proof_def)
  ultimately show ?thesis using PDict by simp
qed (auto simp: check_gateway_proof_def)

lemma verify_tee_authorization_receipt_iff:
  "verify_tee_authorization_receipt E clk rv pk kid did to act params build = Inr r \<longleftrightarrow>
     rv = PDict r \<and> receipt_authorizes E clk r pk kid did to act params build"
proof (cases rv)
  case (PDict r0)
  have not_less: "\<not> t < clk 0 \<longleftrightarrow> clk 0 \<le> t" for t by auto
  show ?thesis
    unfolding PDict verify_tee_authorization_receipt_def receipt_authorizes_def receipt_field_checks_def
      receipt_fingerprint_def
    by (auto simp: Let_def receipt_expiry_Inr check_gateway_proof_Inr not_less)
qed (auto simp: verify_tee_authorization_receipt_def)

end
