(* ===== verification/ReplayLedger.thy ===== *)
theory ReplayLedger
  imports AuthAdapter
begin

text \<open>
  \<^verbatim>\<open>src/replay_ledger.py\<close>: the durable SQLite table of request executions and consumed results.
  The table is a map from the primary key \<open>replay_key\<close> to the row; one public function is one
  transaction, so a function of the model takes the table and returns the answer with the new table,
  and an exception leaves the table as it was (the connection is closed without a commit). The
  clock, the fresh execution token and the integrity key are arguments.
\<close>

definition REQUEST_KIND :: string where [py_consts]: "REQUEST_KIND = ''request''"
definition RESULT_KIND :: string where [py_consts]: "RESULT_KIND = ''result''"
definition REQUEST_STATE_RUNNING :: string where [py_consts]: "REQUEST_STATE_RUNNING = ''RUNNING''"
definition REQUEST_STATE_COMPLETED :: string where [py_consts]: "REQUEST_STATE_COMPLETED = ''COMPLETED''"
definition REQUEST_STATE_RETRYABLE_FAILURE :: string where
  [py_consts]: "REQUEST_STATE_RETRYABLE_FAILURE = ''RETRYABLE_FAILURE''"
definition REQUEST_STATE_FINAL_FAILURE :: string where
  [py_consts]: "REQUEST_STATE_FINAL_FAILURE = ''FINAL_FAILURE''"
definition RESULT_STATE_CONSUMED :: string where [py_consts]: "RESULT_STATE_CONSUMED = ''CONSUMED''"
definition RUNNING_LEASE_SECONDS :: rat where [py_consts]: "RUNNING_LEASE_SECONDS = 5 * 60"
definition RESULT_REPLAY_TTL_SECONDS :: rat where [py_consts]: "RESULT_REPLAY_TTL_SECONDS = 15 * 60"
definition MAX_REQUEST_ATTEMPTS :: int where [py_consts]: "MAX_REQUEST_ATTEMPTS = 2"
definition CONNECT_RETRY_ATTEMPTS :: nat where [py_consts]: "CONNECT_RETRY_ATTEMPTS = 8"
definition CONNECT_RETRY_DELAY_SECONDS :: rat where
  [py_consts]: "CONNECT_RETRY_DELAY_SECONDS = 5 / 100"
definition INTEGRITY_DOMAIN_PREFIX :: string where
  [py_consts]: "INTEGRITY_DOMAIN_PREFIX = ''adn.replay-ledger.integrity''"

section \<open>Rows\<close>

record ledger_entry =
  le_replay_key :: string
  le_kind :: string
  le_state :: string
  le_attempt_count :: int
  le_max_attempts :: int
  le_first_seen_at :: rat
  le_updated_at :: rat
  le_expires_at :: rat
  le_owner_agent_id :: "string option"
  le_delegation_id :: "string option"
  le_payload_fingerprint :: "string option"
  le_integrity_mac :: "string option"
  le_last_error :: "string option"
  le_execution_token :: "string option"

type_synonym ledger = "string \<rightharpoonup> ledger_entry"

definition opt_val :: "string option \<Rightarrow> pyval" where
  "opt_val x = (case x of None \<Rightarrow> PNone | Some s \<Rightarrow> PStr s)"

lemma opt_val_inject [simp]: "opt_val a = opt_val b \<longleftrightarrow> a = b"
  by (auto simp: opt_val_def split: option.split)

text \<open>
  The record a MAC covers, before it is stored: the delegation id comes from the wire and may be
  any value; SQLite stores a number in a \<open>TEXT\<close> column as its text and refuses a container.
\<close>

definition stable_body ::
  "string \<Rightarrow> string \<Rightarrow> string \<Rightarrow> int \<Rightarrow> int \<Rightarrow> rat \<Rightarrow> rat \<Rightarrow> rat \<Rightarrow> pyval \<Rightarrow> pyval \<Rightarrow> pyval \<Rightarrow>
    string option \<Rightarrow> string option \<Rightarrow> pydict"
where
  "stable_body replay_key kind state attempt_count max_attempts first_seen_at updated_at expires_at
     owner_agent_id delegation_id payload_fingerprint last_error execution_token =
     [(''replay_key'', PStr replay_key),
      (''kind'', PStr kind),
      (''state'', PStr state),
      (''attempt_count'', PInt attempt_count),
      (''max_attempts'', PInt max_attempts),
      (''first_seen_at'', PFloat first_seen_at),
      (''updated_at'', PFloat updated_at),
      (''expires_at'', PFloat expires_at),
      (''owner_agent_id'', owner_agent_id),
      (''delegation_id'', delegation_id),
      (''payload_fingerprint'', payload_fingerprint),
      (''last_error'', opt_val last_error),
      (''execution_token'', opt_val execution_token)]"

definition stable_record_payload :: "py_env \<Rightarrow> pydict \<Rightarrow> string" where
  "stable_record_payload E body = json_dumps (float_repr E) (PDict body)"

definition entry_body :: "ledger_entry \<Rightarrow> pydict" where
  "entry_body e = stable_body (le_replay_key e) (le_kind e) (le_state e) (le_attempt_count e)
     (le_max_attempts e) (le_first_seen_at e) (le_updated_at e) (le_expires_at e)
     (opt_val (le_owner_agent_id e)) (opt_val (le_delegation_id e)) (opt_val (le_payload_fingerprint e))
     (le_last_error e) (le_execution_token e)"

definition sql_text :: "py_env \<Rightarrow> pyval \<Rightarrow> string option py" where
  "sql_text E v = (case v of
     PNone \<Rightarrow> Inr None
   | PBool b \<Rightarrow> Inr (Some (if b then ''1'' else ''0''))
   | PInt i \<Rightarrow> if - (2 ^ 63) \<le> i \<and> i < 2 ^ 63 then Inr (Some (int_text i))
       else Inl (OverflowError ''Python int too large to convert to SQLite INTEGER'')
   | PFloat q \<Rightarrow> Inr (Some (sqlite_real_text E q))
   | PStr s \<Rightarrow> Inr (Some s)
   | _ \<Rightarrow> Inl (SqliteError (''Error binding parameter: type '' @ repr_str (py_type v) @ '' is not supported'')))"

section \<open>Integrity\<close>

definition compute_integrity_mac :: "py_env \<Rightarrow> pydict \<Rightarrow> string option \<Rightarrow> string option py" where
  "compute_integrity_mac E body integrity_secret_hex =
     (if opt_str integrity_secret_hex = [] then Inr None
      else bindE (bytes_fromhex (opt_str integrity_secret_hex)) (\<lambda>secret.
        Inr (Some (hmac_sha256_hex E secret (utf8 (stable_record_payload E body))))))"

definition derive_integrity_key :: "py_env \<Rightarrow> string option \<Rightarrow> string \<Rightarrow> string option py" where
  "derive_integrity_key E secret_hex domain =
     (if opt_str secret_hex = [] then Inr None
      else bindE (bytes_fromhex (opt_str secret_hex)) (\<lambda>secret.
        Inr (Some (hmac_sha256_hex E secret (utf8 (INTEGRITY_DOMAIN_PREFIX @ ''.'' @ domain))))))"

definition verify_integrity :: "py_env \<Rightarrow> ledger_entry \<Rightarrow> string option \<Rightarrow> unit py" where
  "verify_integrity E e integrity_secret_hex =
     (if opt_str integrity_secret_hex = [] then Inr ()
      else bindE (compute_integrity_mac E (entry_body e) integrity_secret_hex) (\<lambda>expected.
        if opt_str (le_integrity_mac e) = []
        then Inl (RuntimeError ''Replay ledger integrity check failed'')
        else if \<exists>c \<in> set (opt_str (le_integrity_mac e)). ord c \<ge> 128
        then Inl (TypeError ''comparing strings with non-ASCII characters is not supported'')
        else if opt_str (le_integrity_mac e) \<noteq> opt_str expected
        then Inl (RuntimeError ''Replay ledger integrity check failed'')
        else Inr ()))"

section \<open>Statements\<close>

text \<open>\<open>DELETE FROM replay_entries WHERE expires_at <= ?\<close>\<close>

definition purge :: "rat \<Rightarrow> ledger \<Rightarrow> ledger" where
  "purge now L = (\<lambda>k. case L k of
     Some e \<Rightarrow> if le_expires_at e \<le> now then None else Some e
   | None \<Rightarrow> None)"

definition write_record ::
  "py_env \<Rightarrow> ledger \<Rightarrow> string \<Rightarrow> string \<Rightarrow> string \<Rightarrow> int \<Rightarrow> int \<Rightarrow> rat \<Rightarrow> rat \<Rightarrow> rat \<Rightarrow> string \<Rightarrow>
    pyval \<Rightarrow> string \<Rightarrow> string option \<Rightarrow> string option \<Rightarrow> string option \<Rightarrow> ledger py"
where
  "write_record E L replay_key kind state attempt_count max_attempts first_seen_at updated_at expires_at
     owner_agent_id delegation_id payload_fingerprint integrity_secret_hex last_error execution_token =
     bindE (compute_integrity_mac E
         (stable_body replay_key kind state attempt_count max_attempts first_seen_at updated_at expires_at
            (PStr owner_agent_id) delegation_id (PStr payload_fingerprint) last_error execution_token)
         integrity_secret_hex) (\<lambda>mac.
     bindE (sql_text E delegation_id) (\<lambda>stored_id.
     Inr (L(replay_key \<mapsto>
       \<lparr>le_replay_key = replay_key, le_kind = kind, le_state = state,
        le_attempt_count = attempt_count, le_max_attempts = max_attempts,
        le_first_seen_at = first_seen_at, le_updated_at = updated_at, le_expires_at = expires_at,
        le_owner_agent_id = Some owner_agent_id, le_delegation_id = stored_id,
        le_payload_fingerprint = Some payload_fingerprint, le_integrity_mac = mac,
        le_last_error = last_error, le_execution_token = execution_token\<rparr>))))"

text \<open>A transaction: the answer and the new table, or the exception and the old table.\<close>

definition transact :: "ledger \<Rightarrow> ('a \<times> ledger) py \<Rightarrow> 'a py \<times> ledger" where
  "transact L m = (case m of Inl e \<Rightarrow> (Inl e, L) | Inr (a, L') \<Rightarrow> (Inr a, L'))"

section \<open>Request executions\<close>

definition begin_existing ::
  "py_env \<Rightarrow> rat \<Rightarrow> string \<Rightarrow> ledger \<Rightarrow> ledger_entry \<Rightarrow> string \<Rightarrow> rat \<Rightarrow> string \<Rightarrow> pyval \<Rightarrow> string \<Rightarrow>
    string option \<Rightarrow> ((bool \<times> string \<times> string option) \<times> ledger) py"
where
  "begin_existing E now token L row replay_key replay_expires_at owner_agent_id delegation_id
     payload_fingerprint secret =
     bindE (verify_integrity E row secret) (\<lambda>_.
       let state = le_state row; attempt_count = le_attempt_count row; max_attempts = le_max_attempts row;
           expires_at = min (le_expires_at row) replay_expires_at
       in if state = REQUEST_STATE_COMPLETED
          then Inr ((False, ''Delegation request replay detected'', None), L)
          else if state = REQUEST_STATE_FINAL_FAILURE
          then Inr ((False, ''Delegation request reached final failure'', None), L)
          else if state = REQUEST_STATE_RUNNING \<and> now - le_updated_at row < RUNNING_LEASE_SECONDS
          then Inr ((False, ''Delegation request already running'', None), L)
          else if attempt_count \<ge> max_attempts
          then bindE (write_record E L replay_key REQUEST_KIND REQUEST_STATE_FINAL_FAILURE
                 attempt_count max_attempts (le_first_seen_at row) now expires_at owner_agent_id
                 delegation_id payload_fingerprint secret
                 (Some ''Delegation request retry limit exceeded'') None)
               (\<lambda>L'. Inr ((False, ''Delegation request retry limit exceeded'', None), L'))
          else bindE (write_record E L replay_key REQUEST_KIND REQUEST_STATE_RUNNING
                 (attempt_count + 1) max_attempts (le_first_seen_at row) now expires_at owner_agent_id
                 delegation_id payload_fingerprint secret None (Some token))
               (\<lambda>L'. Inr ((True, [], Some token), L')))"

definition begin_request_execution ::
  "py_env \<Rightarrow> rat \<Rightarrow> string \<Rightarrow> ledger \<Rightarrow> string \<Rightarrow> rat \<Rightarrow> string \<Rightarrow> pyval \<Rightarrow> string \<Rightarrow> string option \<Rightarrow>
    (bool \<times> string \<times> string option) py \<times> ledger"
where
  "begin_request_execution E now token L replay_key replay_expires_at owner_agent_id delegation_id
     payload_fingerprint secret =
     (if replay_key = [] then (Inr (False, ''Delegation request replay key missing'', None), L)
      else transact L
        (let L1 = purge now L
         in case L1 replay_key of
              None \<Rightarrow> bindE (write_record E L1 replay_key REQUEST_KIND REQUEST_STATE_RUNNING 1
                  MAX_REQUEST_ATTEMPTS now now replay_expires_at owner_agent_id delegation_id
                  payload_fingerprint secret None (Some token))
                (\<lambda>L2. Inr ((True, [], Some token), L2))
            | Some row \<Rightarrow> begin_existing E now token L1 row replay_key replay_expires_at
                owner_agent_id delegation_id payload_fingerprint secret))"

text \<open>A stored token that is not the caller's blocks heartbeats and finalization.\<close>

definition foreign_token :: "ledger_entry \<Rightarrow> string option \<Rightarrow> bool" where
  "foreign_token row execution_token \<longleftrightarrow>
     opt_str (le_execution_token row) \<noteq> [] \<and> le_execution_token row \<noteq> execution_token"

definition heartbeat_request_execution ::
  "py_env \<Rightarrow> rat \<Rightarrow> ledger \<Rightarrow> string \<Rightarrow> string option \<Rightarrow> string option \<Rightarrow> bool py \<times> ledger"
where
  "heartbeat_request_execution E now L replay_key secret execution_token =
     (if replay_key = [] then (Inr False, L)
      else transact L
        (case L replay_key of
           None \<Rightarrow> Inr (False, L)
         | Some row \<Rightarrow>
             bindE (verify_integrity E row secret) (\<lambda>_.
               if le_state row \<noteq> REQUEST_STATE_RUNNING then Inr (False, L)
               else if foreign_token row execution_token then Inr (False, L)
               else bindE (write_record E L replay_key REQUEST_KIND REQUEST_STATE_RUNNING
                      (le_attempt_count row) (le_max_attempts row) (le_first_seen_at row) now
                      (le_expires_at row) (opt_str (le_owner_agent_id row))
                      (PStr (opt_str (le_delegation_id row))) (opt_str (le_payload_fingerprint row))
                      secret (le_last_error row) (le_execution_token row))
                    (\<lambda>L'. Inr (True, L')))))"

definition finalize_request_execution ::
  "py_env \<Rightarrow> rat \<Rightarrow> ledger \<Rightarrow> string \<Rightarrow> string \<Rightarrow> string option \<Rightarrow> string option \<Rightarrow> string option \<Rightarrow>
    bool py \<times> ledger"
where
  "finalize_request_execution E now L replay_key final_state secret last_error execution_token =
     (if replay_key = [] then (Inr False, L)
      else transact L
        (case L replay_key of
           None \<Rightarrow> Inr (False, L)
         | Some row \<Rightarrow>
             bindE (verify_integrity E row secret) (\<lambda>_.
               if foreign_token row execution_token then Inr (False, L)
               else let exhausted = (final_state = REQUEST_STATE_RETRYABLE_FAILURE \<and>
                          le_attempt_count row \<ge> le_max_attempts row);
                        next_state = (if exhausted then REQUEST_STATE_FINAL_FAILURE else final_state);
                        error = (if exhausted \<and> opt_str last_error = []
                          then Some ''Delegation request retry limit exceeded'' else last_error)
                    in bindE (write_record E L replay_key REQUEST_KIND next_state
                      (le_attempt_count row) (le_max_attempts row) (le_first_seen_at row) now
                      (le_expires_at row) (opt_str (le_owner_agent_id row))
                      (PStr (opt_str (le_delegation_id row))) (opt_str (le_payload_fingerprint row))
                      secret error None)
                    (\<lambda>L'. Inr (True, L')))))"

section \<open>Consumed results\<close>

text \<open>\<open>float(expires_at or (now_ts + RESULT_REPLAY_TTL_SECONDS))\<close>\<close>

definition effective_expiry :: "rat \<Rightarrow> rat option \<Rightarrow> rat" where
  "effective_expiry now expires_at = (case expires_at of
     Some t \<Rightarrow> if t = 0 then now + RESULT_REPLAY_TTL_SECONDS else t
   | None \<Rightarrow> now + RESULT_REPLAY_TTL_SECONDS)"

definition consume_result_replay ::
  "py_env \<Rightarrow> rat \<Rightarrow> ledger \<Rightarrow> string \<Rightarrow> string \<Rightarrow> pyval \<Rightarrow> string \<Rightarrow> rat option \<Rightarrow> string option \<Rightarrow>
    (bool \<times> string) py \<times> ledger"
where
  "consume_result_replay E now L replay_key owner_agent_id delegation_id payload_fingerprint expires_at secret =
     (if replay_key = [] then (Inr (False, ''result replay key missing''), L)
      else if opt_str secret = [] then (Inr (False, ''result replay integrity key missing''), L)
      else transact L
        (let L1 = purge now L
         in case L1 replay_key of
              Some row \<Rightarrow> bindE (verify_integrity E row secret) (\<lambda>_.
                Inr ((False, ''result replay already consumed''), L1))
            | None \<Rightarrow> bindE (write_record E L1 replay_key RESULT_KIND RESULT_STATE_CONSUMED 1 1 now now
                  (effective_expiry now expires_at) owner_agent_id delegation_id payload_fingerprint
                  secret None None)
                (\<lambda>L2. Inr ((True, []), L2))))"

section \<open>Opening the database\<close>

text \<open>
  \<open>_connect\<close>: one attempt opens the database, fails with an operational error of the statements that
  prepare it, or raises something else (\<open>Connect_raised\<close>: any exception of \<open>sqlite3.connect\<close> itself, or
  another class of exception). A locked or busy database is retried with a growing pause, everything
  else is raised at once. The result is the outcome and the pauses slept.
\<close>

datatype connect_outcome = Connected | OperationalError string | Connect_raised py_error

definition retryable :: "string \<Rightarrow> bool" where
  "retryable msg \<longleftrightarrow> contains (py_lower msg) ''locked'' \<or> contains (py_lower msg) ''busy''"

fun connect_loop :: "(nat \<Rightarrow> connect_outcome) \<Rightarrow> nat \<Rightarrow> nat \<Rightarrow> string option \<Rightarrow> unit py \<times> rat list" where
  "connect_loop outcome attempt 0 last_error = (case last_error of
     Some msg \<Rightarrow> (Inl (SqliteError msg), [])
   | None \<Rightarrow> (Inl (RuntimeError ''Unable to open replay ledger''), []))"
| "connect_loop outcome attempt (Suc left) last_error = (case outcome attempt of
     Connected \<Rightarrow> (Inr (), [])
   | Connect_raised e \<Rightarrow> (Inl e, [])
   | OperationalError msg \<Rightarrow>
       if \<not> retryable msg then (Inl (SqliteError msg), [])
       else (case connect_loop outcome (Suc attempt) left (Some msg) of
         (r, slept) \<Rightarrow> (r, CONNECT_RETRY_DELAY_SECONDS * of_nat (attempt + 1) # slept)))"

definition connect :: "(nat \<Rightarrow> connect_outcome) \<Rightarrow> unit py \<times> rat list" where
  "connect outcome = connect_loop outcome 0 CONNECT_RETRY_ATTEMPTS None"

end
