(* ===== verification/LedgerConfig.thy ===== *)
theory LedgerConfig
  imports ReplayLedger
begin

text \<open>
  \<^verbatim>\<open>src/replay_ledger.py\<close>, the configuration of the integrity key and the opening of the database
  file. Paths are POSIX paths. The lemmas show that a live process only ever uses a key file that
  passed every ownership and permission check, and that opening the database ends.
\<close>

section \<open>The integrity key\<close>

text \<open>\<open>Path(p).is_absolute()\<close> and \<open>Path(p).parent\<close>.\<close>

definition path_is_absolute :: "string \<Rightarrow> bool" where
  "path_is_absolute p \<longleftrightarrow> startswith p ''/''"

fun split_slash :: "string \<Rightarrow> string \<Rightarrow> string list" where
  "split_slash cur [] = [cur]"
| "split_slash cur (c # cs) =
     (if c = CHR 0x2F then cur # split_slash [] cs else split_slash (cur @ [c]) cs)"

definition path_parts :: "string \<Rightarrow> string list" where
  "path_parts p = filter (\<lambda>part. part \<noteq> [] \<and> part \<noteq> ''.'') (split_slash [] p)"

definition path_parent :: "string \<Rightarrow> string" where
  "path_parent p = (let parts = join ''/'' (butlast (path_parts p))
     in if path_is_absolute p then ''/'' @ parts else str_or parts ''.'')"

definition KEY_FILE :: string where
  [py_consts]: "KEY_FILE = ''ADN_REPLAY_LEDGER_INTEGRITY_KEY_FILE''"

definition KEY_HEX :: string where
  [py_consts]: "KEY_HEX = ''ADN_REPLAY_LEDGER_INTEGRITY_KEY_HEX''"

text \<open>The ownership test, on a platform that has user ids.\<close>

definition check_owner :: "py_env \<Rightarrow> file_status \<Rightarrow> file_status \<Rightarrow> unit py" where
  "check_owner E link_stat parent_stat = (case os_geteuid (filesystem E) of
     None \<Rightarrow> Inr ()
   | Some expected_uid \<Rightarrow>
       if st_uid link_stat \<noteq> expected_uid
       then Inl (RuntimeError (KEY_FILE @ '' must be owned by the service user''))
       else if st_uid parent_stat \<noteq> expected_uid
       then Inl (RuntimeError (KEY_FILE @ '' parent must be owned by the service user''))
       else Inr ())"

definition validate_live_integrity_key_file :: "py_env \<Rightarrow> string \<Rightarrow> unit py" where
  "validate_live_integrity_key_file E key_file =
     (if \<not> path_is_absolute key_file
      then Inl (RuntimeError (KEY_FILE @ '' must be absolute in live mode''))
      else (case os_lstat (filesystem E) key_file of
          Inl exc \<Rightarrow> Inl (RuntimeError (KEY_FILE @ '' is not readable: '' @ exc_message exc))
        | Inr link_stat \<Rightarrow>
            if st_kind link_stat = Symbolic_Link
            then Inl (RuntimeError (KEY_FILE @ '' must not be a symlink in live mode''))
            else if st_kind link_stat \<noteq> Regular_File
            then Inl (RuntimeError (KEY_FILE @ '' must be a regular file in live mode''))
            else (case os_stat (filesystem E) (path_parent key_file) of
                Inl exc \<Rightarrow> Inl (RuntimeError (KEY_FILE @ '' parent is not readable: '' @ exc_message exc))
              | Inr parent_stat \<Rightarrow>
                  if os_is_nt (filesystem E) then Inr ()
                  else if st_mode link_stat \<noteq> 384
                  then Inl (RuntimeError (KEY_FILE @ '' must have 0600 permissions in live mode''))
                  else if st_mode parent_stat \<noteq> 448
                  then Inl (RuntimeError (KEY_FILE @ '' parent must have 0700 permissions in live mode''))
                  else check_owner E link_stat parent_stat)))"

text \<open>\<open>text.strip().removeprefix("0x").lower()\<close>\<close>

definition secret_text :: "string \<Rightarrow> string" where
  "secret_text s = py_lower (removeprefix (py_strip s) ''0x'')"

definition configured_integrity_secret_hex :: "py_env \<Rightarrow> string option py" where
  "configured_integrity_secret_hex E =
     (let raw_env_secret = py_strip (getenv_or E KEY_HEX []);
          key_file = py_strip (getenv_or E KEY_FILE [])
      in bindE (resolve_runtime_mode E None) (\<lambda>runtime_mode.
         if runtime_mode = ''live'' \<and> raw_env_secret \<noteq> []
         then Inl (RuntimeError (KEY_HEX @ '' is not accepted in live mode''))
         else if runtime_mode = ''live'' \<and> key_file = []
         then Inl (RuntimeError (KEY_FILE @ '' is required in live mode''))
         else if key_file \<noteq> []
         then bindE (if runtime_mode = ''live'' then validate_live_integrity_key_file E key_file else Inr ())
           (\<lambda>_. bindE (read_text (filesystem E) key_file) (\<lambda>t. Inr (Some (secret_text t))))
         else let s = py_lower (removeprefix raw_env_secret ''0x'')
           in Inr (if s = [] then None else Some s)))"

definition configured_integrity_key :: "py_env \<Rightarrow> string \<Rightarrow> string option py" where
  "configured_integrity_key E domain =
     bindE (configured_integrity_secret_hex E) (\<lambda>secret. derive_integrity_key E secret domain)"

text \<open>What the checks establish of a key file.\<close>

definition protected_key_file :: "py_env \<Rightarrow> string \<Rightarrow> bool" where
  "protected_key_file E key_file \<longleftrightarrow> path_is_absolute key_file \<and>
     (\<exists>link_stat parent_stat. os_lstat (filesystem E) key_file = Inr link_stat \<and>
        os_stat (filesystem E) (path_parent key_file) = Inr parent_stat \<and> st_kind link_stat = Regular_File \<and>
        (\<not> os_is_nt (filesystem E) \<longrightarrow> st_mode link_stat = 384 \<and> st_mode parent_stat = 448 \<and>
           (\<forall>uid. os_geteuid (filesystem E) = Some uid \<longrightarrow> st_uid link_stat = uid \<and> st_uid parent_stat = uid)))"

lemma check_owner_Inr:
  "check_owner E l p = Inr u \<longleftrightarrow> (\<forall>uid. os_geteuid (filesystem E) = Some uid \<longrightarrow> st_uid l = uid \<and> st_uid p = uid)"
  by (auto simp: check_owner_def split: option.split)

lemma validate_live_integrity_key_file_iff:
  "validate_live_integrity_key_file E p = Inr u \<longleftrightarrow> protected_key_file E p"
proof (cases "path_is_absolute p \<and> (\<exists>l. os_lstat (filesystem E) p = Inr l) \<and> (\<exists>q. os_stat (filesystem E) (path_parent p) = Inr q)")
  case True
  then obtain l q where "path_is_absolute p" "os_lstat (filesystem E) p = Inr l" "os_stat (filesystem E) (path_parent p) = Inr q"
    by blast
  then show ?thesis
    by (cases "st_kind l")
       (auto simp: validate_live_integrity_key_file_def protected_key_file_def check_owner_Inr)
next
  case False
  then show ?thesis
    unfolding validate_live_integrity_key_file_def protected_key_file_def
    by (auto split: sum.split)
qed

lemma live_secret_cases:
  assumes "resolve_runtime_mode E None = Inr ''live''" and "configured_integrity_secret_hex E = Inr s"
  shows "py_strip (getenv_or E KEY_HEX []) = [] \<and> protected_key_file E (py_strip (getenv_or E KEY_FILE [])) \<and>
    (\<exists>t. read_text (filesystem E) (py_strip (getenv_or E KEY_FILE [])) = Inr t \<and> s = Some (secret_text t))"
  using assms
  by (auto simp: configured_integrity_secret_hex_def Let_def validate_live_integrity_key_file_iff
      split: if_split_asm)

section \<open>Opening the database ends\<close>

lemma connect_loop_slept:
  "length (snd (connect_loop outcome a n err)) \<le> n \<and>
   (\<forall>i < length (snd (connect_loop outcome a n err)).
      snd (connect_loop outcome a n err) ! i = CONNECT_RETRY_DELAY_SECONDS * of_nat (a + i + 1))"
proof (induction outcome a n err rule: connect_loop.induct)
  case (1 outcome a err)
  then show ?case by (simp split: option.split)
next
  case (2 outcome a n err)
  show ?case
  proof (cases "outcome a")
    case Connected
    then show ?thesis by simp
  next
    case (Connect_raised e)
    then show ?thesis by simp
  next
    case (OperationalError msg)
    show ?thesis
    proof (cases "retryable msg")
      case True
      note IH = "2.IH" [OF OperationalError]
      obtain r slept where rs: "connect_loop outcome (Suc a) n (Some msg) = (r, slept)" by fastforce
      then have "length slept \<le> n"
        "\<forall>i < length slept. slept ! i = CONNECT_RETRY_DELAY_SECONDS * of_nat (Suc a + i + 1)"
        using IH True by auto
      then show ?thesis using OperationalError True rs by (auto simp: nth_Cons split: nat.split)
    qed (simp add: OperationalError)
  qed
qed

lemma connect_loop_ok:
  "fst (connect_loop outcome a n err) = Inr () \<longleftrightarrow>
     (\<exists>i < n. outcome (a + i) = Connected \<and>
        (\<forall>j < i. \<exists>msg. outcome (a + j) = OperationalError msg \<and> retryable msg))"
proof (induction outcome a n err rule: connect_loop.induct)
  case (1 outcome a err)
  then show ?case by (simp split: option.split)
next
  case (2 outcome a n err)
  have ex: "(\<exists>i < Suc n. P i) \<longleftrightarrow> P 0 \<or> (\<exists>i < n. P (Suc i))" for P :: "nat \<Rightarrow> bool"
    by (metis Suc_less_eq gr0_conv_Suc less_Suc_eq_0_disj)
  have all: "(\<forall>j < Suc i. Q j) \<longleftrightarrow> Q 0 \<and> (\<forall>j < i. Q (Suc j))" for i and Q :: "nat \<Rightarrow> bool"
    by (metis Suc_less_eq gr0_conv_Suc less_Suc_eq_0_disj)
  show ?case
  proof (cases "outcome a")
    case Connected
    then show ?thesis by (simp add: ex)
  next
    case (Connect_raised e)
    then show ?thesis by (auto simp: ex all)
  next
    case (OperationalError msg)
    show ?thesis
      using "2.IH" [OF OperationalError] OperationalError
      by (cases "retryable msg") (simp_all add: ex all case_prod_unfold)
  qed
qed

lemma sum_list_pauses:
  assumes "\<forall>i < length xs. xs ! i = c * of_nat (i + 1)" and "(c::rat) \<ge> 0" and "length xs \<le> n"
  shows "sum_list xs \<le> (\<Sum>i < n. c * of_nat (i + 1))"
proof -
  have "sum_list xs = (\<Sum>i < length xs. c * of_nat (i + 1))"
    using assms(1) by (simp add: sum_list_sum_nth atLeast0LessThan)
  also have "\<dots> \<le> (\<Sum>i < n. c * of_nat (i + 1))"
    using assms(2,3) by (intro sum_mono2) auto
  finally show ?thesis .
qed

lemma connect_bounded:
  "length (snd (connect outcome)) \<le> 8 \<and> sum_list (snd (connect outcome)) \<le> 9 / 5"
proof -
  have s: "length (snd (connect outcome)) \<le> 8"
    "\<forall>i < length (snd (connect outcome)). snd (connect outcome) ! i = CONNECT_RETRY_DELAY_SECONDS * of_nat (i + 1)"
    using connect_loop_slept [of outcome 0 8 None] by (simp_all add: connect_def CONNECT_RETRY_ATTEMPTS_def)
  have "(\<Sum>i < 8. CONNECT_RETRY_DELAY_SECONDS * of_nat (i + 1)) = 9 / 5"
    by (simp add: CONNECT_RETRY_DELAY_SECONDS_def eval_nat_numeral)
  then show ?thesis using s sum_list_pauses [OF s(2) _ s(1)] by (simp add: CONNECT_RETRY_DELAY_SECONDS_def)
qed

end
