(* ===== verification/Protocol.thy ===== *)
theory Protocol
  imports TeeAuthorization LedgerConfig
begin

text \<open>
  \<^verbatim>\<open>src/delegation_protocol.py\<close>: delegation requests and results, their signed wire form, and the
  validation a worker applies to a request. The fields come from the wire and may hold any value.
  The clock readings of a call are a function \<open>clk\<close>: reading \<open>i\<close> of the call is \<open>clk i\<close>; a reading
  that a branch skips keeps its number. Fresh UUIDs are arguments.
\<close>

section \<open>Statuses and actions\<close>

datatype delegation_action =
    DELEGATE_TASK | TASK_RESULT | TASK_FAILED | QUERY_AGENT | AGENT_INFO | REVOKE_DELEGATION

datatype delegation_status = PENDING | IN_PROGRESS | COMPLETED | FAILED | REVOKED

fun status_value :: "delegation_status \<Rightarrow> string" where
  "status_value PENDING = ''PENDING''"
| "status_value IN_PROGRESS = ''IN_PROGRESS''"
| "status_value COMPLETED = ''COMPLETED''"
| "status_value FAILED = ''FAILED''"
| "status_value REVOKED = ''REVOKED''"

definition all_statuses :: "delegation_status list" where
  "all_statuses = [PENDING, IN_PROGRESS, COMPLETED, FAILED, REVOKED]"

text \<open>\<open>DelegationStatus(v)\<close>\<close>

definition delegation_status_of :: "py_env \<Rightarrow> pyval \<Rightarrow> delegation_status py" where
  "delegation_status_of E v = (case find (\<lambda>s. v = PStr (status_value s)) all_statuses of
     Some s \<Rightarrow> Inr s
   | None \<Rightarrow> Inl (ValueError (py_repr (float_repr E) v @ '' is not a valid DelegationStatus'')))"

lemma delegation_status_of_value [simp]: "delegation_status_of E (PStr (status_value s)) = Inr s"
  by (cases s) (simp_all add: delegation_status_of_def all_statuses_def)

section \<open>Requests\<close>

record delegation_request =
  dr_delegation_id :: pyval
  dr_from_agent_id :: pyval
  dr_to_agent_id :: pyval
  dr_action :: pyval
  dr_task_description :: pyval
  dr_parameters :: pyval
  dr_nonce :: pyval
  dr_deadline :: pyval
  dr_issued_at :: pyval
  dr_expires_at :: pyval
  dr_tee_authorization :: pyval
  dr_required_capabilities :: pyval

text \<open>\<open>__post_init__\<close>: absent times are filled in from the clock.\<close>

definition request_post_init :: "rat \<Rightarrow> delegation_request \<Rightarrow> delegation_request py" where
  "request_post_init now r =
     (let r1 = (if dr_required_capabilities r = PNone then r\<lparr>dr_required_capabilities := PList []\<rparr> else r);
          r2 = (if py_eq (dr_issued_at r1) (PFloat 0) then r1\<lparr>dr_issued_at := PFloat now\<rparr> else r1)
      in if py_eq (dr_expires_at r2) (PFloat 0)
         then bindE (add_int (dr_issued_at r2) 3600) (\<lambda>x. Inr (r2\<lparr>dr_expires_at := x\<rparr>))
         else Inr r2)"

definition request_payload :: "delegation_request \<Rightarrow> pydict" where
  "request_payload r =
     [(''delegation_id'', dr_delegation_id r),
      (''from_agent_id'', dr_from_agent_id r),
      (''to_agent_id'', dr_to_agent_id r),
      (''action'', dr_action r),
      (''task_description'', dr_task_description r),
      (''parameters'', dr_parameters r),
      (''deadline'', dr_deadline r),
      (''required_capabilities'', dr_required_capabilities r),
      (''nonce'', dr_nonce r),
      (''issued_at'', dr_issued_at r),
      (''expires_at'', dr_expires_at r)] @
     (if dr_tee_authorization r \<noteq> PNone then [(''tee_authorization'', dr_tee_authorization r)] else [])"

definition request_to_action_request ::
  "py_env \<Rightarrow> rat \<Rightarrow> delegation_request \<Rightarrow> agent_identity \<Rightarrow> pydict py" where
  "request_to_action_request E now r agent =
     (let payload = request_payload r
      in bindE (sign_action E now agent ''DELEGATE_TASK'' (dr_nonce r) (Some (PDict payload)))
           (\<lambda>signed. Inr (dset ''delegation_data'' (PDict payload) signed)))"

definition request_of_data :: "pydict \<Rightarrow> pydict \<Rightarrow> delegation_request" where
  "request_of_data data signed_request =
     \<lparr>dr_delegation_id = dget data ''delegation_id'' (PStr []),
      dr_from_agent_id = dget data ''from_agent_id'' (PStr []),
      dr_to_agent_id = dget data ''to_agent_id'' (PStr []),
      dr_action = dget data ''action'' (PStr []),
      dr_task_description = dget data ''task_description'' (PStr []),
      dr_parameters = dget data ''parameters'' (PDict []),
      dr_nonce = dget data ''nonce'' (dget signed_request ''nonce'' (PStr [])),
      dr_deadline = dget data ''deadline'' PNone,
      dr_issued_at = dget data ''issued_at'' (PFloat 0),
      dr_expires_at = dget data ''expires_at'' (PFloat 0),
      dr_tee_authorization = dget data ''tee_authorization'' PNone,
      dr_required_capabilities = dget data ''required_capabilities'' (PList [])\<rparr>"

definition request_from_action_request :: "rat \<Rightarrow> pydict \<Rightarrow> delegation_request py" where
  "request_from_action_request now signed_request =
     bindE (as_dict (dget signed_request ''delegation_data'' (PDict []))) (\<lambda>data.
       request_post_init now (request_of_data data signed_request))"

definition request_is_expired :: "rat \<Rightarrow> delegation_request \<Rightarrow> bool py" where
  "request_is_expired now r = float_greater now (dr_expires_at r)"

text \<open>\<open>max(0, self.deadline - time.time())\<close>; the integer \<open>0\<close> wins a tie.\<close>

definition time_until_deadline :: "rat \<Rightarrow> delegation_request \<Rightarrow> pyval py" where
  "time_until_deadline now r =
     (if dr_deadline r = PNone then Inr PNone
      else (case num_of (dr_deadline r) of
          Some d \<Rightarrow> Inr (if d - now > 0 then PFloat (d - now) else PInt 0)
        | None \<Rightarrow> Inl (TypeError (''unsupported operand type(s) for -: '' @ repr_str (py_type (dr_deadline r))
            @ '' and '' @ repr_str ''float''))))"

section \<open>Results\<close>

record delegation_result =
  ds_delegation_id :: pyval
  ds_from_agent_id :: pyval
  ds_to_agent_id :: pyval
  ds_status :: delegation_status
  ds_result :: pyval
  ds_error :: pyval
  ds_nonce :: pyval
  ds_issued_at :: pyval
  ds_tee_authorization :: pyval

definition result_post_init :: "rat \<Rightarrow> string \<Rightarrow> delegation_result \<Rightarrow> delegation_result" where
  "result_post_init now uuid r =
     (let r1 = (if ds_issued_at r = PNone then r\<lparr>ds_issued_at := PFloat now\<rparr> else r)
      in if ds_nonce r1 = PNone then r1\<lparr>ds_nonce := PStr uuid\<rparr> else r1)"

definition result_payload :: "delegation_result \<Rightarrow> pydict" where
  "result_payload r =
     [(''delegation_id'', ds_delegation_id r),
      (''from_agent_id'', ds_from_agent_id r),
      (''to_agent_id'', ds_to_agent_id r),
      (''status'', PStr (status_value (ds_status r))),
      (''result'', ds_result r),
      (''error'', ds_error r),
      (''nonce'', ds_nonce r),
      (''issued_at'', ds_issued_at r)] @
     (if ds_tee_authorization r \<noteq> PNone then [(''tee_authorization'', ds_tee_authorization r)] else [])"

definition result_to_action_request ::
  "py_env \<Rightarrow> rat \<Rightarrow> delegation_result \<Rightarrow> agent_identity \<Rightarrow> pydict py" where
  "result_to_action_request E now r agent =
     (let payload = result_payload r
      in bindE (sign_action E now agent ''TASK_RESULT'' (ds_nonce r) (Some (PDict payload)))
           (\<lambda>signed. Inr (dset ''result_data'' (PDict payload) signed)))"

definition result_from_action_request ::
  "py_env \<Rightarrow> rat \<Rightarrow> string \<Rightarrow> pydict \<Rightarrow> delegation_result py" where
  "result_from_action_request E now uuid signed_request =
     bindE (as_dict (dget signed_request ''result_data'' (PDict []))) (\<lambda>data.
     bindE (delegation_status_of E (dget data ''status'' (PStr (status_value FAILED)))) (\<lambda>status.
       Inr (result_post_init now uuid
         \<lparr>ds_delegation_id = dget data ''delegation_id'' (PStr []),
          ds_from_agent_id = dget data ''from_agent_id'' (PStr []),
          ds_to_agent_id = dget data ''to_agent_id'' (PStr []),
          ds_status = status,
          ds_result = dget data ''result'' PNone,
          ds_error = dget data ''error'' PNone,
          ds_nonce = dget data ''nonce'' PNone,
          ds_issued_at = dget data ''issued_at'' (PFloat 0),
          ds_tee_authorization = dget data ''tee_authorization'' PNone\<rparr>)))"

section \<open>The protocol\<close>

text \<open>\<open>uuid0\<close>, \<open>uuid1\<close>: the fresh delegation id and nonce. A receipt imposes its delegation id.\<close>

definition create_delegation_request ::
  "py_env \<Rightarrow> rat \<Rightarrow> string \<Rightarrow> string \<Rightarrow> agent_identity \<Rightarrow> string \<Rightarrow> string \<Rightarrow> string \<Rightarrow> pyval \<Rightarrow>
    pyval \<Rightarrow> pyval \<Rightarrow> pydict option \<Rightarrow> delegation_request py"
where
  "create_delegation_request E now uuid0 uuid1 from_agent to_agent_id action task_description
     parameters deadline required_capabilities tee_authorization =
     (let receipt = (case tee_authorization of Some d \<Rightarrow> d | None \<Rightarrow> []);
          bound_id = dget receipt ''delegation_id'' PNone;
          delegation_id = (if truthy bound_id then py_str (float_repr E) bound_id else uuid0)
      in request_post_init now
        \<lparr>dr_delegation_id = PStr delegation_id,
         dr_from_agent_id = PStr (id_agent_id from_agent),
         dr_to_agent_id = PStr to_agent_id,
         dr_action = PStr action,
         dr_task_description = PStr task_description,
         dr_parameters = (if parameters = PNone then PDict [] else parameters),
         dr_nonce = PStr uuid1,
         dr_deadline = deadline,
         dr_issued_at = PFloat now,
         dr_expires_at = PFloat (now + 3600),
         dr_tee_authorization = (case tee_authorization of Some d \<Rightarrow> PDict d | None \<Rightarrow> PNone),
         dr_required_capabilities = py_or required_capabilities (PList [])\<rparr>)"

definition delegate_task ::
  "py_env \<Rightarrow> rat \<Rightarrow> string \<Rightarrow> string \<Rightarrow> agent_identity \<Rightarrow> string \<Rightarrow> string \<Rightarrow> string \<Rightarrow> pyval \<Rightarrow>
    pyval \<Rightarrow> pydict option \<Rightarrow> delegation_request py"
where
  "delegate_task E now uuid0 uuid1 from_agent to_agent_id action task_description parameters deadline
     tee_authorization =
     create_delegation_request E now uuid0 uuid1 from_agent to_agent_id action task_description
       parameters deadline PNone tee_authorization"

definition create_delegation_result ::
  "rat \<Rightarrow> string \<Rightarrow> delegation_request \<Rightarrow> agent_identity \<Rightarrow> delegation_status \<Rightarrow> pyval \<Rightarrow> pyval \<Rightarrow>
    delegation_result"
where
  "create_delegation_result now uuid delegation_request performing_agent status result error =
     result_post_init now uuid
       \<lparr>ds_delegation_id = dr_delegation_id delegation_request,
        ds_from_agent_id = PStr (id_agent_id performing_agent),
        ds_to_agent_id = dr_from_agent_id delegation_request,
        ds_status = status,
        ds_result = result,
        ds_error = error,
        ds_nonce = PNone,
        ds_issued_at = PNone,
        ds_tee_authorization = dr_tee_authorization delegation_request\<rparr>"

text \<open>\<open>receipt or {}\<close> for a receipt that is a dictionary when it is not empty.\<close>

definition receipt_or_empty :: "pyval \<Rightarrow> pydict" where
  "receipt_or_empty v = (case v of PDict d \<Rightarrow> d | _ \<Rightarrow> [])"

text \<open>Step 2 of the validation: a signed payload hash must be that of the delegation data.\<close>

definition data_hash_ok :: "py_env \<Rightarrow> pydict \<Rightarrow> bool" where
  "data_hash_ok E signed_request \<longleftrightarrow> (has_key signed_request ''data_hash'' \<longrightarrow>
     dget signed_request ''data_hash'' PNone =
       PStr (sha256 E (canonical E (dget signed_request ''delegation_data'' (PDict [])))))"

text \<open>The receipt step: \<open>Some\<close> message when the request is refused.\<close>

definition check_request_receipt ::
  "py_env \<Rightarrow> (nat \<Rightarrow> rat) \<Rightarrow> delegation_request \<Rightarrow> string \<Rightarrow> string \<Rightarrow> string \<Rightarrow> string \<Rightarrow> string option py"
where
  "check_request_receipt E clk request receiver_agent_id expected_gateway_public_key_hex
     expected_gateway_key_id expected_build_config_id =
     (if \<not> truthy (dr_tee_authorization request) then Inr None
      else if expected_gateway_public_key_hex = []
      then Inr (Some ''TEE authorization invalid: expected gateway public key is required'')
      else if expected_gateway_key_id = []
      then Inr (Some ''TEE authorization invalid: expected gateway key id is required'')
      else if expected_build_config_id = []
      then Inr (Some ''TEE authorization invalid: expected build_config_id is required'')
      else (case verify_tee_authorization_receipt E clk (dr_tee_authorization request)
                  expected_gateway_public_key_hex expected_gateway_key_id (dr_delegation_id request)
                  (PStr receiver_agent_id) (dr_action request) (dr_parameters request)
                  expected_build_config_id of
          Inr r \<Rightarrow> Inr None
        | Inl (RuntimeError exc) \<Rightarrow> Inr (Some (''TEE authorization invalid: '' @ exc))
        | Inl e \<Rightarrow> Inl e))"

definition replay_key_of :: "py_env \<Rightarrow> delegation_request \<Rightarrow> pyval \<Rightarrow> string" where
  "replay_key_of E request request_hash = sha256 E (canonical E (PDict
     [(''delegation_id'', dr_delegation_id request),
      (''request_hash'', request_hash),
      (''gateway_receipt_fingerprint'',
        PStr (receipt_fingerprint E (receipt_or_empty (dr_tee_authorization request))))]))"

definition request_hash_of :: "py_env \<Rightarrow> pydict \<Rightarrow> pyval" where
  "request_hash_of E signed_request = py_or (dget signed_request ''data_hash'' PNone)
     (PStr (sha256 E (canonical E (dget signed_request ''delegation_data'' (PDict [])))))"

definition validate_delegation_request ::
  "py_env \<Rightarrow> (nat \<Rightarrow> rat) \<Rightarrow> pydict \<Rightarrow> string \<Rightarrow> string \<Rightarrow> string \<Rightarrow> string \<Rightarrow> bool \<Rightarrow>
    (bool \<times> string \<times> string option) py"
where
  "validate_delegation_request E clk signed_request receiver_agent_id expected_gateway_public_key_hex
     expected_gateway_key_id expected_build_config_id require_tee_authorization =
     bindE (verify_action_request E (clk 0) signed_request ''DELEGATE_TASK'') (\<lambda>(is_valid, err).
     if \<not> is_valid then Inr (False, ''Signature verification failed: '' @ err, None)
     else if \<not> data_hash_ok E signed_request
     then Inr (False, ''DELEGATION_DATA_TAMPERED: payload hash mismatch'', None)
     else bindE (request_from_action_request (clk 1) signed_request) (\<lambda>request.
     bindE (request_is_expired (clk 2) request) (\<lambda>expired.
     if expired then Inr (False, ''Delegation request has expired'', None)
     else if \<not> py_eq (dr_to_agent_id request) (PStr receiver_agent_id)
     then Inr (False, ''Delegation not addressed to this agent (expected '' @ receiver_agent_id @ '', got ''
            @ py_str (float_repr E) (dr_to_agent_id request) @ '')'', None)
     else if require_tee_authorization \<and> \<not> truthy (dr_tee_authorization request)
     then Inr (False, ''TEE authorization receipt required before worker execution'', None)
     else bindE (check_request_receipt E (\<lambda>i. clk (3 + i)) request receiver_agent_id
            expected_gateway_public_key_hex expected_gateway_key_id expected_build_config_id) (\<lambda>refusal.
     case refusal of
       Some msg \<Rightarrow> Inr (False, msg, None)
     | None \<Rightarrow>
         let replay_key = replay_key_of E request (request_hash_of E signed_request)
         in if replay_key = [] then Inr (False, ''Delegation request replay key missing'', None)
            else Inr (True, ''Delegation request is valid'', Some replay_key)))))"

definition begin_delegation_request_execution ::
  "py_env \<Rightarrow> rat \<Rightarrow> string \<Rightarrow> ledger \<Rightarrow> string \<Rightarrow> rat \<Rightarrow> string \<Rightarrow> pyval \<Rightarrow> string \<Rightarrow> string option \<Rightarrow>
    (bool \<times> string \<times> string option) py \<times> ledger" where
  "begin_delegation_request_execution = begin_request_execution"

definition heartbeat_delegation_request_execution ::
  "py_env \<Rightarrow> rat \<Rightarrow> ledger \<Rightarrow> string \<Rightarrow> string option \<Rightarrow> string option \<Rightarrow> bool py \<times> ledger" where
  "heartbeat_delegation_request_execution = heartbeat_request_execution"

definition finalize_delegation_request_execution ::
  "py_env \<Rightarrow> rat \<Rightarrow> ledger \<Rightarrow> string \<Rightarrow> string \<Rightarrow> string option \<Rightarrow> string option \<Rightarrow> string option \<Rightarrow>
    bool py \<times> ledger" where
  "finalize_delegation_request_execution E now L replay_key state secret error execution_token =
     (if state \<notin> {REQUEST_STATE_COMPLETED, REQUEST_STATE_RETRYABLE_FAILURE}
      then (Inl (ValueError (''Unsupported replay state: '' @ state)), L)
      else finalize_request_execution E now L replay_key state secret error execution_token)"

end
