(* ===== verification/PySets.thy ===== *)
theory PySets
  imports PyValue
begin

text \<open>
  Python sets of values: a set is the list of its members in the order of their insertion, without
  repetition up to Python's equality. Only hashable values can be members or be looked up.
\<close>

definition set_mem :: "pyval \<Rightarrow> pyval list \<Rightarrow> bool" where
  "set_mem v s \<longleftrightarrow> list_ex (py_eq v) s"

definition set_add :: "pyval \<Rightarrow> pyval list \<Rightarrow> pyval list" where
  "set_add v s = (if set_mem v s then s else s @ [v])"

definition set_discard :: "pyval \<Rightarrow> pyval list \<Rightarrow> pyval list" where
  "set_discard v s = filter (\<lambda>w. \<not> py_eq v w) s"

text \<open>\<open>v in s\<close> for a value from the wire, which may not be hashable.\<close>

definition in_set :: "pyval \<Rightarrow> pyval list \<Rightarrow> bool py" where
  "in_set v s = (if hashable v then Inr (set_mem v s) else Inl (unhashable_error v))"

text \<open>Dictionaries with values as keys: an assignment to an equal key keeps the old key.\<close>

fun vset :: "pyval \<Rightarrow> 'a \<Rightarrow> (pyval \<times> 'a) list \<Rightarrow> (pyval \<times> 'a) list" where
  "vset k v [] = [(k, v)]"
| "vset k v ((k', v') # d) = (if py_eq k k' then (k', v) # d else (k', v') # vset k v d)"

fun vget :: "(pyval \<times> 'a) list \<Rightarrow> pyval \<Rightarrow> 'a option" where
  "vget [] k = None"
| "vget ((k', v) # d) k = (if py_eq k k' then Some v else vget d k)"

text \<open>Collecting the members of an iterable.\<close>

fun set_of_list :: "pyval list \<Rightarrow> pyval list \<Rightarrow> pyval list py" where
  "set_of_list acc [] = Inr acc"
| "set_of_list acc (x # xs) =
     (if hashable x then set_of_list (set_add x acc) xs else Inl (unhashable_error x))"

section \<open>Sets up to Python equality\<close>

lemma py_eq_sym: "hashable a \<Longrightarrow> py_eq a b \<Longrightarrow> py_eq b a"
  by (cases a; cases b) (auto split: if_splits)

lemma py_eq_trans: "hashable a \<Longrightarrow> py_eq a b \<Longrightarrow> py_eq b c \<Longrightarrow> py_eq a c"
  by (cases a; cases b) (auto split: if_splits)

lemma py_eq_PStr_left [simp]: "py_eq (PStr s) v \<longleftrightarrow> v = PStr s"
  by simp

lemma set_mem_iff: "set_mem v s \<longleftrightarrow> (\<exists>w \<in> set s. py_eq v w)"
  by (auto simp: set_mem_def list_ex_iff)

lemma set_mem_add:
  assumes "hashable v"
  shows "set_mem v (set_add x s) \<longleftrightarrow> py_eq v x \<or> set_mem v s"
  using assms py_eq_trans [OF assms] by (auto simp: set_add_def set_mem_iff)

lemma set_mem_discard:
  assumes "hashable x"
  shows "set_mem (PStr v) (set_discard x s) \<longleftrightarrow> set_mem (PStr v) s \<and> \<not> py_eq x (PStr v)"
  by (auto simp: set_discard_def set_mem_iff)

lemma set_of_list_mem:
  "set_of_list acc xs = Inr s \<Longrightarrow> hashable v \<Longrightarrow> set_mem v s \<longleftrightarrow> set_mem v acc \<or> set_mem v xs"
proof (induction acc xs arbitrary: s rule: set_of_list.induct)
  case (1 acc)
  then show ?case by (simp add: set_mem_def)
next
  case (2 acc x xs)
  then show ?case using set_mem_add [of v x acc] by (auto simp: set_mem_def split: if_split_asm)
qed

lemma set_of_list_total: "\<forall>x \<in> set xs. hashable x \<Longrightarrow> \<exists>s. set_of_list acc xs = Inr s"
  by (induction xs arbitrary: acc) auto

lemma set_mem_nonempty: "set_mem v s \<Longrightarrow> s \<noteq> []"
  by (auto simp: set_mem_def)

section \<open>Dictionaries of values\<close>

lemma vget_vset:
  "hashable k \<Longrightarrow> hashable k' \<Longrightarrow> vget (vset k v d) k' = (if py_eq k' k then Some v else vget d k')"
proof (induction k v d rule: vset.induct)
  case (2 k v k1 v1 d)
  note t = py_eq_trans [OF "2.prems"(2)]
  show ?case
  proof (cases "py_eq k k1")
    case True
    then have "py_eq k' k1 \<longleftrightarrow> py_eq k' k"
      using t py_eq_sym [OF "2.prems"(1) True] by blast
    then show ?thesis using True by simp
  next
    case False
    then have "\<not> (py_eq k' k \<and> py_eq k' k1)"
      using py_eq_sym [OF "2.prems"(2)] py_eq_trans [OF "2.prems"(1)] by blast
    then show ?thesis using False "2.IH" "2.prems" by auto
  qed
qed simp

end
