(* ===== verification/Policy.thy ===== *)
theory Policy
  imports Protocol PySets
begin

text \<open>
  \<^verbatim>\<open>src/delegation_policy.py\<close>: the default-deny policy. A Python set is the list of its members
  without repetition, up to Python's equality; a set read from a policy file may hold any hashable
  value. The em dash of the denial messages is outside the model's characters and written \<open>-\<close>.
\<close>

section \<open>Dictionaries of sets\<close>

type_synonym set_dict = "(string \<times> pyval list) list"

definition members :: "set_dict \<Rightarrow> string \<Rightarrow> pyval list" where
  "members d k = (case map_of d k of Some s \<Rightarrow> s | None \<Rightarrow> [])"

definition lookup_set :: "set_dict \<Rightarrow> pyval \<Rightarrow> pyval list py" where
  "lookup_set d v =
     (if \<not> hashable v then Inl (unhashable_error v)
      else Inr (case v of PStr k \<Rightarrow> members d k | _ \<Rightarrow> []))"

text \<open>\<open>set(v)\<close>\<close>

definition py_set :: "pyval \<Rightarrow> pyval list py" where
  "py_set v = (case v of
     PList xs \<Rightarrow> set_of_list [] xs
   | PStr s \<Rightarrow> set_of_list [] (map (\<lambda>c. PStr [c]) s)
   | PDict d \<Rightarrow> set_of_list [] (map (\<lambda>(k, _). PStr k) d)
   | _ \<Rightarrow> Inl (TypeError (repr_str (py_type v) @ '' object is not iterable'')))"

text \<open>\<open>{k: set(v) for k, v in x.items()}\<close>\<close>

definition load_sets :: "pyval \<Rightarrow> set_dict py" where
  "load_sets v = (case v of
     PDict d \<Rightarrow> mapE (\<lambda>(k, x). bindE (py_set x) (\<lambda>s. Inr (k, s))) d
   | _ \<Rightarrow> Inl (AttributeError (repr_str (py_type v) @ '' object has no attribute '' @ repr_str ''items'')))"

section \<open>The policy\<close>

record delegation_policy =
  po_rules :: set_dict
  po_trust :: set_dict
  po_rate_limits :: pyval
  po_quotas :: pyval

definition default_policy :: delegation_policy where
  "default_policy = \<lparr>po_rules = [], po_trust = [], po_rate_limits = PDict [], po_quotas = PDict []\<rparr>"

text \<open>
  \<open>_load_policy\<close>: the attributes are assigned one after the other, and an exception ends the
  assignments; what was assigned before it stays.
\<close>

definition load_policy_data :: "pyval \<Rightarrow> delegation_policy" where
  "load_policy_data data_val = (case as_dict data_val of
     Inl e \<Rightarrow> default_policy
   | Inr data \<Rightarrow> (case load_sets (dget data ''delegation_rules'' (PDict [])) of
       Inl e \<Rightarrow> default_policy
     | Inr rules \<Rightarrow> (case load_sets (dget data ''agent_trust'' (PDict [])) of
         Inl e \<Rightarrow> default_policy\<lparr>po_rules := rules\<rparr>
       | Inr trust \<Rightarrow> \<lparr>po_rules = rules, po_trust = trust,
           po_rate_limits = dget data ''rate_limits'' (PDict []),
           po_quotas = dget data ''delegation_quotas'' (PDict [])\<rparr>)))"

definition load_policy :: "py_env \<Rightarrow> string \<Rightarrow> delegation_policy" where
  "load_policy E policy_file =
     (if \<not> path_exists (filesystem E) policy_file then default_policy
      else (case read_text (filesystem E) policy_file of
          Inl e \<Rightarrow> default_policy
        | Inr txt \<Rightarrow> (case json_loads E txt of
            None \<Rightarrow> default_policy
          | Some data \<Rightarrow> load_policy_data data)))"

definition DEFAULT_POLICY_FILE :: string where
  [py_consts]: "DEFAULT_POLICY_FILE = ''config/delegation_policy.json''"

definition create_delegation_policy :: "py_env \<Rightarrow> string option \<Rightarrow> delegation_policy" where
  "create_delegation_policy E policy_file =
     load_policy E (case policy_file of Some p \<Rightarrow> p | None \<Rightarrow> DEFAULT_POLICY_FILE)"

text \<open>The data \<open>save_policy\<close> writes.\<close>

definition policy_data :: "py_env \<Rightarrow> delegation_policy \<Rightarrow> pydict" where
  "policy_data E p =
     [(''delegation_rules'', PDict (map (\<lambda>(k, s). (k, PList (set_list E s))) (po_rules p))),
      (''agent_trust'', PDict (map (\<lambda>(k, s). (k, PList (set_list E s))) (po_trust p))),
      (''rate_limits'', po_rate_limits p),
      (''delegation_quotas'', po_quotas p)]"

definition can_delegate :: "py_env \<Rightarrow> delegation_policy \<Rightarrow> pyval \<Rightarrow> pyval \<Rightarrow> pyval \<Rightarrow> (bool \<times> string) py" where
  "can_delegate E p from_agent_id to_agent_id action =
     (let text_of = py_str (float_repr E)
      in bindE (lookup_set (po_rules p) from_agent_id) (\<lambda>allowed_actions.
         if allowed_actions = []
         then Inr (False, ''Delegation denied - no explicit policy registered for agent '' @ text_of from_agent_id
                @ '' (default deny)'')
         else bindE (in_set action allowed_actions) (\<lambda>listed.
           if listed
           then bindE (lookup_set (po_trust p) from_agent_id) (\<lambda>trusted_agents.
             if trusted_agents = []
             then Inr (False, ''Delegation denied - no target-trust policy for agent '' @ text_of from_agent_id
                    @ '' (default deny)'')
             else bindE (in_set to_agent_id trusted_agents) (\<lambda>trusted.
               if trusted
               then Inr (True, ''Delegation of '' @ text_of action @ '' to '' @ text_of to_agent_id @ '' allowed'')
               else Inr (False, ''Agent '' @ text_of from_agent_id @ '' not trusted to delegate to ''
                      @ text_of to_agent_id @ '' for action '' @ text_of action)))
           else Inr (False, ''Action '' @ text_of action @ '' not in delegation allowed list for agent ''
                  @ text_of from_agent_id))))"

definition can_perform_task :: "py_env \<Rightarrow> delegation_policy \<Rightarrow> pyval \<Rightarrow> pyval \<Rightarrow> (bool \<times> string) py" where
  "can_perform_task E p agent_id action =
     (let text_of = py_str (float_repr E)
      in bindE (lookup_set (po_rules p) agent_id) (\<lambda>allowed_actions.
         if allowed_actions = []
         then Inr (False, ''Action '' @ text_of action @ '' denied - no policy registered for agent ''
                @ text_of agent_id @ '' (default deny)'')
         else bindE (in_set action allowed_actions) (\<lambda>listed.
           if listed then Inr (True, ''Agent allowed to perform '' @ text_of action)
           else Inr (False, ''Action '' @ text_of action @ '' not in allowed list for agent '' @ text_of agent_id))))"

text \<open>Adding a member creates the key; removing the last member deletes it.\<close>

definition add_member :: "string \<Rightarrow> string \<Rightarrow> set_dict \<Rightarrow> set_dict" where
  "add_member k v d = dset k (set_add (PStr v) (members d k)) d"

definition remove_member :: "string \<Rightarrow> string \<Rightarrow> set_dict \<Rightarrow> set_dict" where
  "remove_member k v d =
     (if map_of d k = None then d
      else let s = set_discard (PStr v) (members d k)
        in if s = [] then ddel k d else dset k s d)"

definition add_delegation_rule :: "string \<Rightarrow> string \<Rightarrow> delegation_policy \<Rightarrow> delegation_policy" where
  "add_delegation_rule agent_id action p = p\<lparr>po_rules := add_member agent_id action (po_rules p)\<rparr>"

definition remove_delegation_rule :: "string \<Rightarrow> string \<Rightarrow> delegation_policy \<Rightarrow> delegation_policy" where
  "remove_delegation_rule agent_id action p = p\<lparr>po_rules := remove_member agent_id action (po_rules p)\<rparr>"

definition add_trust_relationship :: "string \<Rightarrow> string \<Rightarrow> delegation_policy \<Rightarrow> delegation_policy" where
  "add_trust_relationship from_agent_id to_agent_id p =
     p\<lparr>po_trust := add_member from_agent_id to_agent_id (po_trust p)\<rparr>"

definition remove_trust_relationship :: "string \<Rightarrow> string \<Rightarrow> delegation_policy \<Rightarrow> delegation_policy" where
  "remove_trust_relationship from_agent_id to_agent_id p =
     p\<lparr>po_trust := remove_member from_agent_id to_agent_id (po_trust p)\<rparr>"

definition is_trusted :: "delegation_policy \<Rightarrow> string \<Rightarrow> string \<Rightarrow> bool" where
  "is_trusted p from_agent_id to_agent_id = set_mem (PStr to_agent_id) (members (po_trust p) from_agent_id)"

definition get_agent_info :: "py_env \<Rightarrow> delegation_policy \<Rightarrow> string \<Rightarrow> pydict py" where
  "get_agent_info E p agent_id =
     bindE (as_dict (po_rate_limits p)) (\<lambda>rate_limits.
     bindE (as_dict (po_quotas p)) (\<lambda>quotas.
       Inr [(''agent_id'', PStr agent_id),
            (''allowed_actions'', PList (set_list E (members (po_rules p) agent_id))),
            (''trusted_agents'', PList (set_list E (members (po_trust p) agent_id))),
            (''trusting_agents'', PList (map (\<lambda>(aid, trusts). PStr aid)
               (filter (\<lambda>(aid, trusts). set_mem (PStr agent_id) trusts) (po_trust p)))),
            (''rate_limits'', dget rate_limits agent_id (PDict [])),
            (''delegation_quota'', dget quotas agent_id (PInt 0))]))"

section \<open>The engine\<close>

definition evaluate_delegation_request ::
  "py_env \<Rightarrow> delegation_policy \<Rightarrow> delegation_request \<Rightarrow> pyval \<Rightarrow> pyval \<Rightarrow> (bool \<times> string) py" where
  "evaluate_delegation_request E p request from_agent_id to_agent_id =
     bindE (can_delegate E p from_agent_id to_agent_id (dr_action request)) (\<lambda>(can_delegate, reason).
     if \<not> can_delegate then Inr (False, ''Delegation not allowed: '' @ reason)
     else bindE (can_perform_task E p to_agent_id (dr_action request)) (\<lambda>(can_perform, reason).
     if \<not> can_perform then Inr (False, ''Target agent not allowed to perform action: '' @ reason)
     else Inr (True, ''Delegation request approved by policy'')))"

definition evaluate_task_result :: "delegation_result \<Rightarrow> bool \<times> string" where
  "evaluate_task_result result =
     (if ds_status result \<notin> {COMPLETED, FAILED}
      then (False, ''Invalid delegation status: DelegationStatus.'' @ status_value (ds_status result))
      else if ds_status result = FAILED \<and> \<not> truthy (ds_error result)
      then (False, ''Failed delegation must include error message'')
      else (True, ''Task result accepted''))"

definition check_delegation_allowed :: "py_env \<Rightarrow> string \<Rightarrow> string \<Rightarrow> string \<Rightarrow> (bool \<times> string) py" where
  "check_delegation_allowed E from_agent_id to_agent_id action =
     can_delegate E (create_delegation_policy E None) (PStr from_agent_id) (PStr to_agent_id) (PStr action)"

section \<open>Example policies\<close>

definition names :: "string list \<Rightarrow> pyval list" where
  "names xs = map PStr xs"

definition open_network_policy :: delegation_policy where
  "open_network_policy = default_policy"

definition hierarchical_policy :: delegation_policy where
  "hierarchical_policy =
     \<lparr>po_rules =
        [(''manager-001'', names [''PROCESS_DATA'', ''GENERATE_REPORT'', ''VALIDATE_RESULTS'']),
         (''manager-002'', names [''PROCESS_DATA'', ''GENERATE_REPORT'']),
         (''worker-001'', names [''DATA_ENTRY'', ''BASIC_CALCULATION'']),
         (''worker-002'', names [''DATA_ENTRY'', ''FORMAT_OUTPUT'']),
         (''exec-001'', names [])],
      po_trust =
        [(''manager-001'', names [''worker-001'', ''worker-002'']),
         (''manager-002'', names [''worker-001'']),
         (''worker-001'', names [''manager-001'', ''manager-002'']),
         (''worker-002'', names [''manager-001''])],
      po_rate_limits = PDict
        [(''manager-001'', PDict [(''requests_per_minute'', PInt 10)]),
         (''manager-002'', PDict [(''requests_per_minute'', PInt 5)])],
      po_quotas = PDict
        [(''manager-001'', PInt 100), (''manager-002'', PInt 50), (''worker-001'', PInt 10), (''worker-002'', PInt 10)]\<rparr>"

definition data_processing_pipeline_policy :: delegation_policy where
  "data_processing_pipeline_policy =
     default_policy
       \<lparr>po_rules :=
          [(''data_ingestor'', names [''VALIDATE_FORMAT'', ''ENRICH_DATA'']),
           (''data_validator'', names [''CLEAN_DATA'', ''CHECK_INTEGRITY'']),
           (''data_enricher'', names [''AGGREGATE_DATA'', ''CALCULATE_METRICS'']),
           (''data_aggregator'', names [''GENERATE_SUMMARY'', ''CREATE_VISUALIZATION'']),
           (''report_generator'', names [''FORMAT_REPORT'', ''DISTRIBUTE_REPORT''])],
        po_trust :=
          [(''data_ingestor'', names [''data_validator'']),
           (''data_validator'', names [''data_enricher'']),
           (''data_enricher'', names [''data_aggregator'']),
           (''data_aggregator'', names [''report_generator'']),
           (''report_generator'', names [])]\<rparr>"

end
