(* ===== verification/ProtocolLaws.thy ===== *)
theory ProtocolLaws
  imports Protocol
begin

text \<open>
  The laws of the protocol functions: what a validated request establishes, that the wire form of a
  request or a result reads back as the same object and validates at its addressee, and what a
  replay key binds.
\<close>

section \<open>The wire form reads back\<close>

lemma dget_dset [simp]: "dget (dset k v d) k' x = (if k' = k then v else dget d k' x)"
  by (simp add: dget_def)

lemma authentic_dset:
  assumes "k \<notin> set required_fields" and "k \<noteq> ''data_hash''"
  shows "authentic E t (dset k v p) a \<longleftrightarrow> authentic E t p a"
proof -
  have "map_of (dset k v p) f = map_of p f" if "f \<in> insert ''data_hash'' (set required_fields)" for f
    using assms that by auto
  note look = this
  have get: "dget (dset k v p) f x = dget p f x" if "f \<in> insert ''data_hash'' (set required_fields)" for f x
    using look [OF that] by (simp add: dget_def)
  have "payload_keys (dset k v p) = payload_keys p" using look [of "''data_hash''"] by (simp add: payload_keys_def)
  moreover have "set (payload_keys p) \<subseteq> insert ''data_hash'' (set required_fields)"
    by (auto simp: payload_keys_def required_fields_def)
  ultimately have "payload_fields (dset k v p) = payload_fields p"
    unfolding payload_fields_def using assms by auto
  moreover have "(\<forall>f \<in> set required_fields. has_key (dset k v p) f) \<longleftrightarrow> (\<forall>f \<in> set required_fields. has_key p f)"
    using look by (simp add: has_key_def)
  moreover note get [of "''action''"] get [of "''audience''"] get [of "''expires_at''"] get [of "''payload_hash''"]
    get [of "''public_key_hex''"] get [of "''agent_id''"] get [of "''signature_hex''"]
  ultimately show ?thesis unfolding authentic_def by (simp add: required_fields_def)
qed

lemma request_of_payload: "request_of_data (request_payload r) sr = r"
  by (simp add: request_of_data_def request_payload_def)

lemma request_wire:
  assumes "request_to_action_request E now r a = Inr sr"
  shows "request_from_action_request t sr = request_post_init t r"
    and "dget sr ''delegation_data'' x = PDict (request_payload r)"
  using assms
  by (auto simp: request_to_action_request_def request_from_action_request_def Let_def request_of_payload as_dict_def)

text \<open>A request whose fields are filled in is left alone by \<open>__post_init__\<close>.\<close>

definition complete_request :: "delegation_request \<Rightarrow> bool" where
  "complete_request r \<longleftrightarrow> dr_required_capabilities r \<noteq> PNone \<and>
     \<not> py_eq (dr_issued_at r) (PFloat 0) \<and> \<not> py_eq (dr_expires_at r) (PFloat 0)"

lemma post_init_complete: "complete_request r \<Longrightarrow> request_post_init t r = Inr r"
  by (simp add: complete_request_def request_post_init_def)

lemma post_init_completes:
  "request_post_init t r = Inr r' \<Longrightarrow> t > 0 \<Longrightarrow> dr_required_capabilities r' \<noteq> PNone \<and>
     \<not> py_eq (dr_issued_at r') (PFloat 0)"
  by (auto simp: request_post_init_def Let_def split: if_split_asm)

lemma result_of_payload:
  "result_to_action_request E now r a = Inr sr \<Longrightarrow>
   result_from_action_request E t uuid sr = Inr (result_post_init t uuid r)"
  by (cases r) (auto simp: result_to_action_request_def result_from_action_request_def result_payload_def Let_def as_dict_def)

lemma result_post_init_set:
  "ds_issued_at r \<noteq> PNone \<Longrightarrow> ds_nonce r \<noteq> PNone \<Longrightarrow> result_post_init t uuid r = r"
  by (simp add: result_post_init_def)

section \<open>What validation establishes\<close>

text \<open>
  The worker execution gate, as a predicate over the received request: authentic envelope, bound
  delegation data, live, addressed to the receiver, and a receipt that authorizes exactly this
  request whenever one is required or present.
\<close>

definition gate_open ::
  "py_env \<Rightarrow> (nat \<Rightarrow> rat) \<Rightarrow> pydict \<Rightarrow> string \<Rightarrow> string \<Rightarrow> string \<Rightarrow> string \<Rightarrow> bool \<Rightarrow> delegation_request \<Rightarrow> bool"
where
  "gate_open E clk signed_request receiver gateway_pub key_id build require request \<longleftrightarrow>
     authentic E (clk 0) signed_request ''DELEGATE_TASK'' \<and>
     data_hash_ok E signed_request \<and>
     request_from_action_request (clk 1) signed_request = Inr request \<and>
     (\<exists>q. num_of (dr_expires_at request) = Some q \<and> clk 2 \<le> q) \<and>
     dr_to_agent_id request = PStr receiver \<and>
     (require \<longrightarrow> truthy (dr_tee_authorization request)) \<and>
     (truthy (dr_tee_authorization request) \<longrightarrow>
        gateway_pub \<noteq> [] \<and> (\<exists>r. dr_tee_authorization request = PDict r \<and>
          receipt_authorizes E (\<lambda>i. clk (3 + i)) r gateway_pub key_id (dr_delegation_id request) (PStr receiver)
            (dr_action request) (dr_parameters request) build))"

lemma check_request_receipt_None:
  "check_request_receipt E clk request receiver pk kid bid = Inr None \<longleftrightarrow>
     (truthy (dr_tee_authorization request) \<longrightarrow>
        pk \<noteq> [] \<and> (\<exists>r. dr_tee_authorization request = PDict r \<and>
          receipt_authorizes E clk r pk kid (dr_delegation_id request) (PStr receiver)
            (dr_action request) (dr_parameters request) bid))"
proof (cases "verify_tee_authorization_receipt E clk (dr_tee_authorization request) pk kid (dr_delegation_id request)
    (PStr receiver) (dr_action request) (dr_parameters request) bid")
  case (Inl e)
  then have "\<not> (\<exists>r. dr_tee_authorization request = PDict r \<and>
      receipt_authorizes E clk r pk kid (dr_delegation_id request) (PStr receiver)
        (dr_action request) (dr_parameters request) bid)"
    by (metis Inl_Inr_False verify_tee_authorization_receipt_iff)
  then show ?thesis using Inl by (cases e) (auto simp: check_request_receipt_def)
next
  case (Inr r)
  then have "dr_tee_authorization request = PDict r \<and>
      receipt_authorizes E clk r pk kid (dr_delegation_id request) (PStr receiver)
        (dr_action request) (dr_parameters request) bid"
    by (simp add: verify_tee_authorization_receipt_iff)
  then show ?thesis using Inr by (auto simp: check_request_receipt_def receipt_authorizes_def)
qed

lemma float_greater_False: "float_greater now v = Inr False \<longleftrightarrow> (\<exists>q. num_of v = Some q \<and> now \<le> q)"
  by (auto simp: float_greater_def split: option.split)

text \<open>The steps after the request has been read back.\<close>

lemma validate_gate:
  assumes v: "verify_action_request E (clk 0) sr ''DELEGATE_TASK'' = Inr (ok, err)"
    and r: "request_from_action_request (clk 1) sr = Inr request"
  shows "validate_delegation_request E clk sr receiver pk kid bid require = Inr (True, msg, rk) \<longleftrightarrow>
     ok \<and> data_hash_ok E sr \<and> (\<exists>q. num_of (dr_expires_at request) = Some q \<and> clk 2 \<le> q) \<and>
     dr_to_agent_id request = PStr receiver \<and> (require \<longrightarrow> truthy (dr_tee_authorization request)) \<and>
     check_request_receipt E (\<lambda>i. clk (3 + i)) request receiver pk kid bid = Inr None \<and>
     replay_key_of E request (request_hash_of E sr) \<noteq> [] \<and>
     rk = Some (replay_key_of E request (request_hash_of E sr)) \<and> msg = ''Delegation request is valid''"
proof (cases "request_is_expired (clk 2) request")
  case (Inl e)
  have "\<nexists>q. num_of (dr_expires_at request) = Some q \<and> clk 2 \<le> q"
    using Inl float_greater_False [of "clk 2" "dr_expires_at request"] by (simp add: request_is_expired_def)
  then show ?thesis unfolding validate_delegation_request_def v r Inl bindE.simps prod.case by auto
next
  case (Inr expired)
  have live: "\<not> expired \<longleftrightarrow> (\<exists>q. num_of (dr_expires_at request) = Some q \<and> clk 2 \<le> q)"
    using Inr float_greater_False [of "clk 2" "dr_expires_at request"] by (auto simp: request_is_expired_def)
  show ?thesis
    unfolding validate_delegation_request_def v r Inr bindE.simps prod.case live [symmetric]
    by (cases "check_request_receipt E (\<lambda>i. clk (3 + i)) request receiver pk kid bid")
       (auto simp: Let_def split: option.split_asm option.split)
qed

lemma validate_iff:
  "validate_delegation_request E clk sr receiver pk kid bid require = Inr (True, msg, rk) \<longleftrightarrow>
     (\<exists>request. gate_open E clk sr receiver pk kid bid require request \<and>
        replay_key_of E request (request_hash_of E sr) \<noteq> [] \<and>
        rk = Some (replay_key_of E request (request_hash_of E sr)) \<and> msg = ''Delegation request is valid'')"
proof (cases "verify_action_request E (clk 0) sr ''DELEGATE_TASK''")
  case (Inl e)
  then show ?thesis using verify_action_request_iff [of E "clk 0" sr "''DELEGATE_TASK''" "[]"]
    by (simp add: validate_delegation_request_def gate_open_def)
next
  case (Inr v)
  obtain ok err where v: "verify_action_request E (clk 0) sr ''DELEGATE_TASK'' = Inr (ok, err)"
    using Inr by (cases v) simp
  have ok: "ok \<longleftrightarrow> authentic E (clk 0) sr ''DELEGATE_TASK''"
    using verify_action_request_iff [of E "clk 0" sr "''DELEGATE_TASK''"] v by (cases ok) auto
  show ?thesis
  proof (cases "ok \<and> data_hash_ok E sr")
    case False
    then show ?thesis using ok by (auto simp: validate_delegation_request_def gate_open_def v)
  next
    case True
    show ?thesis
    proof (cases "request_from_action_request (clk 1) sr")
      case (Inl e)
      then show ?thesis using True by (simp add: validate_delegation_request_def gate_open_def v)
    next
      case (Inr request)
      then show ?thesis using True ok unfolding validate_gate [OF v Inr] gate_open_def check_request_receipt_None by auto
    qed
  qed
qed

section \<open>A request signed by an agent passes the gate\<close>

lemma sign_action_shape:
  assumes "\<not> is_mock E" and "id_private_key_obj a = Some priv" and "sign_action E now a action n (Some d) = Inr p"
  shows "dget p ''data_hash'' x = PStr (sha256 E (canonical E d))" and "dget p ''nonce'' x = n"
    and "dget p ''agent_id'' x = PStr (id_agent_id a)" and "dget p ''public_key_hex'' x = PStr (id_public_key_hex a)"
    and "has_key p ''data_hash''"
  using assms
  by (auto simp: sign_action_def identity_key_def sign_action_request_with_key signed_dget has_key_def signed_payload_def)

definition able_to_sign :: "py_env \<Rightarrow> agent_identity \<Rightarrow> bool" where
  "able_to_sign E a \<longleftrightarrow> \<not> is_mock E \<and> identity_ok E a \<and>
     (\<exists>priv. id_private_key_obj a = Some priv \<and> ed25519_ok E priv)"

lemma able_to_sign_request:
  "able_to_sign E a \<Longrightarrow> \<exists>sr. request_to_action_request E now r a = Inr sr"
  using sign_action_total unfolding able_to_sign_def request_to_action_request_def
  by (fastforce simp: Let_def)

lemma signed_request_gate:
  assumes a: "able_to_sign E a" and clock: "clock_text_ok E (now + 300)" "clk 0 \<le> now + 300"
    and sr: "request_to_action_request E now r a = Inr sr" and r: "complete_request r"
    and live: "num_of (dr_expires_at r) = Some q" "clk 2 \<le> q" and addr: "dr_to_agent_id r = PStr receiver"
    and tee: "require \<longrightarrow> truthy (dr_tee_authorization r)"
      "truthy (dr_tee_authorization r) \<Longrightarrow> pk \<noteq> [] \<and> (\<exists>rc. dr_tee_authorization r = PDict rc \<and>
        receipt_authorizes E (\<lambda>i. clk (3 + i)) rc pk kid (dr_delegation_id r) (PStr receiver)
          (dr_action r) (dr_parameters r) bid)"
  shows "gate_open E clk sr receiver pk kid bid require r"
proof -
  obtain priv where priv: "id_private_key_obj a = Some priv" "ed25519_ok E priv" and m: "\<not> is_mock E" "identity_ok E a"
    using a by (auto simp: able_to_sign_def)
  obtain p where p: "sign_action E now a ''DELEGATE_TASK'' (dr_nonce r) (Some (PDict (request_payload r))) = Inr p"
    and srp: "sr = dset ''delegation_data'' (PDict (request_payload r)) p"
    using sr by (auto simp: request_to_action_request_def Let_def)
  have "authentic E (clk 0) p ''DELEGATE_TASK''"
    by (rule sign_action_authentic [OF m priv clock p])
  then have auth: "authentic E (clk 0) sr ''DELEGATE_TASK''"
    unfolding srp by (subst authentic_dset) (simp_all add: required_fields_def)
  have "data_hash_ok E sr"
    using sign_action_shape(1) [OF m(1) priv(1) p] by (simp add: data_hash_ok_def srp)
  moreover have "request_from_action_request (clk 1) sr = Inr r"
    using request_wire(1) [OF sr] post_init_complete [OF r] by simp
  ultimately show ?thesis unfolding gate_open_def using auth live addr tee by blast
qed

section \<open>What the replay key binds\<close>

definition replay_record :: "py_env \<Rightarrow> delegation_request \<Rightarrow> pyval \<Rightarrow> pyval" where
  "replay_record E request request_hash = PDict
     [(''delegation_id'', dr_delegation_id request),
      (''request_hash'', request_hash),
      (''gateway_receipt_fingerprint'',
        PStr (receipt_fingerprint E (receipt_or_empty (dr_tee_authorization request))))]"

lemma replay_key_of_record: "replay_key_of E r h = sha256 E (canonical E (replay_record E r h))"
  by (simp add: replay_key_of_def replay_record_def)

lemma request_hash_of_ok:
  "data_hash_ok E sr \<Longrightarrow>
   request_hash_of E sr = PStr (sha256 E (canonical E (dget sr ''delegation_data'' (PDict []))))"
  by (cases "has_key sr ''data_hash''")
     (auto simp: data_hash_ok_def request_hash_of_def py_or_def has_key_def dget_def)

lemma replay_record_fields:
  assumes "sort_keys (replay_record E r h) = sort_keys (replay_record E r' h')"
  shows "sort_keys (dr_delegation_id r) = sort_keys (dr_delegation_id r')" and "sort_keys h = sort_keys h'"
    and "receipt_fingerprint E (receipt_or_empty (dr_tee_authorization r)) =
      receipt_fingerprint E (receipt_or_empty (dr_tee_authorization r'))"
proof -
  define d :: "delegation_request \<Rightarrow> pyval \<Rightarrow> pydict" where "d r h = [(''delegation_id'', dr_delegation_id r), (''request_hash'', h),
      (''gateway_receipt_fingerprint'', PStr (receipt_fingerprint E (receipt_or_empty (dr_tee_authorization r))))]"
    for r h
  have dist: "distinct (map fst (d r h))" for r h by (simp add: d_def)
  have "sort_keys (PDict (d r h)) = sort_keys (PDict (d r' h'))"
    using assms by (simp only: replay_record_def d_def)
  note look = norm_dict_lookup [OF dist dist this]
  show "sort_keys (dr_delegation_id r) = sort_keys (dr_delegation_id r')" "sort_keys h = sort_keys h'"
    "receipt_fingerprint E (receipt_or_empty (dr_tee_authorization r)) =
      receipt_fingerprint E (receipt_or_empty (dr_tee_authorization r'))"
    using look [of "''delegation_id''"] look [of "''request_hash''"] look [of "''gateway_receipt_fingerprint''"]
    by (simp_all add: d_def)
qed

lemma replay_key_binds_data:
  assumes fl: "float_ok (float_repr E)" and ok: "data_hash_ok E sr" "data_hash_ok E sr'"
    and eq: "replay_key_of E r (request_hash_of E sr) = replay_key_of E r' (request_hash_of E sr')"
  shows "sort_keys (dget sr ''delegation_data'' (PDict [])) = sort_keys (dget sr' ''delegation_data'' (PDict [])) \<or>
    collides E (utf8 (canonical E (replay_record E r (request_hash_of E sr))))
      (utf8 (canonical E (replay_record E r' (request_hash_of E sr')))) \<or>
    collides E (utf8 (canonical E (dget sr ''delegation_data'' (PDict []))))
      (utf8 (canonical E (dget sr' ''delegation_data'' (PDict []))))"
  using canonical_hash_binds [OF fl eq [unfolded replay_key_of_record]]
proof
  assume "sort_keys (replay_record E r (request_hash_of E sr)) = sort_keys (replay_record E r' (request_hash_of E sr'))"
  then have "sha256 E (canonical E (dget sr ''delegation_data'' (PDict []))) =
      sha256 E (canonical E (dget sr' ''delegation_data'' (PDict [])))"
    using replay_record_fields(2) unfolding request_hash_of_ok [OF ok(1)] request_hash_of_ok [OF ok(2)]
    by (metis sort_keys.simps(5) pyval.inject(4))
  then show ?thesis using canonical_hash_binds [OF fl] by blast
qed blast

end
