(* ===== verification/PolicyLaws.thy ===== *)
theory PolicyLaws
  imports Policy ProtocolLaws
begin

text \<open>
  The policy as an abstract relation: an agent is allowed an action, an agent trusts an agent. The
  concrete dictionaries of sets implement an updatable relation (one interface, provided twice),
  the engine's answer is a test on it, and saving and loading keep it.
\<close>

section \<open>The interface of an updatable relation\<close>

datatype ('k, 'v) update = Grant 'k 'v | Revoke 'k 'v

text \<open>What the last update on a pair says, if there is one.\<close>

fun verdict :: "('k, 'v) update list \<Rightarrow> 'k \<Rightarrow> 'v \<Rightarrow> bool option" where
  "verdict [] k v = None"
| "verdict (u # us) k v = (case verdict us k v of
     Some b \<Rightarrow> Some b
   | None \<Rightarrow> (case u of
       Grant k' v' \<Rightarrow> if k' = k \<and> v' = v then Some True else None
     | Revoke k' v' \<Rightarrow> if k' = k \<and> v' = v then Some False else None))"

fun apply_update ::
  "('k \<Rightarrow> 'v \<Rightarrow> 's \<Rightarrow> 's) \<Rightarrow> ('k \<Rightarrow> 'v \<Rightarrow> 's \<Rightarrow> 's) \<Rightarrow> ('k, 'v) update \<Rightarrow> 's \<Rightarrow> 's" where
  "apply_update add remove (Grant k v) s = add k v s"
| "apply_update add remove (Revoke k v) s = remove k v s"

locale relation_store =
  fixes related :: "'s \<Rightarrow> 'k \<Rightarrow> 'v \<Rightarrow> bool"
    and add :: "'k \<Rightarrow> 'v \<Rightarrow> 's \<Rightarrow> 's"
    and remove :: "'k \<Rightarrow> 'v \<Rightarrow> 's \<Rightarrow> 's"
  assumes related_add: "related (add k v s) k' v' \<longleftrightarrow> (k = k' \<and> v = v') \<or> related s k' v'"
    and related_remove: "related (remove k v s) k' v' \<longleftrightarrow> related s k' v' \<and> \<not> (k = k' \<and> v = v')"
begin

lemma related_updates:
  "related (fold (apply_update add remove) us s) k v =
     (case verdict us k v of Some b \<Rightarrow> b | None \<Rightarrow> related s k v)"
proof (induction us arbitrary: s)
  case (Cons u us)
  have "related (apply_update add remove u s) k v =
      (case u of Grant k' v' \<Rightarrow> (k' = k \<and> v' = v) \<or> related s k v
       | Revoke k' v' \<Rightarrow> related s k v \<and> \<not> (k' = k \<and> v' = v))"
    by (cases u) (simp_all add: related_add related_remove)
  then show ?case using Cons.IH [of "apply_update add remove u s"]
    by (auto split: option.split update.split)
qed simp

end

section \<open>The dictionaries provide the interface\<close>

definition in_sets :: "set_dict \<Rightarrow> string \<Rightarrow> string \<Rightarrow> bool" where
  "in_sets d k v \<longleftrightarrow> set_mem (PStr v) (members d k)"

lemma members_dset: "members (dset k s d) k' = (if k' = k then s else members d k')"
  by (simp add: members_def)

lemma members_ddel: "members (ddel k d) k' = (if k' = k then [] else members d k')"
  by (simp add: members_def)

lemma in_sets_add: "in_sets (add_member k v d) k' v' \<longleftrightarrow> (k = k' \<and> v = v') \<or> in_sets d k' v'"
  by (auto simp: in_sets_def add_member_def members_dset set_mem_add)

lemma in_sets_remove: "in_sets (remove_member k v d) k' v' \<longleftrightarrow> in_sets d k' v' \<and> \<not> (k = k' \<and> v = v')"
proof (cases "map_of d k")
  case None
  then show ?thesis by (auto simp: remove_member_def in_sets_def members_def set_mem_def)
next
  case (Some s)
  then have m: "members d k = s" by (simp add: members_def)
  have d: "set_mem (PStr v') (set_discard (PStr v) s) \<longleftrightarrow> set_mem (PStr v') s \<and> v' \<noteq> v"
    using set_mem_discard [of "PStr v" v' s] by auto
  have e: "set_discard (PStr v) s = [] \<Longrightarrow> \<not> (set_mem (PStr v') s \<and> v' \<noteq> v)"
    using d by (simp add: set_mem_def)
  show ?thesis using Some m d e
    by (auto simp: remove_member_def in_sets_def Let_def members_dset members_ddel set_mem_def)
qed

definition may_act :: "delegation_policy \<Rightarrow> string \<Rightarrow> string \<Rightarrow> bool" where
  "may_act p agent action \<longleftrightarrow> in_sets (po_rules p) agent action"

lemma is_trusted_in_sets: "is_trusted p a b \<longleftrightarrow> in_sets (po_trust p) a b"
  by (simp add: is_trusted_def in_sets_def)

interpretation rules: relation_store may_act add_delegation_rule remove_delegation_rule
  by unfold_locales
     (auto simp: may_act_def add_delegation_rule_def remove_delegation_rule_def in_sets_add in_sets_remove)

interpretation trust: relation_store is_trusted add_trust_relationship remove_trust_relationship
  by unfold_locales
     (auto simp: is_trusted_in_sets add_trust_relationship_def remove_trust_relationship_def
        in_sets_add in_sets_remove)

section \<open>The engine tests the relation\<close>

lemma can_delegate_True:
  "(\<exists>m. can_delegate E p (PStr f) (PStr t) a = Inr (True, m)) \<longleftrightarrow>
     hashable a \<and> set_mem a (members (po_rules p) f) \<and> is_trusted p f t"
  by (auto simp: can_delegate_def lookup_set_def in_set_def Let_def is_trusted_def set_mem_nonempty)

lemma can_perform_task_True:
  "(\<exists>m. can_perform_task E p (PStr t) a = Inr (True, m)) \<longleftrightarrow>
     hashable a \<and> set_mem a (members (po_rules p) t)"
  by (auto simp: can_perform_task_def lookup_set_def in_set_def Let_def set_mem_nonempty)

lemma evaluate_split:
  "evaluate_delegation_request E p r f t = Inr (True, msg) \<longleftrightarrow>
     (\<exists>m. can_delegate E p f t (dr_action r) = Inr (True, m)) \<and>
     (\<exists>m. can_perform_task E p t (dr_action r) = Inr (True, m)) \<and>
     msg = ''Delegation request approved by policy''"
  by (auto simp: evaluate_delegation_request_def split: prod.split_asm if_split_asm)

lemma evaluate_permits:
  "evaluate_delegation_request E p r (PStr f) (PStr t) = Inr (True, msg) \<longleftrightarrow>
     hashable (dr_action r) \<and> set_mem (dr_action r) (members (po_rules p) f) \<and> is_trusted p f t \<and>
     set_mem (dr_action r) (members (po_rules p) t) \<and> msg = ''Delegation request approved by policy''"
  unfolding evaluate_split can_delegate_True can_perform_task_True by auto

text \<open>A value that is no string names no agent, so nothing is permitted to it.\<close>

lemma can_delegate_from_text: "can_delegate E p f t a = Inr (True, m) \<Longrightarrow> \<exists>s. f = PStr s"
  by (cases f) (auto simp: can_delegate_def lookup_set_def Let_def)

section \<open>Saving and loading\<close>

definition sets_hashable :: "set_dict \<Rightarrow> bool" where
  "sets_hashable d \<longleftrightarrow> (\<forall>(k, s) \<in> set d. \<forall>v \<in> set s. hashable v)"

lemma load_sets_saved:
  assumes h: "sets_hashable d" and ord: "\<And>s. set (set_list E s) = set s"
  shows "\<exists>d'. load_sets (PDict (map (\<lambda>(k, s). (k, PList (set_list E s))) d)) = Inr d' \<and>
    map fst d' = map fst d \<and> (\<forall>k v. hashable v \<longrightarrow> set_mem v (members d' k) = set_mem v (members d k))"
  using h
proof (induction d)
  case Nil
  then show ?case by (simp add: load_sets_def)
next
  case (Cons ks d)
  obtain k s where ks: "ks = (k, s)" by (cases ks)
  have "\<forall>v \<in> set (set_list E s). hashable v" using Cons.prems ks ord by (auto simp: sets_hashable_def)
  then obtain s' where s': "set_of_list [] (set_list E s) = Inr s'" using set_of_list_total by blast
  have mem: "set_mem v s' = set_mem v s" if "hashable v" for v
    using set_of_list_mem [OF s' that] ord by (simp add: set_mem_iff)
  have "sets_hashable d" using Cons.prems by (simp add: sets_hashable_def)
  then obtain d' where d': "load_sets (PDict (map (\<lambda>(k, s). (k, PList (set_list E s))) d)) = Inr d'"
      "map fst d' = map fst d" "\<forall>k v. hashable v \<longrightarrow> set_mem v (members d' k) = set_mem v (members d k)"
    using Cons.IH by blast
  have "load_sets (PDict (map (\<lambda>(k, s). (k, PList (set_list E s))) (ks # d))) = Inr ((k, s') # d')"
    using d'(1) s' ks by (simp add: load_sets_def py_set_def)
  moreover have "set_mem v (members ((k, s') # d') k') = set_mem v (members (ks # d) k')" if "hashable v" for k' v
    using d'(3) mem that ks by (simp add: members_def)
  ultimately show ?case using d'(2) ks by (metis list.simps(9) fst_conv)
qed

lemma load_saved_policy:
  assumes "sets_hashable (po_rules p)" "sets_hashable (po_trust p)" "\<And>s. set (set_list E s) = set s"
  defines "q \<equiv> load_policy_data (PDict (policy_data E p))"
  shows "(\<forall>k v. hashable v \<longrightarrow> set_mem v (members (po_rules q) k) = set_mem v (members (po_rules p) k)) \<and>
    (\<forall>k v. hashable v \<longrightarrow> set_mem v (members (po_trust q) k) = set_mem v (members (po_trust p) k)) \<and>
    po_rate_limits q = po_rate_limits p \<and> po_quotas q = po_quotas p"
proof -
  obtain rules where "load_sets (PDict (map (\<lambda>(k, s). (k, PList (set_list E s))) (po_rules p))) = Inr rules"
      "\<forall>k v. hashable v \<longrightarrow> set_mem v (members rules k) = set_mem v (members (po_rules p) k)"
    using load_sets_saved [OF assms(1,3)] by blast
  moreover obtain trust where "load_sets (PDict (map (\<lambda>(k, s). (k, PList (set_list E s))) (po_trust p))) = Inr trust"
      "\<forall>k v. hashable v \<longrightarrow> set_mem v (members trust k) = set_mem v (members (po_trust p) k)"
    using load_sets_saved [OF assms(2,3)] by blast
  ultimately show ?thesis by (simp add: q_def load_policy_data_def policy_data_def as_dict_def)
qed

end
