(* ===== verification/LedgerLaws.thy ===== *)
theory LedgerLaws
  imports ReplayLedger
begin

text \<open>
  The laws of the single ledger transactions: what \<open>write_record\<close> stores, which answers
  \<open>begin_request_execution\<close> gives on each kind of row, which rows a transaction leaves alone,
  the invariant of the rows, and what the integrity MAC establishes.
\<close>

section \<open>Frames\<close>

lemma write_record_Inr:
  "write_record E L k kind st a m fs u x ow di fp sec err tok = Inr L' \<Longrightarrow>
   \<exists>mac di'. L' = L(k \<mapsto> \<lparr>le_replay_key = k, le_kind = kind, le_state = st, le_attempt_count = a,
        le_max_attempts = m, le_first_seen_at = fs, le_updated_at = u, le_expires_at = x,
        le_owner_agent_id = Some ow, le_delegation_id = di', le_payload_fingerprint = Some fp,
        le_integrity_mac = mac, le_last_error = err, le_execution_token = tok\<rparr>)
     \<and> sql_text E di = Inr di'
     \<and> compute_integrity_mac E (stable_body k kind st a m fs u x (PStr ow) di (PStr fp) err tok) sec = Inr mac"
  unfolding write_record_def by auto

lemma purge_Some: "purge t L k = Some e \<longleftrightarrow> L k = Some e \<and> t < le_expires_at e"
  by (auto simp: purge_def split: option.split)

lemma purge_None: "purge t L k = None \<longleftrightarrow> (\<forall>e. L k = Some e \<longrightarrow> le_expires_at e \<le> t)"
  by (auto simp: purge_def split: option.split)

lemma transact_Inr:
  "transact L m = (Inr a, L') \<longleftrightarrow> m = Inr (a, L')"
  by (auto simp: transact_def split: sum.split)

lemma transact_Inl: "fst (transact L m) = Inl e \<Longrightarrow> snd (transact L m) = L"
  by (auto simp: transact_def split: sum.split_asm)

lemma transact_snd:
  "snd (transact L m) = (case m of Inl e \<Rightarrow> L | Inr (a, L') \<Rightarrow> L')"
  by (auto simp: transact_def split: sum.split)

text \<open>Other keys: a transaction on one key at most drops expired rows elsewhere.\<close>

lemma begin_other_key:
  "k' \<noteq> k \<Longrightarrow> snd (begin_request_execution E t tok L k x ow di fp sec) k' \<in> {L k', purge t L k'}"
  unfolding begin_request_execution_def begin_existing_def Let_def
  by (auto simp: transact_snd split: sum.split option.split if_split_asm dest!: write_record_Inr)

lemma heartbeat_other_key:
  "k' \<noteq> k \<Longrightarrow> snd (heartbeat_request_execution E t L k sec tok) k' = L k'"
  unfolding heartbeat_request_execution_def
  by (auto simp: transact_snd split: sum.split option.split if_split_asm dest!: write_record_Inr)

lemma finalize_other_key:
  "k' \<noteq> k \<Longrightarrow> snd (finalize_request_execution E t L k st sec err tok) k' = L k'"
  unfolding finalize_request_execution_def Let_def
  by (auto simp: transact_snd split: sum.split option.split if_split_asm dest!: write_record_Inr)

lemma consume_other_key:
  "k' \<noteq> k \<Longrightarrow> snd (consume_result_replay E t L k ow di fp x sec) k' \<in> {L k', purge t L k'}"
  unfolding consume_result_replay_def Let_def
  by (auto simp: transact_snd split: sum.split option.split if_split_asm dest!: write_record_Inr)

text \<open>The three ways \<open>begin\<close> treats a row it finds: refused, given up, or granted once more.\<close>

lemma begin_existing_cases:
  assumes "begin_existing E t tok L row k x ow di fp sec = Inr (a, L')"
  obtains (refused) "L' = L" "\<not> fst a"
  | (exhausted) "write_record E L k REQUEST_KIND REQUEST_STATE_FINAL_FAILURE (le_attempt_count row)
        (le_max_attempts row) (le_first_seen_at row) t (min (le_expires_at row) x) ow di fp sec
        (Some ''Delegation request retry limit exceeded'') None = Inr L'"
      "le_max_attempts row \<le> le_attempt_count row" "\<not> fst a"
  | (granted) "write_record E L k REQUEST_KIND REQUEST_STATE_RUNNING (le_attempt_count row + 1)
        (le_max_attempts row) (le_first_seen_at row) t (min (le_expires_at row) x) ow di fp sec None (Some tok)
        = Inr L'"
      "le_attempt_count row < le_max_attempts row" "fst a"
  using assms unfolding begin_existing_def Let_def
  by (auto split: if_split_asm)

section \<open>The answers of \<open>begin_request_execution\<close>\<close>

text \<open>
  A granted execution: the row before (if any is left after the purge) is neither completed, nor
  failed for good, nor running under a live lease, has attempts left, and the row after is
  running under the fresh token with one attempt more.
\<close>

lemma begin_granted_cases:
  assumes "begin_request_execution E t tok L k x ow di fp sec = (Inr (True, msg, tk), L')"
  shows "k \<noteq> [] \<and> msg = [] \<and> tk = Some tok \<and> (\<exists>e. L' k = Some e \<and> le_state e = REQUEST_STATE_RUNNING \<and>
     le_execution_token e = Some tok \<and> le_updated_at e = t \<and>
     (case purge t L k of
        None \<Rightarrow> le_attempt_count e = 1 \<and> le_max_attempts e = MAX_REQUEST_ATTEMPTS \<and> le_expires_at e = x
      | Some row \<Rightarrow> le_attempt_count e = le_attempt_count row + 1 \<and> le_max_attempts e = le_max_attempts row \<and>
          le_attempt_count row < le_max_attempts row \<and> le_expires_at e = min (le_expires_at row) x \<and>
          le_state row \<noteq> REQUEST_STATE_COMPLETED \<and> le_state row \<noteq> REQUEST_STATE_FINAL_FAILURE \<and>
          \<not> (le_state row = REQUEST_STATE_RUNNING \<and> t - le_updated_at row < RUNNING_LEASE_SECONDS) \<and>
          verify_integrity E row sec = Inr ()))"
proof (cases "purge t L k")
  case None
  then show ?thesis using assms unfolding begin_request_execution_def
    by (auto simp: transact_Inr Let_def split: if_split_asm dest!: write_record_Inr)
next
  case (Some row)
  then show ?thesis using assms unfolding begin_request_execution_def begin_existing_def
    by (auto simp: transact_Inr Let_def split: if_split_asm dest!: write_record_Inr)
qed

lemma begin_completed:
  assumes "L k = Some e" "t < le_expires_at e" "le_state e = REQUEST_STATE_COMPLETED"
    "verify_integrity E e sec = Inr ()" "k \<noteq> []"
  shows "begin_request_execution E t tok L k x ow di fp sec =
    (Inr (False, ''Delegation request replay detected'', None), purge t L)"
proof -
  have "purge t L k = Some e" using assms by (simp add: purge_Some)
  then show ?thesis using assms
    by (simp add: begin_request_execution_def begin_existing_def transact_def Let_def)
qed

lemma begin_running:
  assumes "L k = Some e" "t < le_expires_at e" "le_state e = REQUEST_STATE_RUNNING"
    "t - le_updated_at e < RUNNING_LEASE_SECONDS" "verify_integrity E e sec = Inr ()" "k \<noteq> []"
  shows "begin_request_execution E t tok L k x ow di fp sec =
    (Inr (False, ''Delegation request already running'', None), purge t L)"
proof -
  have "purge t L k = Some e" using assms by (simp add: purge_Some)
  then show ?thesis using assms
    by (simp add: begin_request_execution_def begin_existing_def transact_def Let_def py_consts)
qed

text \<open>Whatever it answers, a \<open>begin\<close> on a live row that it does not grant keeps a running row.\<close>

lemma begin_live_lease:
  assumes "L k = Some e" "t < le_expires_at e" "le_state e = REQUEST_STATE_RUNNING"
    "t - le_updated_at e < RUNNING_LEASE_SECONDS"
  shows "snd (begin_request_execution E t tok L k x ow di fp sec) k = Some e \<and>
    (\<forall>msg tk. fst (begin_request_execution E t tok L k x ow di fp sec) \<noteq> Inr (True, msg, tk))"
proof -
  have p: "purge t L k = Some e" using assms by (simp add: purge_Some)
  show ?thesis
  proof (cases "verify_integrity E e sec")
    case (Inl err)
    then show ?thesis using assms p
      by (auto simp: begin_request_execution_def begin_existing_def transact_def Let_def)
  next
    case (Inr u)
    then show ?thesis using assms p
      by (auto simp: begin_request_execution_def begin_existing_def transact_def Let_def py_consts)
  qed
qed

section \<open>The row after a transaction\<close>

definition same_counters :: "ledger_entry \<Rightarrow> ledger_entry \<Rightarrow> bool" where
  "same_counters e e' \<longleftrightarrow> le_attempt_count e' = le_attempt_count e \<and> le_max_attempts e' = le_max_attempts e"

lemma begin_row:
  assumes "purge t L k = Some e"
  shows "\<exists>e'. snd (begin_request_execution E t tok L k x ow di fp sec) k = Some e' \<and>
     le_max_attempts e' = le_max_attempts e \<and> le_attempt_count e \<le> le_attempt_count e' \<and>
     (le_attempt_count e \<le> le_max_attempts e \<longrightarrow> le_attempt_count e' \<le> le_max_attempts e') \<and>
     min (le_expires_at e) x \<le> le_expires_at e'"
proof -
  have L: "L k = Some e" using assms by (simp add: purge_Some)
  show ?thesis
  proof (cases "k = [] \<or> (\<exists>er. begin_existing E t tok (purge t L) e k x ow di fp sec = Inl er)")
    case True
    then show ?thesis using L assms by (auto simp: begin_request_execution_def transact_def)
  next
    case False
    then obtain a L' where b: "begin_existing E t tok (purge t L) e k x ow di fp sec = Inr (a, L')"
      by (cases "begin_existing E t tok (purge t L) e k x ow di fp sec") auto
    then have "snd (begin_request_execution E t tok L k x ow di fp sec) = L'"
      using False assms by (simp add: begin_request_execution_def transact_def)
    then show ?thesis
      using b by (elim begin_existing_cases) (use assms in \<open>auto dest!: write_record_Inr\<close>)
  qed
qed

lemma begin_new_row:
  assumes "L k \<noteq> Some e" "snd (begin_request_execution E t tok L k x ow di fp sec) k = Some e"
    "purge t L k = None"
  shows "le_attempt_count e = 1 \<and> le_max_attempts e = MAX_REQUEST_ATTEMPTS \<and> le_expires_at e = x"
  using assms unfolding begin_request_execution_def Let_def
  by (auto simp: transact_snd split: sum.split_asm if_split_asm dest!: write_record_Inr)

lemma heartbeat_row:
  "snd (heartbeat_request_execution E t L k sec tok) k = (if L k = None then None else
     snd (heartbeat_request_execution E t L k sec tok) k)"
  "L k = Some e \<Longrightarrow> \<exists>e'. snd (heartbeat_request_execution E t L k sec tok) k = Some e' \<and> same_counters e e' \<and>
     le_expires_at e' = le_expires_at e \<and> le_state e' = le_state e \<and>
     le_execution_token e' = le_execution_token e \<and>
     (le_updated_at e' = le_updated_at e \<or> le_updated_at e' = t)"
proof -
  show "snd (heartbeat_request_execution E t L k sec tok) k = (if L k = None then None else
     snd (heartbeat_request_execution E t L k sec tok) k)"
    by (auto simp: heartbeat_request_execution_def transact_snd)
  show "\<exists>e'. snd (heartbeat_request_execution E t L k sec tok) k = Some e' \<and> same_counters e e' \<and>
     le_expires_at e' = le_expires_at e \<and> le_state e' = le_state e \<and>
     le_execution_token e' = le_execution_token e \<and>
     (le_updated_at e' = le_updated_at e \<or> le_updated_at e' = t)" if "L k = Some e"
    using that unfolding heartbeat_request_execution_def same_counters_def
    by (auto simp: transact_snd split: sum.split if_split_asm dest!: write_record_Inr)
qed

lemma finalize_row:
  "L k = None \<Longrightarrow> snd (finalize_request_execution E t L k st sec err tok) = L"
  "L k = Some e \<Longrightarrow> \<exists>e'. snd (finalize_request_execution E t L k st sec err tok) k = Some e' \<and>
     same_counters e e' \<and> le_expires_at e' = le_expires_at e"
  unfolding finalize_request_execution_def same_counters_def Let_def
  by (auto simp: transact_snd split: sum.split if_split_asm dest!: write_record_Inr)

lemma finalize_foreign:
  assumes "L k = Some e" "foreign_token e tok"
  shows "snd (finalize_request_execution E t L k st sec err tok) = L"
    and "fst (finalize_request_execution E t L k st sec err tok) \<noteq> Inr True"
    and "snd (heartbeat_request_execution E t L k sec tok) = L"
    and "fst (heartbeat_request_execution E t L k sec tok) \<noteq> Inr True"
  using assms unfolding finalize_request_execution_def heartbeat_request_execution_def transact_def
  by (auto split: sum.split if_split_asm)

lemma finalize_True:
  assumes "finalize_request_execution E t L k st sec err tok = (Inr True, L')"
  shows "\<exists>row e. L k = Some row \<and> \<not> foreign_token row tok \<and> L' k = Some e \<and> same_counters row e \<and>
     le_execution_token e = None \<and> le_expires_at e = le_expires_at row \<and> le_updated_at e = t \<and>
     le_state e = (if st = REQUEST_STATE_RETRYABLE_FAILURE \<and> le_attempt_count row \<ge> le_max_attempts row
       then REQUEST_STATE_FINAL_FAILURE else st)"
  using assms unfolding finalize_request_execution_def same_counters_def
  by (auto simp: transact_Inr Let_def split: option.split_asm if_split_asm dest!: write_record_Inr)

lemma consume_row:
  "purge t L k = Some e \<Longrightarrow> snd (consume_result_replay E t L k ow di fp x sec) k = Some e"
  "snd (consume_result_replay E t L k ow di fp x sec) k = Some e \<Longrightarrow> L k \<noteq> Some e \<Longrightarrow>
     le_attempt_count e = 1 \<and> le_max_attempts e = 1 \<and> le_state e = RESULT_STATE_CONSUMED \<and>
     le_execution_token e = None \<and> le_expires_at e = effective_expiry t x"
proof -
  assume p: "purge t L k = Some e"
  then have "L k = Some e" by (simp add: purge_Some)
  then show "snd (consume_result_replay E t L k ow di fp x sec) k = Some e"
    using p unfolding consume_result_replay_def Let_def
    by (auto simp: transact_snd split: sum.split)
next
  assume "snd (consume_result_replay E t L k ow di fp x sec) k = Some e" "L k \<noteq> Some e"
  then show "le_attempt_count e = 1 \<and> le_max_attempts e = 1 \<and> le_state e = RESULT_STATE_CONSUMED \<and>
     le_execution_token e = None \<and> le_expires_at e = effective_expiry t x"
    unfolding consume_result_replay_def Let_def
    by (auto simp: transact_snd purge_Some split: sum.split_asm option.split_asm if_split_asm
        dest!: write_record_Inr)
qed

lemma consume_granted:
  assumes "consume_result_replay E t L k ow di fp x sec = (Inr (True, msg), L')"
  shows "k \<noteq> [] \<and> opt_str sec \<noteq> [] \<and> purge t L k = None \<and>
    (\<exists>e. L' k = Some e \<and> le_expires_at e = effective_expiry t x)"
  using assms unfolding consume_result_replay_def
  by (auto simp: transact_Inr Let_def split: option.split_asm if_split_asm dest!: write_record_Inr)

lemma consume_refused:
  assumes "L k = Some e" "t < le_expires_at e"
  shows "fst (consume_result_replay E t L k ow di fp x sec) \<noteq> Inr (True, msg)"
proof -
  have p: "purge t L k = Some e" using assms by (simp add: purge_Some)
  show ?thesis
  proof (cases "verify_integrity E e sec")
    case (Inl err)
    then show ?thesis using p by (simp add: consume_result_replay_def transact_def Let_def)
  next
    case (Inr u)
    then show ?thesis using p by (simp add: consume_result_replay_def transact_def Let_def)
  qed
qed

section \<open>Integrity\<close>

text \<open>A row written under a key passes the check under the same key, when the delegation id is text.\<close>

lemma stored_text_id: "sql_text E (PStr s) = Inr x \<longleftrightarrow> x = Some s"
  by (auto simp: sql_text_def)

lemma written_row_verifies:
  assumes "write_record E L k kind st a m fs u x ow (PStr di) fp sec err tok = Inr L'"
    and "\<forall>key msg. hmac_sha256_hex E key msg \<noteq> [] \<and> (\<forall>c \<in> set (hmac_sha256_hex E key msg). ord c < 128)"
  shows "\<exists>e. L' k = Some e \<and> verify_integrity E e sec = Inr ()"
proof -
  obtain mac where L': "L' = L(k \<mapsto> \<lparr>le_replay_key = k, le_kind = kind, le_state = st, le_attempt_count = a,
        le_max_attempts = m, le_first_seen_at = fs, le_updated_at = u, le_expires_at = x,
        le_owner_agent_id = Some ow, le_delegation_id = Some di, le_payload_fingerprint = Some fp,
        le_integrity_mac = mac, le_last_error = err, le_execution_token = tok\<rparr>)" (is "_ = L(k \<mapsto> ?e)")
    and mac: "compute_integrity_mac E (stable_body k kind st a m fs u x (PStr ow) (PStr di) (PStr fp) err tok) sec
      = Inr mac"
    using write_record_Inr [OF assms(1)] by (auto simp: stored_text_id)
  have body: "entry_body ?e = stable_body k kind st a m fs u x (PStr ow) (PStr di) (PStr fp) err tok"
    by (simp add: entry_body_def opt_val_def)
  define e where "e = ?e"
  have c: "compute_integrity_mac E (entry_body e) sec = Inr mac" "le_integrity_mac e = mac"
    using mac body by (simp_all add: e_def)
  have "verify_integrity E e sec = Inr ()"
  proof (cases "opt_str sec = []")
    case False
    then obtain key where "mac = Some (hmac_sha256_hex E key
        (utf8 (stable_record_payload E (stable_body k kind st a m fs u x (PStr ow) (PStr di) (PStr fp) err tok))))"
      using mac by (auto simp: compute_integrity_mac_def)
    then show ?thesis using False c assms(2) by (auto simp: verify_integrity_def opt_str_def not_le)
  qed (simp add: verify_integrity_def)
  then show ?thesis using L' by (simp add: e_def)
qed

lemma entry_body_inject:
  assumes "sort_keys (PDict (entry_body e)) = sort_keys (PDict (entry_body e'))"
  shows "e\<lparr>le_integrity_mac := m\<rparr> = e'\<lparr>le_integrity_mac := m\<rparr>"
proof -
  have d: "distinct (map fst (entry_body e))" for e by (simp add: entry_body_def stable_body_def)
  have look: "map_option sort_keys (map_of (entry_body e) f) = map_option sort_keys (map_of (entry_body e') f)" for f
    by (rule norm_dict_lookup [OF d d assms])
  have o: "sort_keys (opt_val a) = opt_val a" for a by (cases a) (simp_all add: opt_val_def)
  note fields = look [of "''replay_key''"] look [of "''kind''"] look [of "''state''"]
    look [of "''attempt_count''"] look [of "''max_attempts''"] look [of "''first_seen_at''"]
    look [of "''updated_at''"] look [of "''expires_at''"] look [of "''owner_agent_id''"]
    look [of "''delegation_id''"] look [of "''payload_fingerprint''"] look [of "''last_error''"]
    look [of "''execution_token''"]
  show ?thesis
    using fields by (cases e; cases e') (simp add: entry_body_def stable_body_def o)
qed

text \<open>
  Two rows that pass the check under one key and carry one MAC are equal, or the HMAC of two
  different payloads under that key is the same.
\<close>

lemma verified_rows_equal:
  assumes "float_ok (float_repr E)" and "opt_str sec \<noteq> []"
    and "verify_integrity E e sec = Inr ()" and "verify_integrity E e' sec = Inr ()"
    and "le_integrity_mac e = le_integrity_mac e'"
  shows "e = e' \<or> (\<exists>key. fromhex (opt_str sec) = Some key \<and>
     stable_record_payload E (entry_body e) \<noteq> stable_record_payload E (entry_body e') \<and>
     hmac_sha256_hex E key (utf8 (stable_record_payload E (entry_body e))) =
       hmac_sha256_hex E key (utf8 (stable_record_payload E (entry_body e'))))"
proof -
  obtain key where key: "fromhex (opt_str sec) = Some key"
    using assms(2,3) by (auto simp: verify_integrity_def compute_integrity_mac_def)
  have mac: "opt_str (le_integrity_mac x) = hmac_sha256_hex E key (utf8 (stable_record_payload E (entry_body x)))"
    if "verify_integrity E x sec = Inr ()" for x
    using that assms(2) key
    by (auto simp: verify_integrity_def compute_integrity_mac_def bytes_fromhex_def split: if_split_asm)
  have eq: "hmac_sha256_hex E key (utf8 (stable_record_payload E (entry_body e))) =
       hmac_sha256_hex E key (utf8 (stable_record_payload E (entry_body e')))"
    using mac [OF assms(3)] mac [OF assms(4)] assms(5) by simp
  show ?thesis
  proof (cases "stable_record_payload E (entry_body e) = stable_record_payload E (entry_body e')")
    case True
    then have "sort_keys (PDict (entry_body e)) = sort_keys (PDict (entry_body e'))"
      using json_dumps_inject [OF assms(1)] by (simp add: stable_record_payload_def)
    note same = entry_body_inject [OF this, of "le_integrity_mac e"]
    have "e = e\<lparr>le_integrity_mac := le_integrity_mac e\<rparr>" by (cases e) simp
    also have "\<dots> = e'\<lparr>le_integrity_mac := le_integrity_mac e\<rparr>" by (rule same)
    also have "\<dots> = e'" unfolding assms(5) by (cases e') simp
    finally show ?thesis by blast
  next
    case False
    then show ?thesis using eq key by blast
  qed
qed

end
