(* ===== verification/LedgerSafety.thy ===== *)
theory LedgerSafety
  imports LedgerLaws
begin

text \<open>
  Runs of the ledger: the transactions of all processes that share the database file, in the order
  SQLite serialises them. Two interfaces state what the callers rely on: an operation granted a
  bounded number of times, and one granted at most once. The ledger is their provider.
\<close>

section \<open>Interfaces\<close>

text \<open>How many operations of a sequence are granted, each in the state the earlier ones leave.\<close>

fun count_granted :: "('op \<Rightarrow> 's \<Rightarrow> 's) \<Rightarrow> ('op \<Rightarrow> 's \<Rightarrow> bool) \<Rightarrow> 'op list \<Rightarrow> 's \<Rightarrow> nat" where
  "count_granted step granted [] s = 0"
| "count_granted step granted (op # ops) s =
     (if granted op s then 1 else 0) + count_granted step granted ops (step op s)"

locale bounded_grants =
  fixes step :: "'op \<Rightarrow> 's \<Rightarrow> 's"
    and granted :: "'op \<Rightarrow> 's \<Rightarrow> bool"
    and attempts :: "'s \<Rightarrow> nat"
    and cap :: nat
    and good :: "'s \<Rightarrow> bool"
    and admissible :: "'op \<Rightarrow> bool"
  assumes good_step: "good s \<Longrightarrow> admissible op \<Longrightarrow> good (step op s)"
    and attempts_mono: "good s \<Longrightarrow> admissible op \<Longrightarrow> attempts s \<le> attempts (step op s)"
    and attempts_grant: "good s \<Longrightarrow> admissible op \<Longrightarrow> granted op s \<Longrightarrow> attempts s < attempts (step op s)"
    and attempts_cap: "good s \<Longrightarrow> attempts s \<le> cap"
begin

lemma grants_bound: "good s \<Longrightarrow> list_all admissible ops \<Longrightarrow> attempts s + count_granted step granted ops s \<le> cap"
proof (induction ops arbitrary: s)
  case Nil
  then show ?case using attempts_cap by simp
next
  case (Cons op ops)
  then have s: "good s" and op: "admissible op" and rest: "list_all admissible ops" by simp_all
  have "attempts (step op s) + count_granted step granted ops (step op s) \<le> cap"
    by (rule Cons.IH [OF good_step [OF s op] rest])
  moreover have "attempts s + (if granted op s then 1 else 0) \<le> attempts (step op s)"
    using attempts_mono [OF s op] attempts_grant [OF s op] by (cases "granted op s") simp_all
  ultimately show ?case by simp
qed

lemma grants_cap: "good s \<Longrightarrow> list_all admissible ops \<Longrightarrow> count_granted step granted ops s \<le> cap"
  using grants_bound [where s = s and ops = ops] by simp

end

locale one_shot =
  fixes step :: "'op \<Rightarrow> 's \<Rightarrow> 's"
    and granted :: "'op \<Rightarrow> 's \<Rightarrow> bool"
    and spent :: "'s \<Rightarrow> bool"
    and admissible :: "'op \<Rightarrow> bool"
  assumes grant_spends: "admissible op \<Longrightarrow> granted op s \<Longrightarrow> spent (step op s)"
    and spent_stays: "admissible op \<Longrightarrow> spent s \<Longrightarrow> spent (step op s)"
    and spent_refuses: "admissible op \<Longrightarrow> spent s \<Longrightarrow> \<not> granted op s"

sublocale one_shot \<subseteq> bounded_grants step granted "\<lambda>s. if spent s then 1 else 0" 1 "\<lambda>s. True" admissible
  by unfold_locales (auto simp: grant_spends spent_stays spent_refuses)

context one_shot
begin

lemma spent_no_grant: "spent s \<Longrightarrow> list_all admissible ops \<Longrightarrow> count_granted step granted ops s = 0"
  using grants_bound [where s = s and ops = ops] by simp

end

section \<open>Transactions and runs\<close>

text \<open>
  One transaction with its caller's arguments and the instant it reads from the clock. The
  answers of the functions are what a caller sees, \<open>exec_op\<close> is what the table becomes.
\<close>

datatype ledger_op =
    Begin rat string string rat string pyval string "string option"
      \<comment> \<open>now, fresh token, key, retention, owner, delegation id, fingerprint, integrity key\<close>
  | Heartbeat rat string "string option" "string option"
      \<comment> \<open>now, key, integrity key, execution token\<close>
  | Finalize rat string string "string option" "string option" "string option"
      \<comment> \<open>now, key, final state, integrity key, last error, execution token\<close>
  | Consume rat string string pyval string "rat option" "string option"
      \<comment> \<open>now, key, owner, delegation id, fingerprint, retention, integrity key\<close>

fun op_time :: "ledger_op \<Rightarrow> rat" where
  "op_time (Begin t tok k x ow di fp sec) = t"
| "op_time (Heartbeat t k sec tok) = t"
| "op_time (Finalize t k st sec err tok) = t"
| "op_time (Consume t k ow di fp x sec) = t"

fun op_key :: "ledger_op \<Rightarrow> string" where
  "op_key (Begin t tok k x ow di fp sec) = k"
| "op_key (Heartbeat t k sec tok) = k"
| "op_key (Finalize t k st sec err tok) = k"
| "op_key (Consume t k ow di fp x sec) = k"

fun exec_op :: "py_env \<Rightarrow> ledger_op \<Rightarrow> ledger \<Rightarrow> ledger" where
  "exec_op E (Begin t tok k x ow di fp sec) L = snd (begin_request_execution E t tok L k x ow di fp sec)"
| "exec_op E (Heartbeat t k sec tok) L = snd (heartbeat_request_execution E t L k sec tok)"
| "exec_op E (Finalize t k st sec err tok) L = snd (finalize_request_execution E t L k st sec err tok)"
| "exec_op E (Consume t k ow di fp x sec) L = snd (consume_result_replay E t L k ow di fp x sec)"

definition run_ops :: "py_env \<Rightarrow> ledger_op list \<Rightarrow> ledger \<Rightarrow> ledger" where
  "run_ops E ops L = fold (exec_op E) ops L"

lemma run_ops_simps [simp]:
  "run_ops E [] L = L"
  "run_ops E (op # ops) L = run_ops E ops (exec_op E op L)"
  by (simp_all add: run_ops_def)

text \<open>The execution of \<open>k\<close> is granted; the result \<open>k\<close> is consumed.\<close>

fun grants_execution :: "py_env \<Rightarrow> string \<Rightarrow> ledger_op \<Rightarrow> ledger \<Rightarrow> bool" where
  "grants_execution E k (Begin t tok k' x ow di fp sec) L =
     (k' = k \<and> (case fst (begin_request_execution E t tok L k x ow di fp sec) of
        Inr (granted, _, _) \<Rightarrow> granted | Inl _ \<Rightarrow> False))"
| "grants_execution E k _ L = False"

fun consumes :: "py_env \<Rightarrow> string \<Rightarrow> ledger_op \<Rightarrow> ledger \<Rightarrow> bool" where
  "consumes E k (Consume t k' ow di fp x sec) L =
     (k' = k \<and> (case fst (consume_result_replay E t L k ow di fp x sec) of
        Inr (granted, _) \<Rightarrow> granted | Inl _ \<Rightarrow> False))"
| "consumes E k _ L = False"

text \<open>Transactions before the instant \<open>X\<close> that ask for \<open>k\<close> to be kept until \<open>X\<close> at least.\<close>

fun covers :: "rat \<Rightarrow> string \<Rightarrow> ledger_op \<Rightarrow> bool" where
  "covers X k (Begin t tok k' x ow di fp sec) = (t < X \<and> (k' = k \<longrightarrow> X \<le> x))"
| "covers X k (Consume t k' ow di fp x sec) = (t < X \<and> (k' = k \<longrightarrow> X \<le> effective_expiry t x))"
| "covers X k op = True"

definition row_ok :: "ledger_entry \<Rightarrow> bool" where
  "row_ok e \<longleftrightarrow> 1 \<le> le_attempt_count e \<and> le_attempt_count e \<le> le_max_attempts e \<and>
     le_max_attempts e \<le> MAX_REQUEST_ATTEMPTS"

definition kept :: "rat \<Rightarrow> string \<Rightarrow> ledger \<Rightarrow> bool" where
  "kept X k L \<longleftrightarrow> (\<forall>e. L k = Some e \<longrightarrow> row_ok e \<and> X \<le> le_expires_at e)"

definition attempts_of :: "string \<Rightarrow> ledger \<Rightarrow> nat" where
  "attempts_of k L = (case L k of None \<Rightarrow> 0 | Some e \<Rightarrow> nat (le_attempt_count e))"

section \<open>What a transaction does to the row of its key\<close>

lemma purge_cases: "purge t L k = L k \<or> purge t L k = None"
  by (auto simp: purge_def split: option.split)

lemma purge_kept: "L k = Some e \<Longrightarrow> X \<le> le_expires_at e \<Longrightarrow> t < X \<Longrightarrow> purge t L k = Some e"
  by (simp add: purge_Some)

lemma exec_other_key:
  assumes "op_key op \<noteq> k"
  shows "exec_op E op L k = L k \<or> exec_op E op L k = purge (op_time op) L k"
  using assms
proof (cases op)
  case (Begin t tok k' x ow di fp sec)
  then show ?thesis using assms begin_other_key [of k k' E t tok L x ow di fp sec] by auto
next
  case (Consume t k' ow di fp x sec)
  then show ?thesis using assms consume_other_key [of k k' E t L ow di fp x sec] by auto
qed (auto simp: heartbeat_other_key finalize_other_key)

text \<open>A row that is not kept any more disappears; one that is new or rewritten stays in bounds.\<close>

lemma row_ok_new: "le_attempt_count e = 1 \<Longrightarrow> le_max_attempts e \<in> {1, 2} \<Longrightarrow> row_ok e"
  by (auto simp: row_ok_def py_consts)

lemma exec_row:
  assumes row: "L k = Some e" and X: "X \<le> le_expires_at e" and c: "covers X k op"
  shows "\<exists>e'. exec_op E op L k = Some e' \<and> X \<le> le_expires_at e' \<and> le_max_attempts e' = le_max_attempts e \<and>
     le_attempt_count e \<le> le_attempt_count e' \<and>
     (le_attempt_count e \<le> le_max_attempts e \<longrightarrow> le_attempt_count e' \<le> le_max_attempts e')"
proof (cases op)
  case (Begin t tok k' x ow di fp sec)
  then have p: "purge t L k = Some e" using purge_kept [of L k, OF row X] c by simp
  show ?thesis
  proof (cases "k' = k")
    case True
    then show ?thesis using begin_row [of t L k e, OF p, of E tok x ow di fp sec] Begin c X by fastforce
  next
    case False
    then show ?thesis using exec_other_key [of op k E L] Begin row p X by auto
  qed
next
  case (Heartbeat t k' sec tok)
  show ?thesis
  proof (cases "k' = k")
    case True
    then show ?thesis using heartbeat_row(2) [of L k e, OF row, of E t sec tok] Heartbeat X
      by (auto simp: same_counters_def)
  next
    case False
    then show ?thesis using heartbeat_other_key [of k k' E t L sec tok] Heartbeat row X by simp
  qed
next
  case (Finalize t k' st sec err tok)
  show ?thesis
  proof (cases "k' = k")
    case True
    then show ?thesis using finalize_row(2) [of L k e, OF row, of E t st sec err tok] Finalize X
      by (auto simp: same_counters_def)
  next
    case False
    then show ?thesis using finalize_other_key [of k k' E t L st sec err tok] Finalize row X by simp
  qed
next
  case (Consume t k' ow di fp x sec)
  then have p: "purge t L k = Some e" using purge_kept [of L k, OF row X] c by simp
  show ?thesis
  proof (cases "k' = k")
    case True
    then show ?thesis using consume_row(1) [of t L k e, OF p, of E ow di fp x sec] Consume X by simp
  next
    case False
    then show ?thesis using exec_other_key [of op k E L] Consume row p X by auto
  qed
qed

lemma exec_new_row:
  assumes none: "L k = None" and new: "exec_op E op L k = Some e" and c: "covers X k op"
  shows "row_ok e \<and> X \<le> le_expires_at e"
proof (cases op)
  case (Begin t tok k' x ow di fp sec)
  have p: "purge t L k = None" using none by (simp add: purge_None)
  have "k' = k" using exec_other_key [of op k E L] Begin none p new by auto
  then show ?thesis using begin_new_row [of L k e E t tok x ow di fp sec] Begin none new p c
    by (simp add: row_ok_new py_consts)
next
  case (Heartbeat t k' sec tok)
  then show ?thesis using heartbeat_other_key [of k k' E t L sec tok] heartbeat_row(1) [of E t L k sec tok] none new
    by (cases "k' = k") auto
next
  case (Finalize t k' st sec err tok)
  then show ?thesis using finalize_other_key [of k k' E t L st sec err tok] finalize_row(1) [of L k E t st sec err tok]
      none new
    by (cases "k' = k") auto
next
  case (Consume t k' ow di fp x sec)
  have p: "purge t L k = None" using none by (simp add: purge_None)
  have "k' = k" using exec_other_key [of op k E L] Consume none p new by auto
  then show ?thesis using consume_row(2) [of E t L k ow di fp x sec e] Consume none new c
    by (simp add: row_ok_new)
qed

lemma kept_step: "kept X k L \<Longrightarrow> covers X k op \<Longrightarrow> kept X k (exec_op E op L)"
proof (cases "L k")
  case None
  assume "covers X k op"
  then show ?thesis using exec_new_row [of L k, OF None] by (auto simp: kept_def)
next
  case (Some e)
  assume "kept X k L" "covers X k op"
  then show ?thesis using exec_row [of L k e, OF Some, of X op E] Some by (auto simp: kept_def row_ok_def)
qed

lemma attempts_step:
  "kept X k L \<Longrightarrow> covers X k op \<Longrightarrow> attempts_of k L \<le> attempts_of k (exec_op E op L)"
proof (cases "L k")
  case None
  then show ?thesis by (simp add: attempts_of_def)
next
  case (Some e)
  assume "kept X k L" "covers X k op"
  then show ?thesis using exec_row [of L k e, OF Some, of X op E] Some by (auto simp: kept_def attempts_of_def)
qed

lemma attempts_grant:
  assumes k: "kept X k L" and c: "covers X k op" and g: "grants_execution E k op L"
  shows "attempts_of k L < attempts_of k (exec_op E op L)"
proof -
  obtain t tok x ow di fp sec where op: "op = Begin t tok k x ow di fp sec"
    using g by (cases op) auto
  obtain msg tk L' where b: "begin_request_execution E t tok L k x ow di fp sec = (Inr (True, msg, tk), L')"
    using g op by (auto split: sum.split_asm prod.split_asm simp: prod_eq_iff)
  show ?thesis
  proof (cases "L k")
    case None
    then have "purge t L k = None" by (simp add: purge_None)
    then show ?thesis using begin_granted_cases [OF b] op b None by (auto simp: attempts_of_def)
  next
    case (Some e)
    then have "purge t L k = Some e" using k c op by (auto simp: kept_def purge_Some)
    then show ?thesis using begin_granted_cases [OF b] op b Some k by (auto simp: attempts_of_def kept_def row_ok_def)
  qed
qed

lemma attempts_cap: "kept X k L \<Longrightarrow> attempts_of k L \<le> 2"
  by (auto simp: kept_def attempts_of_def row_ok_def py_consts split: option.split)

text \<open>The ledger provides both interfaces.\<close>

interpretation requests: bounded_grants "exec_op E" "grants_execution E k" "attempts_of k" 2 "kept X k" "covers X k"
  for E k X
  by unfold_locales (fact kept_step attempts_step attempts_grant attempts_cap)+

definition recorded :: "rat \<Rightarrow> string \<Rightarrow> ledger \<Rightarrow> bool" where
  "recorded X k L \<longleftrightarrow> (\<exists>e. L k = Some e \<and> X \<le> le_expires_at e)"

lemma consume_spends:
  assumes c: "covers X k op" and g: "consumes E k op L"
  shows "recorded X k (exec_op E op L)"
proof -
  obtain t ow di fp x sec where op: "op = Consume t k ow di fp x sec"
    using g by (cases op) auto
  obtain msg L' where "consume_result_replay E t L k ow di fp x sec = (Inr (True, msg), L')"
    using g op by (auto split: sum.split_asm prod.split_asm simp: prod_eq_iff)
  then show ?thesis using consume_granted op c by (fastforce simp: recorded_def)
qed

lemma recorded_stays: "covers X k op \<Longrightarrow> recorded X k L \<Longrightarrow> recorded X k (exec_op E op L)"
  using exec_row unfolding recorded_def by blast

lemma recorded_refuses:
  assumes "covers X k op" and r: "recorded X k L"
  shows "\<not> consumes E k op L"
proof (cases op)
  case (Consume t k' ow di fp x sec)
  obtain e where "L k = Some e" "X \<le> le_expires_at e" using r by (auto simp: recorded_def)
  then have "fst (consume_result_replay E t L k ow di fp x sec) \<noteq> Inr (True, msg)" for msg
    using assms(1) Consume consume_refused [of L k e t] by simp
  note refused = this
  show ?thesis using Consume refused
    by (cases "fst (consume_result_replay E t L k ow di fp x sec)") auto
qed simp_all

interpretation results: one_shot "exec_op E" "consumes E k" "recorded X k" "covers X k" for E k X
  by unfold_locales (fact consume_spends recorded_stays recorded_refuses)+

lemma recorded_run: "recorded X k L \<Longrightarrow> list_all (covers X k) ops \<Longrightarrow> recorded X k (run_ops E ops L)"
  by (induction ops arbitrary: L) (simp_all add: recorded_stays)

end
