(* ===== verification/LedgerReach.thy ===== *)
theory LedgerReach
  imports LedgerSafety
begin

text \<open>
  The reachable tables: an inductive step relation for the transactions that the protocol layer
  issues, the invariant of every stored row, the lease of a running execution and the life of a
  completed one under transactions of other processes.
\<close>

section \<open>Steps and reachable tables\<close>

text \<open>\<^verbatim>\<open>DelegationProtocol\<close> finalizes a request only as completed or as a retryable failure.\<close>

fun issued :: "ledger_op \<Rightarrow> bool" where
  "issued (Finalize t k st sec err tok) =
     (st \<in> {REQUEST_STATE_COMPLETED, REQUEST_STATE_RETRYABLE_FAILURE})"
| "issued op = True"

inductive ledger_step :: "py_env \<Rightarrow> ledger \<Rightarrow> ledger_op \<Rightarrow> ledger \<Rightarrow> bool" for E where
  "issued op \<Longrightarrow> ledger_step E L op (exec_op E op L)"

inductive_simps ledger_step_simps: "ledger_step E L op L'"

inductive_cases ledger_step_BeginE: "ledger_step E L (Begin t tok k x ow di fp sec) L'"
inductive_cases ledger_step_FinalizeE: "ledger_step E L (Finalize t k st sec err tok) L'"

inductive reachable :: "py_env \<Rightarrow> ledger \<Rightarrow> bool" for E where
  reachable_empty: "reachable E Map.empty"
| reachable_step: "reachable E L \<Longrightarrow> ledger_step E L op L' \<Longrightarrow> reachable E L'"

lemma reachable_run: "reachable E L \<Longrightarrow> list_all issued ops \<Longrightarrow> reachable E (run_ops E ops L)"
proof (induction ops arbitrary: L)
  case (Cons op ops)
  have "ledger_step E L op (exec_op E op L)" using Cons.prems by (simp add: ledger_step_simps)
  then show ?case using Cons.IH Cons.prems reachable_step by fastforce
qed simp

section \<open>The invariant of the rows\<close>

definition entry_ok :: "string \<Rightarrow> ledger_entry \<Rightarrow> bool" where
  "entry_ok k e \<longleftrightarrow> le_replay_key e = k \<and> row_ok e \<and>
     le_state e \<in> {REQUEST_STATE_RUNNING, REQUEST_STATE_COMPLETED, REQUEST_STATE_RETRYABLE_FAILURE,
       REQUEST_STATE_FINAL_FAILURE, RESULT_STATE_CONSUMED} \<and>
     (le_state e = REQUEST_STATE_RUNNING \<longleftrightarrow> le_execution_token e \<noteq> None) \<and>
     (le_kind e = RESULT_KIND \<longleftrightarrow> le_state e = RESULT_STATE_CONSUMED)"

definition ledger_ok :: "ledger \<Rightarrow> bool" where
  "ledger_ok L \<longleftrightarrow> (\<forall>k e. L k = Some e \<longrightarrow> entry_ok k e)"

lemma ledger_okD: "ledger_ok L \<Longrightarrow> L k = Some e \<Longrightarrow> entry_ok k e"
  by (simp add: ledger_ok_def)

lemma ledger_ok_purge: "ledger_ok L \<Longrightarrow> ledger_ok (purge t L)"
  by (auto simp: ledger_ok_def purge_Some)

lemma ledger_ok_update: "ledger_ok L \<Longrightarrow> entry_ok k e \<Longrightarrow> ledger_ok (L(k \<mapsto> e))"
  by (auto simp: ledger_ok_def)

lemma ledger_ok_write:
  "write_record E L k kind st a m fs u x ow di fp sec err tok = Inr L' \<Longrightarrow> ledger_ok L \<Longrightarrow>
   1 \<le> a \<and> a \<le> m \<and> m \<le> MAX_REQUEST_ATTEMPTS \<Longrightarrow>
   st \<in> {REQUEST_STATE_RUNNING, REQUEST_STATE_COMPLETED, REQUEST_STATE_RETRYABLE_FAILURE,
       REQUEST_STATE_FINAL_FAILURE, RESULT_STATE_CONSUMED} \<Longrightarrow>
   (st = REQUEST_STATE_RUNNING \<longleftrightarrow> tok \<noteq> None) \<Longrightarrow> (kind = RESULT_KIND \<longleftrightarrow> st = RESULT_STATE_CONSUMED) \<Longrightarrow>
   ledger_ok L'"
  by (drule write_record_Inr) (auto intro!: ledger_ok_update simp: entry_ok_def row_ok_def)

lemmas state_consts = REQUEST_KIND_def RESULT_KIND_def REQUEST_STATE_RUNNING_def REQUEST_STATE_COMPLETED_def
  REQUEST_STATE_RETRYABLE_FAILURE_def REQUEST_STATE_FINAL_FAILURE_def RESULT_STATE_CONSUMED_def

lemma transact_ok:
  "ledger_ok L \<Longrightarrow> (\<And>a L'. m = Inr (a, L') \<Longrightarrow> ledger_ok L') \<Longrightarrow> ledger_ok (snd (transact L m))"
  by (cases m) (auto simp: transact_def)

lemma begin_existing_ok:
  assumes "ledger_ok L" "L k = Some row" "begin_existing E t tok L row k x ow di fp sec = Inr (a, L')"
  shows "ledger_ok L'"
proof -
  have "row_ok row" using ledger_okD [OF assms(1,2)] by (simp add: entry_ok_def)
  then have r: "1 \<le> le_attempt_count row" "le_attempt_count row \<le> le_max_attempts row"
    "le_max_attempts row \<le> MAX_REQUEST_ATTEMPTS" by (simp_all add: row_ok_def)
  show ?thesis using assms(3)
  proof (cases rule: begin_existing_cases)
    case refused
    then show ?thesis using assms(1) by simp
  next
    case exhausted
    show ?thesis by (rule ledger_ok_write [OF exhausted(1) assms(1)]) (use r in \<open>simp_all add: state_consts\<close>)
  next
    case granted
    show ?thesis by (rule ledger_ok_write [OF granted(1) assms(1)]) (use r granted(2) in \<open>simp_all add: state_consts\<close>)
  qed
qed

lemma begin_ok: "ledger_ok L \<Longrightarrow> ledger_ok (snd (begin_request_execution E t tok L k x ow di fp sec))"
proof -
  assume ok: "ledger_ok L"
  note p = ledger_ok_purge [OF ok, of t]
  have "ledger_ok L'" if m: "(case purge t L k of
       None \<Rightarrow> bindE (write_record E (purge t L) k REQUEST_KIND REQUEST_STATE_RUNNING 1 MAX_REQUEST_ATTEMPTS t t x
           ow di fp sec None (Some tok)) (\<lambda>L2. Inr ((True, [], Some tok), L2))
     | Some row \<Rightarrow> begin_existing E t tok (purge t L) row k x ow di fp sec) = Inr (a, L')" for a L'
  proof (cases "purge t L k")
    case None
    then show ?thesis using m p by (auto elim!: ledger_ok_write simp: py_consts)
  next
    case (Some row)
    then show ?thesis using m begin_existing_ok [OF p Some] by simp
  qed
  then show ?thesis using ok unfolding begin_request_execution_def Let_def
    by (auto intro!: transact_ok)
qed

lemma heartbeat_ok:
  assumes ok: "ledger_ok L"
  shows "ledger_ok (snd (heartbeat_request_execution E t L k sec tok))"
proof (cases "heartbeat_request_execution E t L k sec tok")
  case (Pair r L')
  show ?thesis
  proof (cases "L k = None \<or> L' = L")
    case True
    then show ?thesis using Pair ok by (auto simp: heartbeat_request_execution_def transact_def split: if_split_asm)
  next
    case False
    then obtain row where row: "L k = Some row" by auto
    have e: "entry_ok k row" by (rule ledger_okD [OF ok row])
    have w: "write_record E L k REQUEST_KIND REQUEST_STATE_RUNNING (le_attempt_count row) (le_max_attempts row)
        (le_first_seen_at row) t (le_expires_at row) (opt_str (le_owner_agent_id row))
        (PStr (opt_str (le_delegation_id row))) (opt_str (le_payload_fingerprint row)) sec
        (le_last_error row) (le_execution_token row) = Inr L'"
      and st: "le_state row = REQUEST_STATE_RUNNING"
      using Pair False row unfolding heartbeat_request_execution_def transact_def
      by (auto split: if_split_asm sum.split_asm)
    show ?thesis unfolding Pair snd_conv
      by (rule ledger_ok_write [OF w ok]) (use e st in \<open>auto simp: entry_ok_def row_ok_def state_consts\<close>)
  qed
qed

lemma finalize_ok:
  assumes ok: "ledger_ok L" and st: "st \<in> {REQUEST_STATE_COMPLETED, REQUEST_STATE_RETRYABLE_FAILURE}"
  shows "ledger_ok (snd (finalize_request_execution E t L k st sec err tok))"
proof (cases "finalize_request_execution E t L k st sec err tok")
  case (Pair r L')
  show ?thesis
  proof (cases "L k = None \<or> L' = L")
    case True
    then show ?thesis using finalize_row(1) [of L k E t st sec err tok] Pair ok by auto
  next
    case False
    then obtain row where row: "L k = Some row" by auto
    have e: "entry_ok k row" by (rule ledger_okD [OF ok row])
    obtain st' err' where w: "write_record E L k REQUEST_KIND st' (le_attempt_count row) (le_max_attempts row)
        (le_first_seen_at row) t (le_expires_at row) (opt_str (le_owner_agent_id row))
        (PStr (opt_str (le_delegation_id row))) (opt_str (le_payload_fingerprint row)) sec err' None = Inr L'"
      and st': "st' = st \<or> st' = REQUEST_STATE_FINAL_FAILURE"
      using Pair False row unfolding finalize_request_execution_def transact_def Let_def
      by (auto split: if_split_asm sum.split_asm)
    show ?thesis unfolding Pair snd_conv
      by (rule ledger_ok_write [OF w ok]) (use e st st' in \<open>auto simp: entry_ok_def row_ok_def state_consts\<close>)
  qed
qed

lemma consume_ok: "ledger_ok L \<Longrightarrow> ledger_ok (snd (consume_result_replay E t L k ow di fp x sec))"
  unfolding consume_result_replay_def Let_def
  by (auto intro!: transact_ok split: option.split_asm elim!: ledger_ok_write simp: py_consts ledger_ok_purge)

lemma ledger_step_ok: "ledger_step E L op L' \<Longrightarrow> ledger_ok L \<Longrightarrow> ledger_ok L'"
  by (cases op) (auto simp: ledger_step_simps begin_ok heartbeat_ok finalize_ok consume_ok)

lemma reachable_ok: "reachable E L \<Longrightarrow> ledger_ok L"
  by (induction rule: reachable.induct) (auto simp: ledger_ok_def [of Map.empty] dest: ledger_step_ok)

section \<open>The lease of a running execution\<close>

text \<open>\<open>tok\<close> holds the execution of \<open>k\<close>, whose row is retained until \<open>X\<close> at least.\<close>

definition holds :: "rat \<Rightarrow> string \<Rightarrow> string \<Rightarrow> ledger \<Rightarrow> bool" where
  "holds X k tok L \<longleftrightarrow> (\<exists>e. L k = Some e \<and> le_state e = REQUEST_STATE_RUNNING \<and>
     le_execution_token e = Some tok \<and> X \<le> le_expires_at e)"

text \<open>
  A transaction at an instant at which the row is retained and its last heartbeat is less than
  the lease old; and a run all of whose transactions are such.
\<close>

definition in_lease :: "string \<Rightarrow> ledger_op \<Rightarrow> ledger \<Rightarrow> bool" where
  "in_lease k op L \<longleftrightarrow> (case L k of
     Some e \<Rightarrow> op_time op < le_expires_at e \<and> op_time op - le_updated_at e < RUNNING_LEASE_SECONDS
   | None \<Rightarrow> False)"

fun lease_kept :: "py_env \<Rightarrow> string \<Rightarrow> ledger_op list \<Rightarrow> ledger \<Rightarrow> bool" where
  "lease_kept E k [] L = True"
| "lease_kept E k (op # ops) L = (in_lease k op L \<and> lease_kept E k ops (exec_op E op L))"

fun releases :: "string \<Rightarrow> string \<Rightarrow> ledger_op \<Rightarrow> bool" where
  "releases k tok (Finalize t k' st sec err tk) = (k' = k \<and> tk = Some tok)"
| "releases k tok op = False"

lemma other_key_retained:
  "op_key op \<noteq> k \<Longrightarrow> L k = Some e \<Longrightarrow> op_time op < le_expires_at e \<Longrightarrow> exec_op E op L k = Some e"
  using exec_other_key [of op k E L] by (auto simp: purge_Some)

lemma no_grant_other_key: "op_key op \<noteq> k \<Longrightarrow> \<not> grants_execution E k op L"
  by (cases op) auto

lemma holds_step:
  assumes h: "holds X k tok L" and tok: "tok \<noteq> []" and lease: "in_lease k op L" and rel: "\<not> releases k tok op"
  shows "holds X k tok (exec_op E op L) \<and> \<not> grants_execution E k op L"
proof -
  obtain e where e: "L k = Some e" "le_state e = REQUEST_STATE_RUNNING" "le_execution_token e = Some tok"
      "X \<le> le_expires_at e"
    using h by (auto simp: holds_def)
  have t: "op_time op < le_expires_at e" "op_time op - le_updated_at e < RUNNING_LEASE_SECONDS"
    using lease e by (simp_all add: in_lease_def)
  show ?thesis
  proof (cases "op_key op = k")
    case False
    then show ?thesis using other_key_retained [of op k L e, OF False e(1) t(1)] no_grant_other_key [OF False] e
      by (auto simp: holds_def)
  next
    case True
    then show ?thesis
    proof (cases op)
      case (Begin u tk k' x ow di fp sec)
      have b: "snd (begin_request_execution E u tk L k x ow di fp sec) k = Some e"
        "\<And>msg tk'. fst (begin_request_execution E u tk L k x ow di fp sec) \<noteq> Inr (True, msg, tk')"
        using begin_live_lease [of L k e u E tk x ow di fp sec] e t Begin by auto
      then show ?thesis using e Begin True
        by (cases "fst (begin_request_execution E u tk L k x ow di fp sec)") (auto simp: holds_def)
    next
      case (Heartbeat u k' sec tk)
      then show ?thesis using heartbeat_row(2) [of L k e E u sec tk, OF e(1)] e True by (auto simp: holds_def)
    next
      case (Finalize u k' st sec err tk)
      have "foreign_token e tk" using rel Finalize True e tok by (simp add: foreign_token_def)
      then show ?thesis using finalize_foreign(1) [of L k e tk, OF e(1)] e Finalize True by (auto simp: holds_def)
    next
      case (Consume u k' ow di fp x sec)
      have "purge u L k = Some e" using e t Consume by (simp add: purge_Some)
      then show ?thesis using consume_row(1) [of u L k e E ow di fp x sec] e Consume True by (auto simp: holds_def)
    qed
  qed
qed

lemma holds_run:
  "holds X k tok L \<Longrightarrow> tok \<noteq> [] \<Longrightarrow> lease_kept E k ops L \<Longrightarrow> list_all (\<lambda>op. \<not> releases k tok op) ops \<Longrightarrow>
   holds X k tok (run_ops E ops L) \<and> count_granted (exec_op E) (grants_execution E k) ops L = 0"
proof (induction ops arbitrary: L)
  case (Cons op ops)
  then show ?case using holds_step [of X k tok L op E] by simp
qed simp

section \<open>A completed execution\<close>

definition completed :: "rat \<Rightarrow> string \<Rightarrow> ledger \<Rightarrow> bool" where
  "completed X k L \<longleftrightarrow> (\<exists>e. L k = Some e \<and> le_state e = REQUEST_STATE_COMPLETED \<and> X \<le> le_expires_at e)"

fun finalizes :: "string \<Rightarrow> ledger_op \<Rightarrow> bool" where
  "finalizes k (Finalize t k' st sec err tk) = (k' = k)"
| "finalizes k op = False"

lemma begin_completed_row:
  assumes "purge t L k = Some e" "le_state e = REQUEST_STATE_COMPLETED"
  shows "snd (begin_request_execution E t tok L k x ow di fp sec) k = Some e \<and>
    (\<forall>msg tk. fst (begin_request_execution E t tok L k x ow di fp sec) \<noteq> Inr (True, msg, tk))"
proof -
  have L: "L k = Some e" using assms by (simp add: purge_Some)
  show ?thesis
    by (cases "verify_integrity E e sec")
       (use L in \<open>auto simp: begin_request_execution_def begin_existing_def transact_def assms Let_def\<close>)
qed

lemma completed_step:
  assumes h: "completed X k L" and c: "covers X k op" and f: "\<not> finalizes k op"
  shows "completed X k (exec_op E op L) \<and> \<not> grants_execution E k op L"
proof -
  obtain e where e: "L k = Some e" "le_state e = REQUEST_STATE_COMPLETED" "X \<le> le_expires_at e"
    using h by (auto simp: completed_def)
  show ?thesis
  proof (cases op)
    case (Begin t tk k' x ow di fp sec)
    have p: "purge t L k = Some e" using e c Begin by (simp add: purge_Some)
    show ?thesis
    proof (cases "k' = k")
      case True
      then show ?thesis using begin_completed_row [OF p e(2), of E tk x ow di fp sec] e Begin
        by (cases "fst (begin_request_execution E t tk L k x ow di fp sec)") (auto simp: completed_def)
    next
      case False
      then show ?thesis using begin_other_key [of k k' E t tk L x ow di fp sec] e Begin p
        by (auto simp: completed_def)
    qed
  next
    case (Heartbeat t k' sec tk)
    then show ?thesis using heartbeat_other_key [of k k' E t L sec tk] heartbeat_row(2) [of L k e E t sec tk, OF e(1)] e
      by (cases "k' = k") (auto simp: completed_def)
  next
    case (Finalize t k' st sec err tk)
    then show ?thesis using f finalize_other_key [of k k' E t L st sec err tk] e by (auto simp: completed_def)
  next
    case (Consume t k' ow di fp x sec)
    have p: "purge t L k = Some e" using e c Consume by (simp add: purge_Some)
    then show ?thesis using consume_row(1) [of t L k e E ow di fp x sec]
        consume_other_key [of k k' E t L ow di fp x sec] e Consume
      by (cases "k' = k") (auto simp: completed_def)
  qed
qed

lemma completed_run:
  "completed X k L \<Longrightarrow> list_all (\<lambda>op. covers X k op \<and> \<not> finalizes k op) ops \<Longrightarrow>
   completed X k (run_ops E ops L) \<and> count_granted (exec_op E) (grants_execution E k) ops L = 0"
proof (induction ops arbitrary: L)
  case (Cons op ops)
  then show ?case using completed_step [of X k L op E] by simp
qed simp

text \<open>The holder's finalization as completed: it succeeds or raises.\<close>

lemma holder_completes:
  assumes h: "holds X k tok L"
    and f: "finalize_request_execution E t L k REQUEST_STATE_COMPLETED sec err (Some tok) = (Inr ok, L')" and k: "k \<noteq> []"
  shows "ok \<and> completed X k L'"
proof -
  obtain e where e: "L k = Some e" "le_execution_token e = Some tok" "X \<le> le_expires_at e"
    using h by (auto simp: holds_def)
  have "ok"
    using f e k unfolding finalize_request_execution_def
    by (auto simp: transact_Inr foreign_token_def Let_def)
  then have "finalize_request_execution E t L k REQUEST_STATE_COMPLETED sec err (Some tok) = (Inr True, L')"
    using f by simp
  from finalize_True [OF this] show ?thesis using \<open>ok\<close> e
    by (auto simp: completed_def state_consts)
qed

lemma completed_not_granted:
  assumes "completed X k L" "t < X"
  shows "fst (begin_request_execution E t tok L k x ow di fp sec) \<noteq> Inr (True, msg, tk)"
proof -
  obtain e where e: "L k = Some e" "le_state e = REQUEST_STATE_COMPLETED" "X \<le> le_expires_at e"
    using assms(1) by (auto simp: completed_def)
  have "purge t L k = Some e" by (rule purge_kept [of L k, OF e(1,3) assms(2)])
  from begin_completed_row [OF this e(2)] show ?thesis by blast
qed

end
