(* ===== verification/ExecutionReceipt.thy ===== *)
theory ExecutionReceipt
  imports AuthAdapter
begin

text \<open>
  \<^verbatim>\<open>src/execution_receipt.py\<close>: the advisory receipt of an executed request, its hash, and the scan
  that keeps secrets out of a saved receipt. \<open>uuid_hex\<close> is \<open>uuid.uuid4().hex\<close>.
\<close>

definition secret_patterns :: "string list" where
  "secret_patterns =
     [''TERMINAL3_API_KEY'', ''T3N_API_KEY'', ''ILMUCHAT_API_KEY'', ''sk-'', ''sk-or-'', ''0xdd99'']"

definition scan_for_secrets :: "py_env \<Rightarrow> string \<Rightarrow> bool" where
  "scan_for_secrets E data \<longleftrightarrow>
     list_ex (\<lambda>pattern. contains data pattern) secret_patterns \<or>
     list_ex (\<lambda>env_name. let env_key = getenv_or E env_name []
        in length env_key > 8 \<and> contains data (take 8 env_key)) [''T3N_API_KEY'', ''TERMINAL3_API_KEY'']"

definition receipt_content :: "string \<Rightarrow> pydict \<Rightarrow> pydict" where
  "receipt_content uuid_hex decision =
     [(''receipt_id'', PStr (''effv3-receipt-'' @ take 12 uuid_hex)),
      (''decision'', dget decision ''decision'' PNone),
      (''ts'', dget decision ''ts'' PNone),
      (''action'', dget decision ''action'' PNone),
      (''agent_fingerprint'', dget decision ''agent_fingerprint'' PNone),
      (''denial_code'', dget decision ''denial_code'' PNone),
      (''nonce_hash'', dget decision ''nonce_hash'' PNone),
      (''proof_hash'', dget decision ''proof_hash'' PNone),
      (''policy_version'', dget decision ''policy_version'' PNone),
      (''spec_version'', PStr ''1.0''),
      (''raw_secret_included'', PBool False),
      (''authority'', PStr ''UNTRUSTED_ADVISORY'')]"

definition receipt_hash :: "py_env \<Rightarrow> pydict \<Rightarrow> string" where
  "receipt_hash E receipt = sha256_hex E (utf8 (json_dumps (float_repr E) (PDict receipt)))"

definition build_receipt :: "py_env \<Rightarrow> string \<Rightarrow> pydict \<Rightarrow> pydict" where
  "build_receipt E uuid_hex decision =
     (let receipt = receipt_content uuid_hex decision
      in dset ''receipt_hash'' (PStr (receipt_hash E receipt)) receipt)"

text \<open>\<open>json.dumps(v, indent=2)\<close>: keys in their order, one item per line.\<close>

definition newline_indent :: "nat \<Rightarrow> string" where
  "newline_indent level = CHR 0x0A # replicate (2 * level) CHR 0x20"

primrec json_indented :: "(rat \<Rightarrow> string) \<Rightarrow> pyval \<Rightarrow> nat \<Rightarrow> string" where
  "json_indented fl PNone level = ''null''"
| "json_indented fl (PBool b) level = (if b then ''true'' else ''false'')"
| "json_indented fl (PInt i) level = int_text i"
| "json_indented fl (PFloat q) level = fl q"
| "json_indented fl (PStr s) level = dumps_quote s"
| "json_indented fl (PList xs) level =
     (if xs = [] then ''[]''
      else ''['' @ newline_indent (Suc level) @
        join ('','' @ newline_indent (Suc level)) (map (\<lambda>t. t (Suc level)) (map (json_indented fl) xs)) @
        newline_indent level @ '']'')"
| "json_indented fl (PDict d) level =
     (if d = [] then ''{}''
      else ''{'' @ newline_indent (Suc level) @
        join ('','' @ newline_indent (Suc level))
          (map (\<lambda>(k, t). dumps_quote k @ '': '' @ t (Suc level)) (map (map_prod id (json_indented fl)) d)) @
        newline_indent level @ ''}'')"

text \<open>The path and the text written, or the exception that prevents the write.\<close>

definition save_receipt :: "py_env \<Rightarrow> string option \<Rightarrow> pydict \<Rightarrow> (string \<times> string) py" where
  "save_receipt E directory receipt =
     (let dir = (case directory of Some d \<Rightarrow> d | None \<Rightarrow> ''demo/sample_sanitized_receipts'')
      in case map_of receipt ''receipt_id'' of
           None \<Rightarrow> Inl (KeyError (repr_str ''receipt_id''))
         | Some rid \<Rightarrow>
             let file_path = dir @ ''/'' @ py_str (float_repr E) rid @ ''.json'';
                 serialized = json_indented (float_repr E) (PDict receipt) 0
             in if scan_for_secrets E serialized
                then Inl (ValueError ''SECRET_EXPOSURE_DETECTED: save aborted'')
                else Inr (file_path, serialized))"

text \<open>The hash is popped, recomputed over the rest and put back.\<close>

definition verify_receipt :: "py_env \<Rightarrow> pydict \<Rightarrow> bool \<times> pydict" where
  "verify_receipt E receipt = (case map_of receipt ''receipt_hash'' of
     None \<Rightarrow> (False, receipt)
   | Some stored_hash \<Rightarrow>
       let rest = ddel ''receipt_hash'' receipt
       in (stored_hash = PStr (receipt_hash E rest), dset ''receipt_hash'' stored_hash rest))"

section \<open>A built receipt verifies; a verified one is bound by its hash\<close>

lemma build_then_verify: "verify_receipt E (build_receipt E u d) = (True, build_receipt E u d)"
  by (simp add: verify_receipt_def build_receipt_def receipt_content_def ddel_def)

lemma verified_receipts_equal:
  assumes fl: "float_ok (float_repr E)" and ok: "fst (verify_receipt E r)" "fst (verify_receipt E r')"
    and eq: "map_of r ''receipt_hash'' = map_of r' ''receipt_hash''"
  shows "sort_keys (PDict (ddel ''receipt_hash'' r)) = sort_keys (PDict (ddel ''receipt_hash'' r')) \<or>
    collides E (utf8 (canonical E (PDict (ddel ''receipt_hash'' r))))
      (utf8 (canonical E (PDict (ddel ''receipt_hash'' r'))))"
proof -
  have h: "map_of x ''receipt_hash'' = Some (PStr (sha256 E (canonical E (PDict (ddel ''receipt_hash'' x)))))"
    if "fst (verify_receipt E x)" for x
    using that by (auto simp: verify_receipt_def receipt_hash_def canonical_def sha256_def Let_def split: option.split_asm)
  show ?thesis by (rule canonical_hash_binds [OF fl]) (use h ok eq in simp)
qed

text \<open>What is written contains none of the patterns and no beginning of a configured key.\<close>

lemma saved_receipt_clean:
  assumes "save_receipt E dir r = Inr (path, written)"
  shows "(\<forall>p \<in> set secret_patterns. \<not> contains written p) \<and>
    (\<forall>v \<in> {''T3N_API_KEY'', ''TERMINAL3_API_KEY''}. \<forall>key. getenv E v = Some key \<longrightarrow> length key > 8 \<longrightarrow>
       \<not> contains written (take 8 key))"
proof -
  have "\<not> scan_for_secrets E written"
    using assms by (auto simp: save_receipt_def Let_def split: option.split_asm if_split_asm)
  then show ?thesis by (auto simp: scan_for_secrets_def list_ex_iff getenv_or_def Let_def)
qed

end
