(* ===== verification/Network.thy ===== *)
theory Network
  imports Policy LedgerReach ExecutionReceipt
begin

text \<open>
  \<^verbatim>\<open>src/agent_delegation_network.py\<close>: an agent of the network. The object is a record, its
  operations take and return it; the shared ledger is threaded beside it. A call reads the clock
  through \<open>clk\<close> and takes fresh UUIDs through \<open>uuid\<close>, both indexed by their position in the call. While
  a task handler runs, other transactions reach the ledger (heartbeats of this execution among
  them): they are the list \<open>between\<close>.
\<close>

section \<open>Helpers\<close>

definition py_float :: "py_env \<Rightarrow> pyval \<Rightarrow> rat py" where
  "py_float E v = (case num_of v of
     Some q \<Rightarrow> Inr q
   | None \<Rightarrow> (case v of
       PStr s \<Rightarrow> (case float_parse E s of
           Some q \<Rightarrow> Inr q
         | None \<Rightarrow> Inl (ValueError (''could not convert string to float: '' @ repr_str s)))
     | _ \<Rightarrow> Inl (TypeError (''float() argument must be a string or a real number, not '' @ repr_str (py_type v)))))"

definition delegation_request_replay_expires_at :: "py_env \<Rightarrow> rat \<Rightarrow> delegation_request \<Rightarrow> rat py" where
  "delegation_request_replay_expires_at E now request =
     bindE (py_float E (py_or (dr_expires_at request) (PFloat now))) (\<lambda>expires_at.
     bindE (as_dict (py_or (dr_tee_authorization request) (PDict []))) (\<lambda>receipt.
       let authorization_expires_at = dget receipt ''authorization_expires_at'' PNone
       in if truthy authorization_expires_at
          then (case iso_parse E (py_str (float_repr E) authorization_expires_at) of
              Some t \<Rightarrow> Inr (min expires_at t)
            | None \<Rightarrow> Inr expires_at)
          else Inr expires_at))"

definition request_replay_integrity_key :: "py_env \<Rightarrow> agent_identity \<Rightarrow> string option py" where
  "request_replay_integrity_key E identity =
     bindE (configured_integrity_key E ''request'') (\<lambda>configured.
       if opt_str configured \<noteq> [] then Inr configured
       else derive_integrity_key E (identity_private_key_hex identity) ''request'')"

section \<open>The agent\<close>

datatype task_handler =
    Handle_echo
  | Handle_get_agent_info
  | Handle_ping
  | Custom_handler "pyval \<Rightarrow> pyval py"   \<comment> \<open>registered by the user of the library\<close>

record network =
  nw_agent_id :: string
  nw_agent_name :: string
  nw_identity :: agent_identity
  nw_delegations :: "(pyval \<times> delegation_request) list"
  nw_results :: "(pyval \<times> delegation_result) list"
  nw_task_handlers :: "(string \<times> task_handler) list"
  nw_delegation_log :: "pydict list"
  nw_policy :: delegation_policy

definition builtin_handlers :: "(string \<times> task_handler) list" where
  "builtin_handlers =
     [(''ECHO'', Handle_echo), (''GET_AGENT_INFO'', Handle_get_agent_info), (''PING'', Handle_ping)]"

text \<open>\<open>uuid0\<close> is the text of the fresh UUID of which eight characters are kept.\<close>

definition create_agent ::
  "py_env \<Rightarrow> nat \<Rightarrow> string \<Rightarrow> string option \<Rightarrow> string option \<Rightarrow> string option \<Rightarrow> network py" where
  "create_agent E pid uuid0 agent_name policy_file private_key_hex =
     (let agent_id = take 8 uuid0;
          name = str_or (opt_str agent_name) (''adn-agent-'' @ agent_id)
      in bindE (create_agent_identity E pid (Some name) private_key_hex) (\<lambda>identity.
         Inr \<lparr>nw_agent_id = agent_id, nw_agent_name = name, nw_identity = identity,
              nw_delegations = [], nw_results = [], nw_task_handlers = builtin_handlers,
              nw_delegation_log = [],
              nw_policy = create_delegation_policy E
                (if opt_str policy_file \<noteq> [] then policy_file else None)\<rparr>))"

definition own_id :: "network \<Rightarrow> string" where
  "own_id st = id_agent_id (nw_identity st)"

definition handler_names :: "network \<Rightarrow> pyval" where
  "handler_names st = PList (map (\<lambda>(action, _). PStr action) (nw_task_handlers st))"

definition handle_echo :: "rat \<Rightarrow> network \<Rightarrow> pyval \<Rightarrow> pyval py" where
  "handle_echo now st parameters =
     bindE (as_dict parameters) (\<lambda>p. Inr (PDict
       [(''echo'', dget p ''message'' (PStr [])), (''timestamp'', PFloat now),
        (''agent_id'', PStr (own_id st))]))"

definition handle_get_agent_info :: "py_env \<Rightarrow> network \<Rightarrow> pyval \<Rightarrow> pyval py" where
  "handle_get_agent_info E st parameters =
     bindE (get_agent_info E (nw_policy st) (own_id st)) (\<lambda>policy_info. Inr (PDict
       [(''agent_name'', PStr (nw_agent_name st)),
        (''agent_id'', PStr (nw_agent_id st)),
        (''did'', PStr (id_did (nw_identity st))),
        (''public_key_hex'', PStr (id_public_key_hex (nw_identity st))),
        (''available_handlers'', handler_names st),
        (''policy_info'', PDict policy_info)]))"

definition handle_ping :: "rat \<Rightarrow> network \<Rightarrow> pyval \<Rightarrow> pyval py" where
  "handle_ping now st parameters = Inr (PDict
     [(''pong'', PBool True), (''timestamp'', PFloat now), (''agent_id'', PStr (own_id st))])"

fun run_handler :: "py_env \<Rightarrow> rat \<Rightarrow> network \<Rightarrow> task_handler \<Rightarrow> pyval \<Rightarrow> pyval py" where
  "run_handler E now st Handle_echo parameters = handle_echo now st parameters"
| "run_handler E now st Handle_get_agent_info parameters = handle_get_agent_info E st parameters"
| "run_handler E now st Handle_ping parameters = handle_ping now st parameters"
| "run_handler E now st (Custom_handler f) parameters = f parameters"

definition register_task_handler :: "string \<Rightarrow> task_handler \<Rightarrow> network \<Rightarrow> network" where
  "register_task_handler action handler st =
     st\<lparr>nw_task_handlers := dset action handler (nw_task_handlers st)\<rparr>"

definition unregister_task_handler :: "string \<Rightarrow> network \<Rightarrow> network" where
  "unregister_task_handler action st = st\<lparr>nw_task_handlers := ddel action (nw_task_handlers st)\<rparr>"

definition add_log :: "pydict \<Rightarrow> network \<Rightarrow> network" where
  "add_log entry st = st\<lparr>nw_delegation_log := nw_delegation_log st @ [entry]\<rparr>"

section \<open>Delegating\<close>

definition network_delegate_task ::
  "py_env \<Rightarrow> (nat \<Rightarrow> rat) \<Rightarrow> string \<Rightarrow> string \<Rightarrow> network \<Rightarrow> string \<Rightarrow> string \<Rightarrow> string \<Rightarrow> pyval \<Rightarrow> pyval \<Rightarrow>
    pyval \<Rightarrow> pydict option \<Rightarrow> pyval py \<times> network"
where
  "network_delegate_task E clk uuid0 uuid1 st to_agent_id action task_description parameters deadline
     required_capabilities tee_authorization =
     (case create_delegation_request E (clk 0) uuid0 uuid1 (nw_identity st) to_agent_id action
             task_description parameters deadline required_capabilities tee_authorization of
        Inl e \<Rightarrow> (Inl e, st)
      | Inr request \<Rightarrow>
          (case evaluate_delegation_request E (nw_policy st) request (PStr (own_id st)) (PStr to_agent_id) of
             Inl e \<Rightarrow> (Inl e, st)
           | Inr (False, reason) \<Rightarrow> (Inl (PermissionError (''Delegation not allowed: '' @ reason)), st)
           | Inr (True, reason) \<Rightarrow>
               (Inr (dr_delegation_id request),
                add_log
                  [(''timestamp'', PFloat (clk 1)),
                   (''type'', PStr ''delegation_created''),
                   (''delegation_id'', dr_delegation_id request),
                   (''from_agent'', PStr (own_id st)),
                   (''to_agent'', PStr to_agent_id),
                   (''action'', PStr action),
                   (''task_description'', PStr task_description)]
                  (st\<lparr>nw_delegations := vset (dr_delegation_id request) request (nw_delegations st)\<rparr>))))"

section \<open>Processing a request\<close>

text \<open>A signed reply that reports failure; a fresh UUID is the result's nonce.\<close>

definition failed_reply ::
  "py_env \<Rightarrow> rat \<Rightarrow> rat \<Rightarrow> string \<Rightarrow> network \<Rightarrow> delegation_request \<Rightarrow> string \<Rightarrow> pydict py" where
  "failed_reply E issued_at signed_at uuid st request error =
     result_to_action_request E signed_at
       (create_delegation_result issued_at uuid request (nw_identity st) FAILED PNone (PStr error))
       (nw_identity st)"

text \<open>
  From the wire to the handler: a reply that ends the call (\<open>Inl\<close>), or the request with its replay
  key and its handler.
\<close>

definition admit_request ::
  "py_env \<Rightarrow> (nat \<Rightarrow> rat) \<Rightarrow> (nat \<Rightarrow> string) \<Rightarrow> network \<Rightarrow> pydict \<Rightarrow> string option \<Rightarrow> string option \<Rightarrow>
    string option \<Rightarrow> bool option \<Rightarrow> (pydict + delegation_request \<times> string \<times> task_handler) py"
where
  "admit_request E clk uuid st signed_request gateway_public_key_hex gateway_key_id build_config_id require =
     bindE (request_from_action_request (clk 0) signed_request) (\<lambda>request.
     bindE (request_is_expired (clk 1) request) (\<lambda>expired.
     if expired then Inl (ValueError ''Delegation request has expired'')
     else if \<not> py_eq (dr_to_agent_id request) (PStr (own_id st))
     then Inl (ValueError ''Delegation request not for this agent'')
     else bindE (from_trusted_config E gateway_public_key_hex gateway_key_id build_config_id require) (\<lambda>ctx.
     bindE (validate_delegation_request E (\<lambda>i. clk (2 + i)) signed_request (own_id st)
              (ctx_expected_gateway_public_key_hex ctx) (ctx_expected_gateway_key_id ctx)
              (ctx_expected_build_config_id ctx) (ctx_require_tee_authorization ctx))
       (\<lambda>(is_valid, error_msg, replay_key).
     if \<not> is_valid then Inl (ValueError (''Invalid delegation request: '' @ error_msg))
     else bindE (evaluate_delegation_request E (nw_policy st) request (dr_from_agent_id request) (PStr (own_id st)))
       (\<lambda>(allowed, reason).
     if \<not> allowed
     then bindE (failed_reply E (clk 7) (clk 8) (uuid 0) st request (''Not allowed by policy: '' @ reason))
            (\<lambda>reply. Inr (Inl reply))
     else (case (case dr_action request of PStr a \<Rightarrow> map_of (nw_task_handlers st) a | _ \<Rightarrow> None) of
         None \<Rightarrow> bindE (failed_reply E (clk 7) (clk 8) (uuid 0) st request
             (''No handler available for action: '' @ py_str (float_repr E) (dr_action request)))
             (\<lambda>reply. Inr (Inl reply))
       | Some handler \<Rightarrow> Inr (Inr (request, opt_str replay_key, handler))))))))"

definition received_log :: "rat \<Rightarrow> network \<Rightarrow> delegation_request \<Rightarrow> pydict" where
  "received_log now st request =
     [(''timestamp'', PFloat now), (''type'', PStr ''delegation_received''),
      (''delegation_id'', dr_delegation_id request), (''from_agent'', dr_from_agent_id request),
      (''to_agent'', PStr (own_id st)), (''action'', dr_action request), (''status'', PStr ''in_progress'')]"

definition completed_log :: "rat \<Rightarrow> network \<Rightarrow> delegation_request \<Rightarrow> delegation_result \<Rightarrow> pydict" where
  "completed_log now st request result =
     [(''timestamp'', PFloat now), (''type'', PStr ''delegation_completed''),
      (''delegation_id'', dr_delegation_id request), (''from_agent'', dr_from_agent_id request),
      (''to_agent'', PStr (own_id st)), (''action'', dr_action request),
      (''status'', PStr (status_value (ds_status result))), (''has_error'', PBool (truthy (ds_error result)))]"

text \<open>
  The guarded execution: the handler runs, other transactions reach the ledger meanwhile, and the
  execution is finalized with its token. The answer of the finalization is not looked at; an
  exception of the handler or of the finalization finalizes the request as a retryable failure.
\<close>

definition finish_failed ::
  "py_env \<Rightarrow> (nat \<Rightarrow> rat) \<Rightarrow> string \<Rightarrow> network \<Rightarrow> ledger \<Rightarrow> delegation_request \<Rightarrow> string \<Rightarrow> string option \<Rightarrow>
    string option \<Rightarrow> py_error \<Rightarrow> delegation_result py \<times> ledger"
where
  "finish_failed E clk uuid st L request replay_key secret token e =
     (case finalize_delegation_request_execution E (clk 13) L replay_key ''RETRYABLE_FAILURE'' secret
             (Some (exc_message e)) token of
        (Inl e', L') \<Rightarrow> (Inl e', L')
      | (Inr _, L') \<Rightarrow> (Inr (create_delegation_result (clk 14) uuid request (nw_identity st) FAILED PNone
             (PStr (exc_message e))), L'))"

definition execute_request ::
  "py_env \<Rightarrow> (nat \<Rightarrow> rat) \<Rightarrow> (nat \<Rightarrow> string) \<Rightarrow> ledger_op list \<Rightarrow> network \<Rightarrow> ledger \<Rightarrow> delegation_request \<Rightarrow>
    string \<Rightarrow> string option \<Rightarrow> string option \<Rightarrow> task_handler \<Rightarrow> delegation_result py \<times> ledger"
where
  "execute_request E clk uuid between st L request replay_key secret token handler =
     (let L1 = run_ops E between L
      in case run_handler E (clk 10) st handler (dr_parameters request) of
           Inl e \<Rightarrow> finish_failed E clk (uuid 1) st L1 request replay_key secret token e
         | Inr task_result \<Rightarrow>
             (case finalize_delegation_request_execution E (clk 12) L1 replay_key ''COMPLETED'' secret None token of
                (Inl e, L2) \<Rightarrow> finish_failed E clk (uuid 1) st L2 request replay_key secret token e
              | (Inr _, L2) \<Rightarrow> (Inr (create_delegation_result (clk 11) (uuid 0) request (nw_identity st) COMPLETED
                     task_result PNone), L2)))"

text \<open>The decision record of which an execution receipt is built; the receipt is not kept.\<close>

definition execution_decision :: "rat \<Rightarrow> network \<Rightarrow> delegation_request \<Rightarrow> delegation_result \<Rightarrow> pydict" where
  "execution_decision now st request result =
     [(''decision'', PStr (if ds_status result = COMPLETED then ''ALLOW'' else ''DENY'')),
      (''action'', dr_action request), (''agent_fingerprint'', PStr (own_id st)), (''ts'', PFloat now),
      (''nonce_hash'', dr_nonce request), (''proof_hash'', PStr []), (''policy_version'', PStr ''1.0''),
      (''denial_code'', if ds_status result = COMPLETED then PNone else PStr ''TASK_FAILED'')]"

definition execution_receipt ::
  "py_env \<Rightarrow> rat \<Rightarrow> string \<Rightarrow> network \<Rightarrow> delegation_request \<Rightarrow> delegation_result \<Rightarrow> pydict" where
  "execution_receipt E now uuid_hex st request result =
     build_receipt E uuid_hex (execution_decision now st request result)"

text \<open>A granted execution, from the entry in the audit trail to the signed result.\<close>

definition run_reserved ::
  "py_env \<Rightarrow> (nat \<Rightarrow> rat) \<Rightarrow> (nat \<Rightarrow> string) \<Rightarrow> ledger_op list \<Rightarrow> network \<Rightarrow> ledger \<Rightarrow> delegation_request \<Rightarrow>
    string \<Rightarrow> string option \<Rightarrow> string option \<Rightarrow> task_handler \<Rightarrow> pydict py \<times> network \<times> ledger"
where
  "run_reserved E clk uuid between st L request replay_key secret execution_token handler =
     (if \<not> hashable (dr_delegation_id request)
      then (Inl (unhashable_error (dr_delegation_id request)), st, L)
      else
        let st1 = add_log (received_log (clk 9) st request)
              (st\<lparr>nw_delegations := vset (dr_delegation_id request) request (nw_delegations st)\<rparr>)
        in (case execute_request E clk uuid between st1 L request replay_key secret execution_token handler of
              (Inl e, L2) \<Rightarrow> (Inl e, st1, L2)
            | (Inr result, L2) \<Rightarrow>
                let st2 = add_log (completed_log (clk 15) st1 request result)
                      (st1\<lparr>nw_results := vset (dr_delegation_id request) result (nw_results st1)\<rparr>)
                in (result_to_action_request E (clk 17) result (nw_identity st2), st2, L2)))"

text \<open>From the reservation in the ledger to the signed result.\<close>

definition process_admitted ::
  "py_env \<Rightarrow> (nat \<Rightarrow> rat) \<Rightarrow> (nat \<Rightarrow> string) \<Rightarrow> string \<Rightarrow> ledger_op list \<Rightarrow> network \<Rightarrow> ledger \<Rightarrow>
    delegation_request \<Rightarrow> string \<Rightarrow> task_handler \<Rightarrow> pydict py \<times> network \<times> ledger"
where
  "process_admitted E clk uuid token between st L request replay_key handler =
     (case bindE (request_replay_integrity_key E (nw_identity st)) (\<lambda>secret.
             bindE (delegation_request_replay_expires_at E (clk 7) request) (\<lambda>expires_at.
             Inr (secret, expires_at))) of
        Inl e \<Rightarrow> (Inl e, st, L)
      | Inr (secret, expires_at) \<Rightarrow>
          (case begin_delegation_request_execution E (clk 8) token L replay_key expires_at (own_id st)
                  (dr_delegation_id request)
                  (receipt_fingerprint E (receipt_or_empty (dr_tee_authorization request))) secret of
             (Inl e, L1) \<Rightarrow> (Inl e, st, L1)
           | (Inr (False, replay_reason, _), L1) \<Rightarrow>
               (failed_reply E (clk 9) (clk 10) (uuid 0) st request replay_reason, st, L1)
           | (Inr (True, _, execution_token), L1) \<Rightarrow>
               run_reserved E clk uuid between st L1 request replay_key secret execution_token handler))"

definition error_reply :: "py_env \<Rightarrow> (nat \<Rightarrow> rat) \<Rightarrow> string \<Rightarrow> network \<Rightarrow> py_error \<Rightarrow> pydict py" where
  "error_reply E clk uuid st e =
     result_to_action_request E (clk 19)
       (result_post_init (clk 18) uuid
         \<lparr>ds_delegation_id = PStr ''error'', ds_from_agent_id = PStr (own_id st),
          ds_to_agent_id = PStr ''unknown'', ds_status = FAILED, ds_result = PNone,
          ds_error = PStr (exc_message e), ds_nonce = PStr uuid, ds_issued_at = PFloat (clk 18),
          ds_tee_authorization = PNone\<rparr>)
       (nw_identity st)"

text \<open>Every exception is answered by a signed error result.\<close>

definition process_delegation_request ::
  "py_env \<Rightarrow> (nat \<Rightarrow> rat) \<Rightarrow> (nat \<Rightarrow> string) \<Rightarrow> string \<Rightarrow> ledger_op list \<Rightarrow> network \<Rightarrow> ledger \<Rightarrow> pydict \<Rightarrow>
    string option \<Rightarrow> string option \<Rightarrow> string option \<Rightarrow> bool option \<Rightarrow> pydict py \<times> network \<times> ledger"
where
  "process_delegation_request E clk uuid token between st L signed_request gateway_public_key_hex
     gateway_key_id build_config_id require =
     (case admit_request E clk uuid st signed_request gateway_public_key_hex gateway_key_id build_config_id require of
        Inl e \<Rightarrow> (error_reply E clk (uuid 2) st e, st, L)
      | Inr (Inl reply) \<Rightarrow> (Inr reply, st, L)
      | Inr (Inr (request, replay_key, handler)) \<Rightarrow>
          (case process_admitted E clk uuid token between st L request replay_key handler of
             (Inl e, st', L') \<Rightarrow> (error_reply E clk (uuid 2) st' e, st', L')
           | (Inr reply, st', L') \<Rightarrow> (Inr reply, st', L')))"

section \<open>Inspecting the agent\<close>

definition get_delegation_result :: "network \<Rightarrow> string \<Rightarrow> delegation_result option" where
  "get_delegation_result st delegation_id = vget (nw_results st) (PStr delegation_id)"

definition get_pending_delegations :: "network \<Rightarrow> delegation_request list" where
  "get_pending_delegations st =
     map snd (filter (\<lambda>(deleg_id, request). vget (nw_results st) deleg_id = None) (nw_delegations st))"

text \<open>\<open>log[:limit]\<close>: a negative bound counts from the end.\<close>

definition slice_to :: "int \<Rightarrow> 'a list \<Rightarrow> 'a list" where
  "slice_to n xs = (if n \<ge> 0 then take (nat n) xs else take (length xs - nat (- n)) xs)"

definition get_delegation_log :: "network \<Rightarrow> int option \<Rightarrow> pydict list" where
  "get_delegation_log st limit = (case limit of
     None \<Rightarrow> rev (nw_delegation_log st)
   | Some n \<Rightarrow> slice_to n (rev (nw_delegation_log st)))"

definition get_agent_status :: "py_env \<Rightarrow> network \<Rightarrow> pydict py" where
  "get_agent_status E st =
     bindE (get_agent_info E (nw_policy st) (own_id st)) (\<lambda>policy_info. Inr
       [(''agent_name'', PStr (nw_agent_name st)),
        (''agent_id'', PStr (nw_agent_id st)),
        (''did'', PStr (id_did (nw_identity st))),
        (''public_key_hex'', PStr (id_public_key_hex (nw_identity st))),
        (''active_delegations'', PInt (int (length
           (filter (\<lambda>(_, d). vget (nw_results st) (dr_delegation_id d) = None) (nw_delegations st))))),
        (''completed_delegations'', PInt (int (length (nw_results st)))),
        (''failed_delegations'', PInt (int (length (filter (\<lambda>(_, r). ds_status r = FAILED) (nw_results st))))),
        (''registered_handlers'', handler_names st),
        (''policy_info'', PDict policy_info),
        (''recent_activity'', PList (map PDict (take 5 (rev (nw_delegation_log st)))))])"

text \<open>\<open>shutdown\<close> only writes to the log of the process.\<close>

definition shutdown :: "network \<Rightarrow> network" where
  "shutdown st = st"

definition quick_delegate ::
  "py_env \<Rightarrow> (nat \<Rightarrow> rat) \<Rightarrow> string \<Rightarrow> string \<Rightarrow> network \<Rightarrow> string \<Rightarrow> string \<Rightarrow> string \<Rightarrow> pyval \<Rightarrow>
    pyval py \<times> network" where
  "quick_delegate E clk uuid0 uuid1 from_agent to_agent_id action task_description parameters =
     network_delegate_task E clk uuid0 uuid1 from_agent to_agent_id action task_description parameters
       PNone PNone None"

text \<open>\<open>ADNPatterns\<close>: named groups of agents, each created from the environment's key.\<close>

definition master_worker_setup :: "py_env \<Rightarrow> nat \<Rightarrow> (nat \<Rightarrow> string) \<Rightarrow> nat \<Rightarrow> (string \<times> network) list py" where
  "master_worker_setup E pid uuid num_workers =
     bindE (create_agent E pid (uuid 0) (Some ''master-coordinator'') None None) (\<lambda>master.
     bindE (mapE (\<lambda>i. bindE (create_agent E pid (uuid (i + 1)) (Some (''worker-node-'' @ dec (i + 1))) None None)
                   (\<lambda>a. Inr (''worker-'' @ dec (i + 1), a))) [0..<num_workers]) (\<lambda>workers.
     Inr ((''master'', master) # workers)))"

definition default_stages :: "string list" where
  "default_stages = [''ingest'', ''validate'', ''process'', ''aggregate'', ''report'']"

definition pipeline_setup ::
  "py_env \<Rightarrow> nat \<Rightarrow> (nat \<Rightarrow> string) \<Rightarrow> string list option \<Rightarrow> (string \<times> network) list py" where
  "pipeline_setup E pid uuid stage_names =
     (let stages = (case stage_names of None \<Rightarrow> default_stages | Some ns \<Rightarrow> ns)
      in bindE (mapE (\<lambda>(i, name). bindE (create_agent E pid (uuid i) (Some (name @ ''-stage'')) None None)
                   (\<lambda>a. Inr (name, a))) (zip [0..<length stages] stages)) (\<lambda>agents.
         Inr (fold (\<lambda>(name, a) d. dset name a d) agents [])))"

end
