(* ===== verification/ResultVerifier.thy ===== *)
theory ResultVerifier
  imports TeeAuthorization LedgerReach LedgerConfig PySets
begin

text \<open>
  \<^verbatim>\<open>src/result_verifier.py\<close>: what the coordinator demands of a worker's signed result, the
  in-memory cache of seen nonces, and the durable consumption of the result.
\<close>

section \<open>The nonce cache\<close>

definition MAX_SEEN_NONCES :: nat where [py_consts]: "MAX_SEEN_NONCES = 4096"
definition SEEN_NONCE_TTL_SECONDS :: rat where [py_consts]: "SEEN_NONCE_TTL_SECONDS = 15 * 60"

record nonce_cache =
  nc_seen :: "pyval list"                \<comment> \<open>\<open>_seen\<close>\<close>
  nc_order :: "(pyval \<times> rat) list"       \<comment> \<open>\<open>_seen_order\<close>, oldest first\<close>

text \<open>The two loops of \<open>_prune_seen_nonces_locked\<close>.\<close>

fun prune_expired :: "rat \<Rightarrow> (pyval \<times> rat) list \<Rightarrow> pyval list \<Rightarrow> nonce_cache" where
  "prune_expired cutoff [] seen = \<lparr>nc_seen = seen, nc_order = []\<rparr>"
| "prune_expired cutoff ((nonce, created_at) # order) seen =
     (if created_at \<le> cutoff then prune_expired cutoff order (set_discard nonce seen)
      else \<lparr>nc_seen = seen, nc_order = (nonce, created_at) # order\<rparr>)"

fun prune_excess :: "(pyval \<times> rat) list \<Rightarrow> pyval list \<Rightarrow> nonce_cache" where
  "prune_excess [] seen = \<lparr>nc_seen = seen, nc_order = []\<rparr>"
| "prune_excess ((nonce, created_at) # order) seen =
     (if length ((nonce, created_at) # order) > MAX_SEEN_NONCES
      then prune_excess order (set_discard nonce seen)
      else \<lparr>nc_seen = seen, nc_order = (nonce, created_at) # order\<rparr>)"

definition prune_seen_nonces :: "rat \<Rightarrow> nonce_cache \<Rightarrow> nonce_cache" where
  "prune_seen_nonces now c =
     (let c1 = prune_expired (now - SEEN_NONCE_TTL_SECONDS) (nc_order c) (nc_seen c)
      in prune_excess (nc_order c1) (nc_seen c1))"

definition NONCE_ERROR :: string where
  [py_consts]: "NONCE_ERROR = ''result nonce missing or already consumed''"

definition consume_result_nonce :: "rat \<Rightarrow> pyval \<Rightarrow> nonce_cache \<Rightarrow> unit py \<times> nonce_cache" where
  "consume_result_nonce now nonce c =
     (let c1 = prune_seen_nonces now c
      in if \<not> truthy nonce then (Inl (RuntimeError NONCE_ERROR), c1)
         else (case in_set nonce (nc_seen c1) of
             Inl e \<Rightarrow> (Inl e, c1)
           | Inr True \<Rightarrow> (Inl (RuntimeError NONCE_ERROR), c1)
           | Inr False \<Rightarrow> (Inr (), prune_seen_nonces now
               \<lparr>nc_seen = set_add nonce (nc_seen c1), nc_order = nc_order c1 @ [(nonce, now)]\<rparr>)))"

section \<open>Durable consumption\<close>

definition result_replay_record ::
  "py_env \<Rightarrow> string \<Rightarrow> string \<Rightarrow> pydict \<Rightarrow> pydict \<Rightarrow> pyval" where
  "result_replay_record E expected_worker_pubkey_hex coordinator_id rd receipt = PDict
     [(''worker_public_key_hex'', PStr expected_worker_pubkey_hex),
      (''coordinator_id'', PStr coordinator_id),
      (''delegation_id'', dget rd ''delegation_id'' PNone),
      (''result_nonce'', dget rd ''nonce'' PNone),
      (''receipt_fingerprint'', PStr (receipt_fingerprint E receipt))]"

definition result_replay_key ::
  "py_env \<Rightarrow> string \<Rightarrow> string \<Rightarrow> pydict \<Rightarrow> pydict \<Rightarrow> string" where
  "result_replay_key E expected_worker_pubkey_hex coordinator_id rd receipt =
     sha256 E (canonical E (result_replay_record E expected_worker_pubkey_hex coordinator_id rd receipt))"

text \<open>\<open>proof.get("data_hash") or ""\<close>, which is text once the result data has been compared with it.\<close>

definition text_or_empty :: "pyval \<Rightarrow> string" where
  "text_or_empty v = (case v of PStr s \<Rightarrow> s | _ \<Rightarrow> [])"

definition consume_result ::
  "py_env \<Rightarrow> rat \<Rightarrow> ledger \<Rightarrow> pydict \<Rightarrow> pydict \<Rightarrow> pydict \<Rightarrow> string \<Rightarrow> string \<Rightarrow> unit py \<times> ledger" where
  "consume_result E now L signed rd receipt expected_worker_pubkey_hex coordinator_id =
     (case configured_integrity_key E ''result'' of
        Inl e \<Rightarrow> (Inl e, L)
      | Inr secret \<Rightarrow>
          (case consume_result_replay E now L
                 (result_replay_key E expected_worker_pubkey_hex coordinator_id rd receipt) coordinator_id
                 (py_or (dget rd ''delegation_id'' PNone) (PStr []))
                 (text_or_empty (dget signed ''data_hash'' PNone)) None secret of
             (Inl e, L') \<Rightarrow> (Inl e, L')
           | (Inr (ok, reason), L') \<Rightarrow> (raise_if (\<not> ok) reason, L')))"

section \<open>Verification\<close>

text \<open>What the coordinator expects: an absent text is \<open>None\<close>, absent parameters are \<open>PNone\<close>.\<close>

record expectations =
  ex_worker_id :: string
  ex_worker_pubkey_hex :: string
  ex_delegation_id :: pyval
  ex_coordinator_id :: string
  ex_tee_authorization :: "pydict option"
  ex_gateway_public_key_hex :: "string option"
  ex_gateway_key_id :: "string option"
  ex_action :: "string option"
  ex_parameters :: pyval
  ex_build_config_id :: "string option"

definition expectation_checks :: "expectations \<Rightarrow> (bool \<times> string) list" where
  "expectation_checks x =
     [(ex_tee_authorization x = None, ''expected TEE authorization is required''),
      (opt_str (ex_gateway_public_key_hex x) = [], ''expected gateway public key is required''),
      (opt_str (ex_gateway_key_id x) = [], ''expected gateway key id is required''),
      (opt_str (ex_build_config_id x) = [], ''expected build_config_id is required''),
      (opt_str (ex_action x) = [], ''expected action is required''),
      (ex_parameters x = PNone, ''expected parameters are required'')]"

definition envelope_checks :: "py_env \<Rightarrow> expectations \<Rightarrow> pydict \<Rightarrow> pyval \<Rightarrow> (bool \<times> string) list" where
  "envelope_checks E x signed rd_val =
     [(dget signed ''public_key_hex'' PNone \<noteq> PStr (ex_worker_pubkey_hex x),
         ''worker key does not match expected worker''),
      (dget signed ''agent_id'' PNone \<noteq> PStr (ex_worker_id x),
         ''worker result signer is not the expected worker''),
      (dget signed ''data_hash'' PNone \<noteq> PStr (sha256 E (canonical E rd_val)),
         ''worker result_data does not match signed data_hash'')]"

definition content_checks :: "expectations \<Rightarrow> pydict \<Rightarrow> pydict \<Rightarrow> (bool \<times> string) list" where
  "content_checks x signed rd =
     [(\<not> py_eq (dget signed ''nonce'' PNone) (dget rd ''nonce'' PNone),
         ''result nonce inconsistent with signed envelope''),
      (dget rd ''from_agent_id'' PNone \<noteq> PStr (ex_worker_id x), ''result from_agent_id mismatch''),
      (dget rd ''to_agent_id'' PNone \<noteq> PStr (ex_coordinator_id x), ''result audience is not the coordinator''),
      (\<not> py_eq (dget rd ''delegation_id'' PNone) (ex_delegation_id x), ''result delegation_id mismatch''),
      (dget rd ''status'' PNone \<noteq> PStr ''COMPLETED'', ''result status not COMPLETED''),
      (\<not> truthy (dget rd ''tee_authorization'' PNone), ''result missing TEE authorization receipt'')]"

text \<open>Everything before the nonce is spent: the result data and its receipt.\<close>

definition check_worker_result ::
  "py_env \<Rightarrow> (nat \<Rightarrow> rat) \<Rightarrow> pydict \<Rightarrow> expectations \<Rightarrow> (pydict \<times> pydict) py" where
  "check_worker_result E clk signed x =
     bindE (raise_first (expectation_checks x)) (\<lambda>_.
     bindE (verify_action_request E (clk 0) signed ''TASK_RESULT'') (\<lambda>(ok, err).
     bindE (raise_if (\<not> ok) (''worker result signature invalid: '' @ err)) (\<lambda>_.
     let rd_val = py_or (dget signed ''result_data'' PNone) (PDict [])
     in bindE (raise_first (envelope_checks E x signed rd_val)) (\<lambda>_.
        bindE (as_dict rd_val) (\<lambda>rd.
        bindE (raise_first (content_checks x signed rd)) (\<lambda>_.
        bindE (as_dict (dget rd ''tee_authorization'' PNone)) (\<lambda>receipt.
        bindE (raise_if (receipt_fingerprint E receipt \<noteq>
                 receipt_fingerprint E (case ex_tee_authorization x of Some d \<Rightarrow> d | None \<Rightarrow> []))
               ''result TEE authorization receipt mismatch'') (\<lambda>_.
        bindE (verify_tee_authorization_receipt E (\<lambda>i. clk (1 + i)) (PDict receipt)
                 (opt_str (ex_gateway_public_key_hex x)) (opt_str (ex_gateway_key_id x))
                 (ex_delegation_id x) (PStr (ex_worker_id x)) (PStr (opt_str (ex_action x)))
                 (ex_parameters x) (opt_str (ex_build_config_id x))) (\<lambda>_.
        Inr (rd, receipt))))))))))"

text \<open>\<open>ticks\<close> is the reading of \<open>time.monotonic()\<close>.\<close>

definition verify_worker_result ::
  "py_env \<Rightarrow> (nat \<Rightarrow> rat) \<Rightarrow> rat \<Rightarrow> nonce_cache \<Rightarrow> ledger \<Rightarrow> pydict \<Rightarrow> expectations \<Rightarrow>
    pydict py \<times> nonce_cache \<times> ledger" where
  "verify_worker_result E clk ticks c L signed x =
     (case check_worker_result E clk signed x of
        Inl e \<Rightarrow> (Inl e, c, L)
      | Inr (rd, receipt) \<Rightarrow>
          (case consume_result_nonce ticks (dget rd ''nonce'' PNone) c of
             (Inl e, c') \<Rightarrow> (Inl e, c', L)
           | (Inr _, c') \<Rightarrow>
               (case consume_result E (clk 3) L signed rd receipt (ex_worker_pubkey_hex x) (ex_coordinator_id x) of
                  (Inl e, L') \<Rightarrow> (Inl e, c', L')
                | (Inr _, L') \<Rightarrow> (Inr rd, c', L'))))"

end
