(* ===== verification/ResultLaws.thy ===== *)
theory ResultLaws
  imports ResultVerifier
begin

text \<open>
  The laws of result verification: the nonce cache is a bounded window over the accepted nonces,
  an accepted result satisfies every condition the coordinator set, and its durable replay key is
  spent by the acceptance.
\<close>

section \<open>The cache is a window\<close>

definition cache_ok :: "nonce_cache \<Rightarrow> bool" where
  "cache_ok c \<longleftrightarrow> nc_seen c = map fst (nc_order c) \<and> (\<forall>n \<in> set (nc_seen c). hashable n) \<and>
     sorted_wrt (\<lambda>a b. \<not> py_eq a b) (nc_seen c)"

text \<open>What pruning keeps of the accepted nonces: the live ones, and of these the latest.\<close>

definition window :: "rat \<Rightarrow> (pyval \<times> rat) list \<Rightarrow> (pyval \<times> rat) list" where
  "window now order = (let live = dropWhile (\<lambda>(_, created_at). created_at \<le> now - SEEN_NONCE_TTL_SECONDS) order
     in drop (length live - MAX_SEEN_NONCES) live)"

definition cache_of :: "(pyval \<times> rat) list \<Rightarrow> nonce_cache" where
  "cache_of order = \<lparr>nc_seen = map fst order, nc_order = order\<rparr>"

lemma cache_of_simps [simp]: "nc_seen (cache_of o1) = map fst o1" "nc_order (cache_of o1) = o1"
  by (simp_all add: cache_of_def)

lemma cache_ok_of: "cache_ok c \<Longrightarrow> c = cache_of (nc_order c)"
  by (cases c) (simp add: cache_ok_def cache_of_def)

lemma hashable_refl: "hashable n \<Longrightarrow> py_eq n n"
  by (cases n) auto

lemma discard_head:
  assumes "hashable n" and "\<forall>m \<in> set ns. \<not> py_eq n m"
  shows "set_discard n (n # ns) = ns"
proof -
  have "filter (\<lambda>w. \<not> py_eq n w) ns = ns" using assms(2) by (simp add: filter_id_conv)
  then show ?thesis using hashable_refl [OF assms(1)] by (simp add: set_discard_def)
qed

lemma prune_expired_window:
  "cache_ok (cache_of order) \<Longrightarrow> prune_expired cutoff order (map fst order) =
     cache_of (dropWhile (\<lambda>(_, created_at). created_at \<le> cutoff) order)"
proof (induction order)
  case (Cons p order)
  obtain n t where p: "p = (n, t)" by (cases p)
  have "set_discard n (map fst (p # order)) = map fst order"
    using discard_head [of n "map fst order"] Cons.prems by (simp add: cache_ok_def p)
  then show ?case using Cons by (simp add: p cache_ok_def cache_of_def)
qed (simp add: cache_of_def)

lemma prune_excess_window:
  "cache_ok (cache_of order) \<Longrightarrow> prune_excess order (map fst order) = cache_of (drop (length order - MAX_SEEN_NONCES) order)"
proof (induction order)
  case (Cons p order)
  obtain n t where p: "p = (n, t)" by (cases p)
  have "set_discard n (map fst (p # order)) = map fst order"
    using discard_head [of n "map fst order"] Cons.prems by (simp add: cache_ok_def p)
  then show ?case using Cons by (simp add: p cache_ok_def cache_of_def Suc_diff_le)
qed (simp add: cache_of_def)

lemma cache_ok_drop: "cache_ok (cache_of order) \<Longrightarrow> cache_ok (cache_of (drop n order))"
  by (auto simp: cache_ok_def drop_map [symmetric] intro: sorted_wrt_drop dest!: in_set_dropD)

lemma dropWhile_drop: "\<exists>n. dropWhile P xs = drop n xs"
  by (metis dropWhile_eq_drop)

lemma cache_ok_dropWhile: "cache_ok (cache_of order) \<Longrightarrow> cache_ok (cache_of (dropWhile P order))"
  using cache_ok_drop dropWhile_drop by metis

lemma prune_window:
  assumes "cache_ok c"
  shows "prune_seen_nonces now c = cache_of (window now (nc_order c))" and "cache_ok (cache_of (window now (nc_order c)))"
proof -
  have c: "c = cache_of (nc_order c)" "cache_ok (cache_of (nc_order c))"
    using assms cache_ok_of by metis+
  have l: "cache_ok (cache_of (dropWhile (\<lambda>(_, created_at). created_at \<le> now - SEEN_NONCE_TTL_SECONDS) (nc_order c)))"
    by (rule cache_ok_dropWhile [OF c(2)])
  show "prune_seen_nonces now c = cache_of (window now (nc_order c))"
    using prune_expired_window [OF c(2)] prune_excess_window [OF l] assms
    by (simp add: prune_seen_nonces_def window_def Let_def cache_ok_def)
  show "cache_ok (cache_of (window now (nc_order c)))"
    using cache_ok_drop [OF l] by (simp add: window_def Let_def)
qed

lemma window_length: "length (window now order) \<le> MAX_SEEN_NONCES"
  by (simp add: window_def Let_def)

lemma consume_nonce_cases:
  assumes "cache_ok c"
  shows "consume_result_nonce now n c =
    (let w = window now (nc_order c)
     in if truthy n \<and> \<not> hashable n then (Inl (unhashable_error n), cache_of w)
        else if \<not> truthy n \<or> set_mem n (map fst w) then (Inl (RuntimeError NONCE_ERROR), cache_of w)
        else (Inr (), cache_of (window now (w @ [(n, now)]))))"
    and "cache_ok (snd (consume_result_nonce now n c))"
proof -
  let ?w = "window now (nc_order c)"
  have w: "prune_seen_nonces now c = cache_of ?w" "cache_ok (cache_of ?w)" by (rule prune_window [OF assms])+
  have ext: "cache_ok (cache_of (?w @ [(n, now)]))" if "hashable n" "\<not> set_mem n (map fst ?w)"
  proof -
    have "\<not> py_eq m n" if "m \<in> set (map fst ?w)" for m
      using that w(2) py_eq_sym [of m n] \<open>\<not> set_mem n (map fst ?w)\<close> by (auto simp: cache_ok_def set_mem_iff)
    then show ?thesis using w(2) that by (auto simp: cache_ok_def sorted_wrt_append)
  qed
  have add: "prune_seen_nonces now \<lparr>nc_seen = set_add n (map fst ?w), nc_order = ?w @ [(n, now)]\<rparr> =
      cache_of (window now (?w @ [(n, now)]))" if "hashable n" "\<not> set_mem n (map fst ?w)"
    using prune_window(1) [OF ext [OF that]] that by (simp add: cache_of_def set_add_def)
  show eq: "consume_result_nonce now n c = (let w = ?w
     in if truthy n \<and> \<not> hashable n then (Inl (unhashable_error n), cache_of w)
        else if \<not> truthy n \<or> set_mem n (map fst w) then (Inl (RuntimeError NONCE_ERROR), cache_of w)
        else (Inr (), cache_of (window now (w @ [(n, now)]))))"
    using add unfolding consume_result_nonce_def w(1) in_set_def Let_def
    by (cases "set_mem n (map fst ?w)") auto
  show "cache_ok (snd (consume_result_nonce now n c))"
    unfolding eq Let_def using w(2) prune_window(2) [OF ext] by auto
qed

section \<open>A seen nonce is refused\<close>

text \<open>The nonce was accepted at \<open>t\<close>, and at most \<open>m\<close> nonces after it.\<close>

definition remembered :: "pyval \<Rightarrow> rat \<Rightarrow> nat \<Rightarrow> nonce_cache \<Rightarrow> bool" where
  "remembered n t m c \<longleftrightarrow> cache_ok c \<and>
     (\<exists>before after. nc_order c = before @ (n, t) # after \<and> length after \<le> m)"

lemma window_keeps:
  assumes "now - t < SEEN_NONCE_TTL_SECONDS" and "length after < MAX_SEEN_NONCES"
  shows "\<exists>before'. window now (before @ (n, t) # after) = before' @ (n, t) # after"
proof -
  have t: "\<not> t \<le> now - SEEN_NONCE_TTL_SECONDS" using assms(1) by simp
  have "\<exists>b1. dropWhile (\<lambda>(_, created_at). created_at \<le> now - SEEN_NONCE_TTL_SECONDS) (before @ (n, t) # after)
      = b1 @ (n, t) # after"
  proof (induction before)
    case (Cons p before)
    then show ?case by (cases "snd p \<le> now - SEEN_NONCE_TTL_SECONDS") (auto simp: case_prod_unfold intro: exI [of _ "p # before"])
  qed (simp add: t)
  then obtain b1 where live: "dropWhile (\<lambda>(_, created_at). created_at \<le> now - SEEN_NONCE_TTL_SECONDS)
      (before @ (n, t) # after) = b1 @ (n, t) # after" by blast
  have "drop (length (b1 @ (n, t) # after) - MAX_SEEN_NONCES) (b1 @ (n, t) # after)
      = drop (length (b1 @ (n, t) # after) - MAX_SEEN_NONCES) b1 @ (n, t) # after"
    using assms(2) by simp
  then show ?thesis unfolding window_def live Let_def by blast
qed

lemma remembered_step:
  assumes r: "remembered n t m c" and now: "now - t < SEEN_NONCE_TTL_SECONDS" and m: "Suc m < MAX_SEEN_NONCES"
  shows "remembered n t (Suc m) (snd (consume_result_nonce now x c))"
    and "py_eq x n \<Longrightarrow> fst (consume_result_nonce now x c) \<noteq> Inr ()"
proof -
  obtain before after where o: "nc_order c = before @ (n, t) # after" "length after \<le> m" and c: "cache_ok c"
    using r by (auto simp: remembered_def)
  obtain b1 where w: "window now (nc_order c) = b1 @ (n, t) # after"
    using window_keeps [OF now, of after before n] o m by auto
  obtain b2 where w2: "window now ((b1 @ (n, t) # after) @ [(x, now)]) = b2 @ (n, t) # after @ [(x, now)]"
    using window_keeps [OF now, of "after @ [(x, now)]" b1 n] o m by auto
  note cases = consume_nonce_cases [OF c, of now x, unfolded w Let_def]
  have "nc_order (snd (consume_result_nonce now x c)) = b1 @ (n, t) # after \<or>
      nc_order (snd (consume_result_nonce now x c)) = b2 @ (n, t) # after @ [(x, now)]"
    unfolding cases(1) w2 by simp
  then show "remembered n t (Suc m) (snd (consume_result_nonce now x c))"
    unfolding remembered_def using cases(2) o(2) by fastforce
  show "fst (consume_result_nonce now x c) \<noteq> Inr ()" if "py_eq x n"
    using that unfolding cases(1) by (simp add: set_mem_iff)
qed

lemma accepted_remembered:
  assumes c: "cache_ok c" and ok: "fst (consume_result_nonce t n c) = Inr ()"
  shows "remembered n t 0 (snd (consume_result_nonce t n c))"
proof -
  have "window t (window t (nc_order c) @ [(n, t)]) \<noteq> [] \<and>
      (\<exists>b. window t (window t (nc_order c) @ [(n, t)]) = b @ [(n, t)])"
    using window_keeps [of t t "[]" "window t (nc_order c)" n]
    by (auto simp: SEEN_NONCE_TTL_SECONDS_def MAX_SEEN_NONCES_def)
  then show ?thesis
    using ok consume_nonce_cases [OF c, of t n] unfolding remembered_def Let_def
    by (auto split: if_split_asm)
qed

text \<open>A sequence of consumptions \<open>(now, nonce)\<close>.\<close>

definition nonce_step :: "rat \<times> pyval \<Rightarrow> nonce_cache \<Rightarrow> nonce_cache" where
  "nonce_step op c = snd (consume_result_nonce (fst op) (snd op) c)"

definition nonce_accepted :: "pyval \<Rightarrow> rat \<times> pyval \<Rightarrow> nonce_cache \<Rightarrow> bool" where
  "nonce_accepted n op c \<longleftrightarrow> py_eq (snd op) n \<and> fst (consume_result_nonce (fst op) (snd op) c) = Inr ()"

lemma remembered_run:
  "remembered n t m c \<Longrightarrow> m + length ops < MAX_SEEN_NONCES \<Longrightarrow>
   list_all (\<lambda>op. fst op - t < SEEN_NONCE_TTL_SECONDS) ops \<Longrightarrow>
   count_granted nonce_step (nonce_accepted n) ops c = 0"
proof (induction ops arbitrary: m c)
  case (Cons op ops)
  have m: "Suc m < MAX_SEEN_NONCES" and t: "fst op - t < SEEN_NONCE_TTL_SECONDS" using Cons.prems by simp_all
  have "remembered n t (Suc m) (nonce_step op c)"
    unfolding nonce_step_def by (rule remembered_step(1) [OF Cons.prems(1) t m])
  then have "count_granted nonce_step (nonce_accepted n) ops (nonce_step op c) = 0"
    using Cons.IH [of "Suc m"] Cons.prems by simp
  moreover have "\<not> nonce_accepted n op c"
    using remembered_step(2) [OF Cons.prems(1) t m] by (auto simp: nonce_accepted_def)
  ultimately show ?case by simp
qed simp

section \<open>What an accepted result satisfies\<close>

definition worker_result_ok ::
  "py_env \<Rightarrow> (nat \<Rightarrow> rat) \<Rightarrow> pydict \<Rightarrow> expectations \<Rightarrow> pydict \<Rightarrow> pydict \<Rightarrow> bool" where
  "worker_result_ok E clk signed x rd receipt \<longleftrightarrow>
     authentic E (clk 0) signed ''TASK_RESULT'' \<and>
     dget signed ''public_key_hex'' PNone = PStr (ex_worker_pubkey_hex x) \<and>
     dget signed ''agent_id'' PNone = PStr (ex_worker_id x) \<and>
     py_or (dget signed ''result_data'' PNone) (PDict []) = PDict rd \<and>
     dget signed ''data_hash'' PNone = PStr (sha256 E (canonical E (PDict rd))) \<and>
     py_eq (dget signed ''nonce'' PNone) (dget rd ''nonce'' PNone) \<and>
     dget rd ''from_agent_id'' PNone = PStr (ex_worker_id x) \<and>
     dget rd ''to_agent_id'' PNone = PStr (ex_coordinator_id x) \<and>
     py_eq (dget rd ''delegation_id'' PNone) (ex_delegation_id x) \<and>
     dget rd ''status'' PNone = PStr ''COMPLETED'' \<and>
     dget rd ''tee_authorization'' PNone = PDict receipt \<and>
     (\<exists>expected. ex_tee_authorization x = Some expected \<and>
        receipt_fingerprint E receipt = receipt_fingerprint E expected) \<and>
     opt_str (ex_gateway_public_key_hex x) \<noteq> [] \<and> opt_str (ex_action x) \<noteq> [] \<and> ex_parameters x \<noteq> PNone \<and>
     receipt_authorizes E (\<lambda>i. clk (1 + i)) receipt (opt_str (ex_gateway_public_key_hex x))
       (opt_str (ex_gateway_key_id x)) (ex_delegation_id x) (PStr (ex_worker_id x))
       (PStr (opt_str (ex_action x))) (ex_parameters x) (opt_str (ex_build_config_id x))"

lemma check_worker_result_ok:
  assumes "check_worker_result E clk signed x = Inr (rd, receipt)"
  shows "worker_result_ok E clk signed x rd receipt"
  using assms unfolding check_worker_result_def Let_def
  by (auto simp: worker_result_ok_def expectation_checks_def envelope_checks_def content_checks_def
      verify_action_request_iff verify_tee_authorization_receipt_iff)

lemma verify_worker_result_Inr:
  assumes "verify_worker_result E clk ticks c L signed x = (Inr rd, c', L')"
  shows "\<exists>receipt secret. worker_result_ok E clk signed x rd receipt \<and>
    consume_result_nonce ticks (dget rd ''nonce'' PNone) c = (Inr (), c') \<and>
    configured_integrity_key E ''result'' = Inr secret \<and>
    (\<exists>msg. consume_result_replay E (clk 3) L
       (result_replay_key E (ex_worker_pubkey_hex x) (ex_coordinator_id x) rd receipt) (ex_coordinator_id x)
       (py_or (dget rd ''delegation_id'' PNone) (PStr []))
       (text_or_empty (dget signed ''data_hash'' PNone)) None secret = (Inr (True, msg), L'))"
proof -
  obtain rd' receipt where w: "check_worker_result E clk signed x = Inr (rd', receipt)"
    using assms by (auto simp: verify_worker_result_def split: sum.split_asm)
  obtain c1 where n: "consume_result_nonce ticks (dget rd' ''nonce'' PNone) c = (Inr (), c1)"
    using assms w by (auto simp: verify_worker_result_def split: sum.split_asm prod.split_asm)
  have r: "consume_result E (clk 3) L signed rd' receipt (ex_worker_pubkey_hex x) (ex_coordinator_id x) = (Inr (), L')"
    "rd' = rd" "c1 = c'"
    using assms w n by (auto simp: verify_worker_result_def split: sum.split_asm prod.split_asm)
  then show ?thesis using check_worker_result_ok [OF w] n
    by (fastforce simp: consume_result_def split: sum.split_asm prod.split_asm)
qed

text \<open>The durable record of an accepted result, and its effect on a later verification.\<close>

lemma verified_recorded:
  assumes "verify_worker_result E clk ticks c L signed x = (Inr rd, c', L')"
  shows "\<exists>receipt. worker_result_ok E clk signed x rd receipt \<and>
    recorded (clk 3 + RESULT_REPLAY_TTL_SECONDS)
      (result_replay_key E (ex_worker_pubkey_hex x) (ex_coordinator_id x) rd receipt) L'"
proof -
  obtain receipt secret msg where r: "worker_result_ok E clk signed x rd receipt"
      "consume_result_replay E (clk 3) L
       (result_replay_key E (ex_worker_pubkey_hex x) (ex_coordinator_id x) rd receipt) (ex_coordinator_id x)
       (py_or (dget rd ''delegation_id'' PNone) (PStr []))
       (text_or_empty (dget signed ''data_hash'' PNone)) None secret = (Inr (True, msg), L')"
    using verify_worker_result_Inr [OF assms] by blast
  from consume_granted [OF this(2)] show ?thesis using r(1)
    by (auto simp: recorded_def effective_expiry_def)
qed

lemma recorded_refuses_result:
  assumes rec: "recorded X (result_replay_key E (ex_worker_pubkey_hex x) (ex_coordinator_id x) rd receipt) L"
    and now: "clk 3 < X"
    and ok: "verify_worker_result E clk ticks c L signed x = (Inr rd, c', L')"
    and receipt: "worker_result_ok E clk signed x rd receipt"
  shows False
proof -
  obtain receipt' secret msg where r: "worker_result_ok E clk signed x rd receipt'"
      "consume_result_replay E (clk 3) L
       (result_replay_key E (ex_worker_pubkey_hex x) (ex_coordinator_id x) rd receipt') (ex_coordinator_id x)
       (py_or (dget rd ''delegation_id'' PNone) (PStr []))
       (text_or_empty (dget signed ''data_hash'' PNone)) None secret = (Inr (True, msg), L')"
    using verify_worker_result_Inr [OF ok] by blast
  have "receipt' = receipt" using r(1) receipt by (simp add: worker_result_ok_def)
  moreover obtain e where "L (result_replay_key E (ex_worker_pubkey_hex x) (ex_coordinator_id x) rd receipt) = Some e"
      "X \<le> le_expires_at e" using rec by (auto simp: recorded_def)
  moreover have "clk 3 < le_expires_at e" using now calculation(3) by (rule order_less_le_trans)
  ultimately show False
    using r(2) consume_refused [of L _ e "clk 3" E "ex_coordinator_id x"] by (metis fst_conv)
qed

end
