(* ===== verification/NetworkLaws.thy ===== *)
theory NetworkLaws
  imports Network ProtocolLaws PolicyLaws ResultLaws
begin

text \<open>
  The laws of request processing: nothing is executed and no state changes unless the gate is open,
  the policy permits and the ledger reserves the execution; what an execution leaves in the ledger;
  and that the signed reply of a completed execution is accepted by the coordinator.
\<close>

section \<open>Reading a request twice\<close>

text \<open>The request is rebuilt from the wire in the handler and again in the validation; only times
  that the sender left out can differ.\<close>

lemma post_init_keeps:
  "request_post_init t r = Inr r' \<Longrightarrow>
     dr_delegation_id r' = dr_delegation_id r \<and> dr_from_agent_id r' = dr_from_agent_id r \<and>
     dr_to_agent_id r' = dr_to_agent_id r \<and> dr_action r' = dr_action r \<and> dr_parameters r' = dr_parameters r \<and>
     dr_tee_authorization r' = dr_tee_authorization r \<and> dr_nonce r' = dr_nonce r"
  by (auto simp: request_post_init_def Let_def split: if_split_asm)

lemma read_twice:
  assumes "request_from_action_request t sr = Inr r" and "request_from_action_request t' sr = Inr r'"
  shows "dr_delegation_id r' = dr_delegation_id r \<and> dr_from_agent_id r' = dr_from_agent_id r \<and>
     dr_to_agent_id r' = dr_to_agent_id r \<and> dr_action r' = dr_action r \<and> dr_parameters r' = dr_parameters r \<and>
     dr_tee_authorization r' = dr_tee_authorization r \<and> dr_nonce r' = dr_nonce r"
  using assms post_init_keeps by (fastforce simp: request_from_action_request_def)

section \<open>Admission\<close>

definition admitted ::
  "py_env \<Rightarrow> (nat \<Rightarrow> rat) \<Rightarrow> network \<Rightarrow> pydict \<Rightarrow> string option \<Rightarrow> string option \<Rightarrow> string option \<Rightarrow>
    bool option \<Rightarrow> delegation_request \<Rightarrow> string \<Rightarrow> bool"
where
  "admitted E clk st sr pk kid bid require request replay_key \<longleftrightarrow>
     request_from_action_request (clk 0) sr = Inr request \<and> request_is_expired (clk 1) request = Inr False \<and>
     (\<exists>mode. resolve_runtime_mode E None = Inr mode \<and>
        (\<exists>seen. gate_open E (\<lambda>i. clk (2 + i)) sr (own_id st) (opt_str pk) (opt_str kid) (opt_str bid)
           (mode = ''live'' \<or> gateway_context_configured pk kid bid \<or> require = Some True) seen)) \<and>
     (\<exists>m. evaluate_delegation_request E (nw_policy st) request (dr_from_agent_id request) (PStr (own_id st))
        = Inr (True, m)) \<and>
     replay_key = replay_key_of E request (request_hash_of E sr) \<and> replay_key \<noteq> []"

lemma admit_request_admitted:
  assumes "admit_request E clk uuid st sr pk kid bid require = Inr (Inr (request, replay_key, handler))"
  shows "admitted E clk st sr pk kid bid require request replay_key \<and>
    (\<exists>a. dr_action request = PStr a \<and> map_of (nw_task_handlers st) a = Some handler)"
proof -
  obtain ctx v m where r: "request_from_action_request (clk 0) sr = Inr request"
    and live: "request_is_expired (clk 1) request = Inr False"
    and ctx: "from_trusted_config E pk kid bid require = Inr ctx"
    and v: "validate_delegation_request E (\<lambda>i. clk (2 + i)) sr (own_id st)
         (ctx_expected_gateway_public_key_hex ctx) (ctx_expected_gateway_key_id ctx)
         (ctx_expected_build_config_id ctx) (ctx_require_tee_authorization ctx) = Inr (True, v, Some replay_key)"
    and p: "evaluate_delegation_request E (nw_policy st) request (dr_from_agent_id request) (PStr (own_id st))
         = Inr (True, m)"
    and h: "\<exists>a. dr_action request = PStr a \<and> map_of (nw_task_handlers st) a = Some handler"
  proof -
    obtain ctx ok v rk m where s: "request_from_action_request (clk 0) sr = Inr request"
        "request_is_expired (clk 1) request = Inr False"
        "from_trusted_config E pk kid bid require = Inr ctx"
        "validate_delegation_request E (\<lambda>i. clk (2 + i)) sr (own_id st)
           (ctx_expected_gateway_public_key_hex ctx) (ctx_expected_gateway_key_id ctx)
           (ctx_expected_build_config_id ctx) (ctx_require_tee_authorization ctx) = Inr (True, v, rk)"
        "evaluate_delegation_request E (nw_policy st) request (dr_from_agent_id request) (PStr (own_id st))
         = Inr (True, m)"
        "replay_key = opt_str rk"
        "(case dr_action request of PStr a \<Rightarrow> map_of (nw_task_handlers st) a | _ \<Rightarrow> None) = Some handler"
      using assms unfolding admit_request_def
      by (auto split: if_split_asm prod.split_asm option.split_asm)
    from s(4) have "rk = Some replay_key" using s(6) by (auto simp: validate_iff)
    then show thesis using that s by (auto split: pyval.split_asm)
  qed
  obtain seen where seen: "gate_open E (\<lambda>i. clk (2 + i)) sr (own_id st)
       (ctx_expected_gateway_public_key_hex ctx) (ctx_expected_gateway_key_id ctx)
       (ctx_expected_build_config_id ctx) (ctx_require_tee_authorization ctx) seen"
    and k: "replay_key = replay_key_of E seen (request_hash_of E sr)" "replay_key \<noteq> []"
    using v by (auto simp: validate_iff)
  have "request_from_action_request (clk (2 + 1)) sr = Inr seen" using seen by (simp only: gate_open_def)
  from read_twice [OF r this] have "replay_key = replay_key_of E request (request_hash_of E sr)"
    using k(1) by (simp add: replay_key_of_def)
  moreover obtain mode where "resolve_runtime_mode E None = Inr mode"
      "ctx_require_tee_authorization ctx = (mode = ''live'' \<or> gateway_context_configured pk kid bid \<or> require = Some True)"
    using ctx by (auto simp: from_trusted_config_def Let_def)
  ultimately show ?thesis using r live p h seen k(2) from_trusted_config_fields [OF ctx]
    unfolding admitted_def by auto
qed

section \<open>Reservation\<close>

definition reserved ::
  "py_env \<Rightarrow> rat \<Rightarrow> string \<Rightarrow> network \<Rightarrow> ledger \<Rightarrow> delegation_request \<Rightarrow> string \<Rightarrow> string option \<Rightarrow> rat \<Rightarrow> ledger \<Rightarrow> bool"
where
  "reserved E now token st L request replay_key secret expires_at L1 \<longleftrightarrow>
     request_replay_integrity_key E (nw_identity st) = Inr secret \<and>
     begin_request_execution E now token L replay_key expires_at (own_id st) (dr_delegation_id request)
       (receipt_fingerprint E (receipt_or_empty (dr_tee_authorization request))) secret
       = (Inr (True, [], Some token), L1)"

lemma process_admitted_cases:
  assumes "process_admitted E clk uuid token between st L request replay_key handler = (r, st', L')"
  obtains (refused) "st' = st" "\<And>p. r = Inr p \<Longrightarrow> \<exists>reason.
      failed_reply E (clk 9) (clk 10) (uuid 0) st request reason = Inr p"
  | (run) secret expires_at L1 where
      "delegation_request_replay_expires_at E (clk 7) request = Inr expires_at"
      "reserved E (clk 8) token st L request replay_key secret expires_at L1"
      "run_reserved E clk uuid between st L1 request replay_key secret (Some token) handler = (r, st', L')"
proof (cases "request_replay_integrity_key E (nw_identity st)")
  case (Inl e)
  then show ?thesis using assms refused by (auto simp: process_admitted_def)
next
  case secret: (Inr secret)
  show ?thesis
  proof (cases "delegation_request_replay_expires_at E (clk 7) request")
    case (Inl e)
    then show ?thesis using assms refused secret by (auto simp: process_admitted_def)
  next
    case x: (Inr x)
    obtain b L1 where b: "begin_request_execution E (clk 8) token L replay_key x (own_id st) (dr_delegation_id request)
       (receipt_fingerprint E (receipt_or_empty (dr_tee_authorization request))) secret = (b, L1)"
      by fastforce
    show ?thesis
    proof (cases "\<exists>msg tk. b = Inr (True, msg, tk)")
      case True
      then obtain msg tk where g: "b = Inr (True, msg, tk)" by blast
      note granted = begin_granted_cases [OF b [unfolded g]]
      then have "b = Inr (True, [], Some token)" using g by simp
      then show ?thesis using run [OF x, of secret L1] b assms secret x
        by (simp add: process_admitted_def begin_delegation_request_execution_def reserved_def)
    next
      case False
      then show ?thesis using assms secret x b refused
        by (cases b) (auto simp: process_admitted_def begin_delegation_request_execution_def
            split: prod.split_asm bool.split_asm)
    qed
  qed
qed

section \<open>Replies\<close>

definition reply_status :: "pydict \<Rightarrow> pyval" where
  "reply_status reply = (case dget reply ''result_data'' PNone of
     PDict d \<Rightarrow> dget d ''status'' PNone
   | _ \<Rightarrow> PNone)"

lemma reply_of_result:
  assumes "result_to_action_request E t res a = Inr reply"
  shows "dget reply ''result_data'' x = PDict (result_payload res)"
    and "reply_status reply = PStr (status_value (ds_status res))"
  using assms by (auto simp: result_to_action_request_def Let_def reply_status_def result_payload_def)

lemma create_result_fields [simp]:
  "ds_status (create_delegation_result t u r a s v e) = s"
  "ds_result (create_delegation_result t u r a s v e) = v"
  "ds_error (create_delegation_result t u r a s v e) = e"
  "ds_from_agent_id (create_delegation_result t u r a s v e) = PStr (id_agent_id a)"
  "ds_to_agent_id (create_delegation_result t u r a s v e) = dr_from_agent_id r"
  "ds_delegation_id (create_delegation_result t u r a s v e) = dr_delegation_id r"
  "ds_tee_authorization (create_delegation_result t u r a s v e) = dr_tee_authorization r"
  "ds_nonce (create_delegation_result t u r a s v e) = PStr u"
  by (simp_all add: create_delegation_result_def result_post_init_def)

lemma failed_reply_status: "failed_reply E t t' u st r e = Inr p \<Longrightarrow> reply_status p = PStr ''FAILED''"
  using reply_of_result(2) by (fastforce simp: failed_reply_def)

lemma error_reply_status: "error_reply E clk u st e = Inr p \<Longrightarrow> reply_status p = PStr ''FAILED''"
  using reply_of_result(2) by (fastforce simp: error_reply_def result_post_init_def)

lemma admit_reply_failed:
  "admit_request E clk uuid st sr pk kid bid require = Inr (Inl p) \<Longrightarrow> reply_status p = PStr ''FAILED''"
  unfolding admit_request_def
  by (auto dest!: failed_reply_status split: if_split_asm prod.split_asm option.split_asm)

section \<open>The execution\<close>

lemma execute_completed:
  assumes "execute_request E clk uuid between st L request k secret token handler = (Inr res, L')"
    and "ds_status res = COMPLETED"
  shows "\<exists>v ok. run_handler E (clk 10) st handler (dr_parameters request) = Inr v \<and>
    finalize_request_execution E (clk 12) (run_ops E between L) k REQUEST_STATE_COMPLETED secret None token = (Inr ok, L') \<and>
    res = create_delegation_result (clk 11) (uuid 0) request (nw_identity st) COMPLETED v PNone"
proof (cases "run_handler E (clk 10) st handler (dr_parameters request)")
  case (Inl e)
  then show ?thesis using assms
    by (auto simp: execute_request_def finish_failed_def Let_def split: prod.split_asm sum.split_asm)
next
  case (Inr v)
  obtain f L2 where f: "finalize_delegation_request_execution E (clk 12) (run_ops E between L) k ''COMPLETED'' secret None token
      = (f, L2)" by fastforce
  have c: "''COMPLETED'' = REQUEST_STATE_COMPLETED" by (simp add: REQUEST_STATE_COMPLETED_def)
  show ?thesis
  proof (cases f)
    case (Inl e)
    then show ?thesis using assms Inr f
      by (auto simp: execute_request_def finish_failed_def Let_def split: prod.split_asm sum.split_asm)
  next
    case (Inr ok)
    then show ?thesis using assms f \<open>run_handler E (clk 10) st handler (dr_parameters request) = Inr v\<close>
      by (auto simp: execute_request_def Let_def finalize_delegation_request_execution_def c)
  qed
qed

lemma run_reserved_identity:
  assumes "run_reserved E clk uuid between st L request k secret token handler = (r, st', L')"
  shows "nw_identity st' = nw_identity st \<and> nw_policy st' = nw_policy st \<and> nw_task_handlers st' = nw_task_handlers st"
  using assms by (auto simp: run_reserved_def add_log_def Let_def split: if_split_asm prod.split_asm sum.split_asm)

lemma run_reserved_completed:
  assumes run: "run_reserved E clk uuid between st L request k secret token handler = (Inr reply, st', L')"
    and status: "reply_status reply = PStr ''COMPLETED''"
  shows "\<exists>st1 v ok res. nw_identity st1 = nw_identity st \<and>
    run_handler E (clk 10) st1 handler (dr_parameters request) = Inr v \<and>
    finalize_request_execution E (clk 12) (run_ops E between L) k REQUEST_STATE_COMPLETED secret None token = (Inr ok, L') \<and>
    res = create_delegation_result (clk 11) (uuid 0) request (nw_identity st) COMPLETED v PNone \<and>
    result_to_action_request E (clk 17) res (nw_identity st) = Inr reply \<and>
    nw_results st' = vset (dr_delegation_id request) res (nw_results st) \<and> hashable (dr_delegation_id request)"
proof -
  define st1 where "st1 = add_log (received_log (clk 9) st request)
      (st\<lparr>nw_delegations := vset (dr_delegation_id request) request (nw_delegations st)\<rparr>)"
  have id1: "nw_identity st1 = nw_identity st" "nw_results st1 = nw_results st" by (simp_all add: st1_def add_log_def)
  obtain res where ex: "execute_request E clk uuid between st1 L request k secret token handler = (Inr res, L')"
    and h: "hashable (dr_delegation_id request)"
    and reply: "result_to_action_request E (clk 17) res (nw_identity st) = Inr reply"
    and st': "nw_results st' = vset (dr_delegation_id request) res (nw_results st)"
    using run unfolding run_reserved_def st1_def [symmetric] Let_def
    by (auto simp: add_log_def id1 split: if_split_asm prod.split_asm sum.split_asm)
  have "ds_status res = COMPLETED"
    using reply_of_result(2) [OF reply] status by (cases "ds_status res") simp_all
  from execute_completed [OF ex this] show ?thesis using id1 h reply st' by auto
qed

lemma process_completed:
  assumes "process_delegation_request E clk uuid token between st L sr pk kid bid require = (Inr reply, st', L')"
    and "reply_status reply = PStr ''COMPLETED''"
  shows "\<exists>request k handler secret x L1. admitted E clk st sr pk kid bid require request k \<and>
    (\<exists>a. dr_action request = PStr a \<and> map_of (nw_task_handlers st) a = Some handler) \<and>
    delegation_request_replay_expires_at E (clk 7) request = Inr x \<and>
    reserved E (clk 8) token st L request k secret x L1 \<and>
    run_reserved E clk uuid between st L1 request k secret (Some token) handler = (Inr reply, st', L')"
proof -
  obtain request k handler where a: "admit_request E clk uuid st sr pk kid bid require = Inr (Inr (request, k, handler))"
    and p: "process_admitted E clk uuid token between st L request k handler = (Inr reply, st', L')"
    using assms unfolding process_delegation_request_def
    by (auto dest: error_reply_status admit_reply_failed split: sum.split_asm prod.split_asm)
  from p show ?thesis
  proof (cases rule: process_admitted_cases)
    case refused
    then show ?thesis using assms(2) failed_reply_status by fastforce
  next
    case (run secret x L1)
    then show ?thesis using admit_request_admitted [OF a] by blast
  qed
qed

lemma process_changes:
  assumes "process_delegation_request E clk uuid token between st L sr pk kid bid require = (r, st', L')"
    and "st' \<noteq> st"
  shows "\<exists>request k handler secret x L1. admitted E clk st sr pk kid bid require request k \<and>
    (\<exists>a. dr_action request = PStr a \<and> map_of (nw_task_handlers st) a = Some handler) \<and>
    reserved E (clk 8) token st L request k secret x L1"
proof -
  obtain request k handler r' where a: "admit_request E clk uuid st sr pk kid bid require = Inr (Inr (request, k, handler))"
    and p: "process_admitted E clk uuid token between st L request k handler = (r', st', L')"
    using assms unfolding process_delegation_request_def
    by (auto split: sum.split_asm prod.split_asm)
  from p show ?thesis
  proof (cases rule: process_admitted_cases)
    case (run secret x L1)
    then show ?thesis using admit_request_admitted [OF a] by blast
  qed (use assms(2) in simp)
qed

lemma process_ledger_changes:
  assumes "process_delegation_request E clk uuid token between st L sr pk kid bid require = (r, st', L')"
    and "L' \<noteq> L"
  shows "\<exists>request k. admitted E clk st sr pk kid bid require request k"
  using assms admit_request_admitted unfolding process_delegation_request_def
  by (fastforce split: sum.split_asm prod.split_asm)

section \<open>An admitted and reserved request is executed\<close>

lemma admitted_admits:
  assumes "admitted E clk st sr pk kid bid require request k"
    and h: "dr_action request = PStr a" "map_of (nw_task_handlers st) a = Some handler"
  shows "admit_request E clk uuid st sr pk kid bid require = Inr (Inr (request, k, handler))"
proof -
  obtain mode seen m where r: "request_from_action_request (clk 0) sr = Inr request"
    and live: "request_is_expired (clk 1) request = Inr False"
    and mode: "resolve_runtime_mode E None = Inr mode"
    and seen: "gate_open E (\<lambda>i. clk (2 + i)) sr (own_id st) (opt_str pk) (opt_str kid) (opt_str bid)
       (mode = ''live'' \<or> gateway_context_configured pk kid bid \<or> require = Some True) seen"
    and p: "evaluate_delegation_request E (nw_policy st) request (dr_from_agent_id request) (PStr (own_id st))
       = Inr (True, m)"
    and k: "k = replay_key_of E request (request_hash_of E sr)" "k \<noteq> []"
    using assms(1) by (auto simp: admitted_def)
  have r3: "request_from_action_request (clk (2 + 1)) sr = Inr seen" using seen by (simp only: gate_open_def)
  have same: "replay_key_of E seen (request_hash_of E sr) = k" "dr_to_agent_id request = PStr (own_id st)"
    using read_twice [OF r r3] k seen by (simp_all add: replay_key_of_def gate_open_def)
  then have v: "validate_delegation_request E (\<lambda>i. clk (2 + i)) sr (own_id st) (opt_str pk) (opt_str kid) (opt_str bid)
      (mode = ''live'' \<or> gateway_context_configured pk kid bid \<or> require = Some True)
      = Inr (True, ''Delegation request is valid'', Some k)"
    using seen k(2) by (auto simp: validate_iff)
  show ?thesis unfolding admit_request_def from_trusted_config_def
    using mode r live same(2) v p h by (simp add: Let_def)
qed

lemma process_completes:
  assumes adm: "admitted E clk st sr pk kid bid require request k"
    and h: "dr_action request = PStr a" "map_of (nw_task_handlers st) a = Some handler"
      "\<And>st'. nw_identity st' = nw_identity st \<Longrightarrow> run_handler E (clk 10) st' handler (dr_parameters request) = Inr v"
    and x: "delegation_request_replay_expires_at E (clk 7) request = Inr x"
    and res: "reserved E (clk 8) token st L request k secret x L1"
    and id: "hashable (dr_delegation_id request)"
    and fin: "finalize_request_execution E (clk 12) (run_ops E between L1) k REQUEST_STATE_COMPLETED secret None
      (Some token) = (Inr ok, L')"
    and sign: "able_to_sign E (nw_identity st)"
  shows "\<exists>reply st'. process_delegation_request E clk uuid token between st L sr pk kid bid require = (Inr reply, st', L')
    \<and> reply_status reply = PStr ''COMPLETED'' \<and>
    (\<exists>res. res = create_delegation_result (clk 11) (uuid 0) request (nw_identity st) COMPLETED v PNone \<and>
      vget (nw_results st') (dr_delegation_id request) = Some res \<and>
      result_to_action_request E (clk 17) res (nw_identity st) = Inr reply)"
proof -
  define result where "result = create_delegation_result (clk 11) (uuid 0) request (nw_identity st) COMPLETED v PNone"
  obtain p where p: "sign_action E (clk 17) (nw_identity st) ''TASK_RESULT'' (ds_nonce result)
      (Some (PDict (result_payload result))) = Inr p"
    using sign sign_action_total unfolding able_to_sign_def by blast
  then have reply: "result_to_action_request E (clk 17) result (nw_identity st) =
      Inr (dset ''result_data'' (PDict (result_payload result)) p)" (is "_ = Inr ?reply")
    by (simp add: result_to_action_request_def Let_def)
  have c: "finalize_delegation_request_execution E (clk 12) (run_ops E between L1) k ''COMPLETED'' secret None (Some token)
      = (Inr ok, L')"
    using fin by (simp add: finalize_delegation_request_execution_def REQUEST_STATE_COMPLETED_def)
  obtain st' where run: "run_reserved E clk uuid between st L1 request k secret (Some token) handler = (Inr ?reply, st', L')"
    and st': "nw_results st' = vset (dr_delegation_id request) result (nw_results st)"
    using id h(3) c reply by (simp add: run_reserved_def execute_request_def Let_def add_log_def result_def)
  have "process_admitted E clk uuid token between st L request k handler = (Inr ?reply, st', L')"
    using res x run by (simp add: process_admitted_def reserved_def begin_delegation_request_execution_def)
  then have "process_delegation_request E clk uuid token between st L sr pk kid bid require = (Inr ?reply, st', L')"
    using admitted_admits [OF adm h(1,2)] by (simp add: process_delegation_request_def)
  moreover have "reply_status ?reply = PStr ''COMPLETED''"
    using reply_of_result(2) [OF reply] by (simp add: result_def)
  moreover have "vget (nw_results st') (dr_delegation_id request) = Some result"
    using st' vget_vset [OF id id] hashable_refl [OF id] by simp
  ultimately show ?thesis using reply result_def by blast
qed

section \<open>The ledger after a completed execution\<close>

lemma reserved_holds:
  assumes "reserved E now token st L request k secret x L1"
  shows "k \<noteq> [] \<and> (\<exists>e. L1 k = Some e \<and> holds (le_expires_at e) k token L1)"
proof -
  have "begin_request_execution E now token L k x (own_id st) (dr_delegation_id request)
      (receipt_fingerprint E (receipt_or_empty (dr_tee_authorization request))) secret
      = (Inr (True, [], Some token), L1)"
    using assms by (simp add: reserved_def)
  note granted = begin_granted_cases [OF this]
  obtain e where "k \<noteq> []" "L1 k = Some e" "le_state e = REQUEST_STATE_RUNNING" "le_execution_token e = Some token"
    using granted by blast
  then show ?thesis by (simp add: holds_def)
qed

lemma execution_recorded:
  assumes res: "reserved E now token st L request k secret x L1" and e: "L1 k = Some e" and tok: "token \<noteq> []"
    and lease: "lease_kept E k between L1" and free: "list_all (\<lambda>op. \<not> releases k token op) between"
    and run: "run_reserved E clk uuid between st L1 request k secret (Some token) handler = (Inr reply, st', L')"
    and status: "reply_status reply = PStr ''COMPLETED''"
  shows "completed (le_expires_at e) k L'"
proof -
  have h: "holds (le_expires_at e) k token L1" and k: "k \<noteq> []"
    using reserved_holds [OF res] e by auto
  have "holds (le_expires_at e) k token (run_ops E between L1)"
    using holds_run [OF h tok lease free] by blast
  moreover obtain ok where "finalize_request_execution E (clk 12) (run_ops E between L1) k REQUEST_STATE_COMPLETED secret
      None (Some token) = (Inr ok, L')"
    using run_reserved_completed [OF run status] by blast
  ultimately show ?thesis using holder_completes k by blast
qed

lemma admitted_same_key:
  assumes "admitted E clk st sr pk kid bid require request k"
    and "admitted E clk' st' sr pk' kid' bid' require' request' k'"
  shows "k' = k"
  using assms read_twice [of "clk 0" sr request "clk' 0" request']
  by (auto simp: admitted_def replay_key_of_def)

lemma completed_blocks:
  assumes c: "completed X k L" and now: "clk 8 < X"
    and key: "\<And>request k'. admitted E clk st sr pk kid bid require request k' \<Longrightarrow> k' = k"
    and p: "process_delegation_request E clk uuid token between st L sr pk kid bid require = (r, st', L')"
  shows "st' = st \<and> (\<forall>reply. r = Inr reply \<longrightarrow> reply_status reply \<noteq> PStr ''COMPLETED'')"
proof -
  have no: "\<not> reserved E (clk 8) token st L request k secret x L1" for request secret x L1
    using completed_not_granted [OF c now] unfolding reserved_def by (metis fst_conv)
  show ?thesis
  proof (intro conjI allI impI notI)
    show "st' = st" using process_changes [OF p] key no by blast
  next
    fix reply assume "r = Inr reply" "reply_status reply = PStr ''COMPLETED''"
    then show False using process_completed [of E clk uuid token between st L sr pk kid bid require reply st' L'] p key no
      by blast
  qed
qed

text \<open>An executor that lost its lease: its finalization is refused, and it reports completion.\<close>

lemma foreign_finalize:
  assumes "L k = Some e" "foreign_token e tok" "verify_integrity E e sec = Inr ()" "k \<noteq> []"
  shows "finalize_request_execution E t L k st sec err tok = (Inr False, L)"
  using assms by (simp add: finalize_request_execution_def transact_def)

lemma stale_execution:
  assumes h: "hashable (dr_delegation_id request)"
    and run: "\<And>st'. nw_identity st' = nw_identity st \<Longrightarrow> run_handler E (clk 10) st' handler (dr_parameters request) = Inr v"
    and row: "run_ops E between L k = Some e" and f: "foreign_token e token"
    and sec: "verify_integrity E e secret = Inr ()" and k: "k \<noteq> []"
    and sign: "able_to_sign E (nw_identity st)"
  shows "\<exists>reply st'. run_reserved E clk uuid between st L request k secret token handler =
      (Inr reply, st', run_ops E between L) \<and> reply_status reply = PStr ''COMPLETED''"
proof -
  have fin: "finalize_delegation_request_execution E (clk 12) (run_ops E between L) k ''COMPLETED'' secret None token
      = (Inr False, run_ops E between L)"
    using foreign_finalize [of "run_ops E between L" k e token E secret, OF row f sec k]
    by (simp add: finalize_delegation_request_execution_def REQUEST_STATE_COMPLETED_def)
  define res where "res = create_delegation_result (clk 11) (uuid 0) request (nw_identity st) COMPLETED v PNone"
  obtain p where p: "sign_action E (clk 17) (nw_identity st) ''TASK_RESULT'' (ds_nonce res)
      (Some (PDict (result_payload res))) = Inr p"
    using sign sign_action_total unfolding able_to_sign_def by blast
  then have reply: "result_to_action_request E (clk 17) res (nw_identity st) =
      Inr (dset ''result_data'' (PDict (result_payload res)) p)"
    by (simp add: result_to_action_request_def Let_def)
  have st: "reply_status (dset ''result_data'' (PDict (result_payload res)) p) = PStr ''COMPLETED''"
    using reply_of_result(2) [OF reply] by (simp add: res_def)
  show ?thesis using h fin reply st run
    by (simp add: run_reserved_def execute_request_def Let_def add_log_def res_def)
qed

section \<open>The coordinator accepts the reply of a completed execution\<close>

lemma result_reply_authentic:
  assumes a: "able_to_sign E a" and clock: "clock_text_ok E (t + 300)" "t' \<le> t + 300"
    and p: "result_to_action_request E t res a = Inr reply"
  shows "authentic E t' reply ''TASK_RESULT''"
    and "dget reply ''public_key_hex'' PNone = PStr (id_public_key_hex a)"
    and "dget reply ''agent_id'' PNone = PStr (id_agent_id a)"
    and "dget reply ''nonce'' PNone = ds_nonce res"
    and "dget reply ''data_hash'' PNone = PStr (sha256 E (canonical E (PDict (result_payload res))))"
    and "py_or (dget reply ''result_data'' PNone) (PDict []) = PDict (result_payload res)"
proof -
  obtain priv where priv: "id_private_key_obj a = Some priv" "ed25519_ok E priv" and m: "\<not> is_mock E" "identity_ok E a"
    using a by (auto simp: able_to_sign_def)
  obtain s where s: "sign_action E t a ''TASK_RESULT'' (ds_nonce res) (Some (PDict (result_payload res))) = Inr s"
    and reply: "reply = dset ''result_data'' (PDict (result_payload res)) s"
    using p by (auto simp: result_to_action_request_def Let_def)
  have "authentic E t' s ''TASK_RESULT''"
    by (rule sign_action_authentic [OF m priv clock s])
  then show "authentic E t' reply ''TASK_RESULT''"
    unfolding reply by (subst authentic_dset) (simp_all add: required_fields_def)
  show "dget reply ''public_key_hex'' PNone = PStr (id_public_key_hex a)"
    "dget reply ''agent_id'' PNone = PStr (id_agent_id a)" "dget reply ''nonce'' PNone = ds_nonce res"
    "dget reply ''data_hash'' PNone = PStr (sha256 E (canonical E (PDict (result_payload res))))"
    using sign_action_shape [OF m(1) priv(1) s] by (simp_all add: reply)
  show "py_or (dget reply ''result_data'' PNone) (PDict []) = PDict (result_payload res)"
    by (simp add: reply py_or_def result_payload_def)
qed

definition expected_of ::
  "agent_identity \<Rightarrow> string \<Rightarrow> string \<Rightarrow> pydict \<Rightarrow> string \<Rightarrow> string \<Rightarrow> string \<Rightarrow> pyval \<Rightarrow> string \<Rightarrow> expectations" where
  "expected_of worker delegation_id coordinator receipt gateway_pub key_id action parameters build =
     \<lparr>ex_worker_id = id_agent_id worker, ex_worker_pubkey_hex = id_public_key_hex worker,
      ex_delegation_id = PStr delegation_id, ex_coordinator_id = coordinator,
      ex_tee_authorization = Some receipt, ex_gateway_public_key_hex = Some gateway_pub,
      ex_gateway_key_id = Some key_id, ex_action = Some action, ex_parameters = parameters,
      ex_build_config_id = Some build\<rparr>"

lemma completed_reply_checks:
  assumes a: "able_to_sign E w" and clock: "clock_text_ok E (t + 300)" "clk 0 \<le> t + 300"
    and p: "result_to_action_request E t res w = Inr reply"
    and res: "ds_status res = COMPLETED" "ds_from_agent_id res = PStr (id_agent_id w)" "ds_to_agent_id res = PStr coordinator"
      "ds_delegation_id res = PStr did" "ds_nonce res = PStr n" "ds_tee_authorization res = PDict receipt"
    and x: "pub \<noteq> []" "act \<noteq> []" "params \<noteq> PNone"
    and r: "receipt_authorizes E (\<lambda>i. clk (1 + i)) receipt pub key_id (PStr did) (PStr (id_agent_id w))
       (PStr act) params build"
  shows "check_worker_result E clk reply (expected_of w did coordinator receipt pub key_id act params build)
    = Inr (result_payload res, receipt)"
proof -
  note reply = result_reply_authentic [OF a clock p]
  have v: "verify_action_request E (clk 0) reply ''TASK_RESULT'' = Inr (True, [])"
    using reply(1) by (simp add: verify_action_request_iff)
  have tee: "verify_tee_authorization_receipt E (\<lambda>i. clk (1 + i)) (PDict receipt) pub key_id (PStr did)
      (PStr (id_agent_id w)) (PStr act) params build = Inr receipt"
    using r by (simp add: verify_tee_authorization_receipt_iff)
  have kb: "key_id \<noteq> []" "build \<noteq> []" and ne: "receipt \<noteq> []"
    using r by (auto simp: receipt_authorizes_def)
  show ?thesis
    unfolding check_worker_result_def v bindE.simps prod.case
    using reply(2-6) x res kb ne tee
    by (simp add: expectation_checks_def expected_of_def envelope_checks_def content_checks_def result_payload_def
        raise_if_def as_dict_def Let_def)
qed

lemma completed_reply_accepted_by_check:
  assumes run: "process_delegation_request E clk uuid token between st L sr pk kid bid require = (Inr reply, st', L')"
    and status: "reply_status reply = PStr ''COMPLETED''" and sign: "able_to_sign E (nw_identity st)"
    and clock: "clock_text_ok E (clk 17 + 300)" "clk' 0 \<le> clk 17 + 300"
    and read: "request_from_action_request (clk 0) sr = Inr request"
    and request: "dr_from_agent_id request = PStr coordinator" "dr_delegation_id request = PStr did"
      "dr_action request = PStr act" "dr_parameters request \<noteq> PNone" "act \<noteq> []"
      "dr_tee_authorization request = PDict receipt" "pub \<noteq> []"
    and receipt: "receipt_authorizes E (\<lambda>i. clk' (1 + i)) receipt pub key_id (PStr did)
       (PStr (id_agent_id (nw_identity st))) (PStr act) (dr_parameters request) build"
  shows "\<exists>rd. check_worker_result E clk' reply
      (expected_of (nw_identity st) did coordinator receipt pub key_id act (dr_parameters request) build)
      = Inr (rd, receipt)"
proof -
  obtain request' k handler secret x L1 where adm: "admitted E clk st sr pk kid bid require request' k"
    and r: "run_reserved E clk uuid between st L1 request' k secret (Some token) handler = (Inr reply, st', L')"
    using process_completed [OF run status] by blast
  have same: "request' = request" using adm read by (simp add: admitted_def)
  obtain v where p: "result_to_action_request E (clk 17) (create_delegation_result (clk 11) (uuid 0) request (nw_identity st)
      COMPLETED v PNone) (nw_identity st) = Inr reply"
    using run_reserved_completed [OF r [unfolded same] status] by blast
  show ?thesis
    using completed_reply_checks [OF sign clock p _ _ _ _ _ _ _ _ _ receipt] request by simp
qed

section \<open>Unsigned delegation data\<close>

text \<open>An envelope signed without data says nothing about the delegation data put beside it.\<close>

lemma unsigned_data_gate:
  assumes auth: "authentic E (clk 0) envelope ''DELEGATE_TASK''" and no: "\<not> has_key envelope ''data_hash''"
    and r: "complete_request r" "num_of (dr_expires_at r) = Some q" "clk 2 \<le> q" "dr_to_agent_id r = PStr receiver"
      "dr_tee_authorization r = PNone"
  shows "gate_open E clk (dset ''delegation_data'' (PDict (request_payload r)) envelope) receiver pk kid bid False r"
proof -
  let ?sr = "dset ''delegation_data'' (PDict (request_payload r)) envelope"
  have "authentic E (clk 0) ?sr ''DELEGATE_TASK''"
    using auth by (subst authentic_dset) (simp_all add: required_fields_def)
  moreover have "data_hash_ok E ?sr" using no by (simp add: data_hash_ok_def has_key_def)
  moreover have "request_from_action_request (clk 1) ?sr = Inr r"
    using post_init_complete [OF r(1)]
    by (simp add: request_from_action_request_def request_of_payload)
  ultimately show ?thesis using r by (simp add: gate_open_def)
qed

end
