(* ===== verification/ReceiptLaws.thy ===== *)
theory ReceiptLaws
  imports ProtocolLaws
begin

text \<open>
  The gateway's receipt end to end: a receipt the gateway builds is accepted by the verifier, and an
  accepted receipt, like an authentic action request, binds what it was issued for.
\<close>

section \<open>A built receipt is accepted\<close>

text \<open>A routing answer of the TEE that is good for one delegation.\<close>

definition routed_answer :: "py_env \<Rightarrow> pydict \<Rightarrow> string \<Rightarrow> string \<Rightarrow> string \<Rightarrow> rat \<Rightarrow> bool" where
  "routed_answer E tee_result delegation_id to_agent build expires \<longleftrightarrow>
     dget tee_result ''delegation_id'' PNone = PStr delegation_id \<and> delegation_id \<noteq> [] \<and>
     dget tee_result ''routed_to'' PNone = PStr to_agent \<and> to_agent \<noteq> [] \<and>
     dget tee_result ''status'' PNone = PStr ''ROUTED'' \<and>
     truthy (dget tee_result ''credential_fingerprint'' PNone) \<and>
     dget tee_result ''credential_enforced'' PNone = PBool True \<and>
     dget tee_result ''build_config_id'' PNone = PStr build \<and> build \<noteq> [] \<and>
     (\<exists>s. dget tee_result ''authorization_expires_at'' PNone = PStr s \<and> s \<noteq> [] \<and> iso_parse E s = Some expires)"

lemma gateway_receipt_authorizes:
  assumes gw: "able_to_sign E gw" and clock: "clock_text_ok E (clk 1 + 300)" "clk' 1 \<le> clk 1 + 300"
    and ans: "routed_answer E tee did to build expires" and live: "clk' 0 \<le> expires"
    and hash: "sha256 E (canonical E (PDict tee)) \<noteq> []" and kid: "key_id \<noteq> []"
    and r: "build_tee_authorization_receipt E clk gw key_id tee (PStr action) params = Inr r"
  shows "receipt_authorizes E clk' r (id_public_key_hex gw) key_id (PStr did) (PStr to) (PStr action) params build"
proof -
  obtain priv where priv: "id_private_key_obj gw = Some priv" "ed25519_ok E priv" and m: "\<not> is_mock E" "identity_ok E gw"
    using gw by (auto simp: able_to_sign_def)
  obtain s where s: "dget tee ''authorization_expires_at'' PNone = PStr s" "s \<noteq> []" "iso_parse E s = Some expires"
    using ans by (auto simp: routed_answer_def)
  define body where "body =
             [(''v'', PStr RECEIPT_VERSION), (''delegation_id'', PStr did), (''tee_delegation_id'', PStr did),
              (''status'', PStr ''ROUTED''), (''to_agent_id'', PStr to), (''action'', PStr action),
              (''request_hash'', PStr (tee_authorization_request_hash E (PStr to) (PStr action) params)),
              (''credential_fingerprint'', dget tee ''credential_fingerprint'' PNone),
              (''credential_enforced'', PBool True), (''build_config_id'', PStr build),
              (''tee_result_digest'', PStr (sha256 E (canonical E (PDict tee)))),
              (''gateway_key_id'', PStr key_id), (''authorization_expires_at'', PStr s),
              (''authorized_at'', PStr (iso_format E (clk 0)))]"
  obtain p where p: "sign_action E (clk 1) gw RECEIPT_ACTION (PStr did) (Some (PDict body)) = Inr p"
    and rp: "r = body @ [(''gateway_public_key_hex'', dget p ''public_key_hex'' PNone), (''gateway_proof'', PDict p)]"
    using r ans s kid unfolding build_tee_authorization_receipt_def routed_answer_def body_def Let_def
    by auto
  have rb: "receipt_body r = body"
    by (simp add: rp body_def receipt_body_def receipt_keys_def)
  have auth: "authentic E (clk' 1) p RECEIPT_ACTION"
    by (rule sign_action_authentic [OF m priv clock p])
  note shape = sign_action_shape [OF m(1) priv(1) p]
  have "dget r ''gateway_proof'' PNone = PDict p" "dget r ''gateway_public_key_hex'' PNone = PStr (id_public_key_hex gw)"
    using shape(4) by (simp_all add: rp body_def)
  moreover have "dget p ''data_hash'' PNone = PStr (receipt_fingerprint E r)"
    using shape(1) by (simp add: receipt_fingerprint_def rb)
  ultimately show ?thesis unfolding receipt_authorizes_def
    using auth shape(4) ans s live hash kid by (simp add: rp body_def routed_answer_def)
qed

section \<open>What an accepted receipt binds\<close>

definition authorized_request :: "pyval \<Rightarrow> pyval \<Rightarrow> pyval \<Rightarrow> pyval" where
  "authorized_request to_agent_id action parameters = PDict
     [(''to_agent_id'', to_agent_id), (''action'', action), (''parameters'', py_or parameters (PDict []))]"

lemma request_hash_record:
  "tee_authorization_request_hash E t a p = sha256 E (canonical E (authorized_request t a p))"
  by (simp add: tee_authorization_request_hash_def authorized_request_def)

lemma authorized_request_parameters:
  assumes "sort_keys (authorized_request t a p) = sort_keys (authorized_request t' a' p')"
  shows "sort_keys (py_or p (PDict [])) = sort_keys (py_or p' (PDict []))"
proof -
  define d where "d t a p = [(''to_agent_id'', t), (''action'', a), (''parameters'', py_or p (PDict []))]"
    for t a p :: pyval
  have dist: "distinct (map fst (d t a p))" for t a p by (simp add: d_def)
  have "sort_keys (PDict (d t a p)) = sort_keys (PDict (d t' a' p'))"
    using assms by (simp only: authorized_request_def d_def)
  from norm_dict_lookup [OF dist dist this, of "''parameters''"] show ?thesis by (simp add: d_def)
qed

lemma receipt_binds:
  assumes fl: "float_ok (float_repr E)" and params: "params \<noteq> PNone" "params' \<noteq> PNone"
    and r: "receipt_authorizes E clk r pub kid did t a params build"
    and r': "receipt_authorizes E clk' r pub' kid' did' t' a' params' build'"
  shows "sort_keys (py_or params (PDict [])) = sort_keys (py_or params' (PDict [])) \<or>
    collides E (utf8 (canonical E (authorized_request t a params)))
      (utf8 (canonical E (authorized_request t' a' params')))"
proof -
  have "dget r ''request_hash'' PNone = PStr (sha256 E (canonical E (authorized_request t a params)))"
    "dget r ''request_hash'' PNone = PStr (sha256 E (canonical E (authorized_request t' a' params')))"
    using params r r' by (simp_all add: receipt_authorizes_def request_hash_record)
  then have "sha256 E (canonical E (authorized_request t a params)) = sha256 E (canonical E (authorized_request t' a' params'))"
    by simp
  from canonical_hash_binds [OF fl this] show ?thesis using authorized_request_parameters by blast
qed

section \<open>What an authentic request binds\<close>

definition signed_keys :: "string list" where
  "signed_keys = [''agent_id'', ''did'', ''public_key_hex'', ''action'', ''nonce'', ''issued_at'', ''expires_at'',
     ''audience'', ''data_hash'']"

lemma payload_field:
  "k \<in> set signed_keys \<Longrightarrow> dget (payload_fields p) k PNone = dget p k PNone"
  by (auto simp: signed_keys_def payload_fields_def payload_keys_def dget_def)

lemma authentic_binds:
  assumes fl: "float_ok (float_repr E)"
    and auth: "authentic E t p a" "authentic E t' p' a'"
    and eq: "dget p ''payload_hash'' PNone = dget p' ''payload_hash'' PNone"
  shows "(\<forall>k \<in> set signed_keys. sort_keys (dget p k PNone) = sort_keys (dget p' k PNone)) \<or>
    collides E (utf8 (canonical E (PDict (payload_fields p)))) (utf8 (canonical E (PDict (payload_fields p'))))"
proof -
  have "sha256 E (canonical E (PDict (payload_fields p))) = sha256 E (canonical E (PDict (payload_fields p')))"
    using auth eq by (simp add: authentic_def)
  from canonical_hash_binds [OF fl this] show ?thesis
  proof
    assume same: "sort_keys (PDict (payload_fields p)) = sort_keys (PDict (payload_fields p'))"
    have d: "distinct (map fst (payload_fields x))" for x
      by (simp add: payload_fields_def payload_keys_def)
    have "sort_keys (dget p k PNone) = sort_keys (dget p' k PNone)" if "k \<in> set signed_keys" for k
      using norm_dict_lookup [OF d d same, of k] payload_field [OF that, of p] payload_field [OF that, of p']
      by (auto simp: dget_def split: option.split_asm)
    then show ?thesis by blast
  qed blast
qed

end
