(* ===== verification/SampleData.thy ===== *)
theory SampleData
  imports NetworkLaws ReceiptLaws
begin

text \<open>
  A concrete process, agent, gateway and request on which the properties are instantiated. The hash
  is a constant, the signature check accepts, and every date text is the instant 1300: the laws a
  property relies on hold of these functions, so each property is seen to apply.
\<close>

definition sample_files :: file_system where
  "sample_files =
     \<lparr>os_lstat = \<lambda>p. Inr \<lparr>st_kind = Regular_File, st_mode = 384, st_uid = 1000\<rparr>,
      os_stat = \<lambda>p. Inr \<lparr>st_kind = Other_File, st_mode = 448, st_uid = 1000\<rparr>,
      read_text = \<lambda>p. Inr ''0xAA'', read_bytes = \<lambda>p. Inr ''0xAA'', path_exists = \<lambda>p. False, os_is_nt = False, os_geteuid = Some 1000\<rparr>"

definition sample_variables :: "string \<Rightarrow> string \<Rightarrow> string option" where
  "sample_variables mode v =
     (if v = ''ADN_RUNTIME_MODE'' then Some mode
      else if v = ''ADN_REPLAY_LEDGER_INTEGRITY_KEY_FILE'' then Some ''/keys/ledger'' else None)"

definition sample_env :: "string \<Rightarrow> py_env" where
  "sample_env mode =
     \<lparr>getenv = sample_variables mode, float_repr = ratio_text,
      sha256_hex = \<lambda>b. ''ab'', hmac_sha256_hex = \<lambda>key msg. ''cd'',
      ed25519_public = \<lambda>k. replicate 32 CHR ''a'', ed25519_sign = \<lambda>k m. replicate 64 CHR ''s'',
      ed25519_verify = \<lambda>pub sig m. True,
      iso_format = \<lambda>t. ''2026-01-01T00:05:00+00:00'', iso_parse = \<lambda>s. Some 1300,
      json_loads = \<lambda>s. None, float_parse = \<lambda>s. None, int_parse = \<lambda>s. None, re_fullmatch = \<lambda>p s. True, sqlite_real_text = ratio_text,
      filesystem = sample_files, set_list = \<lambda>s. s\<rparr>"

lemma sample_env_simps [simp]:
  "getenv (sample_env mode) = sample_variables mode" "float_repr (sample_env mode) = ratio_text"
  "sha256_hex (sample_env mode) b = ''ab''" "hmac_sha256_hex (sample_env mode) key msg = ''cd''"
  "ed25519_public (sample_env mode) key = replicate 32 CHR ''a''"
  "ed25519_sign (sample_env mode) key msg = replicate 64 CHR ''s''"
  "ed25519_verify (sample_env mode) key sig msg"
  "iso_format (sample_env mode) t = ''2026-01-01T00:05:00+00:00''" "iso_parse (sample_env mode) s = Some 1300"
  "filesystem (sample_env mode) = sample_files" "set_list (sample_env mode) xs = xs"
  by (simp_all add: sample_env_def)

lemma sample_hash [simp]: "sha256 (sample_env mode) s = ''ab''"
  by (simp add: sha256_def)

lemma sample_not_mock [simp]: "\<not> is_mock (sample_env mode)"
  by (simp add: is_mock_def getenv_or_def sample_variables_def py_lower_def lower_char_def ord_def)

lemma sample_float_ok [simp]: "float_ok (float_repr (sample_env mode))"
  by (simp add: ratio_text_ok)

lemma sample_fingerprint [simp]: "receipt_fingerprint (sample_env mode) r = ''ab''"
  by (simp add: receipt_fingerprint_def)

definition sample_agent :: agent_identity where
  "sample_agent =
     \<lparr>id_agent_name = ''worker'', id_private_key_hex = Some (to_hex (replicate 32 CHR ''k'')),
      id_private_key_obj = Some (replicate 32 CHR ''k''), id_did = ''did:key:ed25519:ab'', id_agent_id = ''ab'',
      id_public_key_hex = to_hex (replicate 32 CHR ''a''), id_authority = ''ED25519_EPHEMERAL''\<rparr>"

lemma sample_able [simp]: "able_to_sign (sample_env mode) sample_agent"
  by (simp add: able_to_sign_def identity_ok_def sample_agent_def ed25519_ok_def key_fingerprint_def
      bytes_fromhex_def fromhex_to_hex)

lemma sample_clock: "clock_text_ok (sample_env mode) 1300"
  by (simp add: clock_text_ok_def)

text \<open>The sample agent is the built object.\<close>

lemma sample_agent_built:
  "ephemeral_identity (sample_env mode) ''worker'' (to_hex (replicate 32 CHR ''k'')) = Inr sample_agent"
  by (simp add: ephemeral_identity_def bytes_fromhex_def fromhex_to_hex key_fingerprint_def sample_agent_def
      from_private_bytes_def Let_def)

text \<open>A routing answer, its receipt, and a request that carries it, all issued at the instant 1000.\<close>

definition sample_answer :: pydict where
  "sample_answer =
     [(''status'', PStr ''ROUTED''), (''delegation_id'', PStr ''d1''), (''routed_to'', PStr ''ab''),
      (''credential_fingerprint'', PStr ''cf''), (''credential_enforced'', PBool True),
      (''build_config_id'', PStr ''b1''), (''authorization_expires_at'', PStr ''2026-01-01T00:05:00+00:00'')]"

definition sample_receipt :: "string \<Rightarrow> pydict" where
  "sample_receipt mode = (case build_tee_authorization_receipt (sample_env mode) (\<lambda>i. 1000) sample_agent ''gw1''
       sample_answer (PStr ''PING'') (PDict []) of Inr r \<Rightarrow> r | Inl e \<Rightarrow> [])"

lemma sample_routed: "routed_answer (sample_env mode) sample_answer ''d1'' ''ab'' ''b1'' 1300"
  by (simp add: routed_answer_def sample_answer_def)

lemma sample_receipt_built:
  "build_tee_authorization_receipt (sample_env mode) (\<lambda>i. 1000) sample_agent ''gw1''
       sample_answer (PStr ''PING'') (PDict []) = Inr (sample_receipt mode)"
  by (simp add: sample_receipt_def build_tee_authorization_receipt_def sample_answer_def sign_action_def
      identity_key_def sample_agent_def sign_action_request_with_key Let_def)

lemma sample_receipt_authorizes:
  "receipt_authorizes (sample_env mode) (\<lambda>i. 1000) (sample_receipt mode) (id_public_key_hex sample_agent) ''gw1''
     (PStr ''d1'') (PStr ''ab'') (PStr ''PING'') (PDict []) ''b1''"
  by (rule gateway_receipt_authorizes [OF sample_able _ _ sample_routed _ _ _ sample_receipt_built])
     (simp_all add: clock_text_ok_def)

definition sample_request :: "string \<Rightarrow> delegation_request" where
  "sample_request mode =
     \<lparr>dr_delegation_id = PStr ''d1'', dr_from_agent_id = PStr ''coord'', dr_to_agent_id = PStr ''ab'',
      dr_action = PStr ''PING'', dr_task_description = PStr ''ping'', dr_parameters = PDict [],
      dr_nonce = PStr ''n1'', dr_deadline = PNone, dr_issued_at = PFloat 1000, dr_expires_at = PFloat 4600,
      dr_tee_authorization = PDict (sample_receipt mode), dr_required_capabilities = PList []\<rparr>"

definition sample_signed :: "string \<Rightarrow> pydict" where
  "sample_signed mode = (case request_to_action_request (sample_env mode) 1000 (sample_request mode) sample_agent of
     Inr r \<Rightarrow> r | Inl e \<Rightarrow> [])"

lemma sample_signed:
  "request_to_action_request (sample_env mode) 1000 (sample_request mode) sample_agent = Inr (sample_signed mode)"
  using able_to_sign_request [OF sample_able, of mode 1000 "sample_request mode"]
  by (auto simp: sample_signed_def)

lemma sample_receipt_nonempty: "sample_receipt mode \<noteq> []"
  using sample_receipt_authorizes [of mode] by (auto simp: receipt_authorizes_def)

lemma sample_complete: "complete_request (sample_request mode)"
  by (simp add: complete_request_def sample_request_def)

lemma sample_gate:
  "gate_open (sample_env mode) (\<lambda>i. 1000) (sample_signed mode) ''ab'' (id_public_key_hex sample_agent) ''gw1'' ''b1''
     True (sample_request mode)"
proof (rule signed_request_gate [OF sample_able _ _ sample_signed sample_complete])
  show "clock_text_ok (sample_env mode) (1000 + 300)" by (simp add: clock_text_ok_def)
  show "num_of (dr_expires_at (sample_request mode)) = Some 4600" by (simp add: sample_request_def)
  have ne: "id_public_key_hex sample_agent \<noteq> []" by (simp add: sample_agent_def to_hex_def hex2_def)
  show "id_public_key_hex sample_agent \<noteq> [] \<and> (\<exists>rc. dr_tee_authorization (sample_request mode) = PDict rc \<and>
      receipt_authorizes (sample_env mode) (\<lambda>i. 1000) rc (id_public_key_hex sample_agent) ''gw1''
        (dr_delegation_id (sample_request mode)) (PStr ''ab'') (dr_action (sample_request mode))
        (dr_parameters (sample_request mode)) ''b1'')"
    using ne sample_receipt_authorizes [of mode] by (simp add: sample_request_def)
qed (simp_all add: sample_request_def sample_receipt_nonempty)

text \<open>The worker: it runs the built-in handlers under a policy that lets \<open>coord\<close> delegate \<open>PING\<close> to it.\<close>

definition sample_policy :: delegation_policy where
  "sample_policy = add_trust_relationship ''coord'' ''ab''
     (add_delegation_rule ''ab'' ''PING'' (add_delegation_rule ''coord'' ''PING'' default_policy))"

definition sample_worker :: network where
  "sample_worker =
     \<lparr>nw_agent_id = ''12345678'', nw_agent_name = ''worker'', nw_identity = sample_agent, nw_delegations = [],
      nw_results = [], nw_task_handlers = builtin_handlers, nw_delegation_log = [], nw_policy = sample_policy\<rparr>"

lemma sample_own_id [simp]: "own_id sample_worker = ''ab''"
  by (simp add: own_id_def sample_worker_def sample_agent_def)

section \<open>A completed execution in live mode\<close>

lemma sample_mode: "mode \<in> {''live'', ''demo'', ''test''} \<Longrightarrow> resolve_runtime_mode (sample_env mode) None = Inr mode"
  by (auto simp: resolve_runtime_mode_def getenv_or_def sample_variables_def VALID_RUNTIME_MODES_def Let_def
      py_strip_def py_lstrip_def py_rstrip_def is_space_def py_lower_def lower_char_def ord_def)

definition pub :: string where
  "pub = id_public_key_hex sample_agent"

lemma sample_policy_permits:
  "evaluate_delegation_request E sample_policy (sample_request mode) (PStr ''coord'') (PStr ''ab'')
     = Inr (True, ''Delegation request approved by policy'')"
  by (simp add: evaluate_permits sample_request_def sample_policy_def add_trust_relationship_def
      add_delegation_rule_def add_member_def members_def default_policy_def is_trusted_def set_add_def set_mem_def)

lemma sample_admitted:
  "admitted (sample_env ''live'') (\<lambda>i. 1000) sample_worker (sample_signed ''live'') (Some pub) (Some ''gw1'') (Some ''b1'')
     None (sample_request ''live'') ''ab''"
proof -
  have "request_from_action_request 1000 (sample_signed ''live'') = Inr (sample_request ''live'')"
    using request_wire(1) [OF sample_signed] post_init_complete [OF sample_complete] by simp
  moreover have "request_is_expired 1000 (sample_request ''live'') = Inr False"
    by (simp add: request_is_expired_def float_greater_def sample_request_def)
  moreover have "evaluate_delegation_request (sample_env ''live'') (nw_policy sample_worker) (sample_request ''live'')
      (dr_from_agent_id (sample_request ''live'')) (PStr (own_id sample_worker))
      = Inr (True, ''Delegation request approved by policy'')"
    using sample_policy_permits [of "sample_env ''live''" "''live''"]
    by (simp add: sample_worker_def sample_request_def own_id_def sample_agent_def)
  moreover have "replay_key_of (sample_env ''live'') r h = ''ab''" for r h
    by (simp add: replay_key_of_def)
  ultimately show ?thesis unfolding admitted_def pub_def
    using sample_mode [of "''live''"] sample_gate [of "''live''"] by auto
qed

definition sample_row :: "string \<Rightarrow> string option \<Rightarrow> ledger_entry" where
  "sample_row state token =
     \<lparr>le_replay_key = ''ab'', le_kind = REQUEST_KIND, le_state = state, le_attempt_count = 1, le_max_attempts = 2,
      le_first_seen_at = 1000, le_updated_at = 1000, le_expires_at = 1300, le_owner_agent_id = Some ''ab'',
      le_delegation_id = Some ''d1'', le_payload_fingerprint = Some ''ab'', le_integrity_mac = Some ''cd'',
      le_last_error = None, le_execution_token = token\<rparr>"

lemma sample_secret: "configured_integrity_key (sample_env ''live'') domain = Inr (Some ''cd'')"
proof -
  have "(char_of (97::nat) :: char) = CHR ''a''" by code_simp
  then have s: "secret_text ''0xAA'' = ''aa''"
    by (simp add: secret_text_def py_strip_def py_lstrip_def py_rstrip_def is_space_def ord_def
        removeprefix_def startswith_def py_lower_def lower_char_def chr_def)
  have p: "py_strip ''/keys/ledger'' = ''/keys/ledger''" "py_strip [] = []"
    by (simp_all add: py_strip_def py_lstrip_def py_rstrip_def is_space_def ord_def)
  have e: "getenv_or (sample_env ''live'') KEY_HEX [] = []" "getenv_or (sample_env ''live'') KEY_FILE [] = ''/keys/ledger''"
    by (simp_all add: getenv_or_def sample_variables_def KEY_HEX_def KEY_FILE_def)
  have ok: "validate_live_integrity_key_file (sample_env ''live'') ''/keys/ledger'' = Inr ()"
    by (simp add: validate_live_integrity_key_file_def path_is_absolute_def startswith_def sample_files_def check_owner_def)
  have "configured_integrity_secret_hex (sample_env ''live'') = Inr (Some ''aa'')"
    using sample_mode [of "''live''"] ok
    by (simp add: configured_integrity_secret_hex_def e p s sample_files_def Let_def)
  then show ?thesis
    by (simp add: configured_integrity_key_def derive_integrity_key_def bytes_fromhex_def hexval_def ascii_space_def ord_def)
qed

lemma sample_write:
  "write_record (sample_env ''live'') L ''ab'' REQUEST_KIND st 1 2 1000 1000 1300 ''ab'' (PStr ''d1'') ''ab''
     (Some ''cd'') None tok = Inr (L(''ab'' \<mapsto> sample_row st tok))"
  by (simp add: write_record_def compute_integrity_mac_def bytes_fromhex_def hexval_def ascii_space_def ord_def sql_text_def sample_row_def)

lemma sample_verifies: "verify_integrity (sample_env ''live'') (sample_row st tok) (Some ''cd'') = Inr ()"
  by (simp add: verify_integrity_def compute_integrity_mac_def bytes_fromhex_def hexval_def ascii_space_def ord_def sample_row_def)

lemma sample_reserved:
  "reserved (sample_env ''live'') 1000 ''t1'' sample_worker Map.empty (sample_request ''live'') ''ab'' (Some ''cd'') 1300
     [''ab'' \<mapsto> sample_row REQUEST_STATE_RUNNING (Some ''t1'')]"
  by (simp add: reserved_def request_replay_integrity_key_def sample_secret begin_request_execution_def purge_def
      MAX_REQUEST_ATTEMPTS_def sample_request_def sample_write transact_def)

lemma sample_retention:
  "delegation_request_replay_expires_at (sample_env ''live'') 1000 (sample_request ''live'') = Inr 1300"
  using sample_receipt_authorizes [of "''live''"] sample_receipt_nonempty
  by (auto simp: delegation_request_replay_expires_at_def sample_request_def py_float_def py_or_def as_dict_def
      receipt_authorizes_def Let_def)

lemma sample_finalized:
  "finalize_request_execution (sample_env ''live'') 1000 [''ab'' \<mapsto> sample_row REQUEST_STATE_RUNNING (Some ''t1'')] ''ab''
     REQUEST_STATE_COMPLETED (Some ''cd'') None (Some ''t1'') = (Inr True, [''ab'' \<mapsto> sample_row REQUEST_STATE_COMPLETED None])"
proof -
  let ?e = "sample_row REQUEST_STATE_RUNNING (Some ''t1'')"
  have f: "\<not> foreign_token ?e (Some ''t1'')" by (simp add: foreign_token_def sample_row_def)
  have n: "REQUEST_STATE_COMPLETED \<noteq> REQUEST_STATE_RETRYABLE_FAILURE" by (simp add: state_consts)
  have "write_record (sample_env ''live'') [''ab'' \<mapsto> ?e] ''ab'' REQUEST_KIND REQUEST_STATE_COMPLETED (le_attempt_count ?e)
      (le_max_attempts ?e) (le_first_seen_at ?e) 1000 (le_expires_at ?e) (opt_str (le_owner_agent_id ?e))
      (PStr (opt_str (le_delegation_id ?e))) (opt_str (le_payload_fingerprint ?e)) (Some ''cd'') None None
      = Inr ([''ab'' \<mapsto> ?e](''ab'' \<mapsto> sample_row REQUEST_STATE_COMPLETED None))"
    using sample_write by (simp add: sample_row_def)
  then show ?thesis using f n
    by (simp add: finalize_request_execution_def sample_verifies transact_def Let_def)
qed

lemma sample_run:
  "\<exists>reply st'. process_delegation_request (sample_env ''live'') (\<lambda>i. 1000) (\<lambda>i. ''u1'') ''t1'' [] sample_worker Map.empty
     (sample_signed ''live'') (Some pub) (Some ''gw1'') (Some ''b1'') None
     = (Inr reply, st', [''ab'' \<mapsto> sample_row REQUEST_STATE_COMPLETED None]) \<and>
   reply_status reply = PStr ''COMPLETED'' \<and> nw_results st' \<noteq> []"
proof -
  have "dr_action (sample_request ''live'') = PStr ''PING''" "dr_parameters (sample_request ''live'') = PDict []"
    "map_of (nw_task_handlers sample_worker) ''PING'' = Some Handle_ping"
    "hashable (dr_delegation_id (sample_request ''live''))"
    by (simp_all add: sample_request_def sample_worker_def builtin_handlers_def)
  note h = this
  have "run_handler (sample_env ''live'') 1000 st' Handle_ping (dr_parameters (sample_request ''live'')) =
      Inr (PDict [(''pong'', PBool True), (''timestamp'', PFloat 1000), (''agent_id'', PStr ''ab'')])"
    if "nw_identity st' = nw_identity sample_worker" for st'
    using that by (simp add: handle_ping_def own_id_def sample_worker_def sample_agent_def)
  note run = this
  have fin: "finalize_request_execution (sample_env ''live'') 1000
      (run_ops (sample_env ''live'') [] [''ab'' \<mapsto> sample_row REQUEST_STATE_RUNNING (Some ''t1'')]) ''ab''
      REQUEST_STATE_COMPLETED (Some ''cd'') None (Some ''t1'') = (Inr True, [''ab'' \<mapsto> sample_row REQUEST_STATE_COMPLETED None])"
    by (simp only: run_ops_simps sample_finalized)
  have sign: "able_to_sign (sample_env ''live'') (nw_identity sample_worker)"
    by (simp add: sample_worker_def)
  from process_completes [OF sample_admitted h(1,3) run sample_retention sample_reserved h(4) fin sign, of "\<lambda>i. ''u1''"]
  show ?thesis by fastforce
qed

section \<open>The coordinator's verification of the reply\<close>

lemma sample_pub: "pub \<noteq> []"
  by (simp add: pub_def sample_agent_def to_hex_def hex2_def)

definition sample_result :: delegation_result where
  "sample_result = create_delegation_result 1000 ''u1'' (sample_request ''live'') sample_agent COMPLETED
     (PDict [(''pong'', PBool True)]) PNone"

definition sample_reply :: pydict where
  "sample_reply = (case result_to_action_request (sample_env ''live'') 1000 sample_result sample_agent of
     Inr r \<Rightarrow> r | Inl e \<Rightarrow> [])"

lemma sample_reply: "result_to_action_request (sample_env ''live'') 1000 sample_result sample_agent = Inr sample_reply"
proof -
  obtain p where "sign_action (sample_env ''live'') 1000 sample_agent ''TASK_RESULT'' (ds_nonce sample_result)
      (Some (PDict (result_payload sample_result))) = Inr p"
    using sample_able [of "''live''"] sign_action_total unfolding able_to_sign_def by blast
  then show ?thesis by (simp add: sample_reply_def result_to_action_request_def Let_def)
qed

definition sample_expectations :: expectations where
  "sample_expectations = expected_of sample_agent ''d1'' ''coord'' (sample_receipt ''live'') pub ''gw1'' ''PING''
     (PDict []) ''b1''"

lemma sample_checked:
  "check_worker_result (sample_env ''live'') (\<lambda>i. 1000) sample_reply sample_expectations
     = Inr (result_payload sample_result, sample_receipt ''live'')"
  unfolding sample_expectations_def
proof (rule completed_reply_checks [OF sample_able _ _ sample_reply])
  show "receipt_authorizes (sample_env ''live'') (\<lambda>i. 1000) (sample_receipt ''live'') pub ''gw1'' (PStr ''d1'')
      (PStr (id_agent_id sample_agent)) (PStr ''PING'') (PDict []) ''b1''"
    using sample_receipt_authorizes [of "''live''"] by (simp add: pub_def) (simp add: sample_agent_def)
qed (simp_all add: clock_text_ok_def sample_result_def sample_request_def sample_pub)

lemma sample_verified:
  "\<exists>rd c' L'. verify_worker_result (sample_env ''live'') (\<lambda>i. 1000) 5 (cache_of []) Map.empty
     sample_reply sample_expectations = (Inr rd, c', L')"
proof -
  have n: "dget (result_payload sample_result) ''nonce'' PNone = PStr ''u1''"
    "dget (result_payload sample_result) ''delegation_id'' PNone = PStr ''d1''"
    by (simp_all add: result_payload_def sample_result_def sample_request_def)
  have w: "window 5 [] = []" "window 5 [(PStr ''u1'', 5)] = [(PStr ''u1'', 5)]"
    by (simp_all add: window_def SEEN_NONCE_TTL_SECONDS_def MAX_SEEN_NONCES_def)
  have "cache_ok (cache_of [])" by (simp add: cache_ok_def)
  from consume_nonce_cases(1) [OF this, of 5 "PStr ''u1''"]
  have c: "consume_result_nonce 5 (PStr ''u1'') (cache_of []) = (Inr (), cache_of [(PStr ''u1'', 5)])"
    by (simp add: w set_mem_def Let_def)
  obtain L' where "consume_result (sample_env ''live'') 1000 Map.empty sample_reply (result_payload sample_result)
      (sample_receipt ''live'') (ex_worker_pubkey_hex sample_expectations) (ex_coordinator_id sample_expectations)
      = (Inr (), L')"
    by (simp add: consume_result_def sample_secret result_replay_key_def consume_result_replay_def purge_def n py_or_def
        write_record_def compute_integrity_mac_def bytes_fromhex_def hexval_def ascii_space_def ord_def sql_text_def
        transact_def raise_if_def Let_def)
  then show ?thesis by (simp add: verify_worker_result_def sample_checked n c)
qed

end
