(* ===== verification/PolicyTheorems.thy ===== *)
theory PolicyTheorems
  imports PolicyLaws SampleData
begin

text \<open>
  The properties of \<^verbatim>\<open>src/delegation_policy.py\<close>: what a history of updates permits, what survives a
  save and a load, what a file that does not load permits, and what the example policies permit.
\<close>

section \<open>Updates\<close>

lemma rules_keep_trust:
  "po_trust (fold (apply_update add_delegation_rule remove_delegation_rule) us p) = po_trust p"
proof (induction us arbitrary: p)
  case (Cons u us)
  then show ?case
    by (cases u) (simp_all add: add_delegation_rule_def remove_delegation_rule_def)
qed simp

lemma trust_keeps_rules:
  "po_rules (fold (apply_update add_trust_relationship remove_trust_relationship) us p) = po_rules p"
proof (induction us arbitrary: p)
  case (Cons u us)
  then show ?case
    by (cases u) (simp_all add: add_trust_relationship_def remove_trust_relationship_def)
qed simp

definition updated_policy ::
  "(string, string) update list \<Rightarrow> (string, string) update list \<Rightarrow> delegation_policy" where
  "updated_policy rule_updates trust_updates =
     fold (apply_update add_trust_relationship remove_trust_relationship) trust_updates
       (fold (apply_update add_delegation_rule remove_delegation_rule) rule_updates default_policy)"

lemma updated_may_act: "may_act (updated_policy us ts) k v \<longleftrightarrow> verdict us k v = Some True"
proof -
  have "may_act (updated_policy us ts) k v \<longleftrightarrow>
      may_act (fold (apply_update add_delegation_rule remove_delegation_rule) us default_policy) k v"
    by (simp add: updated_policy_def may_act_def trust_keeps_rules)
  also have "\<dots> \<longleftrightarrow> verdict us k v = Some True"
    unfolding rules.related_updates
    by (auto simp: may_act_def in_sets_def default_policy_def members_def set_mem_def split: option.split)
  finally show ?thesis .
qed

lemma updated_is_trusted: "is_trusted (updated_policy us ts) k v \<longleftrightarrow> verdict ts k v = Some True"
proof -
  have "\<not> is_trusted (fold (apply_update add_delegation_rule remove_delegation_rule) us default_policy) k v"
    by (simp add: is_trusted_def rules_keep_trust default_policy_def members_def set_mem_def)
  then show ?thesis unfolding updated_policy_def trust.related_updates by (auto split: option.split)
qed

text \<open>
  C22. The policy is default-deny and follows the last update: after any sequence of rule updates
  and any sequence of trust updates on the empty policy, the engine approves a delegation exactly
  when the last update on the delegator's rule for the action, on the target's rule for the action
  and on the delegator's trust in the target each granted it.
\<close>

theorem policy_decides_by_last_update:
  assumes "dr_action r = PStr action"
  shows "(\<exists>m. evaluate_delegation_request E (updated_policy us ts) r (PStr f) (PStr t) = Inr (True, m)) \<longleftrightarrow>
    verdict us f action = Some True \<and> verdict us t action = Some True \<and> verdict ts f t = Some True"
  using updated_may_act [of us ts f action] updated_may_act [of us ts t action] updated_is_trusted [of us ts f t]
  by (auto simp: evaluate_permits assms may_act_def in_sets_def)

theorem policy_decides_by_last_update_witness:
  "\<not> (\<exists>m. evaluate_delegation_request (sample_env ''test'')
      (updated_policy [Grant ''coord'' ''PING'', Grant ''ab'' ''PING'', Revoke ''ab'' ''PING''] [Grant ''coord'' ''ab''])
      (sample_request ''test'') (PStr ''coord'') (PStr ''ab'') = Inr (True, m)) \<and>
   (\<exists>m. evaluate_delegation_request (sample_env ''test'')
      (updated_policy [Revoke ''ab'' ''PING'', Grant ''coord'' ''PING'', Grant ''ab'' ''PING''] [Grant ''coord'' ''ab''])
      (sample_request ''test'') (PStr ''coord'') (PStr ''ab'') = Inr (True, m))"
proof -
  have "dr_action (sample_request ''test'') = PStr ''PING''" by (simp add: sample_request_def)
  from policy_decides_by_last_update [OF this] show ?thesis by simp
qed

section \<open>Saving and loading\<close>

text \<open>
  C23. Saving and loading keeps the policy: the data that \<open>save_policy\<close> writes loads as a policy that
  approves the same delegations and has the same limits and quotas, in whatever order the sets are
  written.
\<close>

theorem policy_saved_loaded:
  assumes "sets_hashable (po_rules p)" and "sets_hashable (po_trust p)" and "\<And>s. set (set_list E s) = set s"
  shows "(evaluate_delegation_request E (load_policy_data (PDict (policy_data E p))) r (PStr f) (PStr t) = Inr (True, m) \<longleftrightarrow>
      evaluate_delegation_request E p r (PStr f) (PStr t) = Inr (True, m)) \<and>
    po_rate_limits (load_policy_data (PDict (policy_data E p))) = po_rate_limits p \<and>
    po_quotas (load_policy_data (PDict (policy_data E p))) = po_quotas p"
  using load_saved_policy [OF assms] unfolding evaluate_permits is_trusted_def
  by (simp cong: conj_cong)

theorem policy_saved_loaded_witness:
  "po_quotas (load_policy_data (PDict (policy_data (sample_env ''test'') sample_policy))) = PDict []"
proof -
  have "sets_hashable (po_rules sample_policy)" "sets_hashable (po_trust sample_policy)"
    by (simp_all add: sets_hashable_def sample_policy_def add_trust_relationship_def add_delegation_rule_def
        add_member_def members_def default_policy_def set_add_def set_mem_def)
  from policy_saved_loaded [OF this, of "sample_env ''test''"]
  show ?thesis by (simp add: sample_policy_def add_trust_relationship_def add_delegation_rule_def default_policy_def)
qed

text \<open>
  C24. A policy file that does not load permits nothing: whatever the file's data is, if the rules or
  the trust relationships cannot be read, no delegation is approved; but rules that were read
  before the trust relationships failed stay in force, so the policy is not the default one.
\<close>

theorem broken_policy_denies:
  assumes "load_sets (dget d ''delegation_rules'' (PDict [])) = Inl e1 \<or>
    load_sets (dget d ''agent_trust'' (PDict [])) = Inl e2"
  shows "\<not> (\<exists>m. evaluate_delegation_request E (load_policy_data (PDict d)) r (PStr f) (PStr t) = Inr (True, m)) \<and>
    (\<forall>rules. load_sets (dget d ''delegation_rules'' (PDict [])) = Inr rules \<longrightarrow>
       po_rules (load_policy_data (PDict d)) = rules)"
proof -
  have "po_trust (load_policy_data (PDict d)) = []"
    using assms by (auto simp: load_policy_data_def as_dict_def default_policy_def split: sum.split)
  moreover have "po_rules (load_policy_data (PDict d)) = rules"
    if "load_sets (dget d ''delegation_rules'' (PDict [])) = Inr rules" for rules
    using assms that by (auto simp: load_policy_data_def as_dict_def)
  ultimately show ?thesis by (simp add: evaluate_permits is_trusted_def members_def set_mem_def)
qed

theorem broken_policy_denies_witness:
  "po_rules (load_policy_data (PDict [(''delegation_rules'', PDict [(''coord'', PList [PStr ''PING''])]),
      (''agent_trust'', PDict [(''coord'', PInt 1)])])) = [(''coord'', [PStr ''PING''])]"
proof -
  let ?d = "[(''delegation_rules'', PDict [(''coord'', PList [PStr ''PING''])]), (''agent_trust'', PDict [(''coord'', PInt 1)])]"
  have "load_sets (dget ?d ''agent_trust'' (PDict [])) =
      Inl (TypeError (repr_str (py_type (PInt 1)) @ '' object is not iterable''))"
    by (simp add: load_sets_def py_set_def dget_def)
  moreover have "load_sets (dget ?d ''delegation_rules'' (PDict [])) = Inr [(''coord'', [PStr ''PING''])]"
    by (simp add: load_sets_def py_set_def dget_def set_add_def set_mem_def)
  ultimately show ?thesis using broken_policy_denies by blast
qed

section \<open>The example policies\<close>

lemma set_mem_empty: "\<not> set_mem v []"
  by (simp add: set_mem_def)

lemma set_mem_names: "set_mem (PStr a) (names xs) \<longleftrightarrow> a \<in> set xs"
  by (induction xs) (auto simp: set_mem_def names_def)

lemma hierarchical_trust:
  "is_trusted hierarchical_policy f t \<Longrightarrow> (f, t) \<in>
     {(''manager-001'', ''worker-001''), (''manager-001'', ''worker-002''), (''manager-002'', ''worker-001''),
      (''worker-001'', ''manager-001''), (''worker-001'', ''manager-002''), (''worker-002'', ''manager-001'')}"
  unfolding is_trusted_def members_def hierarchical_policy_def
  by (simp split: if_split_asm option.split_asm add: set_mem_names set_mem_empty)

lemma pipeline_trust:
  "is_trusted data_processing_pipeline_policy f t \<Longrightarrow> (f, t) \<in>
     {(''data_ingestor'', ''data_validator''), (''data_validator'', ''data_enricher''),
      (''data_enricher'', ''data_aggregator''), (''data_aggregator'', ''report_generator'')}"
  unfolding is_trusted_def members_def data_processing_pipeline_policy_def
  by (simp split: if_split_asm option.split_asm add: set_mem_names set_mem_empty)

text \<open>An approval comes from an action that both agents have in common.\<close>

definition named_sets :: "set_dict \<Rightarrow> bool" where
  "named_sets d \<longleftrightarrow> (\<forall>(k, s) \<in> set d. \<forall>v \<in> set s. \<exists>a. v = PStr a)"

lemma named_members: "named_sets d \<Longrightarrow> v \<in> set (members d k) \<Longrightarrow> \<exists>a. v = PStr a"
  unfolding named_sets_def members_def by (cases "map_of d k") (auto dest!: map_of_SomeD)

lemma approved_common:
  assumes "evaluate_delegation_request E p r (PStr f) (PStr t) = Inr (True, m)" and "named_sets (po_rules p)"
  shows "\<exists>a. set_mem (PStr a) (members (po_rules p) f) \<and> set_mem (PStr a) (members (po_rules p) t)"
proof -
  have *: "hashable (dr_action r)" "set_mem (dr_action r) (members (po_rules p) f)"
      "set_mem (dr_action r) (members (po_rules p) t)"
    using assms by (simp_all add: evaluate_permits)
  then obtain v where "v \<in> set (members (po_rules p) f)" "py_eq (dr_action r) v" by (auto simp: set_mem_iff)
  then have "\<exists>a. dr_action r = PStr a" using named_members [OF assms(2)] *(1) by (cases "dr_action r") force+
  then show ?thesis using * by auto
qed

lemma example_rules_named:
  "named_sets (po_rules hierarchical_policy)" "named_sets (po_rules data_processing_pipeline_policy)"
  by (simp_all add: named_sets_def hierarchical_policy_def data_processing_pipeline_policy_def names_def)

lemma hierarchical_rules:
  "members (po_rules hierarchical_policy) ''manager-001'' = names [''PROCESS_DATA'', ''GENERATE_REPORT'', ''VALIDATE_RESULTS'']"
  "members (po_rules hierarchical_policy) ''manager-002'' = names [''PROCESS_DATA'', ''GENERATE_REPORT'']"
  "members (po_rules hierarchical_policy) ''worker-001'' = names [''DATA_ENTRY'', ''BASIC_CALCULATION'']"
  "members (po_rules hierarchical_policy) ''worker-002'' = names [''DATA_ENTRY'', ''FORMAT_OUTPUT'']"
  by (simp_all add: hierarchical_policy_def members_def)

lemma pipeline_rules:
  "members (po_rules data_processing_pipeline_policy) ''data_ingestor'' = names [''VALIDATE_FORMAT'', ''ENRICH_DATA'']"
  "members (po_rules data_processing_pipeline_policy) ''data_validator'' = names [''CLEAN_DATA'', ''CHECK_INTEGRITY'']"
  "members (po_rules data_processing_pipeline_policy) ''data_enricher'' = names [''AGGREGATE_DATA'', ''CALCULATE_METRICS'']"
  "members (po_rules data_processing_pipeline_policy) ''data_aggregator'' = names [''GENERATE_SUMMARY'', ''CREATE_VISUALIZATION'']"
  "members (po_rules data_processing_pipeline_policy) ''report_generator'' = names [''FORMAT_REPORT'', ''DISTRIBUTE_REPORT'']"
  by (simp_all add: data_processing_pipeline_policy_def members_def)

text \<open>
  The example policies approve no delegation at all. They list what each agent may do itself,
  but the engine asks that the action be in the rules of the delegator and of its target, and
  no trusted pair of the examples has an action in common.
\<close>

theorem example_policies_deny_all:
  "\<forall>p \<in> {open_network_policy, hierarchical_policy, data_processing_pipeline_policy}.
     \<not> (\<exists>m. evaluate_delegation_request E p r (PStr f) (PStr t) = Inr (True, m))"
proof -
  have trust: "is_trusted p f t" if "evaluate_delegation_request E p r (PStr f) (PStr t) = Inr (True, m)" for p m
    using that by (simp add: evaluate_permits)
  have "evaluate_delegation_request E hierarchical_policy r (PStr f) (PStr t) \<noteq> Inr (True, m)" for m
  proof
    assume e: "evaluate_delegation_request E hierarchical_policy r (PStr f) (PStr t) = Inr (True, m)"
    show False using hierarchical_trust [OF trust [OF e]] approved_common [OF e example_rules_named(1)]
      by (auto simp: hierarchical_rules set_mem_names)
  qed
  moreover have "evaluate_delegation_request E data_processing_pipeline_policy r (PStr f) (PStr t) \<noteq> Inr (True, m)" for m
  proof
    assume e: "evaluate_delegation_request E data_processing_pipeline_policy r (PStr f) (PStr t) = Inr (True, m)"
    show False using pipeline_trust [OF trust [OF e]] approved_common [OF e example_rules_named(2)]
      by (auto simp: pipeline_rules set_mem_names)
  qed
  moreover have "evaluate_delegation_request E open_network_policy r (PStr f) (PStr t) \<noteq> Inr (True, m)" for m
    by (simp add: evaluate_permits open_network_policy_def default_policy_def is_trusted_def members_def set_mem_empty)
  ultimately show ?thesis by simp
qed

theorem example_policies_deny_all_witness:
  "\<not> (\<exists>m. evaluate_delegation_request (sample_env ''test'') hierarchical_policy
       ((sample_request ''test'')\<lparr>dr_action := PStr ''GENERATE_REPORT''\<rparr>) (PStr ''manager-001'') (PStr ''worker-001'') = Inr (True, m))"
  using example_policies_deny_all by simp

end
