(* ===== verification/ReceiptTheorems.thy ===== *)
theory ReceiptTheorems
  imports SampleData ExecutionReceipt
begin

text \<open>
  The properties of the canonical texts and of \<^verbatim>\<open>src/execution_receipt.py\<close>: what a canonical text
  determines, what the hash of an execution receipt binds, what a saved receipt does not contain.
\<close>

text \<open>
  C26. The canonical texts are codes: two JSON values have the same canonical text exactly when they
  are equal up to the order of their keys, for the encoder that the agents sign with and for the
  one of the release verifier. So what is hashed determines what was meant.
\<close>

theorem canonical_texts_injective:
  assumes "float_ok (float_repr E)"
  shows "(canonical E v = canonical E w \<longleftrightarrow> sort_keys v = sort_keys w) \<and>
    (canonical_json (float_repr E) v = canonical_json (float_repr E) w \<longleftrightarrow> sort_keys v = sort_keys w)"
  using json_dumps_inject [OF assms] canonical_json_inject [OF assms] by (simp add: canonical_def)

theorem canonical_texts_injective_witness:
  "canonical (sample_env ''live'') (PDict [(''a'', PInt 1), (''b'', PList [])]) =
     canonical (sample_env ''live'') (PDict [(''b'', PList []), (''a'', PInt 1)]) \<and>
   canonical (sample_env ''live'') (PStr ''1'') \<noteq> canonical (sample_env ''live'') (PInt 1)"
proof -
  have "sort_keys (PDict [(''a'', PInt 1), (''b'', PList [])]) = sort_keys (PDict [(''b'', PList []), (''a'', PInt 1)])"
    by code_simp
  then show ?thesis using canonical_texts_injective [OF sample_float_ok] by simp
qed

text \<open>
  C27. An execution receipt round-trips and is bound by its hash: a built receipt verifies and is
  left as it was, and two verified receipts with one hash agree on everything else, or SHA-256
  collides on their two texts.
\<close>

theorem execution_receipt_bound:
  assumes "float_ok (float_repr E)" and "fst (verify_receipt E r)"
    and "map_of r ''receipt_hash'' = map_of (build_receipt E u d) ''receipt_hash''"
  shows "verify_receipt E (build_receipt E u d) = (True, build_receipt E u d) \<and>
    (sort_keys (PDict (ddel ''receipt_hash'' r)) = sort_keys (PDict (receipt_content u d)) \<or>
     collides E (utf8 (canonical E (PDict (ddel ''receipt_hash'' r))))
       (utf8 (canonical E (PDict (receipt_content u d)))))"
proof -
  have "ddel ''receipt_hash'' (build_receipt E u d) = receipt_content u d"
    by (simp add: build_receipt_def receipt_content_def ddel_def)
  then show ?thesis
    using verified_receipts_equal [OF assms(1,2) _ assms(3)] build_then_verify [of E u d] by simp
qed

theorem execution_receipt_bound_witness:
  "verify_receipt (sample_env ''live'') (build_receipt (sample_env ''live'') ''0123456789abcdef'' []) =
     (True, build_receipt (sample_env ''live'') ''0123456789abcdef'' [])"
  using execution_receipt_bound [OF sample_float_ok _ refl, of "''live''" "''0123456789abcdef''" "[]"]
  by (simp add: build_then_verify)

text \<open>The strings of a value, keys and values at any depth, and the characters that JSON writes as they are.\<close>

primrec strings_of :: "pyval \<Rightarrow> string list" where
  "strings_of PNone = []"
| "strings_of (PBool b) = []"
| "strings_of (PInt i) = []"
| "strings_of (PFloat q) = []"
| "strings_of (PStr s) = [s]"
| "strings_of (PList xs) = concat (map strings_of xs)"
| "strings_of (PDict d) = concat (map (\<lambda>(k, ss). k # ss) (map (map_prod id strings_of) d))"

definition plain_char :: "char \<Rightarrow> bool" where
  "plain_char c \<longleftrightarrow> 32 \<le> ord c \<and> ord c < 127 \<and> ord c \<noteq> 34 \<and> ord c \<noteq> 92"

lemma plain_unescaped: "list_all plain_char p \<Longrightarrow> concat (map ascii_escape p) = p"
  by (induction p) (auto simp: plain_char_def ascii_escape_def short_escape_def)

lemma plain_quoted:
  assumes "list_all plain_char p" and "contains s p"
  shows "contains (dumps_quote s) p"
proof -
  obtain a b where "s = a @ p @ b" using assms(2) by (auto simp: contains_iff)
  then have "dumps_quote s = (CHR 0x22 # concat (map ascii_escape a)) @ p @ (concat (map ascii_escape b) @ [CHR 0x22])"
    using plain_unescaped [OF assms(1)] by (simp add: dumps_quote_def)
  then show ?thesis unfolding contains_iff by blast
qed

lemma member_written:
  assumes "x \<in> set xs" and "contains x p"
  shows "contains (a @ join sep xs @ b) p"
  by (rule contains_within) (rule contains_join [OF assms])

lemma string_written:
  "s \<in> set (strings_of v) \<Longrightarrow> contains (dumps_quote s) p \<Longrightarrow> contains (json_indented fl v level) p"
proof (induction v arbitrary: level)
  case (PList xs)
  then obtain x where x: "x \<in> set xs" "s \<in> set (strings_of x)" by auto
  then have "contains (json_indented fl x (Suc level)) p" using PList by blast
  with member_written [of "json_indented fl x (Suc level)" "map (\<lambda>t. t (Suc level)) (map (json_indented fl) xs)" p
      "''['' @ newline_indent (Suc level)" "'','' @ newline_indent (Suc level)" "newline_indent level @ '']''"] x(1)
  show ?case by auto
next
  case (PDict d)
  then obtain k x where kx: "(k, x) \<in> set d" and s: "s = k \<or> s \<in> set (strings_of x)" by force
  let ?entry = "dumps_quote k @ '': '' @ json_indented fl x (Suc level)"
  have "contains ?entry p"
  proof (cases "s = k")
    case True
    then show ?thesis using PDict.prems(2) contains_within [of "dumps_quote k" p "[]" "'': '' @ json_indented fl x (Suc level)"]
      by simp
  next
    case False
    then have "contains (json_indented fl x (Suc level)) p" using PDict.IH [of "(k, x)" x] PDict.prems(2) kx s by simp
    then show ?thesis using contains_within [of "json_indented fl x (Suc level)" p "dumps_quote k @ '': ''" "[]"] by simp
  qed
  moreover have "?entry \<in> set (map (\<lambda>(k, t). dumps_quote k @ '': '' @ t (Suc level)) (map (map_prod id (json_indented fl)) d))"
    using kx by force
  ultimately show ?case
    using member_written [of ?entry "map (\<lambda>(k, t). dumps_quote k @ '': '' @ t (Suc level)) (map (map_prod id (json_indented fl)) d)"
      p "''{'' @ newline_indent (Suc level)" "'','' @ newline_indent (Suc level)" "newline_indent level @ ''}''"] kx
    by auto
qed simp_all

lemma unwritten_string:
  assumes "\<not> contains (json_indented fl v level) p" and "list_all plain_char p" and "s \<in> set (strings_of v)"
  shows "\<not> contains s p"
  using string_written [OF assms(3) plain_quoted [OF assms(2)]] assms(1) by blast

lemma patterns_plain: "p \<in> set secret_patterns \<Longrightarrow> list_all plain_char p"
  by (auto simp: secret_patterns_def plain_char_def ord_def)

text \<open>
  C28. A saved receipt is clean of what the scan looks for. Its text contains none of the listed patterns and
  not the first eight characters of the value of \<open>T3N_API_KEY\<close> or \<open>TERMINAL3_API_KEY\<close>, if that is longer than
  eight characters (shorter values and other variables are not looked for). And the encoding hides
  nothing plain: no key and no string of the receipt, at any depth, contains one of the patterns, nor such
  a prefix of characters that JSON does not escape.
\<close>

theorem saved_receipt_holds_no_secret:
  assumes "save_receipt E dir r = Inr (path, written)"
  shows "(\<forall>p \<in> set secret_patterns. \<not> contains written p) \<and>
    (\<forall>v \<in> {''T3N_API_KEY'', ''TERMINAL3_API_KEY''}. \<forall>key. getenv E v = Some key \<longrightarrow> length key > 8 \<longrightarrow>
       \<not> contains written (take 8 key)) \<and>
    (\<forall>s \<in> set (strings_of (PDict r)). (\<forall>p \<in> set secret_patterns. \<not> contains s p) \<and>
       (\<forall>v \<in> {''T3N_API_KEY'', ''TERMINAL3_API_KEY''}. \<forall>key. getenv E v = Some key \<longrightarrow> length key > 8 \<longrightarrow>
          list_all plain_char (take 8 key) \<longrightarrow> \<not> contains s (take 8 key)))"
proof -
  note clean = saved_receipt_clean [OF assms]
  have w: "written = json_indented (float_repr E) (PDict r) 0"
    using assms by (auto simp: save_receipt_def Let_def split: option.split_asm if_split_asm)
  have hidden: "\<not> contains s p" if "s \<in> set (strings_of (PDict r))" "\<not> contains written p" "list_all plain_char p" for s p
    by (rule unwritten_string [OF that(2)[unfolded w] that(3,1)])
  have "\<forall>s \<in> set (strings_of (PDict r)). \<forall>p \<in> set secret_patterns. \<not> contains s p"
    using hidden clean patterns_plain by blast
  moreover have "\<forall>s \<in> set (strings_of (PDict r)). \<forall>v \<in> {''T3N_API_KEY'', ''TERMINAL3_API_KEY''}. \<forall>key.
      getenv E v = Some key \<longrightarrow> length key > 8 \<longrightarrow> list_all plain_char (take 8 key) \<longrightarrow> \<not> contains s (take 8 key)"
    using hidden clean by blast
  ultimately show ?thesis using clean by blast
qed

theorem saved_receipt_holds_no_secret_witness:
  "\<exists>written. save_receipt (sample_env ''live'') (Some ''out'') [(''receipt_id'', PStr ''r1'')] = Inr (''out/r1.json'', written) \<and>
     (\<forall>p \<in> set secret_patterns. \<not> contains written p)"
proof -
  let ?text = "CHR ''{'' # CHR 0x0A # ''  \"receipt_id\": \"r1\"'' @ [CHR 0x0A, CHR ''}'']"
  have t: "json_indented fl (PDict [(''receipt_id'', PStr ''r1'')]) 0 = ?text" for fl
    by (simp add: newline_indent_def dumps_quote_def ascii_escape_def short_escape_def ord_def
        numeral_2_eq_2)
  have "\<not> list_ex (contains ?text) secret_patterns" by code_simp
  moreover have "getenv_or (sample_env ''live'') v [] = []" if "v \<in> {''T3N_API_KEY'', ''TERMINAL3_API_KEY''}" for v
    using that by (auto simp: getenv_or_def sample_variables_def)
  ultimately have "\<not> scan_for_secrets (sample_env ''live'') ?text"
    unfolding scan_for_secrets_def by (simp add: Let_def list_ex_iff)
  then have "save_receipt (sample_env ''live'') (Some ''out'') [(''receipt_id'', PStr ''r1'')] = Inr (''out/r1.json'', ?text)"
    unfolding save_receipt_def t by (simp add: Let_def)
  then show ?thesis using saved_receipt_holds_no_secret by blast
qed

text \<open>The condition on the characters is needed: a key with a quote in its prefix is written escaped and not found.\<close>

lemma escaped_prefix_saved:
  "\<exists>saved. save_receipt ((sample_env ''live'')\<lparr>getenv := \<lambda>v. Some ''ab\"cdefghi''\<rparr>) (Some ''out'')
     [(''receipt_id'', PStr ''ab\"cdefghi'')] = Inr saved"
proof -
  let ?text = "CHR ''{'' # CHR 0x0A # ''  \"receipt_id\": \"ab'' @ [CHR 0x5C] @ ''\"cdefghi\"'' @ [CHR 0x0A, CHR ''}'']"
  have t: "json_indented fl (PDict [(''receipt_id'', PStr ''ab\"cdefghi'')]) 0 = ?text" for fl
    by (simp add: newline_indent_def dumps_quote_def ascii_escape_def short_escape_def ord_def numeral_2_eq_2)
  have "\<not> list_ex (contains ?text) secret_patterns" "\<not> contains ?text ''ab\"cdefg''" by code_simp+
  then have "\<not> scan_for_secrets ((sample_env ''live'')\<lparr>getenv := \<lambda>v. Some ''ab\"cdefghi''\<rparr>) ?text"
    unfolding scan_for_secrets_def by (simp add: getenv_or_def Let_def del: contains.simps)
  then show ?thesis unfolding save_receipt_def t by (simp add: Let_def)
qed

end
