(* ===== verification/EdgeTheorems.thy ===== *)
theory EdgeTheorems
  imports SampleData
begin

text \<open>
  Properties at the edges of the guarantees: what a caller without the lease can still do, what
  happens at the very instant of expiry, and what an envelope without data leaves open.
\<close>

section \<open>Transactions that cannot fail\<close>

definition key_usable :: "string option \<Rightarrow> bool" where
  "key_usable sec \<longleftrightarrow> opt_str sec = [] \<or> fromhex (opt_str sec) \<noteq> None"

lemma write_record_total:
  "key_usable sec \<Longrightarrow> \<exists>L'. write_record E L k kind st a m fs u x ow (PStr di) fp sec err tok = Inr L'"
  by (auto simp: key_usable_def write_record_def compute_integrity_mac_def sql_text_def bytes_fromhex_def)

lemma verified_key_usable: "verify_integrity E e sec = Inr () \<Longrightarrow> key_usable sec"
  by (auto simp: verify_integrity_def key_usable_def compute_integrity_mac_def split: if_split_asm)

section \<open>Finalizing without the lease\<close>

text \<open>
  C19. A finished row is not final: a row whose token has been cleared, completed rows included, is
  open to every later finalization, whoever makes it and whatever token he has. The row takes the state of
  that finalization; a retryable failure becomes a final one exactly when the attempts of the row are
  used up. So an executor that lost its lease and fails turns the completed execution of the second
  attempt into a final failure.
\<close>

theorem finished_row_overwritten:
  assumes "L k = Some e" and "k \<noteq> []" and "le_execution_token e = None" and "verify_integrity E e sec = Inr ()"
  shows "\<exists>L' e'. finalize_request_execution E t L k final_state sec err tok = (Inr True, L') \<and> L' k = Some e' \<and>
    le_state e' = (if final_state = REQUEST_STATE_RETRYABLE_FAILURE \<and> le_max_attempts e \<le> le_attempt_count e
      then REQUEST_STATE_FINAL_FAILURE else final_state)"
proof -
  let ?exhausted = "final_state = REQUEST_STATE_RETRYABLE_FAILURE \<and> le_max_attempts e \<le> le_attempt_count e"
  let ?err = "if ?exhausted \<and> opt_str err = [] then Some ''Delegation request retry limit exceeded'' else err"
  obtain L' where w: "write_record E L k REQUEST_KIND (if ?exhausted then REQUEST_STATE_FINAL_FAILURE else final_state) (le_attempt_count e)
      (le_max_attempts e) (le_first_seen_at e) t (le_expires_at e) (opt_str (le_owner_agent_id e))
      (PStr (opt_str (le_delegation_id e))) (opt_str (le_payload_fingerprint e)) sec ?err None = Inr L'"
    using write_record_total [OF verified_key_usable [OF assms(4)]] by blast
  have "\<not> foreign_token e tok" using assms(3) by (simp add: foreign_token_def opt_str_def)
  then have f: "finalize_request_execution E t L k final_state sec err tok = (Inr True, L')"
    unfolding finalize_request_execution_def transact_def Let_def using assms w by simp
  show ?thesis using f finalize_True [OF f] assms(1) by auto
qed

definition stale_ops :: "ledger_op list" where
  "stale_ops =
     [Begin 1000 ''t1'' ''ab'' 4000 ''ab'' (PStr ''d1'') ''f'' None,
      Begin 1300 ''t2'' ''ab'' 4000 ''ab'' (PStr ''d1'') ''f'' None,
      Finalize 1310 ''ab'' REQUEST_STATE_COMPLETED None None (Some ''t2'')]"

theorem finished_row_overwritten_witness:
  "\<exists>e L' e'. run_ops (sample_env ''test'') stale_ops Map.empty ''ab'' = Some e \<and> le_state e = REQUEST_STATE_COMPLETED \<and>
     finalize_request_execution (sample_env ''test'') 1320 (run_ops (sample_env ''test'') stale_ops Map.empty) ''ab''
       REQUEST_STATE_RETRYABLE_FAILURE None (Some ''boom'') (Some ''t1'') = (Inr True, L') \<and>
     L' ''ab'' = Some e' \<and> le_state e' = REQUEST_STATE_FINAL_FAILURE"
proof -
  let ?E = "sample_env ''test''"
  have v: "verify_integrity ?E x None = Inr ()" for x by (simp add: verify_integrity_def opt_str_def)
  have w: "write_record ?E L k kind st a m fs u x ow (PStr di) fp None err tok = Inr (L(k \<mapsto>
      \<lparr>le_replay_key = k, le_kind = kind, le_state = st, le_attempt_count = a, le_max_attempts = m,
       le_first_seen_at = fs, le_updated_at = u, le_expires_at = x, le_owner_agent_id = Some ow,
       le_delegation_id = Some di, le_payload_fingerprint = Some fp, le_integrity_mac = None,
       le_last_error = err, le_execution_token = tok\<rparr>))" for L k kind st a m fs u x ow di fp err tok
    by (simp add: write_record_def compute_integrity_mac_def sql_text_def opt_str_def)
  define L1 where "L1 = exec_op ?E (Begin 1000 ''t1'' ''ab'' 4000 ''ab'' (PStr ''d1'') ''f'' None) Map.empty"
  obtain e1 where e1: "L1 ''ab'' = Some e1" "le_state e1 = REQUEST_STATE_RUNNING" "le_attempt_count e1 = 1"
      "le_max_attempts e1 = 2" "le_updated_at e1 = 1000" "le_expires_at e1 = 4000"
    by (simp add: L1_def begin_request_execution_def purge_def transact_def w MAX_REQUEST_ATTEMPTS_def)
  define L2 where "L2 = exec_op ?E (Begin 1300 ''t2'' ''ab'' 4000 ''ab'' (PStr ''d1'') ''f'' None) L1"
  have "purge 1300 L1 ''ab'' = Some e1" using e1 by (simp add: purge_Some)
  then obtain e2 where e2: "L2 ''ab'' = Some e2" "le_execution_token e2 = Some ''t2''" "le_attempt_count e2 = 2"
      "le_max_attempts e2 = 2"
    using e1 by (simp add: L2_def begin_request_execution_def begin_existing_def v transact_def w
        RUNNING_LEASE_SECONDS_def state_consts Let_def)
  have "\<not> foreign_token e2 (Some ''t2'')" using e2 by (simp add: foreign_token_def)
  then obtain e where e: "exec_op ?E (Finalize 1310 ''ab'' REQUEST_STATE_COMPLETED None None (Some ''t2'')) L2 ''ab'' = Some e"
      "le_state e = REQUEST_STATE_COMPLETED" "le_execution_token e = None" "le_max_attempts e \<le> le_attempt_count e"
    using e2 by (simp add: finalize_request_execution_def v transact_def w state_consts Let_def)
  then have e: "run_ops ?E stale_ops Map.empty ''ab'' = Some e" "le_state e = REQUEST_STATE_COMPLETED"
      "le_execution_token e = None" "le_max_attempts e \<le> le_attempt_count e"
    by (simp_all add: stale_ops_def L1_def L2_def)
  have "verify_integrity (sample_env ''test'') e None = Inr ()" by (simp add: verify_integrity_def opt_str_def)
  from finished_row_overwritten [of "run_ops (sample_env ''test'') stale_ops Map.empty" "''ab''" e, OF e(1) _ e(3) this,
      where final_state = REQUEST_STATE_RETRYABLE_FAILURE and err = "Some ''boom''" and tok = "Some ''t1''" and t = 1320] e(4)
  show ?thesis using e(1,2) by simp
qed

text \<open>
  C30. A worker reports what it did, not what the ledger kept: if another execution took over the row
  while the handler ran, the refused finalization is ignored, the reply still says \<open>COMPLETED\<close>, and
  the ledger is unchanged.
\<close>

theorem stale_executor_reports_completed:
  assumes "hashable (dr_delegation_id request)"
    and "\<And>st'. nw_identity st' = nw_identity st \<Longrightarrow> run_handler E (clk 10) st' handler (dr_parameters request) = Inr v"
    and "run_ops E between L k = Some e" and "foreign_token e token"
    and "verify_integrity E e secret = Inr ()" and "k \<noteq> []" and "able_to_sign E (nw_identity st)"
  shows "\<exists>reply st'. run_reserved E clk uuid between st L request k secret token handler =
      (Inr reply, st', run_ops E between L) \<and> reply_status reply = PStr ''COMPLETED''"
  by (rule stale_execution [of request st E clk handler v between L k e token secret, OF assms])

text \<open>The row of the sample request, taken over by the token \<open>t2\<close> while the holder of \<open>t1\<close> runs.\<close>

theorem stale_executor_reports_completed_witness:
  "\<exists>reply st'. run_reserved (sample_env ''live'') (\<lambda>i. 1000) (\<lambda>i. ''u1'') [] sample_worker
      [''ab'' \<mapsto> sample_row REQUEST_STATE_RUNNING (Some ''t2'')] (sample_request ''live'') ''ab'' (Some ''cd'') (Some ''t1'')
      Handle_ping = (Inr reply, st', [''ab'' \<mapsto> sample_row REQUEST_STATE_RUNNING (Some ''t2'')]) \<and>
    reply_status reply = PStr ''COMPLETED''"
proof -
  let ?L = "[''ab'' \<mapsto> sample_row REQUEST_STATE_RUNNING (Some ''t2'')]"
  have f: "foreign_token (sample_row REQUEST_STATE_RUNNING (Some ''t2'')) (Some ''t1'')"
    by (simp add: foreign_token_def sample_row_def)
  have row: "run_ops (sample_env ''live'') [] ?L ''ab'' = Some (sample_row REQUEST_STATE_RUNNING (Some ''t2''))" by simp
  have h: "hashable (dr_delegation_id (sample_request ''live''))" by (simp add: sample_request_def)
  have run: "run_handler (sample_env ''live'') 1000 st' Handle_ping (dr_parameters (sample_request ''live'')) =
      Inr (PDict [(''pong'', PBool True), (''timestamp'', PFloat 1000), (''agent_id'', PStr ''ab'')])"
    if "nw_identity st' = nw_identity sample_worker" for st'
    using that by (simp add: handle_ping_def own_id_def sample_worker_def sample_agent_def)
  have sign: "able_to_sign (sample_env ''live'') (nw_identity sample_worker)" by (simp add: sample_worker_def)
  show ?thesis
    using stale_executor_reports_completed [of "sample_request ''live''" sample_worker "sample_env ''live''" "\<lambda>i. 1000"
        Handle_ping _ "[]" ?L "''ab''" _ "Some ''t1''" "Some ''cd''" "\<lambda>i. ''u1''",
        OF h run row f sample_verifies _ sign]
    by simp
qed

section \<open>The instant of expiry\<close>

text \<open>
  The retention ends one instant too early: at the exact instant at which a request expires it
  is still accepted as live, but its row has been purged, so even a completed request is granted
  again.
\<close>

theorem boundary_instant_replay:
  assumes "num_of (dr_expires_at r) = Some t" and "L k = Some e" and "le_expires_at e = t" and "k \<noteq> []"
    and "key_usable sec"
  shows "request_is_expired t r = Inr False \<and>
    (\<exists>L'. begin_request_execution E t tok L k x ow (PStr di) fp sec = (Inr (True, [], Some tok), L'))"
proof -
  have "purge t L k = None" using assms(2,3) by (simp add: purge_None)
  moreover obtain L' where "write_record E (purge t L) k REQUEST_KIND REQUEST_STATE_RUNNING 1 MAX_REQUEST_ATTEMPTS t t x
      ow (PStr di) fp sec None (Some tok) = Inr L'"
    using write_record_total [OF assms(5)] by blast
  ultimately show ?thesis using assms(1,4)
    by (simp add: begin_request_execution_def transact_def request_is_expired_def float_greater_def)
qed

theorem boundary_instant_replay_witness:
  "\<exists>L'. begin_request_execution (sample_env ''test'') 1300 ''t9'' [''ab'' \<mapsto> sample_row REQUEST_STATE_COMPLETED None] ''ab''
     1300 ''ab'' (PStr ''d1'') ''f'' None = (Inr (True, [], Some ''t9''), L')"
proof -
  let ?r = "(sample_request ''test'')\<lparr>dr_expires_at := PFloat 1300\<rparr>"
  have "num_of (dr_expires_at ?r) = Some 1300" by simp
  moreover have "le_expires_at (sample_row REQUEST_STATE_COMPLETED None) = 1300" by (simp add: sample_row_def)
  moreover have "key_usable None" by (simp add: key_usable_def opt_str_def)
  ultimately show ?thesis
    using boundary_instant_replay [of ?r 1300 "[''ab'' \<mapsto> sample_row REQUEST_STATE_COMPLETED None]" "''ab''"
        "sample_row REQUEST_STATE_COMPLETED None" None]
    by simp
qed

section \<open>What the envelope leaves open\<close>

text \<open>
  C32. The data hash is optional: an envelope that was signed for \<open>DELEGATE_TASK\<close> without data opens
  the gate for whatever delegation data is put beside it, if no TEE authorization is required.
\<close>

theorem unsigned_delegation_data_accepted:
  assumes "authentic E (clk 0) envelope ''DELEGATE_TASK''" and "\<not> has_key envelope ''data_hash''"
    and "complete_request r" and "num_of (dr_expires_at r) = Some q" and "clk 2 \<le> q"
    and "dr_to_agent_id r = PStr receiver" and "dr_tee_authorization r = PNone" and "\<And>b. sha256_hex E b \<noteq> []"
  shows "\<exists>k. validate_delegation_request E clk (dset ''delegation_data'' (PDict (request_payload r)) envelope)
    receiver pk kid bid False = Inr (True, ''Delegation request is valid'', Some k)"
proof -
  let ?sr = "dset ''delegation_data'' (PDict (request_payload r)) envelope"
  have "gate_open E clk ?sr receiver pk kid bid False r" by (rule unsigned_data_gate [OF assms(1-7)])
  moreover have "replay_key_of E r (request_hash_of E ?sr) \<noteq> []"
    using assms(8) by (simp add: replay_key_of_def sha256_def)
  ultimately show ?thesis by (auto simp: validate_iff)
qed

definition bare_envelope :: pydict where
  "bare_envelope = (case sign_action (sample_env ''test'') 1000 sample_agent ''DELEGATE_TASK'' (PStr ''n1'') None of
     Inr p \<Rightarrow> p | Inl e \<Rightarrow> [])"

theorem unsigned_delegation_data_accepted_witness:
  "\<exists>k. validate_delegation_request (sample_env ''test'') (\<lambda>i. 1001)
    (dset ''delegation_data'' (PDict (request_payload ((sample_request ''test'')\<lparr>dr_tee_authorization := PNone\<rparr>))) bare_envelope)
    ''ab'' [] [] [] False = Inr (True, ''Delegation request is valid'', Some k)"
proof -
  have priv: "id_private_key_obj sample_agent = Some (replicate 32 CHR ''k'')"
    "identity_ok (sample_env ''test'') sample_agent" "ed25519_ok (sample_env ''test'') (replicate 32 CHR ''k'')"
    using sample_able [of "''test''"] by (auto simp: able_to_sign_def sample_agent_def)
  have p: "sign_action (sample_env ''test'') 1000 sample_agent ''DELEGATE_TASK'' (PStr ''n1'') None = Inr bare_envelope"
    using sign_action_total [OF sample_not_mock, of sample_agent "''test''" 1000 "''DELEGATE_TASK''" "PStr ''n1''" None] priv(1)
    by (auto simp: bare_envelope_def)
  have a: "authentic (sample_env ''test'') 1001 bare_envelope ''DELEGATE_TASK''"
    by (rule sign_action_authentic [OF sample_not_mock priv(2,1,3) _ _ p]) (simp_all add: clock_text_ok_def)
  have n: "\<not> has_key bare_envelope ''data_hash''"
    unfolding bare_envelope_def using priv(1)
    by (simp add: sign_action_def identity_key_def sign_action_request_with_key has_key_def signed_payload_def)
  show ?thesis
    by (rule unsigned_delegation_data_accepted [where q = 4600, OF a n])
       (simp_all add: sample_request_def complete_request_def)
qed

end
