(* ===== verification/NetworkTypes.thy ===== *)
theory NetworkTypes
  imports NetworkLaws SampleData
begin

text \<open>
  The typing of \<^verbatim>\<open>agent_delegation_network.py\<close>: which shape the tables of an agent and its replies have,
  whatever values a peer puts on the wire, and that every operation of an agent keeps it.
\<close>

section \<open>Conformance\<close>

text \<open>A result of the agent \<open>me\<close>: completed without an error, or failed with an error text and no value.\<close>

definition result_conforms :: "string \<Rightarrow> delegation_result \<Rightarrow> bool" where
  "result_conforms me res \<longleftrightarrow> ds_from_agent_id res = PStr me \<and>
     (ds_status res = COMPLETED \<and> ds_error res = PNone \<or>
      ds_status res = FAILED \<and> ds_result res = PNone \<and> (\<exists>m. ds_error res = PStr m))"

definition network_conforms :: "network \<Rightarrow> bool" where
  "network_conforms st \<longleftrightarrow>
     (\<forall>(k, request) \<in> set (nw_delegations st). py_eq k (dr_delegation_id request)) \<and>
     (\<forall>(k, res) \<in> set (nw_results st). py_eq k (ds_delegation_id res) \<and> result_conforms (own_id st) res) \<and>
     distinct (map fst (nw_task_handlers st))"

definition reply_keys :: "string list" where
  "reply_keys = [''delegation_id'', ''from_agent_id'', ''to_agent_id'', ''status'', ''result'', ''error'', ''nonce'',
     ''issued_at'']"

text \<open>What a coordinator can rely on in a reply of \<open>me\<close> before it verifies any signature.\<close>

definition reply_conforms :: "string \<Rightarrow> pydict \<Rightarrow> bool" where
  "reply_conforms me reply \<longleftrightarrow> (\<exists>d. dget reply ''result_data'' PNone = PDict d \<and>
     map fst d \<in> {reply_keys, reply_keys @ [''tee_authorization'']} \<and> dget d ''from_agent_id'' PNone = PStr me \<and>
     (dget d ''status'' PNone = PStr ''COMPLETED'' \<and> dget d ''error'' PNone = PNone \<or>
      dget d ''status'' PNone = PStr ''FAILED'' \<and> dget d ''result'' PNone = PNone
        \<and> (\<exists>m. dget d ''error'' PNone = PStr m)))"

lemma created_result_conforms:
  "result_conforms (id_agent_id a) (create_delegation_result t u r a COMPLETED v PNone)"
  "result_conforms (id_agent_id a) (create_delegation_result t u r a FAILED PNone (PStr m))"
  by (simp_all add: result_conforms_def)

lemma signed_reply_conforms:
  assumes "result_to_action_request E t res a = Inr reply" and "result_conforms me res"
  shows "reply_conforms me reply"
  unfolding reply_conforms_def
  by (rule exI [of _ "result_payload res"], use assms reply_of_result(1) [OF assms(1)] in
      \<open>auto simp: result_payload_def reply_keys_def result_conforms_def\<close>)

lemma failed_reply_conforms: "failed_reply E t t' u st r e = Inr p \<Longrightarrow> reply_conforms (own_id st) p"
  unfolding failed_reply_def own_id_def
  by (rule signed_reply_conforms, assumption) (rule created_result_conforms)

lemma error_reply_conforms: "error_reply E clk u st e = Inr p \<Longrightarrow> reply_conforms (own_id st) p"
  unfolding error_reply_def
  by (erule signed_reply_conforms) (simp add: result_conforms_def result_post_init_def)

section \<open>The tables\<close>

lemma vset_entries:
  "(k', w) \<in> set (vset k v d) \<Longrightarrow> (k', w) \<in> set d \<or> w = v \<and> (k' = k \<or> py_eq k k')"
  by (induction k v d rule: vset.induct) (auto split: if_split_asm)

lemma hashable_eq: "hashable k \<Longrightarrow> py_eq k k"
  by (cases k) auto

lemma vset_conforms:
  assumes "\<forall>(k, w) \<in> set d. py_eq k (id_of w) \<and> P w" and "hashable k" and "id_of v = k" and "P v"
  shows "\<forall>(k', w) \<in> set (vset k v d). py_eq k' (id_of w) \<and> P w"
proof (rule ballI, rule prod.case_eq_if [THEN iffD2])
  fix entry assume "entry \<in> set (vset k v d)"
  then have "(fst entry, snd entry) \<in> set d \<or> snd entry = v \<and> (fst entry = k \<or> py_eq k (fst entry))"
    using vset_entries [of "fst entry" "snd entry" k v d] by simp
  then show "py_eq (fst entry) (id_of (snd entry)) \<and> P (snd entry)"
    using assms(1,3,4) py_eq_sym [OF assms(2)] hashable_eq [OF assms(2)] by auto
qed

lemma logged_conforms [simp]: "network_conforms (add_log entry st) = network_conforms st"
  by (simp add: network_conforms_def add_log_def own_id_def)

lemma recorded_delegation_conforms:
  assumes "network_conforms st" and "hashable (dr_delegation_id request)"
  shows "network_conforms (st\<lparr>nw_delegations := vset (dr_delegation_id request) request (nw_delegations st)\<rparr>)"
  using assms vset_conforms [of "nw_delegations st" dr_delegation_id "\<lambda>_. True" "dr_delegation_id request" request]
  by (simp add: network_conforms_def own_id_def)

lemma recorded_result_conforms:
  assumes "network_conforms st" and "hashable k" and "ds_delegation_id res = k" and "result_conforms (own_id st) res"
  shows "network_conforms (st\<lparr>nw_results := vset k res (nw_results st)\<rparr>)"
  using assms vset_conforms [of "nw_results st" ds_delegation_id "result_conforms (own_id st)" k res]
  by (simp add: network_conforms_def own_id_def)

lemma created_conforms: "create_agent E pid u name policy_file key = Inr st \<Longrightarrow> network_conforms st"
  by (auto simp: create_agent_def Let_def network_conforms_def builtin_handlers_def)

lemma registered_conforms:
  assumes "network_conforms st"
  shows "network_conforms (register_task_handler a h st)" "network_conforms (unregister_task_handler a st)"
  using assms by (simp_all add: network_conforms_def register_task_handler_def unregister_task_handler_def own_id_def
      distinct_dset ddel_def distinct_map_filter)

lemma delegated_conforms:
  assumes "network_delegate_task E clk u0 u1 st to_id action descr parameters deadline capabilities tee = (r, st')"
    and "network_conforms st"
  shows "network_conforms st' \<and> nw_identity st' = nw_identity st"
proof (cases "create_delegation_request E (clk 0) u0 u1 (nw_identity st) to_id action descr parameters deadline
    capabilities tee")
  case (Inr request)
  then have "hashable (dr_delegation_id request)"
    by (auto simp: create_delegation_request_def Let_def dest!: post_init_keeps)
  from recorded_delegation_conforms [OF assms(2) this] show ?thesis using assms Inr
    by (auto simp: network_delegate_task_def add_log_def network_conforms_def own_id_def
        split: sum.split_asm prod.split_asm bool.split_asm)
qed (use assms in \<open>simp add: network_delegate_task_def\<close>)

section \<open>The execution of a request\<close>

lemma executed_conforms:
  assumes "execute_request E clk uuid between st L request k secret token handler = (Inr res, L')"
  shows "ds_delegation_id res = dr_delegation_id request \<and> result_conforms (own_id st) res"
  using assms created_result_conforms [of "nw_identity st"] unfolding own_id_def
  by (auto simp: execute_request_def finish_failed_def Let_def split: prod.split_asm sum.split_asm)

lemma run_reserved_conforms:
  assumes "run_reserved E clk uuid between st L request k secret token handler = (r, st', L')"
    and "network_conforms st"
  shows "network_conforms st' \<and> (\<forall>reply. r = Inr reply \<longrightarrow> reply_conforms (own_id st) reply)"
proof (cases "hashable (dr_delegation_id request)")
  case True
  define st1 where "st1 = add_log (received_log (clk 9) st request)
      (st\<lparr>nw_delegations := vset (dr_delegation_id request) request (nw_delegations st)\<rparr>)"
  have st1: "network_conforms st1" "own_id st1 = own_id st" "nw_identity st1 = nw_identity st"
    using recorded_delegation_conforms [OF assms(2) True] by (simp_all add: st1_def own_id_def) (simp_all add: add_log_def)
  obtain f L2 where ex: "execute_request E clk uuid between st1 L request k secret token handler = (f, L2)" by fastforce
  show ?thesis
  proof (cases f)
    case (Inl e)
    then show ?thesis using assms ex st1 True by (auto simp: run_reserved_def Let_def st1_def [symmetric])
  next
    case (Inr res)
    note res = executed_conforms [OF ex [unfolded Inr]]
    then have "network_conforms (st1\<lparr>nw_results := vset (dr_delegation_id request) res (nw_results st1)\<rparr>)"
      using recorded_result_conforms [OF st1(1) True] by simp
    then show ?thesis using assms ex st1 True Inr res
      by (auto simp: run_reserved_def Let_def st1_def [symmetric] intro: signed_reply_conforms)
  qed
qed (use assms in \<open>auto simp: run_reserved_def\<close>)

lemma admit_reply_conforms:
  "admit_request E clk uuid st sr pk kid bid require = Inr (Inl p) \<Longrightarrow> reply_conforms (own_id st) p"
  unfolding admit_request_def
  by (auto dest!: failed_reply_conforms split: if_split_asm prod.split_asm option.split_asm)

lemma run_identity:
  "run_reserved E clk uuid between st L request k secret token handler = (r, st', L') \<Longrightarrow> own_id st' = own_id st"
  using run_reserved_identity unfolding own_id_def by fastforce

lemma process_admitted_conforms:
  assumes "process_admitted E clk uuid token between st L request k handler = (r, st', L')" and "network_conforms st"
  shows "network_conforms st' \<and> own_id st' = own_id st \<and> (\<forall>reply. r = Inr reply \<longrightarrow> reply_conforms (own_id st) reply)"
  using assms(1)
proof (cases rule: process_admitted_cases)
  case refused
  then show ?thesis using assms(2) failed_reply_conforms by blast
next
  case (run secret x L1)
  then show ?thesis using run_reserved_conforms [OF run(3) assms(2)] run_identity [OF run(3)] by blast
qed

lemma process_conforms:
  assumes "process_delegation_request E clk uuid token between st L sr pk kid bid require = (r, st', L')"
    and "network_conforms st"
  shows "network_conforms st' \<and> own_id st' = own_id st \<and> (\<forall>reply. r = Inr reply \<longrightarrow> reply_conforms (own_id st) reply)"
proof (cases "admit_request E clk uuid st sr pk kid bid require")
  case (Inl e)
  then show ?thesis using assms error_reply_conforms by (auto simp: process_delegation_request_def)
next
  case (Inr admitted)
  show ?thesis
  proof (cases admitted)
    case (Inl p)
    then show ?thesis using assms Inr admit_reply_conforms by (auto simp: process_delegation_request_def)
  next
    case go: (Inr job)
    obtain request k handler where job: "job = (request, k, handler)" by (cases job)
    obtain r0 st0 L0 where p: "process_admitted E clk uuid token between st L request k handler = (r0, st0, L0)"
      by (cases "process_admitted E clk uuid token between st L request k handler")
    show ?thesis using process_admitted_conforms [OF p assms(2)] assms(1) Inr go job p
      by (cases r0) (auto simp: process_delegation_request_def dest: error_reply_conforms)
  qed
qed

section \<open>The life of an agent\<close>

text \<open>One operation of an agent, in any state of the environment and of the ledger.\<close>

inductive agent_step :: "network \<Rightarrow> network \<Rightarrow> bool" where
  registers: "agent_step st (register_task_handler a h st)"
| unregisters: "agent_step st (unregister_task_handler a st)"
| policy_set: "agent_step st (st\<lparr>nw_policy := p\<rparr>)"
| delegates: "network_delegate_task E clk u0 u1 st to_id action descr parameters deadline capabilities tee = (r, st')
    \<Longrightarrow> agent_step st st'"
| answers: "process_delegation_request E clk uuid token between st L sr pk kid bid require = (r, st', L')
    \<Longrightarrow> agent_step st st'"

lemma step_conforms: "agent_step st st' \<Longrightarrow> network_conforms st \<Longrightarrow> network_conforms st' \<and> own_id st' = own_id st"
proof (induction rule: agent_step.induct)
  case (delegates E clk u0 u1 st to_id action descr parameters deadline capabilities tee r st')
  then show ?case using delegated_conforms by (fastforce simp: own_id_def)
next
  case (answers E clk uuid token between st L sr pk kid bid require r st' L')
  then show ?case using process_conforms by blast
qed (simp_all add: registered_conforms, simp_all add: network_conforms_def own_id_def register_task_handler_def
    unregister_task_handler_def)

lemma life_conforms: "agent_step\<^sup>*\<^sup>* st st' \<Longrightarrow> network_conforms st \<Longrightarrow> network_conforms st' \<and> own_id st' = own_id st"
  by (induction rule: rtranclp_induct) (auto dest: step_conforms)

section \<open>Property\<close>

text \<open>
  C17. Agents and replies are well typed, whatever the peers put on the wire: from a conforming state (as
  \<open>create_agent\<close> makes one), after any operations of the agent, a processed request keeps the tables
  conforming (entries filed under their own ids, results of this agent, an error text exactly when
  failed), and every reply is an envelope with the fields of a result of this agent that is either
  \<open>COMPLETED\<close> without an error or \<open>FAILED\<close> with an error text and no value.
\<close>

theorem agent_and_replies_well_typed:
  assumes "network_conforms st0" and "agent_step\<^sup>*\<^sup>* st0 st"
    and "process_delegation_request E clk uuid token between st L sr pk kid bid require = (r, st', L')"
  shows "network_conforms st' \<and> own_id st' = own_id st0 \<and>
    (\<forall>reply. r = Inr reply \<longrightarrow> reply_conforms (own_id st0) reply)"
  using life_conforms [OF assms(2,1)] process_conforms [OF assms(3)] by simp

theorem agent_and_replies_well_typed_witness:
  "\<exists>reply st'. reply_status reply = PStr ''COMPLETED'' \<and> network_conforms st' \<and> nw_results st' \<noteq> [] \<and>
    reply_conforms (own_id sample_worker) reply"
proof -
  obtain reply st' where run: "process_delegation_request (sample_env ''live'') (\<lambda>i. 1000) (\<lambda>i. ''u1'') ''t1'' []
      sample_worker Map.empty (sample_signed ''live'') (Some pub) (Some ''gw1'') (Some ''b1'') None
      = (Inr reply, st', [''ab'' \<mapsto> sample_row REQUEST_STATE_COMPLETED None])" "reply_status reply = PStr ''COMPLETED''"
      "nw_results st' \<noteq> []"
    using sample_run by blast
  have "network_conforms sample_worker"
    by (simp add: network_conforms_def sample_worker_def builtin_handlers_def)
  from agent_and_replies_well_typed [OF this rtranclp.rtrancl_refl run(1)] run(2,3) show ?thesis by blast
qed

end
