(* ===== verification/PyOps.thy ===== *)
theory PyOps
  imports PyValue
begin

text \<open>
  Operations of the language on values of any type: subscripts, iteration, membership, arithmetic,
  comparison and rounding, each with the exception of its wrong operands; and the actions of an
  object, functions of its state that return a value or raise. Ordering is that of numbers and
  of strings; the source orders nothing else. Float arithmetic is exact.
\<close>

section \<open>Containers\<close>

text \<open>\<open>d[k]\<close> on a dictionary, and on a value.\<close>

definition item :: "pydict \<Rightarrow> string \<Rightarrow> pyval py" where
  "item d k = (case map_of d k of Some v \<Rightarrow> Inr v | None \<Rightarrow> Inl (KeyError (repr_str k)))"

definition subscript :: "pyval \<Rightarrow> string \<Rightarrow> pyval py" where
  "subscript v k = (case v of
     PDict d \<Rightarrow> item d k
   | PStr s \<Rightarrow> Inl (TypeError (''string indices must be integers, not '' @ repr_str ''str''))
   | PList xs \<Rightarrow> Inl (TypeError ''list indices must be integers or slices, not str'')
   | _ \<Rightarrow> Inl (TypeError (repr_str (py_type v) @ '' object is not subscriptable'')))"

text \<open>Iteration.\<close>

definition py_iter :: "pyval \<Rightarrow> pyval list py" where
  "py_iter v = (case v of
     PList xs \<Rightarrow> Inr xs
   | PStr s \<Rightarrow> Inr (map (\<lambda>c. PStr [c]) s)
   | PDict d \<Rightarrow> Inr (map (\<lambda>(k, _). PStr k) d)
   | _ \<Rightarrow> Inl (TypeError (repr_str (py_type v) @ '' object is not iterable'')))"

text \<open>\<open>v in x\<close>\<close>

definition py_in :: "pyval \<Rightarrow> pyval \<Rightarrow> bool py" where
  "py_in v x = (case x of
     PList xs \<Rightarrow> Inr (list_ex (py_eq v) xs)
   | PDict d \<Rightarrow> if hashable v then Inr (\<exists>k \<in> fst ` set d. v = PStr k) else Inl (unhashable_error v)
   | PStr s \<Rightarrow> (case v of
       PStr t \<Rightarrow> Inr (contains s t)
     | _ \<Rightarrow> Inl (TypeError (repr_str ''in <string>'' @ '' requires string as left operand, not '' @ py_type v)))
   | _ \<Rightarrow> Inl (TypeError (''argument of type '' @ repr_str (py_type x) @ '' is not iterable'')))"

text \<open>\<open>len(v)\<close>\<close>

definition py_len :: "pyval \<Rightarrow> nat py" where
  "py_len v = (case v of
     PList xs \<Rightarrow> Inr (length xs)
   | PStr s \<Rightarrow> Inr (length s)
   | PDict d \<Rightarrow> Inr (length d)
   | _ \<Rightarrow> Inl (TypeError (''object of type '' @ repr_str (py_type v) @ '' has no len()'')))"

text \<open>A value concatenated with or sliced as a string.\<close>

definition as_str :: "pyval \<Rightarrow> string py" where
  "as_str v = (case v of
     PStr s \<Rightarrow> Inr s
   | _ \<Rightarrow> Inl (TypeError (''expected str, got '' @ py_type v)))"

lemma as_str_Inr [simp]: "as_str v = Inr s \<longleftrightarrow> v = PStr s"
  by (auto simp: as_str_def split: pyval.split)

section \<open>Numbers\<close>

text \<open>\<open>a + b\<close> on numbers, a value times or divided by a number, comparisons.\<close>

definition operand_error :: "string \<Rightarrow> pyval \<Rightarrow> pyval \<Rightarrow> py_error" where
  "operand_error opr v w = TypeError (''unsupported operand type(s) for '' @ opr @ '': '' @
     repr_str (py_type v) @ '' and '' @ repr_str (py_type w))"

definition num_add :: "pyval \<Rightarrow> pyval \<Rightarrow> pyval py" where
  "num_add v w = (case (num_of v, num_of w) of
     (Some a, Some b) \<Rightarrow>
       (case (v, w) of
          (PFloat _, _) \<Rightarrow> Inr (PFloat (a + b))
        | (_, PFloat _) \<Rightarrow> Inr (PFloat (a + b))
        | _ \<Rightarrow> Inr (PInt (floor (a + b))))
   | _ \<Rightarrow> Inl (operand_error ''+'' v w))"

definition mul_float :: "pyval \<Rightarrow> rat \<Rightarrow> pyval py" where
  "mul_float v q = (case num_of v of
     Some a \<Rightarrow> Inr (PFloat (a * q))
   | None \<Rightarrow> (case v of
       PStr s \<Rightarrow> Inl (TypeError (''can''@[CHR 0x27]@''t multiply sequence by non-int of type '' @ repr_str ''float''))
     | PList xs \<Rightarrow> Inl (TypeError (''can''@[CHR 0x27]@''t multiply sequence by non-int of type '' @ repr_str ''float''))
     | _ \<Rightarrow> Inl (operand_error ''*'' v (PFloat q))))"

definition div_num :: "pyval \<Rightarrow> rat \<Rightarrow> pyval py" where
  "div_num v q = (case num_of v of
     Some a \<Rightarrow> if q = 0 then Inl (ZeroDivisionError ''division by zero'') else Inr (PFloat (a / q))
   | None \<Rightarrow> Inl (operand_error ''/'' v (PInt 1)))"

fun num_sum :: "pyval \<Rightarrow> pyval list \<Rightarrow> pyval py" where
  "num_sum acc [] = Inr acc"
| "num_sum acc (x # xs) = bindE (num_add acc x) (\<lambda>acc'. num_sum acc' xs)"

definition py_compare ::
  "string \<Rightarrow> (rat \<Rightarrow> rat \<Rightarrow> bool) \<Rightarrow> (string \<Rightarrow> string \<Rightarrow> bool) \<Rightarrow> pyval \<Rightarrow> pyval \<Rightarrow> bool py" where
  "py_compare opr on_num on_str v w = (case (num_of v, num_of w) of
     (Some a, Some b) \<Rightarrow> Inr (on_num a b)
   | _ \<Rightarrow> (case (v, w) of
       (PStr s, PStr t) \<Rightarrow> Inr (on_str s t)
     | _ \<Rightarrow> Inl (TypeError (repr_str opr @ '' not supported between instances of '' @
          repr_str (py_type v) @ '' and '' @ repr_str (py_type w)))))"

abbreviation "py_less \<equiv> py_compare ''<'' (<) (<)"
abbreviation "py_le \<equiv> py_compare ''<='' (\<le>) (\<le>)"
abbreviation "py_greater \<equiv> py_compare ''>'' (>) (>)"
abbreviation "py_ge \<equiv> py_compare ''>='' (\<ge>) (\<ge>)"

text \<open>\<open>round(q)\<close> and \<open>round(v, 2)\<close>: to the nearest, ties to the even neighbour.\<close>

definition round_half_even :: "rat \<Rightarrow> int" where
  "round_half_even q =
     (let f = floor q; d = q - of_int f
      in if d < 1 / 2 then f else if 1 / 2 < d then f + 1 else if even f then f else f + 1)"

definition round2_rat :: "rat \<Rightarrow> rat" where
  "round2_rat q = of_int (round_half_even (q * 100)) / 100"

definition round2 :: "pyval \<Rightarrow> pyval py" where
  "round2 v = (case v of
     PFloat q \<Rightarrow> Inr (PFloat (round2_rat q))
   | PInt i \<Rightarrow> Inr (PInt i)
   | PBool b \<Rightarrow> Inr (PInt (if b then 1 else 0))
   | _ \<Rightarrow> Inl (TypeError (''type '' @ py_type v @ '' does not define __round__ method'')))"

lemma round_half_even_int [simp]: "round_half_even (of_int i) = i"
  by (simp add: round_half_even_def)

lemma round_half_even_mono: "p \<le> q \<Longrightarrow> round_half_even p \<le> round_half_even q"
proof -
  assume le: "p \<le> q"
  have f: "floor p \<le> floor q" using le by (rule floor_mono)
  show ?thesis
  proof (cases "floor p = floor q")
    case True
    then show ?thesis using le by (auto simp: round_half_even_def Let_def)
  next
    case False
    then have "floor p + 1 \<le> floor q" using f by linarith
    then show ?thesis by (auto simp: round_half_even_def Let_def)
  qed
qed

lemma round2_rat_mono: "p \<le> q \<Longrightarrow> round2_rat p \<le> round2_rat q"
  by (simp add: round2_rat_def divide_right_mono round_half_even_mono)

section \<open>Actions of an object\<close>

type_synonym ('s, 'a) action = "'s \<Rightarrow> 'a py \<times> 's"

definition bindS :: "('s, 'a) action \<Rightarrow> ('a \<Rightarrow> ('s, 'b) action) \<Rightarrow> ('s, 'b) action" where
  "bindS m f s = (case m s of (Inl e, s') \<Rightarrow> (Inl e, s') | (Inr x, s') \<Rightarrow> f x s')"

definition liftS :: "'a py \<Rightarrow> ('s, 'a) action" where
  "liftS r s = (r, s)"

fun mapS :: "('x \<Rightarrow> ('s, 'a) action) \<Rightarrow> 'x list \<Rightarrow> ('s, 'a list) action" where
  "mapS f [] = liftS (Inr [])"
| "mapS f (x # xs) = bindS (f x) (\<lambda>y. bindS (mapS f xs) (\<lambda>ys. liftS (Inr (y # ys))))"

lemma bindS_Inr: "bindS m f s = (Inr y, s'') \<longleftrightarrow> (\<exists>x s'. m s = (Inr x, s') \<and> f x s' = (Inr y, s''))"
  by (auto simp: bindS_def split: prod.split sum.split)

lemma liftS_pair [simp]: "liftS r s = (r', s') \<longleftrightarrow> r' = r \<and> s' = s"
  by (auto simp: liftS_def)

lemma mapS_Inr_Cons:
  "mapS f (x # xs) s = (Inr ys, s'') \<longleftrightarrow>
     (\<exists>y s' zs. f x s = (Inr y, s') \<and> mapS f xs s' = (Inr zs, s'') \<and> ys = y # zs)"
  by (auto simp: bindS_Inr)

text \<open>What every action of a run keeps is kept by the run, whether it raises or not.\<close>

lemma mapS_invariant:
  assumes "\<And>x s. P s \<Longrightarrow> P (snd (f x s))" and "P s"
  shows "P (snd (mapS f xs s))"
  using assms(2)
proof (induction xs arbitrary: s)
  case (Cons x xs)
  obtain r s' where f: "f x s = (r, s')" by (cases "f x s")
  then have "P s'" using assms(1) [OF Cons.prems, of x] by simp
  then have "P (snd (mapS f xs s'))" by (rule Cons.IH)
  then show ?case using f \<open>P s'\<close>
    by (cases r; cases "mapS f xs s'") (auto simp: bindS_def liftS_def split: sum.split)
qed (simp add: liftS_def)

end
