(* ===== verification/HttpClients.thy ===== *)
theory HttpClients
  imports Runtime PyOps
begin

text \<open>
  The HTTP clients: \<^verbatim>\<open>src/terminal3_api_client.py\<close> and \<^verbatim>\<open>llm/client.py\<close>. What \<open>urlopen\<close> does is a
  parameter: the answer of a request is a status with a decoded body, an \<open>HTTPError\<close> or another
  exception, named by its class. A body that is no JSON raises \<open>JSONDecodeError\<close>.
\<close>

section \<open>Requests\<close>

record http_request =
  rq_method :: string
  rq_url :: string
  rq_headers :: "(string \<times> string) list"
  rq_body :: "string option"

datatype http_outcome =
    Http_Ok int string
  | Http_Error int string string   \<comment> \<open>code, reason, body\<close>
  | Http_Failed string string      \<comment> \<open>class and message of the exception\<close>

type_synonym http = "http_request \<Rightarrow> http_outcome"

definition parse_body :: "py_env \<Rightarrow> string \<Rightarrow> pyval py" where
  "parse_body E body = (case json_loads E body of
     Some v \<Rightarrow> Inr v
   | None \<Rightarrow> Inl (OtherError ''JSONDecodeError'' []))"

section \<open>The DID of a token\<close>

definition DEFAULT_BASE_URL :: string where
  [py_consts]: "DEFAULT_BASE_URL = ''https://staging.terminal3.io''"

definition rstrip_slash :: "string \<Rightarrow> string" where
  "rstrip_slash s = rev (dropWhile (\<lambda>c. c = CHR ''/'') (rev s))"

definition extract_error :: "py_env \<Rightarrow> string \<Rightarrow> pyval py" where
  "extract_error E body = (case json_loads E body of
     None \<Rightarrow> Inr PNone
   | Some parsed_val \<Rightarrow> bindE (as_dict parsed_val) (\<lambda>parsed.
       case dget parsed ''errors'' PNone of
         PList (PDict first # rest) \<Rightarrow> Inr (py_or (dget first ''code'' PNone) (dget first ''message'' PNone))
       | _ \<Rightarrow> Inr PNone))"

definition did_result :: "bool \<Rightarrow> pyval \<Rightarrow> pyval \<Rightarrow> pyval \<Rightarrow> pydict" where
  "did_result ok status did error =
     [(''ok'', PBool ok), (''status'', status), (''did'', did), (''error'', error)]"

definition did_of_body :: "py_env \<Rightarrow> string \<Rightarrow> pyval py" where
  "did_of_body E body =
     bindE (if body = [] then Inr (PDict []) else parse_body E body) (\<lambda>data_val.
     bindE (as_dict data_val) (\<lambda>data.
     bindE (as_dict (dget data ''data'' (PDict []))) (\<lambda>inner.
     Inr (dget inner ''did'' PNone))))"

definition get_did :: "py_env \<Rightarrow> http \<Rightarrow> string option \<Rightarrow> string option \<Rightarrow> pydict py" where
  "get_did E urlopen api_key base_url =
     (let token = py_strip (str_or (opt_str api_key) (get_t3n_api_key E))
      in if token = [] then Inr (did_result False PNone PNone (PStr ''T3N_API_KEY_MISSING''))
         else let url = rstrip_slash (str_or (opt_str base_url) (getenv_or E ''T3N_BASE_URL'' DEFAULT_BASE_URL)) @ ''/v1/did''
           in case urlopen \<lparr>rq_method = ''GET'', rq_url = url, rq_headers = [(''x-api-token'', token)], rq_body = None\<rparr> of
                Http_Ok status body \<Rightarrow> (case did_of_body E body of
                    Inr did \<Rightarrow> Inr (did_result True (PInt status) did PNone)
                  | Inl e \<Rightarrow> Inr (did_result False PNone PNone (PStr (exc_class e))))
              | Http_Error code reason body \<Rightarrow> bindE (extract_error E body) (\<lambda>err.
                  Inr (did_result False (PInt code) PNone (py_or err (PStr reason))))
              | Http_Failed cls msg \<Rightarrow> Inr (did_result False PNone PNone (PStr cls)))"

definition validate_configured_identity :: "py_env \<Rightarrow> http \<Rightarrow> pydict py" where
  "validate_configured_identity E urlopen =
     (let configured_did = get_configured_did E
      in bindE (get_did E urlopen None None) (\<lambda>result.
         Inr (result @
           [(''configured_did'', if configured_did = [] then PNone else PStr configured_did),
            (''did_matches'', PBool (configured_did \<noteq> [] \<and> dget result ''did'' PNone = PStr configured_did))])))"

text \<open>The token is sent in the header and is no part of the answer's shape.\<close>

lemma get_did_no_token:
  "py_strip (str_or (opt_str k) (get_t3n_api_key E)) = [] \<Longrightarrow>
   get_did E urlopen k u = Inr (did_result False PNone PNone (PStr ''T3N_API_KEY_MISSING''))"
  by (simp add: get_did_def)

lemma did_result_ok: "did_result ok st d e = did_result True st' d' e' \<Longrightarrow> ok \<and> e = e'"
  by (simp add: did_result_def)

lemma get_did_ok:
  assumes "get_did E urlopen k u = Inr r" and "dget r ''ok'' PNone = PBool True"
  shows "\<exists>rq status body did. urlopen rq = Http_Ok status body \<and> did_of_body E body = Inr did \<and>
    r = did_result True (PInt status) did PNone"
  using assms unfolding get_did_def Let_def
  by (auto simp: did_result_def split: if_split_asm http_outcome.split_asm sum.split_asm)

section \<open>The language model client\<close>

definition LLM_BASE_URL :: string where
  [py_consts]: "LLM_BASE_URL = ''https://api.openai.com/v1/chat/completions''"

definition LLM_MODEL :: string where
  [py_consts]: "LLM_MODEL = ''gpt-4o-mini''"

record llm_client =
  lc_api_key :: string
  lc_model :: string
  lc_base_url :: string

definition create_llm_client :: "py_env \<Rightarrow> string option \<Rightarrow> string option \<Rightarrow> string option \<Rightarrow> llm_client" where
  "create_llm_client E api_key model base_url =
     \<lparr>lc_api_key = str_or (opt_str api_key) (getenv_or E ''LLM_API_KEY'' []),
      lc_model = str_or (opt_str model) (getenv_or E ''LLM_MODEL'' LLM_MODEL),
      lc_base_url = str_or (opt_str base_url) (getenv_or E ''LLM_BASE_URL'' LLM_BASE_URL)\<rparr>"

text \<open>The deterministic answers, by the first group of words the prompt contains.\<close>

definition llm_stub :: "string \<Rightarrow> string" where
  "llm_stub prompt =
     (let keywords = py_lower prompt; mentions = contains keywords
      in if mentions ''auction'' \<or> mentions ''bid'' then
           ''Task specification: Analyze Q1 2026 premium sales data. Deliverable: segmented revenue report with regional breakdown. SLA: 2 hours.''
         else if mentions ''reputation'' \<or> mentions ''quality'' then
           ''Quality assessment: Agent completed task within SLA, output met validation criteria, no anomalies detected.''
         else if mentions ''kyc'' \<or> mentions ''compliance'' then
           ''KYC summary: All four verification steps passed. Applicant identity confirmed, address verified, financials within threshold, compliance check clean.''
         else if mentions ''proposal'' \<or> mentions ''vote'' \<or> mentions ''dao'' then
           ''Proposal: Prioritize high-value segment tasks in Q2. Rationale: Q1 data shows 28% higher revenue per premium record.''
         else if mentions ''decision'' \<or> mentions ''rationale'' then
           ''Decision rationale: Selected optimal agent based on reputation score 0.92, previous task completion rate 100%, bid within budget.''
         else if mentions ''personali'' \<or> mentions ''outreach'' then
           ''Personalization strategy: high_value segment receives premium_offer variant with 15% discount; at_risk segment receives retention_offer.''
         else ''Agent task completed. Output meets specification requirements.'')"

definition llm_payload :: "llm_client \<Rightarrow> string \<Rightarrow> string \<Rightarrow> int \<Rightarrow> pyval" where
  "llm_payload c prompt system max_tokens = PDict
     [(''model'', PStr (lc_model c)), (''max_tokens'', PInt max_tokens),
      (''messages'', PList
        [PDict [(''role'', PStr ''system''), (''content'', PStr system)],
         PDict [(''role'', PStr ''user''), (''content'', PStr prompt)]])]"

text \<open>\<open>json.dumps(v)\<close>: keys in their order, a blank after commas and colons.\<close>

primrec json_spaced :: "(rat \<Rightarrow> string) \<Rightarrow> pyval \<Rightarrow> string" where
  "json_spaced fl PNone = ''null''"
| "json_spaced fl (PBool b) = (if b then ''true'' else ''false'')"
| "json_spaced fl (PInt i) = int_text i"
| "json_spaced fl (PFloat q) = fl q"
| "json_spaced fl (PStr s) = dumps_quote s"
| "json_spaced fl (PList xs) = ''['' @ join '', '' (map (json_spaced fl) xs) @ '']''"
| "json_spaced fl (PDict d) = ''{'' @ join '', ''
     (map (\<lambda>(k, t). dumps_quote k @ '': '' @ t) (map (map_prod id (json_spaced fl)) d)) @ ''}''"

definition first_item :: "pyval \<Rightarrow> pyval py" where
  "first_item v = (case v of
     PList (x # xs) \<Rightarrow> Inr x
   | PList [] \<Rightarrow> Inl (IndexError ''list index out of range'')
   | PStr (c # s) \<Rightarrow> Inr (PStr [c])
   | PStr [] \<Rightarrow> Inl (IndexError ''string index out of range'')
   | PDict d \<Rightarrow> Inl (KeyError ''0'')
   | _ \<Rightarrow> Inl (TypeError (repr_str (py_type v) @ '' object is not subscriptable'')))"

definition strip_text :: "pyval \<Rightarrow> string py" where
  "strip_text v = (case v of
     PStr s \<Rightarrow> Inr (py_strip s)
   | _ \<Rightarrow> Inl (AttributeError (repr_str (py_type v) @ '' object has no attribute '' @ repr_str ''strip'')))"

definition llm_complete :: "py_env \<Rightarrow> http \<Rightarrow> llm_client \<Rightarrow> string \<Rightarrow> string \<Rightarrow> int \<Rightarrow> string py" where
  "llm_complete E urlopen c prompt system max_tokens =
     (if lc_api_key c = [] then Inr (llm_stub prompt)
      else case urlopen
          \<lparr>rq_method = ''POST'', rq_url = lc_base_url c,
           rq_headers = [(''Authorization'', ''Bearer '' @ lc_api_key c), (''Content-Type'', ''application/json'')],
           rq_body = Some (json_spaced (float_repr E) (llm_payload c prompt system max_tokens))\<rparr> of
        Http_Ok status body \<Rightarrow>
          bindE (parse_body E body) (\<lambda>data.
          bindE (subscript data ''choices'') (\<lambda>choices.
          bindE (first_item choices) (\<lambda>choice.
          bindE (subscript choice ''message'') (\<lambda>message.
          bindE (subscript message ''content'') strip_text))))
      | Http_Error code reason body \<Rightarrow>
          if code \<in> {403, 429} then Inr (llm_stub prompt)
          else Inl (RuntimeError (''LLM API HTTP '' @ int_text code @ '': '' @ body))
      | Http_Failed cls msg \<Rightarrow> Inl (OtherError cls msg))"

text \<open>\<open>ask\<close>: the module's one client, created from the environment by the first call.\<close>

definition ask :: "py_env \<Rightarrow> http \<Rightarrow> string \<Rightarrow> string \<Rightarrow> string py" where
  "ask E urlopen prompt system = llm_complete E urlopen (create_llm_client E None None None) prompt system 256"

lemma ask_without_key: "getenv_or E ''LLM_API_KEY'' [] = [] \<Longrightarrow> ask E urlopen prompt system = Inr (llm_stub prompt)"
  by (simp add: ask_def llm_complete_def create_llm_client_def)

lemma llm_stub_nonempty: "llm_stub prompt \<noteq> []"
  by (simp add: llm_stub_def Let_def)

end
