(* ===== verification/ReleaseVerifier.thy ===== *)
theory ReleaseVerifier
  imports TeeAuthorization PyOps
begin

text \<open>
  \<^verbatim>\<open>scripts/verify_release.py\<close>: the verification of a release proof directory. The directory is the
  environment's file system, \<open>schema_path\<close> is \<open>SCHEMA_PATH\<close>. A text that \<open>json.loads\<close> refuses raises
  \<open>JSONDecodeError\<close>, a \<open>ValueError\<close> whose message is not modelled; a schema rule that is no dictionary
  raises some exception, here the \<open>AttributeError\<close> of its \<open>get\<close>.
\<close>

section \<open>Files\<close>

definition PROOF_INPUT_FILES :: "string list" where
  "PROOF_INPUT_FILES =
     [''deployment_manifest.json'', ''deployment_manifest.sig'', ''registration_response.json'',
      ''invocation_receipt.json'', ''t3n_evidence.json'', ''replay_restart_proof.json'']"

definition REQUIRED_PROOF_FILES :: "string list" where
  "REQUIRED_PROOF_FILES = PROOF_INPUT_FILES @ [''ci_release_sha.json'']"

definition EXPECTED_CI_GENERATOR :: string where
  [py_consts]: "EXPECTED_CI_GENERATOR = ''.github/workflows/release-proof-attest.yml''"

definition EXPECTED_ATTESTED_WORKFLOW :: string where
  [py_consts]: "EXPECTED_ATTESTED_WORKFLOW = ''.github/workflows/release-proof-input.yml''"

definition EXPECTED_ATTESTATION_PHASE :: string where
  [py_consts]: "EXPECTED_ATTESTATION_PHASE = ''post_verify_completed_run''"

definition path_join :: "string \<Rightarrow> string \<Rightarrow> string" where
  "path_join dir name = dir @ ''/'' @ name"

definition digest_hex :: "py_env \<Rightarrow> bytes \<Rightarrow> string" where
  "digest_hex E data = sha256_hex E data"

definition read_json :: "py_env \<Rightarrow> string \<Rightarrow> pyval py" where
  "read_json E path =
     bindE (read_text (filesystem E) path) (\<lambda>txt.
     case json_loads E txt of
       Some v \<Rightarrow> Inr v
     | None \<Rightarrow> Inl (ValueError ''JSONDecodeError''))"

definition require_files :: "py_env \<Rightarrow> string \<Rightarrow> string list \<Rightarrow> unit py" where
  "require_files E proof_path files =
     (let missing = filter (\<lambda>name. \<not> path_exists (filesystem E) (path_join proof_path name)) files
      in raise_if (missing \<noteq> []) (''missing release proof files: '' @ join '', '' missing))"

definition proof_input_file_digests :: "py_env \<Rightarrow> string \<Rightarrow> pyval list py" where
  "proof_input_file_digests E proof_path =
     bindE (require_files E proof_path PROOF_INPUT_FILES) (\<lambda>_.
     mapE (\<lambda>name. bindE (read_bytes (filesystem E) (path_join proof_path name)) (\<lambda>b.
         Inr (PDict [(''path'', PStr name), (''sha256'', PStr (digest_hex E b))])))
       PROOF_INPUT_FILES)"

definition proof_input_payload :: "pyval list \<Rightarrow> pyval" where
  "proof_input_payload digests =
     PDict [(''schema_version'', PStr ''adn-release-proof-input-v1''), (''files'', PList digests)]"

definition compute_proof_input_digest :: "py_env \<Rightarrow> string \<Rightarrow> string py" where
  "compute_proof_input_digest E proof_path =
     bindE (proof_input_file_digests E proof_path) (\<lambda>digests.
     Inr (digest_hex E (utf8 (canonical_json (float_repr E) (proof_input_payload digests)))))"

definition manifest_body :: "pydict \<Rightarrow> pydict" where
  "manifest_body manifest = ddel ''manifest_digest'' manifest"

section \<open>The schema\<close>

text \<open>\<open>v in (None, "")\<close>\<close>

definition absent_value :: "pyval \<Rightarrow> bool" where
  "absent_value v \<longleftrightarrow> v = PNone \<or> v = PStr []"

text \<open>\<open>d.get\<close> with a key from a file, \<open>", ".join\<close>, \<open>int(v)\<close>.\<close>

definition dget_val :: "pydict \<Rightarrow> pyval \<Rightarrow> pyval py" where
  "dget_val d k = (case k of
     PStr s \<Rightarrow> Inr (dget d s PNone)
   | _ \<Rightarrow> if hashable k then Inr PNone else Inl (unhashable_error k))"

definition str_item :: "pyval \<Rightarrow> string py" where
  "str_item v = (case v of
     PStr s \<Rightarrow> Inr s
   | _ \<Rightarrow> Inl (TypeError (''sequence item: expected str instance, '' @ py_type v @ '' found'')))"

definition py_int :: "py_env \<Rightarrow> pyval \<Rightarrow> int py" where
  "py_int E v = (case v of
     PBool b \<Rightarrow> Inr (if b then 1 else 0)
   | PInt i \<Rightarrow> Inr i
   | PFloat q \<Rightarrow> Inr (if q < 0 then - floor (- q) else floor q)
   | PStr s \<Rightarrow> (case int_parse E s of
       Some i \<Rightarrow> Inr i
     | None \<Rightarrow> Inl (ValueError (''invalid literal for int() with base 10: '' @ repr_str s)))
   | _ \<Rightarrow> Inl (TypeError (''int() argument must be a string, a bytes-like object or a real number, not ''
        @ repr_str (py_type v))))"

definition schema_error :: "string \<Rightarrow> string \<Rightarrow> string" where
  "schema_error field problem = ''deployment manifest schema '' @ field @ problem"

definition check_string_rule :: "py_env \<Rightarrow> pydict \<Rightarrow> string \<Rightarrow> pyval \<Rightarrow> unit py" where
  "check_string_rule E rule field value = (case value of
     PStr s \<Rightarrow>
       bindE (raise_if (s = []) (schema_error field '' must be a non-empty string'')) (\<lambda>_.
       bindE (py_int E (dget rule ''minLength'' (PInt 0))) (\<lambda>min_length.
       bindE (raise_if (int (length s) < min_length)
         (schema_error field ('' is shorter than '' @ py_str (float_repr E) (dget rule ''minLength'' PNone)))) (\<lambda>_.
       let pattern = dget rule ''pattern'' PNone
       in if \<not> truthy pattern then Inr ()
          else (case pattern of
              PStr p \<Rightarrow> raise_if (\<not> re_fullmatch E p s) (schema_error field ('' does not match '' @ p))
            | _ \<Rightarrow> Inl (TypeError ''first argument must be string or compiled pattern'')))))
   | _ \<Rightarrow> Inl (RuntimeError (schema_error field '' must be a non-empty string'')))"

definition check_integer_rule :: "py_env \<Rightarrow> pydict \<Rightarrow> string \<Rightarrow> pyval \<Rightarrow> unit py" where
  "check_integer_rule E rule field value = (case value of
     PInt i \<Rightarrow>
       let minimum = dget rule ''minimum'' PNone
       in if minimum = PNone then Inr ()
          else (case num_of minimum of
              Some m \<Rightarrow> raise_if (of_int i < m)
                (schema_error field ('' must be >= '' @ py_str (float_repr E) minimum))
            | None \<Rightarrow> Inl (TypeError (repr_str ''<'' @ '' not supported between instances of '' @ repr_str ''int''
                 @ '' and '' @ repr_str (py_type minimum))))
   | _ \<Rightarrow> Inl (RuntimeError (schema_error field '' must be an integer'')))"

definition check_field_rule :: "py_env \<Rightarrow> pydict \<Rightarrow> string \<Rightarrow> pyval \<Rightarrow> unit py" where
  "check_field_rule E rule field value =
     bindE (case map_of rule ''const'' of
        None \<Rightarrow> Inr ()
      | Some c \<Rightarrow> raise_if (\<not> py_eq value c) (schema_error field ('' must equal '' @ py_str (float_repr E) c))) (\<lambda>_.
     bindE (case map_of rule ''enum'' of
        None \<Rightarrow> Inr ()
      | Some e \<Rightarrow> bindE (py_in value e) (\<lambda>listed.
          if listed then Inr ()
          else bindE (py_iter e) (\<lambda>members. bindE (mapE str_item members) (\<lambda>texts.
            Inl (RuntimeError (schema_error field ('' must be one of '' @ join '', '' texts))))))) (\<lambda>_.
     bindE (if dget rule ''type'' PNone = PStr ''string'' then check_string_rule E rule field value else Inr ()) (\<lambda>_.
     if dget rule ''type'' PNone = PStr ''integer'' then check_integer_rule E rule field value else Inr ())))"

definition validate_manifest_schema :: "py_env \<Rightarrow> string \<Rightarrow> pydict \<Rightarrow> unit py" where
  "validate_manifest_schema E schema_path manifest =
     bindE (bindE (read_json E schema_path) as_dict) (\<lambda>schema.
     bindE (as_dict (dget schema ''properties'' (PDict []))) (\<lambda>properties.
     bindE (py_iter (dget schema ''required'' (PList []))) (\<lambda>required.
     bindE (mapE (\<lambda>field. bindE (dget_val manifest field) (\<lambda>v.
         raise_if (absent_value v)
           (''deployment manifest schema missing required field: '' @ py_str (float_repr E) field))) required) (\<lambda>_.
     bindE (mapE (\<lambda>(field, _). raise_if (map_of properties field = None)
         (''deployment manifest schema additional property not allowed: '' @ field)) manifest) (\<lambda>_.
     bindE (mapE (\<lambda>(field, value). bindE (as_dict (dget properties field (PDict []))) (\<lambda>rule.
         check_field_rule E rule field value)) manifest) (\<lambda>_.
     Inr ()))))))"

section \<open>Checks\<close>

definition require_fields :: "string \<Rightarrow> pydict \<Rightarrow> string list \<Rightarrow> unit py" where
  "require_fields label payload names =
     (let missing = filter (\<lambda>field. absent_value (dget payload field PNone)) names
      in raise_if (missing \<noteq> []) (label @ '' missing required fields: '' @ join '', '' missing))"

definition require_digest :: "py_env \<Rightarrow> string \<Rightarrow> string \<Rightarrow> pyval \<Rightarrow> unit py" where
  "require_digest E label expected payload =
     (let actual = digest_hex E (utf8 (canonical_json (float_repr E) payload))
      in raise_if (actual \<noteq> expected)
           (label @ '' digest mismatch: expected '' @ expected @ '', got '' @ actual))"

text \<open>\<open>str(d.get(k, ""))\<close>\<close>

definition text_field :: "py_env \<Rightarrow> pydict \<Rightarrow> string \<Rightarrow> string" where
  "text_field E d k = py_str (float_repr E) (dget d k (PStr []))"

definition verify_manifest_signature :: "py_env \<Rightarrow> pydict \<Rightarrow> pydict \<Rightarrow> unit py" where
  "verify_manifest_signature E manifest signature_doc =
     bindE (raise_if (dget signature_doc ''algorithm'' PNone \<noteq> PStr ''ed25519'')
       ''deployment_manifest.sig algorithm must be ed25519'') (\<lambda>_.
     let pinned_public_key = py_lower (py_strip (getenv_or E ''ADN_RELEASE_OPERATOR_PUBLIC_KEY_HEX'' []))
     in bindE (raise_if (pinned_public_key = []) ''ADN_RELEASE_OPERATOR_PUBLIC_KEY_HEX is required'') (\<lambda>_.
        bindE (raise_if (py_lower (py_strip (text_field E manifest ''operator_public_key'')) \<noteq> pinned_public_key)
          ''manifest operator_public_key does not match pinned release key'') (\<lambda>_.
        bindE (raise_if (py_lower (py_strip (text_field E signature_doc ''public_key_hex'')) \<noteq> pinned_public_key)
          ''deployment_manifest.sig public_key_hex does not match pinned release key'') (\<lambda>_.
        bindE (bytes_fromhex pinned_public_key) (\<lambda>public_key.
        if length public_key \<noteq> 32 then Inl (ValueError ''An Ed25519 public key is 32 bytes long'')
        else bindE (bytes_fromhex (text_field E signature_doc ''signature_hex'')) (\<lambda>signature.
        if ed25519_verify E public_key signature
             (utf8 (canonical_json (float_repr E) (PDict (manifest_body manifest))))
        then Inr () else Inl (InvalidSignature [])))))))"

section \<open>The retained inputs\<close>

definition manifest_fields :: "string list" where
  "manifest_fields =
     [''schema_version'', ''build_commit'', ''build_config_id'', ''local_wasm_sha256'', ''remote_contract_id'',
      ''raw_registration_response_digest'', ''first_invocation_digest'', ''t3n_evidence_digest'',
      ''operator_public_key'', ''manifest_digest'']"

definition replay_checks :: "pydict \<Rightarrow> pydict \<Rightarrow> (bool \<times> string) list" where
  "replay_checks manifest replay =
     [(\<not> py_eq (dget replay ''build_config_id'' PNone) (dget manifest ''build_config_id'' PNone),
         ''replay proof build_config_id does not match manifest''),
      (dget replay ''request_replay_rejected'' PNone \<noteq> PBool True,
         ''replay proof does not show request replay rejection''),
      (dget replay ''result_replay_rejected'' PNone \<noteq> PBool True,
         ''replay proof does not show result replay rejection''),
      (dget replay ''ledger_persisted_across_restart'' PNone \<noteq> PBool True,
         ''replay proof does not show restart persistence'')]"

definition verify_release_inputs :: "py_env \<Rightarrow> string \<Rightarrow> string \<Rightarrow> pydict py" where
  "verify_release_inputs E schema_path proof_path =
     (let doc = (\<lambda>name. read_json E (path_join proof_path name))
      in bindE (require_files E proof_path PROOF_INPUT_FILES) (\<lambda>_.
      bindE (doc ''deployment_manifest.json'') (\<lambda>manifest_val.
      bindE (doc ''deployment_manifest.sig'') (\<lambda>signature_val.
      bindE (doc ''registration_response.json'') (\<lambda>registration_response.
      bindE (doc ''invocation_receipt.json'') (\<lambda>invocation_val.
      bindE (doc ''t3n_evidence.json'') (\<lambda>t3n_evidence.
      bindE (doc ''replay_restart_proof.json'') (\<lambda>replay_val.
      bindE (as_dict manifest_val) (\<lambda>manifest.
      bindE (validate_manifest_schema E schema_path manifest) (\<lambda>_.
      bindE (require_fields ''deployment manifest'' manifest manifest_fields) (\<lambda>_.
      bindE (raise_if (dget manifest ''schema_version'' PNone \<noteq> PStr ''adn-release-proof-v1'')
        ''deployment manifest schema_version must be adn-release-proof-v1'') (\<lambda>_.
      bindE (require_digest E ''manifest'' (text_field E manifest ''manifest_digest'')
        (PDict (manifest_body manifest))) (\<lambda>_.
      bindE (require_digest E ''registration response'' (text_field E manifest ''raw_registration_response_digest'')
        registration_response) (\<lambda>_.
      bindE (require_digest E ''first invocation'' (text_field E manifest ''first_invocation_digest'')
        invocation_val) (\<lambda>_.
      bindE (require_digest E ''T3N evidence'' (text_field E manifest ''t3n_evidence_digest'') t3n_evidence) (\<lambda>_.
      bindE (as_dict signature_val) (\<lambda>signature_doc.
      bindE (verify_manifest_signature E manifest signature_doc) (\<lambda>_.
      bindE (as_dict invocation_val) (\<lambda>invocation_receipt.
      bindE (raise_if (\<not> py_eq (dget invocation_receipt ''build_config_id'' PNone) (dget manifest ''build_config_id'' PNone))
        ''invocation receipt build_config_id does not match manifest'') (\<lambda>_.
      bindE (as_dict replay_val) (\<lambda>replay.
      bindE (raise_first (replay_checks manifest replay)) (\<lambda>_.
      bindE (compute_proof_input_digest E proof_path) (\<lambda>digest.
      Inr [(''status'', PStr ''INPUT_OK''),
           (''build_commit'', dget manifest ''build_commit'' PNone),
           (''build_config_id'', dget manifest ''build_config_id'' PNone),
           (''proof_input_digest'', PStr digest),
           (''proof_input_files'', PList (map PStr PROOF_INPUT_FILES))])))))))))))))))))))))))"

section \<open>The CI evidence\<close>

definition ci_fields :: "string list" where
  "ci_fields =
     [''evidence_source'', ''generated_by'', ''attested_workflow'', ''attestation_phase'', ''repository'', ''sha'',
      ''workflow_run_id'', ''workflow_run_url'', ''workflow_conclusion'', ''tests_workflow_run_id'',
      ''tests_workflow_run_url'', ''tests_workflow_conclusion'', ''tests_workflow_head_sha'', ''tests_workflow_event'',
      ''tests_workflow_head_branch'', ''artifact_id'', ''artifact_name'', ''artifact_url'', ''artifact_digest'',
      ''proof_input_digest'', ''proof_input_files'', ''retrieved_at'']"

text \<open>\<open>s.isdigit()\<close> (of the characters below 256 also the superscripts are digits), \<open>[0-9a-f]{64}\<close>.\<close>

definition py_isdigit :: "string \<Rightarrow> bool" where
  "py_isdigit s \<longleftrightarrow> s \<noteq> [] \<and> (\<forall>c \<in> set s. is_digit c \<or> ord c \<in> {178, 179, 185})"

definition hex_digest_text :: "string \<Rightarrow> bool" where
  "hex_digest_text s \<longleftrightarrow> length s = 64 \<and> (\<forall>c \<in> set s. is_digit c \<or> (97 \<le> ord c \<and> ord c \<le> 102))"

definition expected_repository :: "py_env \<Rightarrow> string" where
  "expected_repository E = py_strip (getenv_or E ''ADN_RELEASE_REPOSITORY'' ''KAGEROU1107/agent-delegation-network'')"

definition run_url_prefix :: "py_env \<Rightarrow> string" where
  "run_url_prefix E = ''https://github.com/'' @ expected_repository E @ ''/actions/runs/''"

definition expected_artifact_url :: "py_env \<Rightarrow> pydict \<Rightarrow> string" where
  "expected_artifact_url E ci =
     ''https://github.com/'' @ expected_repository E @ ''/actions/runs/'' @
     py_str (float_repr E) (dget ci ''workflow_run_id'' PNone) @ ''/artifacts/'' @
     py_str (float_repr E) (dget ci ''artifact_id'' PNone)"

definition attestation_checks :: "py_env \<Rightarrow> pydict \<Rightarrow> pydict \<Rightarrow> (bool \<times> string) list" where
  "attestation_checks E ci input_result =
     [(dget ci ''evidence_source'' PNone \<noteq> PStr ''github_actions'',
         ''CI release evidence must be generated by GitHub Actions''),
      (dget ci ''generated_by'' PNone \<noteq> PStr EXPECTED_CI_GENERATOR,
         ''CI release evidence generated_by must be '' @ EXPECTED_CI_GENERATOR),
      (dget ci ''attested_workflow'' PNone \<noteq> PStr EXPECTED_ATTESTED_WORKFLOW,
         ''CI release evidence attested_workflow must be '' @ EXPECTED_ATTESTED_WORKFLOW),
      (dget ci ''attestation_phase'' PNone \<noteq> PStr EXPECTED_ATTESTATION_PHASE,
         ''CI release evidence attestation_phase must be '' @ EXPECTED_ATTESTATION_PHASE),
      (dget ci ''repository'' PNone \<noteq> PStr (expected_repository E),
         ''CI release evidence repository does not match expected repository''),
      (\<not> startswith (text_field E ci ''workflow_run_url'') (run_url_prefix E),
         ''CI release evidence workflow_run_url does not match expected repository''),
      (\<not> py_isdigit (text_field E ci ''artifact_id''),
         ''CI release evidence artifact_id must be the uploaded GitHub artifact ID''),
      (dget ci ''artifact_url'' PNone \<noteq> PStr (expected_artifact_url E ci),
         ''CI release evidence artifact_url does not match expected GitHub artifact URL''),
      (\<not> hex_digest_text (text_field E ci ''artifact_digest''),
         ''CI release evidence artifact_digest must be the uploaded artifact SHA-256 digest''),
      (dget ci ''proof_input_files'' PNone \<noteq> PList (map PStr PROOF_INPUT_FILES),
         ''CI release evidence proof_input_files do not match verifier input set''),
      (dget ci ''proof_input_digest'' PNone \<noteq> dget input_result ''proof_input_digest'' PNone,
         ''CI release evidence proof input digest does not match retained proof inputs'')]"

definition workflow_checks :: "py_env \<Rightarrow> pydict \<Rightarrow> pydict \<Rightarrow> (bool \<times> string) list" where
  "workflow_checks E ci manifest =
     [(dget ci ''workflow_conclusion'' PNone \<noteq> PStr ''success'', ''CI status is not successful for release SHA''),
      (\<not> py_eq (dget ci ''sha'' PNone) (dget manifest ''build_commit'' PNone),
         ''release SHA does not match manifest build_commit''),
      (\<not> startswith (text_field E ci ''tests_workflow_run_url'') (run_url_prefix E),
         ''Tests workflow URL does not match expected repository''),
      (\<not> py_isdigit (text_field E ci ''tests_workflow_run_id''),
         ''Tests workflow run ID must be the uploaded GitHub workflow run ID''),
      (dget ci ''tests_workflow_conclusion'' PNone \<noteq> PStr ''success'',
         ''Tests workflow conclusion is not successful for release SHA''),
      (\<not> py_eq (dget ci ''tests_workflow_head_sha'' PNone) (dget manifest ''build_commit'' PNone),
         ''Tests workflow SHA does not match manifest build_commit''),
      (\<not> py_eq (dget ci ''tests_workflow_head_sha'' PNone) (dget ci ''sha'' PNone),
         ''Tests workflow SHA does not match release SHA''),
      (dget ci ''tests_workflow_event'' PNone \<noteq> PStr ''push'', ''Tests workflow event must be push''),
      (dget ci ''tests_workflow_head_branch'' PNone \<noteq> PStr ''main'', ''Tests workflow head_branch must be main'')]"

definition verify_release_dir :: "py_env \<Rightarrow> string \<Rightarrow> string \<Rightarrow> pydict py" where
  "verify_release_dir E schema_path proof_path =
     bindE (require_files E proof_path REQUIRED_PROOF_FILES) (\<lambda>_.
     bindE (verify_release_inputs E schema_path proof_path) (\<lambda>input_result.
     bindE (read_json E (path_join proof_path ''deployment_manifest.json'')) (\<lambda>manifest_val.
     bindE (read_json E (path_join proof_path ''ci_release_sha.json'')) (\<lambda>ci_val.
     bindE (as_dict ci_val) (\<lambda>ci.
     bindE (require_fields ''CI release evidence'' ci ci_fields) (\<lambda>_.
     bindE (as_dict manifest_val) (\<lambda>manifest.
     bindE (raise_first (attestation_checks E ci input_result @ workflow_checks E ci manifest)) (\<lambda>_.
     Inr [(''status'', PStr ''OK''),
          (''build_commit'', dget input_result ''build_commit'' PNone),
          (''build_config_id'', dget input_result ''build_config_id'' PNone),
          (''proof_input_digest'', dget input_result ''proof_input_digest'' PNone)]))))))))"

end
