(* ===== verification/Archives.thy ===== *)
theory Archives
  imports HttpClients ReleaseVerifier "HOL-Library.List_Lexorder" "HOL-Library.Char_ord"
begin

text \<open>
  What the release asset and remote verifiers share: directory listings, archives, temporary
  directories, POSIX paths and the requests of the two GitHub clients. The host's answers (listing a
  directory, opening an archive, decoding bytes, fetching a URL) are parameters.
\<close>

section \<open>The host\<close>

text \<open>An entry of a directory; \<open>is_file\<close> follows symbolic links. A member of a tar archive; \<open>extractfile\<close> may give nothing.\<close>

record dir_entry =
  de_name :: string
  de_is_symlink :: bool
  de_is_file :: bool

record tar_member =
  tm_name :: string
  tm_isfile :: bool
  tm_data :: "bytes option"

datatype fetched =
    Fetched bytes
  | Fetch_Http int string        \<comment> \<open>\<open>HTTPError\<close>: code and decoded body\<close>
  | Fetch_Url string             \<comment> \<open>\<open>URLError\<close>: its reason\<close>
  | Fetch_Failed string string   \<comment> \<open>any other exception\<close>

record host =
  h_listing :: "string \<Rightarrow> dir_entry list py"           \<comment> \<open>\<open>Path.iterdir\<close>\<close>
  h_tar :: "bytes \<Rightarrow> tar_member list option"           \<comment> \<open>\<open>tarfile.open\<close>, \<open>getmembers\<close>; \<open>None\<close> is \<open>TarError\<close>\<close>
  h_zip :: "bytes \<Rightarrow> (string \<times> bytes) list option"    \<comment> \<open>the entries; \<open>None\<close> is \<open>BadZipFile\<close>\<close>
  h_decode :: "bytes \<Rightarrow> string py"                     \<comment> \<open>\<open>bytes.decode("utf-8")\<close>\<close>
  h_fetch :: "http_request \<Rightarrow> fetched"                 \<comment> \<open>\<open>urlopen\<close> and reading its answer\<close>

section \<open>Directories with known files\<close>

text \<open>
  The file system with a new directory \<open>dir\<close> that holds exactly the given files, as a temporary
  directory does after they were written.
\<close>

definition inside :: "string \<Rightarrow> string \<Rightarrow> bool" where
  "inside dir path \<longleftrightarrow> startswith path (dir @ ''/'')"

definition file_at :: "string \<Rightarrow> (string \<times> bytes) list \<Rightarrow> string \<Rightarrow> bytes option" where
  "file_at dir files path = map_of (map (\<lambda>(name, b). (path_join dir name, b)) files) path"

definition no_file :: "string \<Rightarrow> py_error" where
  "no_file path = OSError (''No such file or directory: '' @ repr_str path)"

definition with_files :: "host \<Rightarrow> string \<Rightarrow> (string \<times> bytes) list \<Rightarrow> py_env \<Rightarrow> py_env" where
  "with_files H dir files E =
     (let F = filesystem E;
          bytes_at = (\<lambda>path. case file_at dir files path of Some b \<Rightarrow> Inr b | None \<Rightarrow> Inl (no_file path))
      in E\<lparr>filesystem := F\<lparr>
           read_text := \<lambda>path. if inside dir path then bindE (bytes_at path) (h_decode H) else read_text F path,
           read_bytes := \<lambda>path. if inside dir path then bytes_at path else read_bytes F path,
           path_exists := \<lambda>path. if inside dir path then file_at dir files path \<noteq> None else path_exists F path\<rparr>\<rparr>)"

text \<open>The host after that: the directory lists its files.\<close>

definition plain_entry :: "string \<Rightarrow> dir_entry" where
  "plain_entry name = \<lparr>de_name = name, de_is_symlink = False, de_is_file = True\<rparr>"

definition with_listing :: "string \<Rightarrow> (string \<times> bytes) list \<Rightarrow> host \<Rightarrow> host" where
  "with_listing dir files H = H\<lparr>h_listing :=
     (\<lambda>path. if path = dir then Inr (map (\<lambda>(name, b). plain_entry name) files) else h_listing H path)\<rparr>"

section \<open>POSIX paths\<close>

fun split_char :: "char \<Rightarrow> string \<Rightarrow> string list" where
  "split_char c [] = [[]]"
| "split_char c (x # xs) =
     (if x = c then [] # split_char c xs
      else (case split_char c xs of w # ws \<Rightarrow> (x # w) # ws | [] \<Rightarrow> [[x]]))"

fun norm_parts :: "bool \<Rightarrow> string list \<Rightarrow> string list \<Rightarrow> string list" where
  "norm_parts rooted stack [] = rev stack"
| "norm_parts rooted stack (p # ps) =
     (if p = [] \<or> p = ''.'' then norm_parts rooted stack ps
      else if p \<noteq> ''..'' \<or> (\<not> rooted \<and> stack = []) \<or> (stack \<noteq> [] \<and> hd stack = ''..'')
      then norm_parts rooted (p # stack) ps
      else norm_parts rooted (tl stack) ps)"

definition normpath :: "string \<Rightarrow> string" where
  "normpath path =
     (if path = [] then ''.''
      else let slashes = (if startswith path ''//'' \<and> \<not> startswith path ''///'' then 2
                          else if startswith path ''/'' then 1 else (0::nat));
               result = replicate slashes CHR ''/'' @ join ''/'' (norm_parts (slashes > 0) [] (split_char CHR ''/'' path))
           in if result = [] then ''.'' else result)"

text \<open>\<open>name.replace("\\", "/")\<close>\<close>

definition forward_slashes :: "string \<Rightarrow> string" where
  "forward_slashes name = map (\<lambda>c. if c = CHR 0x5C then CHR ''/'' else c) name"

section \<open>Requests to GitHub\<close>

definition DEFAULT_REPOSITORY :: string where
  [py_consts]: "DEFAULT_REPOSITORY = ''KAGEROU1107/agent-delegation-network''"

definition DEFAULT_API_URL :: string where
  [py_consts]: "DEFAULT_API_URL = ''https://api.github.com''"

definition DEFAULT_API_VERSION :: string where
  [py_consts]: "DEFAULT_API_VERSION = ''2022-11-28''"

record github_client =
  gh_token :: string
  gh_api_url :: string
  gh_api_version :: string

definition create_github_client :: "string option \<Rightarrow> string \<Rightarrow> string \<Rightarrow> github_client" where
  "create_github_client token api_url api_version =
     \<lparr>gh_token = opt_str token, gh_api_url = rstrip_slash api_url, gh_api_version = api_version\<rparr>"

text \<open>The client made from the environment.\<close>

definition default_github_client :: "py_env \<Rightarrow> github_client" where
  "default_github_client E = create_github_client
     (Some (str_or (getenv_or E ''GITHUB_TOKEN'' []) (getenv_or E ''GH_TOKEN'' [])))
     (getenv_or E ''GITHUB_API_URL'' DEFAULT_API_URL) (getenv_or E ''GITHUB_API_VERSION'' DEFAULT_API_VERSION)"

definition github_headers :: "string \<Rightarrow> github_client \<Rightarrow> string \<Rightarrow> (string \<times> string) list" where
  "github_headers agent c accept =
     [(''Accept'', accept), (''User-Agent'', agent), (''X-GitHub-Api-Version'', gh_api_version c)] @
     (if gh_token c = [] then [] else [(''Authorization'', ''Bearer '' @ gh_token c)])"

definition github_request ::
  "host \<Rightarrow> string \<Rightarrow> string \<Rightarrow> github_client \<Rightarrow> string \<Rightarrow> string \<Rightarrow> bytes py" where
  "github_request H what agent c url accept =
     (case h_fetch H \<lparr>rq_method = ''GET'', rq_url = url, rq_headers = github_headers agent c accept, rq_body = None\<rparr> of
        Fetched b \<Rightarrow> Inr b
      | Fetch_Http code body \<Rightarrow>
          Inl (RuntimeError (what @ '' request failed with HTTP '' @ int_text code @ '': '' @ body))
      | Fetch_Url reason \<Rightarrow> Inl (RuntimeError (what @ '' request failed: '' @ reason))
      | Fetch_Failed cls msg \<Rightarrow> Inl (OtherError cls msg))"

definition github_json ::
  "py_env \<Rightarrow> host \<Rightarrow> string \<Rightarrow> string \<Rightarrow> github_client \<Rightarrow> string \<Rightarrow> pyval py" where
  "github_json E H what agent c path =
     bindE (github_request H what agent c (gh_api_url c @ path) ''application/vnd.github+json'') (\<lambda>payload.
     bindE (h_decode H payload) (parse_body E))"

definition parse_repository :: "string \<Rightarrow> (string \<times> string) py" where
  "parse_repository repository =
     (let owner = takeWhile (\<lambda>c. c \<noteq> CHR ''/'') repository; rest = dropWhile (\<lambda>c. c \<noteq> CHR ''/'') repository
      in if owner = [] \<or> rest = [] \<or> tl rest = []
         then Inl (RuntimeError ''repository must use owner/repo format'')
         else Inr (owner, tl rest))"

text \<open>\<open>urllib.parse.quote(s, safe="")\<close>\<close>

definition unreserved :: "char \<Rightarrow> bool" where
  "unreserved c \<longleftrightarrow> is_digit c \<or> (65 \<le> ord c \<and> ord c \<le> 90) \<or> (97 \<le> ord c \<and> ord c \<le> 122) \<or> c \<in> set ''_.-~''"

definition upper_hexdigit :: "nat \<Rightarrow> char" where
  "upper_hexdigit n = chr (if n < 10 then 48 + n else 55 + n)"

definition quote_url :: "string \<Rightarrow> string" where
  "quote_url s = concat (map (\<lambda>b. if unreserved b then [b]
     else [CHR ''%'', upper_hexdigit (ord b div 16), upper_hexdigit (ord b mod 16)]) (utf8 s))"

section \<open>Lemmas\<close>

lemma path_join_inside [simp]: "inside dir (path_join dir name)"
  by (simp add: inside_def path_join_def startswith_def)

lemma path_join_inject [simp]: "path_join dir a = path_join dir b \<longleftrightarrow> a = b"
  by (simp add: path_join_def)

lemma file_at_join [simp]: "file_at dir files (path_join dir name) = map_of files name"
  unfolding file_at_def by (induction files) auto

lemma with_files_simps [simp]:
  "read_bytes (filesystem (with_files H dir files E)) (path_join dir name) =
     (case map_of files name of Some b \<Rightarrow> Inr b | None \<Rightarrow> Inl (no_file (path_join dir name)))"
  "path_exists (filesystem (with_files H dir files E)) (path_join dir name) \<longleftrightarrow> map_of files name \<noteq> None"
  "sha256_hex (with_files H dir files E) = sha256_hex E" "float_repr (with_files H dir files E) = float_repr E"
  "ed25519_verify (with_files H dir files E) = ed25519_verify E" "getenv (with_files H dir files E) = getenv E"
  "json_loads (with_files H dir files E) = json_loads E"
  by (simp_all add: with_files_def Let_def split: option.split)

lemma parse_repository_Inr:
  "parse_repository r = Inr (owner, repo) \<longleftrightarrow>
     r = owner @ ''/'' @ repo \<and> owner \<noteq> [] \<and> repo \<noteq> [] \<and> CHR ''/'' \<notin> set owner"
proof
  assume l: "parse_repository r = Inr (owner, repo)"
  let ?rest = "dropWhile (\<lambda>c. c \<noteq> CHR ''/'') r"
  have o: "owner = takeWhile (\<lambda>c. c \<noteq> CHR ''/'') r" "?rest \<noteq> []" "tl ?rest = repo" "owner \<noteq> []" "repo \<noteq> []"
    using l by (auto simp: parse_repository_def Let_def split: if_split_asm)
  have "hd ?rest = CHR ''/''" using hd_dropWhile [OF o(2)] by simp
  then have "?rest = CHR ''/'' # repo" using o(2,3) by (cases ?rest) auto
  then show "r = owner @ ''/'' @ repo \<and> owner \<noteq> [] \<and> repo \<noteq> [] \<and> CHR ''/'' \<notin> set owner"
    using o takeWhile_dropWhile_id [of "\<lambda>c. c \<noteq> CHR ''/''" r] by (auto dest: set_takeWhileD)
next
  assume r: "r = owner @ ''/'' @ repo \<and> owner \<noteq> [] \<and> repo \<noteq> [] \<and> CHR ''/'' \<notin> set owner"
  then have "takeWhile (\<lambda>c. c \<noteq> CHR ''/'') r = owner" "dropWhile (\<lambda>c. c \<noteq> CHR ''/'') r = CHR ''/'' # repo"
    by (auto simp: takeWhile_append dropWhile_append)
  then show "parse_repository r = Inr (owner, repo)" using r by (simp add: parse_repository_def)
qed

end
