(* ===== verification/ReleaseAsset.thy ===== *)
theory ReleaseAsset
  imports Archives
begin

text \<open>
  \<^verbatim>\<open>scripts/verify_release_asset.py\<close>: the verification of a directory of durable release assets. The
  proof archive is unpacked into a new directory \<open>temp\<close>, on which the release verifier runs; the text of
  a failed JSON reading is not modelled.
\<close>

section \<open>The inventory\<close>

definition RELEASE_ASSET_PAYLOAD_FILES :: "string list" where
  "RELEASE_ASSET_PAYLOAD_FILES =
     [''proof-input.tar'', ''ci_release_sha.json'', ''remote_verification_result.json'', ''workflow_metadata.json'']"

definition RELEASE_ASSET_MANIFEST :: string where
  [py_consts]: "RELEASE_ASSET_MANIFEST = ''release_asset_manifest.json''"

definition RELEASE_ASSET_SIGNATURE :: string where
  [py_consts]: "RELEASE_ASSET_SIGNATURE = ''release_asset_manifest.sig''"

definition REQUIRED_RELEASE_ASSET_FILES :: "string list" where
  "REQUIRED_RELEASE_ASSET_FILES =
     RELEASE_ASSET_PAYLOAD_FILES @ [RELEASE_ASSET_MANIFEST, RELEASE_ASSET_SIGNATURE]"

definition EXPECTED_RELEASE_ASSET_SCHEMA :: string where
  [py_consts]: "EXPECTED_RELEASE_ASSET_SCHEMA = ''adn-release-asset-manifest-v1''"

definition asset_body :: "pydict \<Rightarrow> pydict" where
  "asset_body manifest = ddel ''manifest_digest'' manifest"

fun check_entries :: "dir_entry list \<Rightarrow> unit py" where
  "check_entries [] = Inr ()"
| "check_entries (e # es) =
     (if startswith (de_name e) ''.'' then check_entries es
      else if de_is_symlink e \<or> \<not> de_is_file e \<or> de_name e \<notin> set REQUIRED_RELEASE_ASSET_FILES
      then Inl (RuntimeError (''unexpected release asset file: '' @ de_name e))
      else check_entries es)"

text \<open>\<open>(asset_path / name).is_file()\<close>: the path exists and the directory does not list it as something else.\<close>

definition asset_is_file :: "py_env \<Rightarrow> host \<Rightarrow> string \<Rightarrow> string \<Rightarrow> bool" where
  "asset_is_file E H asset_path name \<longleftrightarrow> path_exists (filesystem E) (path_join asset_path name) \<and>
     (case h_listing H asset_path of
        Inl e \<Rightarrow> True
      | Inr es \<Rightarrow> list_all (\<lambda>e. de_name e = name \<longrightarrow> de_is_file e) es)"

definition require_release_asset_files :: "py_env \<Rightarrow> host \<Rightarrow> string \<Rightarrow> unit py" where
  "require_release_asset_files E H asset_path =
     (let missing = filter (\<lambda>name. \<not> asset_is_file E H asset_path name) REQUIRED_RELEASE_ASSET_FILES
      in bindE (raise_if (missing \<noteq> []) (''missing release asset files: '' @ join '', '' missing)) (\<lambda>_.
         bindE (h_listing H asset_path) check_entries))"

section \<open>The manifest\<close>

definition asset_fields :: "string list" where
  "asset_fields =
     [''schema_version'', ''repository'', ''sha'', ''release_tag'', ''operator_public_key'', ''proof_input_digest'',
      ''remote_verification_status'', ''files'', ''created_at'', ''manifest_digest'']"

definition verify_asset_signature :: "py_env \<Rightarrow> pydict \<Rightarrow> pydict \<Rightarrow> unit py" where
  "verify_asset_signature E manifest signature_doc =
     bindE (raise_if (dget signature_doc ''algorithm'' PNone \<noteq> PStr ''ed25519'')
       ''release_asset_manifest.sig algorithm must be ed25519'') (\<lambda>_.
     let pinned_public_key = py_lower (py_strip (getenv_or E ''ADN_RELEASE_OPERATOR_PUBLIC_KEY_HEX'' []))
     in bindE (raise_if (pinned_public_key = []) ''ADN_RELEASE_OPERATOR_PUBLIC_KEY_HEX is required'') (\<lambda>_.
        bindE (raise_if (py_lower (py_strip (text_field E manifest ''operator_public_key'')) \<noteq> pinned_public_key)
          ''release asset manifest operator_public_key does not match pinned release key'') (\<lambda>_.
        bindE (raise_if (py_lower (py_strip (text_field E signature_doc ''public_key_hex'')) \<noteq> pinned_public_key)
          ''release_asset_manifest.sig public_key_hex does not match pinned release key'') (\<lambda>_.
        bindE (bytes_fromhex pinned_public_key) (\<lambda>public_key.
        if length public_key \<noteq> 32 then Inl (ValueError ''An Ed25519 public key is 32 bytes long'')
        else bindE (bytes_fromhex (text_field E signature_doc ''signature_hex'')) (\<lambda>signature.
        raise_if (\<not> ed25519_verify E public_key signature
            (utf8 (canonical_json (float_repr E) (PDict (asset_body manifest)))))
          ''release_asset_manifest.sig signature verification failed''))))))"

text \<open>The entries of \<open>files\<close>, with the paths seen so far.\<close>

fun check_files :: "py_env \<Rightarrow> pyval list \<Rightarrow> string list \<Rightarrow> string list py" where
  "check_files E [] seen = Inr seen"
| "check_files E (entry_val # entries) seen = (case entry_val of
     PDict entry \<Rightarrow>
       let path = dget entry ''path'' PNone; path_text = py_str (float_repr E) path;
           digest = py_str (float_repr E) (py_or (dget entry ''sha256'' PNone) (PStr []))
       in if \<not> hashable path then Inl (unhashable_error path)
          else if path \<in> PStr ` set seen
          then Inl (RuntimeError (''release asset manifest contains duplicate file: '' @ path_text))
          else if path \<notin> PStr ` set RELEASE_ASSET_PAYLOAD_FILES
          then Inl (RuntimeError (''release asset manifest contains unexpected file: '' @ path_text))
          else if \<not> hex_digest_text digest
          then Inl (RuntimeError (''release asset manifest digest for '' @ path_text @ '' must be 64-hex SHA-256''))
          else check_files E entries (path_text # seen)
   | _ \<Rightarrow> Inl (RuntimeError ''release asset manifest files entries must be objects''))"

definition validate_release_asset_manifest :: "py_env \<Rightarrow> pydict \<Rightarrow> unit py" where
  "validate_release_asset_manifest E manifest =
     bindE (require_fields ''release asset manifest'' manifest asset_fields) (\<lambda>_.
     bindE (raise_if (dget manifest ''schema_version'' PNone \<noteq> PStr EXPECTED_RELEASE_ASSET_SCHEMA)
       (''release asset manifest schema_version must be '' @ EXPECTED_RELEASE_ASSET_SCHEMA)) (\<lambda>_.
     bindE (raise_if (dget manifest ''remote_verification_status'' PNone \<noteq> PStr ''REMOTE_OK'')
       ''release asset manifest remote_verification_status must be REMOTE_OK'') (\<lambda>_.
     bindE (raise_if (\<not> hex_digest_text (text_field E manifest ''proof_input_digest''))
       ''release asset manifest proof_input_digest must be a 64-hex SHA-256 digest'') (\<lambda>_.
     case dget manifest ''files'' PNone of
       PList files \<Rightarrow>
         bindE (check_files E files []) (\<lambda>seen.
         let missing = sort (filter (\<lambda>name. name \<notin> set seen) RELEASE_ASSET_PAYLOAD_FILES)
         in bindE (raise_if (missing \<noteq> [])
              (''release asset manifest missing file digests: '' @ join '', '' missing)) (\<lambda>_.
            raise_if (dget manifest ''manifest_digest'' PNone \<noteq>
                PStr (digest_hex E (utf8 (canonical_json (float_repr E) (PDict (asset_body manifest))))))
              ''release asset manifest digest mismatch''))
     | _ \<Rightarrow> Inl (RuntimeError ''release asset manifest files must be a list'')))))"

text \<open>After the validation the entries are dictionaries with a known path.\<close>

definition check_asset_hash :: "py_env \<Rightarrow> string \<Rightarrow> pyval \<Rightarrow> unit py" where
  "check_asset_hash E asset_path entry =
     bindE (subscript entry ''path'') (\<lambda>path_val.
     let path = py_str (float_repr E) path_val
     in bindE (read_bytes (filesystem E) (path_join asset_path path)) (\<lambda>b.
        bindE (subscript entry ''sha256'') (\<lambda>digest_val.
        let expected = py_str (float_repr E) digest_val; actual = digest_hex E b
        in raise_if (actual \<noteq> expected)
             (''release asset digest mismatch for '' @ path @ '': expected '' @ expected @ '', got '' @ actual))))"

definition verify_release_asset_hashes :: "py_env \<Rightarrow> string \<Rightarrow> pydict \<Rightarrow> unit py" where
  "verify_release_asset_hashes E asset_path manifest =
     bindE (bindE (item manifest ''files'') py_iter) (\<lambda>entries.
     bindE (mapE (check_asset_hash E asset_path) entries) (\<lambda>_. Inr ()))"

section \<open>The archive of the proof inputs\<close>

definition archive_path_error :: "string \<Rightarrow> tar_member \<Rightarrow> py_error" where
  "archive_path_error problem m = RuntimeError (problem @ '' proof input archive path: '' @ tm_name m)"

text \<open>The file a member stands for: with or without the prefix of the repository, else none.\<close>

definition output_name :: "string \<Rightarrow> string" where
  "output_name name =
     (if name \<in> set PROOF_INPUT_FILES then name
      else if startswith name ''proof/release/'' \<and> removeprefix name ''proof/release/'' \<in> set PROOF_INPUT_FILES
      then removeprefix name ''proof/release/'' else [])"

definition unsafe_member :: "tar_member \<Rightarrow> bool" where
  "unsafe_member m \<longleftrightarrow> (let name = forward_slashes (tm_name m)
     in startswith name ''/'' \<or> normpath name \<noteq> name \<or> \<not> tm_isfile m)"

text \<open>\<open>occupied\<close> says which files the output directory already has; the files written so far.\<close>

fun extract_members ::
  "(string \<Rightarrow> bool) \<Rightarrow> tar_member list \<Rightarrow> (string \<times> bytes) list \<Rightarrow> (string \<times> bytes) list py" where
  "extract_members occupied [] files = Inr files"
| "extract_members occupied (m # ms) files =
     (let name = output_name (forward_slashes (tm_name m))
      in if unsafe_member m \<or> name = [] then Inl (archive_path_error ''unexpected'' m)
         else if name \<in> fst ` set files then Inl (archive_path_error ''duplicate'' m)
         else case tm_data m of
           None \<Rightarrow> Inl (RuntimeError (''cannot read proof input archive path: '' @ tm_name m))
         | Some b \<Rightarrow>
             if occupied name
             then Inl (RuntimeError (''refusing to overwrite materialized release proof input: '' @ name))
             else extract_members occupied ms (files @ [(name, b)]))"

definition extract_proof_input_tar :: "host \<Rightarrow> (string \<Rightarrow> bool) \<Rightarrow> bytes \<Rightarrow> (string \<times> bytes) list py" where
  "extract_proof_input_tar H occupied tar = (case h_tar H tar of
     None \<Rightarrow> Inl (RuntimeError ''proof-input.tar is not a valid tar archive'')
   | Some ms \<Rightarrow> bindE (extract_members occupied ms []) (\<lambda>files.
       let missing = sort (filter (\<lambda>name. name \<notin> fst ` set files) PROOF_INPUT_FILES)
       in bindE (raise_if (missing \<noteq> [])
            (''proof-input.tar missing release proof inputs: '' @ join '', '' missing)) (\<lambda>_. Inr files)))"

section \<open>The metadata\<close>

definition asset_digest_checks :: "pydict \<Rightarrow> pydict \<Rightarrow> pydict \<Rightarrow> pydict \<Rightarrow> pyval \<Rightarrow> (bool \<times> string) list" where
  "asset_digest_checks ci remote workflow manifest digest =
     [(\<not> py_eq (dget ci ''proof_input_digest'' PNone) digest,
         ''CI attestation proof_input_digest does not match release asset proof inputs''),
      (dget remote ''status'' PNone \<noteq> PStr ''REMOTE_OK'', ''remote_verification_result status must be REMOTE_OK''),
      (\<not> py_eq (dget remote ''proof_input_digest'' PNone) digest,
         ''remote_verification_result proof_input_digest does not match release asset proof inputs''),
      (dget workflow ''remote_verification_status'' PNone \<noteq> PStr ''REMOTE_OK'',
         ''workflow_metadata remote_verification_status must be REMOTE_OK''),
      (\<not> py_eq (dget workflow ''proof_input_digest'' PNone) digest,
         ''workflow_metadata proof_input_digest does not match release asset proof inputs''),
      (\<not> py_eq (dget manifest ''proof_input_digest'' PNone) digest,
         ''release asset manifest proof_input_digest does not match release asset proof inputs'')]"

definition check_metadata_hash :: "py_env \<Rightarrow> string \<Rightarrow> pydict \<Rightarrow> string \<times> string \<Rightarrow> unit py" where
  "check_metadata_hash E asset_path workflow = (\<lambda>(field, name).
     bindE (read_bytes (filesystem E) (path_join asset_path name)) (\<lambda>b.
     raise_if (dget workflow field PNone \<noteq> PStr (digest_hex E b)) (''workflow_metadata '' @ field @ '' mismatch'')))"

definition metadata_hashes :: "(string \<times> string) list" where
  "metadata_hashes =
     [(''proof_input_archive_sha256'', ''proof-input.tar''), (''ci_attestation_sha256'', ''ci_release_sha.json''),
      (''remote_verification_result_sha256'', ''remote_verification_result.json'')]"

text \<open>Each document is used as a dictionary where the code first calls its \<open>get\<close>.\<close>

definition verify_release_asset_metadata :: "py_env \<Rightarrow> string \<Rightarrow> pydict \<Rightarrow> pydict \<Rightarrow> unit py" where
  "verify_release_asset_metadata E asset_path manifest release_result =
     (let doc = (\<lambda>name. read_json E (path_join asset_path name));
          digest = dget release_result ''proof_input_digest'' PNone
      in bindE (doc ''ci_release_sha.json'') (\<lambda>ci_val.
      bindE (doc ''remote_verification_result.json'') (\<lambda>remote_val.
      bindE (doc ''workflow_metadata.json'') (\<lambda>workflow_val.
      bindE (as_dict ci_val) (\<lambda>ci.
      bindE (raise_first (take 1 (asset_digest_checks ci [] [] manifest digest))) (\<lambda>_.
      bindE (as_dict remote_val) (\<lambda>remote.
      bindE (raise_first (take 3 (asset_digest_checks ci remote [] manifest digest))) (\<lambda>_.
      bindE (as_dict workflow_val) (\<lambda>workflow.
      bindE (raise_first (asset_digest_checks ci remote workflow manifest digest)) (\<lambda>_.
      bindE (mapE (check_metadata_hash E asset_path workflow) metadata_hashes) (\<lambda>_. Inr ())))))))))))"

section \<open>The directory\<close>

definition verify_release_asset_dir :: "py_env \<Rightarrow> host \<Rightarrow> string \<Rightarrow> string \<Rightarrow> string \<Rightarrow> pydict py" where
  "verify_release_asset_dir E H schema_path temp asset_path =
     bindE (require_release_asset_files E H asset_path) (\<lambda>_.
     bindE (read_json E (path_join asset_path RELEASE_ASSET_MANIFEST)) (\<lambda>manifest_val.
     bindE (read_json E (path_join asset_path RELEASE_ASSET_SIGNATURE)) (\<lambda>signature_val.
     bindE (as_dict manifest_val) (\<lambda>manifest.
     bindE (validate_release_asset_manifest E manifest) (\<lambda>_.
     bindE (as_dict signature_val) (\<lambda>signature_doc.
     bindE (verify_asset_signature E manifest signature_doc) (\<lambda>_.
     bindE (verify_release_asset_hashes E asset_path manifest) (\<lambda>_.
     bindE (read_bytes (filesystem E) (path_join asset_path ''proof-input.tar'')) (\<lambda>tar.
     bindE (extract_proof_input_tar H (\<lambda>_. False) tar) (\<lambda>files.
     bindE (read_bytes (filesystem E) (path_join asset_path ''ci_release_sha.json'')) (\<lambda>ci_bytes.
     bindE (verify_release_dir (with_files H temp (files @ [(''ci_release_sha.json'', ci_bytes)]) E) schema_path temp)
       (\<lambda>release_result.
     bindE (verify_release_asset_metadata E asset_path manifest release_result) (\<lambda>_.
     Inr [(''status'', PStr ''RELEASE_ASSET_OK''),
          (''build_commit'', dget release_result ''build_commit'' PNone),
          (''build_config_id'', dget release_result ''build_config_id'' PNone),
          (''proof_input_digest'', dget release_result ''proof_input_digest'' PNone),
          (''release_tag'', dget manifest ''release_tag'' PNone)])))))))))))))"

end
