(* ===== verification/ManifestValidator.thy ===== *)
theory ManifestValidator
  imports ReleaseVerifier
begin

text \<open>
  \<^verbatim>\<open>scripts/validate_manifest.py\<close>: the second validator of the deployment manifest, which collects
  messages instead of stopping at the first failure.
\<close>

definition REQUIRED_FIELDS :: "string list" where
  "REQUIRED_FIELDS =
     [''schema_version'', ''contract_tail'', ''contract_version'',
      ''build_commit'', ''rustc_version'', ''trusted_issuer'', ''tenant_did'',
      ''build_config_id'', ''local_wasm_sha256'',
      ''registration_status'', ''registered_at'', ''remote_contract_id'',
      ''raw_registration_response_digest'', ''raw_registration_response_path'',
      ''first_invocation_digest'', ''first_invocation_path'',
      ''t3n_evidence_digest'', ''t3n_evidence_path'',
      ''operator_public_key'', ''manifest_digest'']"

definition sha256_file :: "py_env \<Rightarrow> string \<Rightarrow> string py" where
  "sha256_file E path = bindE (read_bytes (filesystem E) path) (\<lambda>b. Inr (sha256_hex E b))"

definition os_path_join :: "string \<Rightarrow> string \<Rightarrow> string" where
  "os_path_join a b =
     (if startswith b ''/'' then b
      else if a = [] \<or> last a = CHR ''/'' then a @ b
      else a @ ''/'' @ b)"

text \<open>\<open>k in manifest\<close> and then \<open>manifest.get\<close> on a value that is no dictionary.\<close>

definition manifest_dict :: "pyval \<Rightarrow> pydict py" where
  "manifest_dict v = (case v of
     PDict d \<Rightarrow> Inr d
   | PList xs \<Rightarrow> as_dict v
   | PStr s \<Rightarrow> as_dict v
   | _ \<Rightarrow> Inl (TypeError (''argument of type '' @ repr_str (py_type v) @ '' is not iterable'')))"

definition digest_checks :: "(string \<times> string) list" where
  "digest_checks =
     [(''raw_registration_response_digest'', ''raw_registration_response_path''),
      (''first_invocation_digest'', ''first_invocation_path''),
      (''t3n_evidence_digest'', ''t3n_evidence_path'')]"

definition check_file_digest :: "py_env \<Rightarrow> string \<Rightarrow> pydict \<Rightarrow> string \<times> string \<Rightarrow> string list py" where
  "check_file_digest E proof_dir manifest = (\<lambda>(digest_field, path_field).
     case (map_of manifest digest_field, map_of manifest path_field) of
       (Some declared, Some path) \<Rightarrow> (case path of
           PStr p \<Rightarrow>
             let file_path = os_path_join proof_dir p
             in if path_exists (filesystem E) file_path
                then bindE (sha256_file E file_path) (\<lambda>actual.
                  Inr (if PStr actual \<noteq> declared
                    then [''Digest mismatch for '' @ p @ '': declared='' @ py_str (float_repr E) declared
                       @ '', actual='' @ actual]
                    else []))
                else Inr [''File not found: '' @ file_path]
         | _ \<Rightarrow> Inl (TypeError (''join() argument must be str, bytes, or os.PathLike object, not ''
              @ repr_str (py_type path))))
     | _ \<Rightarrow> Inr [])"

definition self_digest_text :: "py_env \<Rightarrow> pydict \<Rightarrow> string" where
  "self_digest_text E manifest =
     json_dumps (float_repr E) (PDict (dset ''manifest_digest'' (PStr ''TBD'') manifest))"

definition check_self_digest :: "py_env \<Rightarrow> pydict \<Rightarrow> string list" where
  "check_self_digest E manifest = (case map_of manifest ''manifest_digest'' of
     None \<Rightarrow> []
   | Some declared \<Rightarrow>
       let expected = sha256_hex E (utf8 (self_digest_text E manifest))
       in if PStr expected \<noteq> declared
          then [''manifest_digest mismatch: declared='' @ py_str (float_repr E) declared @ '', computed='' @ expected]
          else [])"

definition validate_manifest :: "py_env \<Rightarrow> string \<Rightarrow> string list py" where
  "validate_manifest E proof_dir =
     bindE (bindE (read_json E (os_path_join proof_dir ''deployment_manifest.json'')) manifest_dict) (\<lambda>manifest.
     let missing = map (\<lambda>field. ''Missing required field: '' @ field)
           (filter (\<lambda>field. map_of manifest field = None) REQUIRED_FIELDS);
         version = dget manifest ''schema_version'' PNone;
         wrong_version = (if version \<noteq> PStr ''adn-release-proof-v1''
           then [''schema_version must be '' @ repr_str ''adn-release-proof-v1'' @ '', got: ''
             @ py_str (float_repr E) version] else []);
         undeclared = map (\<lambda>key. ''Undeclared field (use remediation_report.json for extra data): '' @ key)
           (filter (\<lambda>key. key \<notin> set REQUIRED_FIELDS) (map fst manifest))
     in bindE (mapE (check_file_digest E proof_dir manifest) digest_checks) (\<lambda>mismatches.
        Inr (missing @ wrong_version @ undeclared @ concat mismatches @ check_self_digest E manifest)))"

section \<open>A valid manifest\<close>

lemma valid_manifest:
  assumes "validate_manifest E dir = Inr []"
  shows "\<exists>manifest. read_json E (os_path_join dir ''deployment_manifest.json'') = Inr (PDict manifest) \<and>
    fst ` set manifest = set REQUIRED_FIELDS \<and>
    map_of manifest ''manifest_digest'' = Some (PStr (sha256_hex E (utf8 (self_digest_text E manifest))))"
proof -
  obtain v manifest where v: "read_json E (os_path_join dir ''deployment_manifest.json'') = Inr v"
      "manifest_dict v = Inr manifest"
    and m: "filter (\<lambda>field. map_of manifest field = None) REQUIRED_FIELDS = []"
    and u: "filter (\<lambda>key. key \<notin> set REQUIRED_FIELDS) (map fst manifest) = []"
    and s: "check_self_digest E manifest = []"
    using assms unfolding validate_manifest_def by (auto simp: Let_def)
  have "v = PDict manifest" using v(2) by (auto simp: manifest_dict_def split: pyval.splits)
  moreover have req: "map_of manifest f \<noteq> None" if "f \<in> set REQUIRED_FIELDS" for f
    using m that by (auto simp: filter_empty_conv)
  moreover have "fst ` set manifest \<subseteq> set REQUIRED_FIELDS" using u by (auto simp: filter_empty_conv)
  moreover have "set REQUIRED_FIELDS \<subseteq> fst ` set manifest"
    using req by (metis map_of_eq_None_iff subsetI)
  moreover have "map_of manifest ''manifest_digest'' \<noteq> None"
    by (rule req) (simp add: REQUIRED_FIELDS_def)
  ultimately show ?thesis
    using v(1) s by (auto simp: check_self_digest_def Let_def split: if_split_asm)
qed

end
