(* ===== verification/ReleaseLaws.thy ===== *)
theory ReleaseLaws
  imports ManifestValidator
begin

text \<open>
  What an accepted release directory establishes: which documents are bound by which digest and
  signature, what the CI evidence must say, and what the proof input digest determines.
\<close>

section \<open>The retained inputs\<close>

definition document_digest :: "py_env \<Rightarrow> pyval \<Rightarrow> string" where
  "document_digest E v = digest_hex E (utf8 (canonical_json (float_repr E) v))"

lemma require_digest_Inr [simp]: "require_digest E label expected v = Inr u \<longleftrightarrow> document_digest E v = expected"
  by (simp add: require_digest_def document_digest_def Let_def)

definition pinned_key :: "py_env \<Rightarrow> string" where
  "pinned_key E = py_lower (py_strip (getenv_or E ''ADN_RELEASE_OPERATOR_PUBLIC_KEY_HEX'' []))"

text \<open>The manifest is signed by the pinned operator key.\<close>

definition operator_signed :: "py_env \<Rightarrow> pydict \<Rightarrow> pydict \<Rightarrow> bool" where
  "operator_signed E manifest signature_doc \<longleftrightarrow>
     (\<exists>key signature. pinned_key E \<noteq> [] \<and> fromhex (pinned_key E) = Some key \<and> length key = 32 \<and>
        py_lower (py_strip (text_field E manifest ''operator_public_key'')) = pinned_key E \<and>
        fromhex (text_field E signature_doc ''signature_hex'') = Some signature \<and>
        ed25519_verify E key signature (utf8 (canonical_json (float_repr E) (PDict (manifest_body manifest)))))"

lemma verify_manifest_signature_signed:
  "verify_manifest_signature E manifest signature_doc = Inr u \<Longrightarrow> operator_signed E manifest signature_doc"
  unfolding verify_manifest_signature_def operator_signed_def pinned_key_def
  by (auto simp: Let_def split: if_split_asm)

definition bound_documents :: "(string \<times> string) list" where
  "bound_documents =
     [(''raw_registration_response_digest'', ''registration_response.json''),
      (''first_invocation_digest'', ''invocation_receipt.json''),
      (''t3n_evidence_digest'', ''t3n_evidence.json'')]"

definition retained :: "py_env \<Rightarrow> string \<Rightarrow> string \<Rightarrow> pydict \<Rightarrow> string \<Rightarrow> bool" where
  "retained E schema_path dir manifest digest \<longleftrightarrow>
     read_json E (path_join dir ''deployment_manifest.json'') = Inr (PDict manifest) \<and>
     validate_manifest_schema E schema_path manifest = Inr () \<and>
     dget manifest ''schema_version'' PNone = PStr ''adn-release-proof-v1'' \<and>
     text_field E manifest ''manifest_digest'' = document_digest E (PDict (manifest_body manifest)) \<and>
     (\<forall>(field, name) \<in> set bound_documents. \<exists>v. read_json E (path_join dir name) = Inr v \<and>
        text_field E manifest field = document_digest E v) \<and>
     (\<exists>signature_doc. read_json E (path_join dir ''deployment_manifest.sig'') = Inr (PDict signature_doc) \<and>
        operator_signed E manifest signature_doc) \<and>
     (\<exists>invocation replay. read_json E (path_join dir ''invocation_receipt.json'') = Inr (PDict invocation) \<and>
        read_json E (path_join dir ''replay_restart_proof.json'') = Inr (PDict replay) \<and>
        py_eq (dget invocation ''build_config_id'' PNone) (dget manifest ''build_config_id'' PNone) \<and>
        (\<forall>(c, m) \<in> set (replay_checks manifest replay). \<not> c)) \<and>
     compute_proof_input_digest E dir = Inr digest"

definition input_answer :: "pydict \<Rightarrow> string \<Rightarrow> pydict" where
  "input_answer manifest digest =
     [(''status'', PStr ''INPUT_OK''),
      (''build_commit'', dget manifest ''build_commit'' PNone),
      (''build_config_id'', dget manifest ''build_config_id'' PNone),
      (''proof_input_digest'', PStr digest),
      (''proof_input_files'', PList (map PStr PROOF_INPUT_FILES))]"

lemma verify_release_inputs_retained:
  assumes "verify_release_inputs E sp dir = Inr r"
  shows "\<exists>manifest digest. retained E sp dir manifest digest \<and> r = input_answer manifest digest"
proof -
  obtain manifest sig registration invocation evidence replay digest where
    docs: "read_json E (path_join dir ''deployment_manifest.json'') = Inr (PDict manifest)"
      "read_json E (path_join dir ''deployment_manifest.sig'') = Inr (PDict sig)"
      "read_json E (path_join dir ''registration_response.json'') = Inr registration"
      "read_json E (path_join dir ''invocation_receipt.json'') = Inr (PDict invocation)"
      "read_json E (path_join dir ''t3n_evidence.json'') = Inr evidence"
      "read_json E (path_join dir ''replay_restart_proof.json'') = Inr (PDict replay)"
    and checks: "validate_manifest_schema E sp manifest = Inr ()"
      "dget manifest ''schema_version'' PNone = PStr ''adn-release-proof-v1''"
      "document_digest E (PDict (manifest_body manifest)) = text_field E manifest ''manifest_digest''"
      "document_digest E registration = text_field E manifest ''raw_registration_response_digest''"
      "document_digest E (PDict invocation) = text_field E manifest ''first_invocation_digest''"
      "document_digest E evidence = text_field E manifest ''t3n_evidence_digest''"
      "verify_manifest_signature E manifest sig = Inr ()"
      "py_eq (dget invocation ''build_config_id'' PNone) (dget manifest ''build_config_id'' PNone)"
      "\<forall>(c, m) \<in> set (replay_checks manifest replay). \<not> c"
      "compute_proof_input_digest E dir = Inr digest"
    and r: "r = input_answer manifest digest"
    using assms unfolding verify_release_inputs_def Let_def input_answer_def by auto
  have "retained E sp dir manifest digest"
    unfolding retained_def bound_documents_def
    using docs checks(1,2,3,8-10) checks(4-6) [symmetric] verify_manifest_signature_signed [OF checks(7)] by simp
  then show ?thesis using r by blast
qed

section \<open>The release\<close>

definition ci_bound :: "py_env \<Rightarrow> pydict \<Rightarrow> pydict \<Rightarrow> string \<Rightarrow> bool" where
  "ci_bound E manifest ci digest \<longleftrightarrow>
     dget ci ''repository'' PNone = PStr (expected_repository E) \<and>
     dget ci ''generated_by'' PNone = PStr EXPECTED_CI_GENERATOR \<and>
     dget ci ''proof_input_digest'' PNone = PStr digest \<and>
     dget ci ''artifact_url'' PNone = PStr (expected_artifact_url E ci) \<and>
     hex_digest_text (text_field E ci ''artifact_digest'') \<and>
     py_eq (dget ci ''sha'' PNone) (dget manifest ''build_commit'' PNone) \<and>
     py_eq (dget ci ''tests_workflow_head_sha'' PNone) (dget manifest ''build_commit'' PNone) \<and>
     dget ci ''workflow_conclusion'' PNone = PStr ''success'' \<and>
     dget ci ''tests_workflow_conclusion'' PNone = PStr ''success'' \<and>
     dget ci ''tests_workflow_event'' PNone = PStr ''push'' \<and>
     dget ci ''tests_workflow_head_branch'' PNone = PStr ''main''"

lemma verify_release_dir_bound:
  assumes "verify_release_dir E sp dir = Inr r"
  shows "\<exists>manifest ci digest. retained E sp dir manifest digest \<and>
    read_json E (path_join dir ''ci_release_sha.json'') = Inr (PDict ci) \<and> ci_bound E manifest ci digest \<and>
    r = [(''status'', PStr ''OK''), (''build_commit'', dget manifest ''build_commit'' PNone),
      (''build_config_id'', dget manifest ''build_config_id'' PNone), (''proof_input_digest'', PStr digest)]"
proof -
  obtain input manifest ci where inp: "verify_release_inputs E sp dir = Inr input"
    and docs: "read_json E (path_join dir ''deployment_manifest.json'') = Inr (PDict manifest)"
      "read_json E (path_join dir ''ci_release_sha.json'') = Inr (PDict ci)"
    and checks: "\<forall>(c, m) \<in> set (attestation_checks E ci input @ workflow_checks E ci manifest). \<not> c"
    and r: "r = [(''status'', PStr ''OK''), (''build_commit'', dget input ''build_commit'' PNone),
      (''build_config_id'', dget input ''build_config_id'' PNone),
      (''proof_input_digest'', dget input ''proof_input_digest'' PNone)]"
    using assms unfolding verify_release_dir_def by auto
  obtain m digest where ret: "retained E sp dir m digest" and i: "input = input_answer m digest"
    using verify_release_inputs_retained [OF inp] by blast
  have m: "m = manifest" using ret docs(1) by (simp add: retained_def)
  have "ci_bound E manifest ci digest"
    using checks unfolding ci_bound_def attestation_checks_def workflow_checks_def i input_answer_def by simp
  then show ?thesis using ret docs r unfolding m i input_answer_def by auto
qed

section \<open>What the proof input digest determines\<close>

lemma mapE_set:
  assumes "mapE f xs = Inr ys"
  shows "list_all2 (\<lambda>x y. f x = Inr y) xs ys"
  using assms by (induction xs arbitrary: ys) auto

definition digest_item :: "py_env \<Rightarrow> string \<Rightarrow> bytes \<Rightarrow> pyval" where
  "digest_item E name b = PDict [(''path'', PStr name), (''sha256'', PStr (digest_hex E b))]"

lemma file_digests:
  assumes "proof_input_file_digests E dir = Inr ds"
  shows "\<exists>bs. list_all2 (\<lambda>name b. read_bytes (filesystem E) (path_join dir name) = Inr b) PROOF_INPUT_FILES bs \<and>
    ds = map2 (digest_item E) PROOF_INPUT_FILES bs"
proof -
  have "list_all2 (\<lambda>name y. bindE (read_bytes (filesystem E) (path_join dir name)) (\<lambda>b.
      Inr (PDict [(''path'', PStr name), (''sha256'', PStr (digest_hex E b))])) = Inr y) PROOF_INPUT_FILES ds"
    using assms unfolding proof_input_file_digests_def by (auto dest: mapE_set)
  moreover have "\<exists>bs. list_all2 (\<lambda>name b. read_bytes (filesystem E) (path_join dir name) = Inr b) names bs \<and>
      ys = map2 (digest_item E) names bs"
    if "list_all2 (\<lambda>name y. bindE (read_bytes (filesystem E) (path_join dir name)) (\<lambda>b.
      Inr (PDict [(''path'', PStr name), (''sha256'', PStr (digest_hex E b))])) = Inr y) names ys" for names ys
    using that
  proof (induction names ys rule: list_all2_induct)
    case (Cons name names y ys)
    then obtain b bs where "read_bytes (filesystem E) (path_join dir name) = Inr b" "y = digest_item E name b"
      "list_all2 (\<lambda>name b. read_bytes (filesystem E) (path_join dir name) = Inr b) names bs"
      "ys = map2 (digest_item E) names bs" by (auto simp: digest_item_def)
    then show ?case by (intro exI [of _ "b # bs"]) simp
  qed simp
  ultimately show ?thesis by blast
qed

lemma sort_keys_item [simp]:
  "sort_keys (digest_item E name b) = sort_keys (digest_item E' name' b') \<longleftrightarrow>
     name = name' \<and> digest_hex E b = digest_hex E' b'"
  by (simp add: digest_item_def sort_key_const)

lemma sort_keys_payload:
  assumes "sort_keys (proof_input_payload ds) = sort_keys (proof_input_payload ds')"
  shows "map sort_keys ds = map sort_keys ds'"
proof -
  let ?d = "\<lambda>ds. [(''schema_version'', PStr ''adn-release-proof-input-v1''), (''files'', PList ds)]"
  have "map_option sort_keys (map_of (?d ds) ''files'') = map_option sort_keys (map_of (?d ds') ''files'')"
    by (rule norm_dict_lookup [OF _ _ assms [unfolded proof_input_payload_def]]) simp_all
  then show ?thesis by simp
qed

lemma items_digests:
  assumes "length names = length bs" "length names = length bs'"
    and "map sort_keys (map2 (digest_item E) names bs) = map sort_keys (map2 (digest_item E) names bs')"
  shows "map (digest_hex E) bs = map (digest_hex E) bs'"
  using assms
proof (induction names bs arbitrary: bs' rule: list_induct2)
  case (Cons name names b bs)
  then obtain b' rest where bs': "bs' = b' # rest" by (cases bs') auto
  have "sort_keys (digest_item E name b) = sort_keys (digest_item E name b')"
    "map sort_keys (map2 (digest_item E) names bs) = map sort_keys (map2 (digest_item E) names rest)"
    using Cons.prems(2) unfolding bs' by (simp_all only: zip_Cons_Cons list.map prod.case list.inject)
  moreover have "length names = length rest" using Cons.prems(1) bs' by simp
  ultimately show ?case using Cons.IH [of rest] bs' by simp
qed simp

lemma digests_same_files:
  assumes fl: "float_ok (float_repr E)"
    and a: "compute_proof_input_digest E dir = Inr d"
    and b: "compute_proof_input_digest (E\<lparr>filesystem := fs\<rparr>) dir' = Inr d"
  shows "(\<exists>ds ds'. proof_input_file_digests E dir = Inr ds \<and>
      proof_input_file_digests (E\<lparr>filesystem := fs\<rparr>) dir' = Inr ds' \<and>
      collides E (utf8 (canonical_json (float_repr E) (proof_input_payload ds)))
        (utf8 (canonical_json (float_repr E) (proof_input_payload ds')))) \<or>
    (\<forall>name \<in> set PROOF_INPUT_FILES. \<exists>b b'. read_bytes (filesystem E) (path_join dir name) = Inr b \<and>
      read_bytes fs (path_join dir' name) = Inr b' \<and> (b = b' \<or> collides E b b'))"
proof -
  let ?E = "E\<lparr>filesystem := fs\<rparr>"
  obtain ds where ds: "proof_input_file_digests E dir = Inr ds"
    "d = sha256_hex E (utf8 (canonical_json (float_repr E) (proof_input_payload ds)))"
    using a by (auto simp: compute_proof_input_digest_def digest_hex_def)
  obtain ds' where ds': "proof_input_file_digests ?E dir' = Inr ds'"
    "d = sha256_hex E (utf8 (canonical_json (float_repr E) (proof_input_payload ds')))"
    using b by (auto simp: compute_proof_input_digest_def digest_hex_def)
  show ?thesis
  proof (cases "canonical_json (float_repr E) (proof_input_payload ds) = canonical_json (float_repr E) (proof_input_payload ds')")
    case False
    then have "collides E (utf8 (canonical_json (float_repr E) (proof_input_payload ds)))
        (utf8 (canonical_json (float_repr E) (proof_input_payload ds')))"
      using ds(2) ds'(2) by (simp add: collides_def)
    then show ?thesis using ds(1) ds'(1) by blast
  next
    case True
    then have same: "map sort_keys ds = map sort_keys ds'"
      using canonical_json_inject [OF fl] by (intro sort_keys_payload) simp
    obtain bs where bs: "list_all2 (\<lambda>name b. read_bytes (filesystem E) (path_join dir name) = Inr b) PROOF_INPUT_FILES bs"
        "ds = map2 (digest_item E) PROOF_INPUT_FILES bs"
      using file_digests [OF ds(1)] by blast
    obtain bs' where bs': "list_all2 (\<lambda>name b. read_bytes fs (path_join dir' name) = Inr b) PROOF_INPUT_FILES bs'"
        "ds' = map2 (digest_item ?E) PROOF_INPUT_FILES bs'"
      using file_digests [OF ds'(1)] by auto
    have "digest_item ?E = digest_item E" by (simp add: fun_eq_iff digest_item_def digest_hex_def)
    then have eq: "map (digest_hex E) bs = map (digest_hex E) bs'"
      by (intro items_digests [OF list_all2_lengthD [OF bs(1)] list_all2_lengthD [OF bs'(1)]])
         (use same bs(2) bs'(2) in simp)
    have "\<exists>b b'. read_bytes (filesystem E) (path_join dir name) = Inr b \<and>
        read_bytes fs (path_join dir' name) = Inr b' \<and> (b = b' \<or> collides E b b')"
      if n: "name \<in> set PROOF_INPUT_FILES" for name
    proof -
      obtain i where i: "i < length PROOF_INPUT_FILES" "PROOF_INPUT_FILES ! i = name"
        using n by (metis in_set_conv_nth)
      then have l: "i < length bs" "i < length bs'" using list_all2_lengthD [OF bs(1)] list_all2_lengthD [OF bs'(1)] by simp_all
      then have "digest_hex E (bs ! i) = digest_hex E (bs' ! i)" using arg_cong [OF eq, of "\<lambda>xs. xs ! i"] by simp
      then have "bs ! i = bs' ! i \<or> collides E (bs ! i) (bs' ! i)" by (auto simp: collides_def digest_hex_def)
      then show ?thesis using list_all2_nthD [OF bs(1) i(1)] list_all2_nthD [OF bs'(1) i(1)] unfolding i(2) by blast
    qed
    then show ?thesis by blast
  qed
qed

end
