(* ===== verification/ReleaseAssetLaws.thy ===== *)
theory ReleaseAssetLaws
  imports ReleaseAsset ReleaseLaws
begin

text \<open>
  What an accepted directory of release assets establishes: a manifest signed by the operator and
  bound to the bytes of every payload file, and an archive whose files are an accepted release.
\<close>

section \<open>Entries of the manifest\<close>

lemma wf_lookup: "wf_val (PDict d) \<Longrightarrow> map_of d k = Some v \<Longrightarrow> wf_val v"
  by (induction d) (auto split: if_split_asm)

text \<open>A manifest entry for a file with a digest text.\<close>

definition asset_entry :: "py_env \<Rightarrow> pyval \<Rightarrow> string \<Rightarrow> string \<Rightarrow> bool" where
  "asset_entry E v name digest \<longleftrightarrow> (\<exists>entry sha. v = PDict entry \<and> dget entry ''path'' PNone = PStr name \<and>
     map_of entry ''sha256'' = Some sha \<and> py_str (float_repr E) sha = digest \<and> hex_digest_text digest)"

lemma sort_Nil [simp]: "sort xs = [] \<longleftrightarrow> xs = []"
  by (metis length_0_conv length_sort)

lemma not_hex_Nil [simp]: "\<not> hex_digest_text []"
  by (simp add: hex_digest_text_def)

lemma hex_not_container:
  assumes "hex_digest_text (py_str fl v)"
  shows "sort_keys v = v"
proof (cases v)
  case (PList xs)
  then show ?thesis using assms by (simp add: py_str_def hex_digest_text_def is_digit_def ord_def)
next
  case (PDict d)
  then show ?thesis using assms by (simp add: py_str_def hex_digest_text_def is_digit_def ord_def)
qed simp_all

lemma check_files_entries:
  assumes "check_files E entries seen0 = Inr seen"
  shows "(\<forall>v \<in> set entries. \<exists>name digest. asset_entry E v name digest \<and> name \<in> set RELEASE_ASSET_PAYLOAD_FILES) \<and>
    (\<forall>name \<in> set seen - set seen0. \<exists>v \<in> set entries. \<exists>digest. asset_entry E v name digest)"
  using assms
proof (induction entries arbitrary: seen0)
  case (Cons v entries)
  obtain entry where v: "v = PDict entry" using Cons.prems by (cases v) auto
  let ?digest = "py_str (float_repr E) (py_or (dget entry ''sha256'' PNone) (PStr []))"
  obtain name where name: "dget entry ''path'' PNone = PStr name" "name \<in> set RELEASE_ASSET_PAYLOAD_FILES"
    and hex: "hex_digest_text ?digest" and rest: "check_files E entries (name # seen0) = Inr seen"
    using Cons.prems unfolding v by (auto simp: Let_def split: if_split_asm)
  obtain sha where sha: "map_of entry ''sha256'' = Some sha" "?digest = py_str (float_repr E) sha"
    using hex by (auto simp: dget_def py_or_def split: option.split_asm if_split_asm)
  have "asset_entry E v name ?digest" unfolding asset_entry_def using v name(1) sha hex by auto
  then show ?case using Cons.IH [OF rest] name(2) by auto
qed simp

lemma asset_entry_hash:
  assumes "asset_entry E v name digest" and "check_asset_hash E dir v = Inr u"
  shows "\<exists>b. read_bytes (filesystem E) (path_join dir name) = Inr b \<and> digest_hex E b = digest"
proof -
  obtain entry sha where "v = PDict entry" "dget entry ''path'' PNone = PStr name" "map_of entry ''sha256'' = Some sha"
    "py_str (float_repr E) sha = digest" using assms(1) unfolding asset_entry_def by blast
  then show ?thesis using assms(2)
    by (auto simp: check_asset_hash_def subscript_def item_def dget_def Let_def split: option.split_asm)
qed

lemma asset_entry_same:
  assumes "asset_entry E v name digest" "asset_entry E' w name' digest'" "float_repr E' = float_repr E"
    and "sort_keys v = sort_keys w" "wf_val v" "wf_val w"
  shows "name = name' \<and> digest = digest'"
proof -
  obtain d sha where d: "v = PDict d" "map_of d ''path'' = Some (PStr name)" "map_of d ''sha256'' = Some sha"
    "py_str (float_repr E) sha = digest" "hex_digest_text digest"
    using assms(1) by (auto simp: asset_entry_def dget_def split: option.split_asm)
  obtain d' sha' where d': "w = PDict d'" "map_of d' ''path'' = Some (PStr name')" "map_of d' ''sha256'' = Some sha'"
    "py_str (float_repr E) sha' = digest'" "hex_digest_text digest'"
    using assms(2,3) by (auto simp: asset_entry_def dget_def split: option.split_asm)
  have lookup: "map_option sort_keys (map_of d k) = map_option sort_keys (map_of d' k)" for k
    using norm_dict_lookup [of d d' k] assms(4-6) d(1) d'(1) by simp
  have "sort_keys sha = sha" using d(4,5) by (intro hex_not_container [of "float_repr E"]) simp
  moreover have "sort_keys sha' = sha'" using d'(4,5) by (intro hex_not_container [of "float_repr E"]) simp
  ultimately have "sha = sha'" using lookup [of "''sha256''"] d(3) d'(3) by simp
  then show ?thesis using lookup [of "''path''"] d(2,4) d'(2,4) by simp
qed

section \<open>An accepted directory\<close>

definition asset_signed :: "py_env \<Rightarrow> pydict \<Rightarrow> pydict \<Rightarrow> bool" where
  "asset_signed E manifest signature_doc \<longleftrightarrow>
     (\<exists>key signature. pinned_key E \<noteq> [] \<and> fromhex (pinned_key E) = Some key \<and> length key = 32 \<and>
        py_lower (py_strip (text_field E manifest ''operator_public_key'')) = pinned_key E \<and>
        fromhex (text_field E signature_doc ''signature_hex'') = Some signature \<and>
        ed25519_verify E key signature (utf8 (canonical_json (float_repr E) (PDict (asset_body manifest)))))"

lemma verify_asset_signature_signed:
  "verify_asset_signature E manifest signature_doc = Inr u \<Longrightarrow> asset_signed E manifest signature_doc"
  unfolding verify_asset_signature_def asset_signed_def pinned_key_def
  by (auto simp: Let_def split: if_split_asm)

definition asset_bound :: "py_env \<Rightarrow> string \<Rightarrow> pydict \<Rightarrow> bool" where
  "asset_bound E dir manifest \<longleftrightarrow>
     read_json E (path_join dir RELEASE_ASSET_MANIFEST) = Inr (PDict manifest) \<and>
     (\<exists>signature_doc. read_json E (path_join dir RELEASE_ASSET_SIGNATURE) = Inr (PDict signature_doc) \<and>
        asset_signed E manifest signature_doc) \<and>
     dget manifest ''manifest_digest'' PNone = PStr (document_digest E (PDict (asset_body manifest))) \<and>
     (\<exists>entries. dget manifest ''files'' PNone = PList entries \<and>
        (\<forall>v \<in> set entries. \<exists>name b. asset_entry E v name (digest_hex E b) \<and>
           read_bytes (filesystem E) (path_join dir name) = Inr b) \<and>
        (\<forall>name \<in> set RELEASE_ASSET_PAYLOAD_FILES. \<exists>v \<in> set entries. \<exists>digest. asset_entry E v name digest))"

lemma validate_release_asset_manifest_files:
  assumes "validate_release_asset_manifest E manifest = Inr u"
  shows "dget manifest ''manifest_digest'' PNone = PStr (document_digest E (PDict (asset_body manifest))) \<and>
    (\<exists>entries. dget manifest ''files'' PNone = PList entries \<and>
      (\<forall>v \<in> set entries. \<exists>name digest. asset_entry E v name digest) \<and>
      (\<forall>name \<in> set RELEASE_ASSET_PAYLOAD_FILES. \<exists>v \<in> set entries. \<exists>digest. asset_entry E v name digest))"
proof -
  obtain entries where entries: "dget manifest ''files'' PNone = PList entries"
    using assms unfolding validate_release_asset_manifest_def by (auto split: pyval.split_asm)
  then obtain seen where seen: "check_files E entries [] = Inr seen" "\<forall>name \<in> set RELEASE_ASSET_PAYLOAD_FILES. name \<in> set seen"
    and digest: "dget manifest ''manifest_digest'' PNone = PStr (document_digest E (PDict (asset_body manifest)))"
    using assms unfolding validate_release_asset_manifest_def document_digest_def
    by (auto simp: Let_def filter_empty_conv)
  show ?thesis using digest entries check_files_entries [OF seen(1)] seen(2) by simp blast
qed

lemma mapE_all: "mapE f xs = Inr ys \<Longrightarrow> v \<in> set xs \<Longrightarrow> \<exists>y. f v = Inr y"
  by (induction xs arbitrary: ys) auto

lemma verify_release_asset_dir_bound:
  assumes "verify_release_asset_dir E H sp temp dir = Inr r"
  shows "\<exists>manifest tar files ci rel. asset_bound E dir manifest \<and>
    read_bytes (filesystem E) (path_join dir ''proof-input.tar'') = Inr tar \<and>
    extract_proof_input_tar H (\<lambda>_. False) tar = Inr files \<and>
    read_bytes (filesystem E) (path_join dir ''ci_release_sha.json'') = Inr ci \<and>
    verify_release_dir (with_files H temp (files @ [(''ci_release_sha.json'', ci)]) E) sp temp = Inr rel \<and>
    py_eq (dget manifest ''proof_input_digest'' PNone) (dget rel ''proof_input_digest'' PNone) \<and>
    dget r ''proof_input_digest'' PNone = dget rel ''proof_input_digest'' PNone \<and>
    dget r ''release_tag'' PNone = dget manifest ''release_tag'' PNone"
proof -
  obtain manifest sig tar files ci rel where
    docs: "read_json E (path_join dir RELEASE_ASSET_MANIFEST) = Inr (PDict manifest)"
      "read_json E (path_join dir RELEASE_ASSET_SIGNATURE) = Inr (PDict sig)"
    and valid: "validate_release_asset_manifest E manifest = Inr ()"
    and sgn: "verify_asset_signature E manifest sig = Inr ()"
    and hashes: "verify_release_asset_hashes E dir manifest = Inr ()"
    and tar: "read_bytes (filesystem E) (path_join dir ''proof-input.tar'') = Inr tar"
      "extract_proof_input_tar H (\<lambda>_. False) tar = Inr files"
      "read_bytes (filesystem E) (path_join dir ''ci_release_sha.json'') = Inr ci"
    and rel: "verify_release_dir (with_files H temp (files @ [(''ci_release_sha.json'', ci)]) E) sp temp = Inr rel"
    and meta: "verify_release_asset_metadata E dir manifest rel = Inr ()"
    and r: "dget r ''proof_input_digest'' PNone = dget rel ''proof_input_digest'' PNone"
      "dget r ''release_tag'' PNone = dget manifest ''release_tag'' PNone"
    using assms unfolding verify_release_asset_dir_def by auto
  obtain entries where entries: "dget manifest ''files'' PNone = PList entries"
      "\<forall>v \<in> set entries. \<exists>name digest. asset_entry E v name digest"
      "\<forall>name \<in> set RELEASE_ASSET_PAYLOAD_FILES. \<exists>v \<in> set entries. \<exists>digest. asset_entry E v name digest"
    and digest: "dget manifest ''manifest_digest'' PNone = PStr (document_digest E (PDict (asset_body manifest)))"
    using validate_release_asset_manifest_files [OF valid] by blast
  obtain us where us: "mapE (check_asset_hash E dir) entries = Inr us"
    using hashes entries(1) unfolding verify_release_asset_hashes_def item_def dget_def
    by (auto simp: py_iter_def split: option.split_asm)
  have "\<exists>name b. asset_entry E v name (digest_hex E b) \<and> read_bytes (filesystem E) (path_join dir name) = Inr b"
    if v: "v \<in> set entries" for v
  proof -
    obtain name d where nd: "asset_entry E v name d" using entries(2) v by blast
    obtain u where "check_asset_hash E dir v = Inr u" using mapE_all [OF us v] by blast
    then show ?thesis using asset_entry_hash [OF nd] nd by blast
  qed
  then have bound: "asset_bound E dir manifest"
    unfolding asset_bound_def using docs verify_asset_signature_signed [OF sgn] digest entries by blast
  have "py_eq (dget manifest ''proof_input_digest'' PNone) (dget rel ''proof_input_digest'' PNone)"
  proof -
    obtain ci' remote workflow where
      "\<forall>(c, m) \<in> set (asset_digest_checks ci' remote workflow manifest (dget rel ''proof_input_digest'' PNone)). \<not> c"
      using meta unfolding verify_release_asset_metadata_def Let_def by auto
    then show ?thesis unfolding asset_digest_checks_def by simp
  qed
  then show ?thesis using bound tar rel r by blast
qed

section \<open>The manifest digest determines the files\<close>

lemma asset_files_same:
  assumes fl: "float_ok (float_repr E)" and wf: "wf_val (PDict m)" "wf_val (PDict m')"
    and a: "asset_bound E dir m" and b: "asset_bound (E\<lparr>filesystem := fs\<rparr>) dir' m'"
    and same: "dget m ''manifest_digest'' PNone = dget m' ''manifest_digest'' PNone"
  shows "collides E (utf8 (canonical_json (float_repr E) (PDict (asset_body m))))
      (utf8 (canonical_json (float_repr E) (PDict (asset_body m')))) \<or>
    (\<forall>name \<in> set RELEASE_ASSET_PAYLOAD_FILES. \<exists>b b'. read_bytes (filesystem E) (path_join dir name) = Inr b \<and>
      read_bytes fs (path_join dir' name) = Inr b' \<and> (b = b' \<or> collides E b b'))"
proof (cases "canonical_json (float_repr E) (PDict (asset_body m)) = canonical_json (float_repr E) (PDict (asset_body m'))")
  case False
  moreover have "document_digest E (PDict (asset_body m)) = document_digest E (PDict (asset_body m'))"
    using a b same by (simp add: asset_bound_def document_digest_def digest_hex_def)
  ultimately show ?thesis by (simp add: collides_def document_digest_def digest_hex_def)
next
  case True
  let ?E = "E\<lparr>filesystem := fs\<rparr>"
  obtain es es' where es: "map_of m ''files'' = Some (PList es)" "map_of m' ''files'' = Some (PList es')"
      "\<forall>v \<in> set es. \<exists>name b. asset_entry E v name (digest_hex E b) \<and> read_bytes (filesystem E) (path_join dir name) = Inr b"
      "\<forall>v \<in> set es'. \<exists>name b. asset_entry ?E v name (digest_hex ?E b) \<and> read_bytes fs (path_join dir' name) = Inr b"
      "\<forall>name \<in> set RELEASE_ASSET_PAYLOAD_FILES. \<exists>v \<in> set es. \<exists>digest. asset_entry E v name digest"
    using a b unfolding asset_bound_def by (auto simp: dget_def split: option.split_asm)
  have "sort_keys (PDict (asset_body m)) = sort_keys (PDict (asset_body m'))"
    using canonical_json_inject [OF fl] True by blast
  from norm_dict_lookup [OF _ _ this, of "''files''"]
  have entries: "map sort_keys es = map sort_keys es'"
    using wf es(1,2) by (simp add: asset_body_def)
  have wfs: "\<forall>v \<in> set es. wf_val v" "\<forall>v \<in> set es'. wf_val v"
    using wf_lookup [OF wf(1) es(1)] wf_lookup [OF wf(2) es(2)] by (simp_all add: list_all_iff)
  have "\<exists>b b'. read_bytes (filesystem E) (path_join dir name) = Inr b \<and>
      read_bytes fs (path_join dir' name) = Inr b' \<and> (b = b' \<or> collides E b b')"
    if n: "name \<in> set RELEASE_ASSET_PAYLOAD_FILES" for name
  proof -
    obtain v d where v: "v \<in> set es" "asset_entry E v name d" using es(5) n by blast
    obtain i where i: "i < length es" "es ! i = v" using v(1) by (metis in_set_conv_nth)
    let ?w = "es' ! i"
    have w: "?w \<in> set es'" "sort_keys v = sort_keys ?w"
      using i arg_cong [OF entries, of length] arg_cong [OF entries, of "\<lambda>xs. xs ! i"] by simp_all
    obtain n1 b where b: "asset_entry E v n1 (digest_hex E b)" "read_bytes (filesystem E) (path_join dir n1) = Inr b"
      using es(3) v(1) by blast
    obtain n2 b' where b': "asset_entry ?E ?w n2 (digest_hex ?E b')" "read_bytes fs (path_join dir' n2) = Inr b'"
      using es(4) w(1) by blast
    have "n1 = name" using v(2) b(1) by (auto simp: asset_entry_def)
    moreover have "n1 = n2 \<and> digest_hex E b = digest_hex ?E b'"
      using asset_entry_same [OF b(1) b'(1) _ w(2)] wfs v(1) w(1) by simp
    ultimately show ?thesis using b(2) b'(2) by (auto simp: collides_def digest_hex_def)
  qed
  then show ?thesis by blast
qed

end
