(* ===== verification/ReleaseTheorems.thy ===== *)
theory ReleaseTheorems
  imports ReleaseLaws SampleData
begin

text \<open>
  The properties of the release verification (\<^verbatim>\<open>scripts/verify_release.py\<close>,
  \<^verbatim>\<open>scripts/validate_manifest.py\<close>) and a sample directory on which they are instantiated: the text of
  a file is its path, and the JSON reader gives the document of that path.
\<close>

section \<open>A sample directory\<close>

definition sample_operator_key :: string where
  "sample_operator_key = to_hex (replicate 32 CHR ''k'')"

definition sample_manifest :: pydict where
  "sample_manifest = map (\<lambda>f. (f, PStr
     (if f = ''schema_version'' then ''adn-release-proof-v1''
      else if f = ''operator_public_key'' then sample_operator_key else ''ab''))) REQUIRED_FIELDS"

definition sample_schema :: pydict where
  "sample_schema =
     [(''required'', PList (map PStr REQUIRED_FIELDS)),
      (''properties'', PDict (map (\<lambda>f. (f, PDict [(''type'', PStr ''string'')])) REQUIRED_FIELDS))]"

definition sample_ci :: pydict where
  "sample_ci =
     [(''evidence_source'', PStr ''github_actions''), (''generated_by'', PStr EXPECTED_CI_GENERATOR),
      (''attested_workflow'', PStr EXPECTED_ATTESTED_WORKFLOW), (''attestation_phase'', PStr EXPECTED_ATTESTATION_PHASE),
      (''repository'', PStr ''o/r''), (''sha'', PStr ''ab''), (''workflow_run_id'', PInt 7),
      (''workflow_run_url'', PStr ''https://github.com/o/r/actions/runs/7''), (''workflow_conclusion'', PStr ''success''),
      (''tests_workflow_run_id'', PInt 8), (''tests_workflow_run_url'', PStr ''https://github.com/o/r/actions/runs/8''),
      (''tests_workflow_conclusion'', PStr ''success''), (''tests_workflow_head_sha'', PStr ''ab''),
      (''tests_workflow_event'', PStr ''push''), (''tests_workflow_head_branch'', PStr ''main''),
      (''artifact_id'', PInt 12), (''artifact_name'', PStr ''proof''),
      (''artifact_url'', PStr ''https://github.com/o/r/actions/runs/7/artifacts/12''),
      (''artifact_digest'', PStr (replicate 64 CHR ''a'')), (''proof_input_digest'', PStr ''ab''),
      (''proof_input_files'', PList (map PStr PROOF_INPUT_FILES)), (''retrieved_at'', PStr ''t'')]"

definition sample_document :: "string \<Rightarrow> pyval" where
  "sample_document path =
     (if path = ''schema'' then PDict sample_schema
      else if path = ''d/deployment_manifest.json'' then PDict sample_manifest
      else if path = ''d/deployment_manifest.sig'' then PDict
        [(''algorithm'', PStr ''ed25519''), (''public_key_hex'', PStr sample_operator_key), (''signature_hex'', PStr ''ab'')]
      else if path = ''d/ci_release_sha.json'' then PDict sample_ci
      else PDict
        [(''build_config_id'', PStr ''ab''), (''request_replay_rejected'', PBool True),
         (''result_replay_rejected'', PBool True), (''ledger_persisted_across_restart'', PBool True)])"

definition release_env :: py_env where
  "release_env = (sample_env ''live'')
     \<lparr>getenv := \<lambda>v. if v = ''ADN_RELEASE_OPERATOR_PUBLIC_KEY_HEX'' then Some sample_operator_key
        else if v = ''ADN_RELEASE_REPOSITORY'' then Some ''o/r'' else None,
      json_loads := \<lambda>p. Some (sample_document p),
      filesystem := sample_files\<lparr>read_text := \<lambda>p. Inr p, read_bytes := \<lambda>p. Inr p, path_exists := \<lambda>p. True\<rparr>\<rparr>"

lemma release_accepted:
  "verify_release_dir release_env ''schema'' ''d'' = Inr [(''status'', PStr ''OK''), (''build_commit'', PStr ''ab''),
     (''build_config_id'', PStr ''ab''), (''proof_input_digest'', PStr ''ab'')]"
  by code_simp

lemma release_inputs_accepted: "\<exists>r. verify_release_inputs release_env ''schema'' ''d'' = Inr r"
  using release_accepted by (auto simp: verify_release_dir_def)

lemma manifest_valid: "validate_manifest release_env ''d'' = Inr []"
  by code_simp

lemma release_float_ok: "float_ok (float_repr release_env)"
  by (simp add: release_env_def ratio_text_ok)

section \<open>Properties\<close>

text \<open>
  C34. An accepted release is bound end to end: its manifest satisfies the schema, is signed by the
  pinned operator key and carries the digests of itself, the registration, the first invocation and
  the TEE evidence; the replay proof shows the three rejections; and the CI evidence of the expected
  repository names the digest of exactly these inputs and the commit of the manifest, with both
  workflows successful on a push to main.
\<close>

theorem accepted_release_bound:
  assumes "verify_release_dir E schema_path dir = Inr r"
  shows "\<exists>manifest ci digest. retained E schema_path dir manifest digest \<and>
    read_json E (path_join dir ''ci_release_sha.json'') = Inr (PDict ci) \<and> ci_bound E manifest ci digest \<and>
    r = [(''status'', PStr ''OK''), (''build_commit'', dget manifest ''build_commit'' PNone),
      (''build_config_id'', dget manifest ''build_config_id'' PNone), (''proof_input_digest'', PStr digest)]"
  by (rule verify_release_dir_bound [OF assms])

theorem accepted_release_bound_witness:
  "\<exists>manifest ci. retained release_env ''schema'' ''d'' manifest ''ab'' \<and> ci_bound release_env manifest ci ''ab''"
  using accepted_release_bound [OF release_accepted] by auto

text \<open>
  The proof input digest fixes the six input files: if two directories, in whatever states of the
  file system, have one digest, every input file has the same bytes in both, unless SHA-256 collides
  on that file or on the two lists of digests.
\<close>

theorem proof_input_digest_binds:
  assumes "float_ok (float_repr E)" and "compute_proof_input_digest E dir = Inr d"
    and "compute_proof_input_digest (E\<lparr>filesystem := fs\<rparr>) dir' = Inr d"
  shows "(\<exists>ds ds'. proof_input_file_digests E dir = Inr ds \<and>
      proof_input_file_digests (E\<lparr>filesystem := fs\<rparr>) dir' = Inr ds' \<and>
      collides E (utf8 (canonical_json (float_repr E) (proof_input_payload ds)))
        (utf8 (canonical_json (float_repr E) (proof_input_payload ds')))) \<or>
    (\<forall>name \<in> set PROOF_INPUT_FILES. \<exists>b b'. read_bytes (filesystem E) (path_join dir name) = Inr b \<and>
      read_bytes fs (path_join dir' name) = Inr b' \<and> (b = b' \<or> collides E b b'))"
  by (rule digests_same_files [OF assms])

theorem proof_input_digest_binds_witness:
  "let fs = filesystem release_env in
   (\<exists>ds ds'. proof_input_file_digests release_env ''d'' = Inr ds \<and>
      proof_input_file_digests (release_env\<lparr>filesystem := fs\<rparr>) ''e'' = Inr ds' \<and>
      collides release_env (utf8 (canonical_json (float_repr release_env) (proof_input_payload ds)))
        (utf8 (canonical_json (float_repr release_env) (proof_input_payload ds')))) \<or>
   (\<forall>name \<in> set PROOF_INPUT_FILES. \<exists>b b'. read_bytes (filesystem release_env) (path_join ''d'' name) = Inr b \<and>
      read_bytes fs (path_join ''e'' name) = Inr b' \<and> (b = b' \<or> collides release_env b b'))"
proof -
  have "compute_proof_input_digest release_env ''d'' = Inr ''ab''"
    "compute_proof_input_digest (release_env\<lparr>filesystem := filesystem release_env\<rparr>) ''e'' = Inr ''ab''"
    by code_simp+
  from proof_input_digest_binds [OF release_float_ok this] show ?thesis unfolding Let_def .
qed

text \<open>
  C36. The two validators of the manifest contradict each other: they compute \<open>manifest_digest\<close> over
  different texts (with the field set to \<open>TBD\<close>, and without the field), so a manifest that both accept
  exhibits a collision of SHA-256 on those two texts.
\<close>

theorem manifest_validators_conflict:
  assumes "float_ok (float_repr E)" and "dir \<noteq> []" and "last dir \<noteq> CHR ''/''"
    and "validate_manifest E dir = Inr []" and "verify_release_inputs E schema_path dir = Inr r"
  shows "\<exists>manifest. read_json E (path_join dir ''deployment_manifest.json'') = Inr (PDict manifest) \<and>
    collides E (utf8 (self_digest_text E manifest))
      (utf8 (canonical_json (float_repr E) (PDict (manifest_body manifest))))"
proof -
  have path: "os_path_join dir ''deployment_manifest.json'' = path_join dir ''deployment_manifest.json''"
    using assms(2,3) by (simp add: os_path_join_def path_join_def startswith_def)
  obtain manifest where m: "read_json E (path_join dir ''deployment_manifest.json'') = Inr (PDict manifest)"
      "map_of manifest ''manifest_digest'' = Some (PStr (sha256_hex E (utf8 (self_digest_text E manifest))))"
    using valid_manifest [OF assms(4)] unfolding path by blast
  obtain m' d where "retained E schema_path dir m' d" using verify_release_inputs_retained [OF assms(5)] by blast
  then have "text_field E manifest ''manifest_digest'' = document_digest E (PDict (manifest_body manifest))"
    using m(1) by (simp add: retained_def)
  then have same: "sha256_hex E (utf8 (self_digest_text E manifest)) =
      sha256_hex E (utf8 (canonical_json (float_repr E) (PDict (manifest_body manifest))))"
    using m(2) by (simp add: text_field_def dget_def document_digest_def digest_hex_def)
  have "self_digest_text E manifest \<noteq> canonical_json (float_repr E) (PDict (manifest_body manifest))"
  proof
    assume "self_digest_text E manifest = canonical_json (float_repr E) (PDict (manifest_body manifest))"
    then have "sort_keys (PDict (dset ''manifest_digest'' (PStr ''TBD'') manifest)) = sort_keys (PDict (manifest_body manifest))"
      unfolding self_digest_text_def by (rule encoders_cross [OF assms(1)])
    from sort_keys_same_keys [OF this]
    have "''manifest_digest'' \<in> fst ` set (manifest_body manifest)" by (metis insertI1 keys_dset)
    then show False by (auto simp: manifest_body_def ddel_def)
  qed
  then show ?thesis using same m(1) by (auto simp: collides_def)
qed

theorem manifest_validators_conflict_witness:
  "collides release_env (utf8 (self_digest_text release_env sample_manifest))
     (utf8 (canonical_json (float_repr release_env) (PDict (manifest_body sample_manifest))))"
proof -
  obtain r where r: "verify_release_inputs release_env ''schema'' ''d'' = Inr r" using release_inputs_accepted by blast
  have "read_json release_env (path_join ''d'' ''deployment_manifest.json'') = Inr (PDict sample_manifest)"
    by (simp add: release_env_def read_json_def path_join_def sample_document_def)
  with manifest_validators_conflict [OF release_float_ok _ _ manifest_valid r] show ?thesis by auto
qed

end
