(* ===== verification/AssetTheorems.thy ===== *)
theory AssetTheorems
  imports ReleaseAssetLaws ReleaseTheorems
begin

text \<open>
  The property of the release asset verification (\<^verbatim>\<open>scripts/verify_release_asset.py\<close>) and a sample asset
  directory \<open>a\<close>, whose archive unpacks to a release in \<open>d\<close>: the text of a file is its path (in the
  archive, its path in \<open>d\<close>), and the JSON reader gives the document of that path.
\<close>

section \<open>A sample directory\<close>

definition sample_digest :: string where
  "sample_digest = replicate 64 CHR ''a''"

definition digested :: "string list \<Rightarrow> pydict \<Rightarrow> pydict" where
  "digested fs = map (\<lambda>(f, v). (f, if f \<in> set fs then PStr sample_digest else v))"

definition sample_asset_manifest :: pydict where
  "sample_asset_manifest =
     [(''schema_version'', PStr EXPECTED_RELEASE_ASSET_SCHEMA), (''repository'', PStr ''o/r''), (''sha'', PStr ''ab''),
      (''release_tag'', PStr ''v1''), (''operator_public_key'', PStr sample_operator_key),
      (''proof_input_digest'', PStr sample_digest), (''remote_verification_status'', PStr ''REMOTE_OK''),
      (''files'', PList (map (\<lambda>name. PDict [(''path'', PStr name), (''sha256'', PStr sample_digest)])
         RELEASE_ASSET_PAYLOAD_FILES)),
      (''created_at'', PStr ''t''), (''manifest_digest'', PStr sample_digest)]"

definition archived_document :: "string \<Rightarrow> pyval" where
  "archived_document path =
     (if path = ''schema'' then PDict sample_schema
      else if path = ''d/deployment_manifest.json'' then PDict (digested
        [''manifest_digest'', ''raw_registration_response_digest'', ''first_invocation_digest'', ''t3n_evidence_digest'']
        sample_manifest)
      else if path \<in> {''d/deployment_manifest.sig'', ''a/release_asset_manifest.sig''} then PDict
        [(''algorithm'', PStr ''ed25519''), (''public_key_hex'', PStr sample_operator_key), (''signature_hex'', PStr ''ab'')]
      else if path = ''a/ci_release_sha.json'' then PDict (digested [''proof_input_digest''] sample_ci)
      else if path = ''a/release_asset_manifest.json'' then PDict sample_asset_manifest
      else if path \<in> {''a/remote_verification_result.json'', ''a/workflow_metadata.json''} then PDict
        [(''status'', PStr ''REMOTE_OK''), (''remote_verification_status'', PStr ''REMOTE_OK''),
         (''proof_input_digest'', PStr sample_digest), (''proof_input_archive_sha256'', PStr sample_digest),
         (''ci_attestation_sha256'', PStr sample_digest), (''remote_verification_result_sha256'', PStr sample_digest)]
      else PDict
        [(''build_config_id'', PStr ''ab''), (''request_replay_rejected'', PBool True),
         (''result_replay_rejected'', PBool True), (''ledger_persisted_across_restart'', PBool True)])"

definition asset_env :: py_env where
  "asset_env = release_env\<lparr>sha256_hex := \<lambda>b. sample_digest, json_loads := \<lambda>p. Some (archived_document p)\<rparr>"

definition sample_host :: host where
  "sample_host =
     \<lparr>h_listing = \<lambda>dir. Inr (map (\<lambda>name. \<lparr>de_name = name, de_is_symlink = False, de_is_file = True\<rparr>)
        REQUIRED_RELEASE_ASSET_FILES),
      h_tar = \<lambda>b. Some (map (\<lambda>name. \<lparr>tm_name = ''proof/release/'' @ name, tm_isfile = True, tm_data = Some (''d/'' @ name)\<rparr>)
        PROOF_INPUT_FILES),
      h_zip = \<lambda>b. None, h_decode = \<lambda>b. Inr b, h_fetch = \<lambda>rq. Fetch_Url ''offline''\<rparr>"

lemma asset_env_simps [simp]:
  "digest_hex asset_env b = sample_digest" "read_bytes (filesystem asset_env) path = Inr path"
  "ed25519_verify asset_env key signature b" "read_json asset_env path = Inr (archived_document path)"
  "path_exists (filesystem asset_env) path"
  by (simp_all add: asset_env_def release_env_def digest_hex_def read_json_def)

lemma asset_getenv: "getenv asset_env = getenv release_env"
  by (simp add: asset_env_def)

lemma sample_digest_hex [simp]: "hex_digest_text sample_digest" "sample_digest \<noteq> []" "sample_operator_key \<noteq> []"
  by (simp_all add: hex_digest_text_def sample_digest_def is_digit_def ord_def sample_operator_key_def to_hex_def hex2_def)

lemma asset_manifest_valid:
  assumes "\<And>b. digest_hex E b = sample_digest"
  shows "validate_release_asset_manifest E sample_asset_manifest = Inr ()"
  by (simp add: assms sample_asset_manifest_def validate_release_asset_manifest_def require_fields_def asset_fields_def
      absent_value_def raise_if_def EXPECTED_RELEASE_ASSET_SCHEMA_def text_field_def RELEASE_ASSET_PAYLOAD_FILES_def
      Let_def py_or_def)

lemma asset_hashes_valid: "verify_release_asset_hashes asset_env ''a'' sample_asset_manifest = Inr ()"
  by (simp add: sample_asset_manifest_def verify_release_asset_hashes_def item_def py_iter_def check_asset_hash_def
      subscript_def raise_if_def RELEASE_ASSET_PAYLOAD_FILES_def Let_def)

definition archived_files :: "(string \<times> bytes) list" where
  "archived_files = map (\<lambda>name. (name, ''d/'' @ name)) PROOF_INPUT_FILES"

lemma asset_archive: "extract_proof_input_tar sample_host (\<lambda>_. False) ''a/proof-input.tar'' = Inr archived_files"
  by code_simp

lemma asset_release:
  "verify_release_dir (with_files sample_host ''d'' (archived_files @ [(''ci_release_sha.json'', ''a/ci_release_sha.json'')])
     asset_env) ''schema'' ''d'' =
   Inr [(''status'', PStr ''OK''), (''build_commit'', PStr ''ab''), (''build_config_id'', PStr ''ab''),
        (''proof_input_digest'', PStr sample_digest)]"
  by code_simp

lemma asset_metadata:
  "verify_release_asset_metadata asset_env ''a'' sample_asset_manifest
     [(''status'', PStr ''OK''), (''build_commit'', PStr ''ab''), (''build_config_id'', PStr ''ab''),
      (''proof_input_digest'', PStr sample_digest)] = Inr ()"
  by code_simp

lemma asset_signature:
  assumes "getenv E = getenv release_env" and "\<And>key signature b. ed25519_verify E key signature b"
  shows "verify_asset_signature E sample_asset_manifest
     [(''algorithm'', PStr ''ed25519''), (''public_key_hex'', PStr sample_operator_key), (''signature_hex'', PStr ''ab'')] = Inr ()"
proof -
  have "py_lower (py_strip sample_operator_key) = sample_operator_key"
    "fromhex sample_operator_key = Some (replicate 32 CHR ''k'')" "fromhex ''ab'' = Some [CHR 0xAB]"
    by code_simp+
  moreover have "getenv_or E ''ADN_RELEASE_OPERATOR_PUBLIC_KEY_HEX'' [] = sample_operator_key"
    by (simp add: getenv_or_def assms(1) release_env_def)
  ultimately show ?thesis
    by (simp add: assms(2) verify_asset_signature_def text_field_def sample_asset_manifest_def bytes_fromhex_def)
qed

lemma asset_accepted:
  "verify_release_asset_dir asset_env sample_host ''schema'' ''d'' ''a'' =
     Inr [(''status'', PStr ''RELEASE_ASSET_OK''), (''build_commit'', PStr ''ab''),
       (''build_config_id'', PStr ''ab''), (''proof_input_digest'', PStr sample_digest), (''release_tag'', PStr ''v1'')]"
proof -
  have "require_release_asset_files asset_env sample_host ''a'' = Inr ()"
    by (simp add: require_release_asset_files_def asset_is_file_def sample_host_def REQUIRED_RELEASE_ASSET_FILES_def
        RELEASE_ASSET_PAYLOAD_FILES_def py_consts startswith_def raise_if_def)
  moreover have "archived_document ''a/release_asset_manifest.json'' = PDict sample_asset_manifest"
    by (simp add: archived_document_def)
  moreover have "archived_document ''a/release_asset_manifest.sig'' = PDict
      [(''algorithm'', PStr ''ed25519''), (''public_key_hex'', PStr sample_operator_key), (''signature_hex'', PStr ''ab'')]"
    by (simp add: archived_document_def)
  moreover have "dget sample_asset_manifest ''release_tag'' PNone = PStr ''v1''"
    by (simp add: sample_asset_manifest_def)
  ultimately show ?thesis
    by (simp add: verify_release_asset_dir_def asset_manifest_valid asset_hashes_valid asset_archive asset_release
        asset_metadata asset_signature [OF asset_getenv] path_join_def py_consts)
qed

lemma sample_asset_manifest_wf: "wf_val (PDict sample_asset_manifest)"
  by code_simp

section \<open>The property\<close>

text \<open>
  C25. The manifest of an accepted asset directory is signed by the pinned operator key, and its digest
  fixes every durable file: if two directories, in whatever states of the file system and whatever the
  host answers, are accepted with manifests of one digest, then each of the four payload files, the
  archive of the proof inputs included, has the same bytes in both, unless SHA-256 collides on that file
  or on the two manifests.
\<close>

theorem asset_manifest_binds_files:
  assumes fl: "float_ok (float_repr E)"
    and a: "verify_release_asset_dir E H sp temp dir = Inr r"
    and b: "verify_release_asset_dir (E\<lparr>filesystem := fs\<rparr>) H' sp' temp' dir' = Inr r'"
    and m: "read_json E (path_join dir RELEASE_ASSET_MANIFEST) = Inr (PDict m)" "wf_val (PDict m)"
    and m': "read_json (E\<lparr>filesystem := fs\<rparr>) (path_join dir' RELEASE_ASSET_MANIFEST) = Inr (PDict m')" "wf_val (PDict m')"
    and same: "dget m ''manifest_digest'' PNone = dget m' ''manifest_digest'' PNone"
  shows "(\<exists>signature_doc. read_json E (path_join dir RELEASE_ASSET_SIGNATURE) = Inr (PDict signature_doc) \<and>
      asset_signed E m signature_doc) \<and>
    (collides E (utf8 (canonical_json (float_repr E) (PDict (asset_body m))))
        (utf8 (canonical_json (float_repr E) (PDict (asset_body m')))) \<or>
     (\<forall>name \<in> set RELEASE_ASSET_PAYLOAD_FILES. \<exists>b b'. read_bytes (filesystem E) (path_join dir name) = Inr b \<and>
        read_bytes fs (path_join dir' name) = Inr b' \<and> (b = b' \<or> collides E b b')))"
proof -
  have "asset_bound E dir m"
    using verify_release_asset_dir_bound [OF a] m(1) by (auto simp: asset_bound_def)
  moreover have "asset_bound (E\<lparr>filesystem := fs\<rparr>) dir' m'"
    using verify_release_asset_dir_bound [OF b] m'(1) by (auto simp: asset_bound_def)
  ultimately show ?thesis using asset_files_same [OF fl m(2) m'(2) _ _ same] unfolding asset_bound_def by blast
qed

theorem asset_manifest_binds_files_witness:
  "(\<exists>signature_doc. asset_signed asset_env sample_asset_manifest signature_doc) \<and>
   (collides asset_env (utf8 (canonical_json (float_repr asset_env) (PDict (asset_body sample_asset_manifest))))
      (utf8 (canonical_json (float_repr asset_env) (PDict (asset_body sample_asset_manifest)))) \<or>
    (\<exists>b. read_bytes (filesystem asset_env) (path_join ''a'' ''proof-input.tar'') = Inr b))"
proof -
  have fl: "float_ok (float_repr asset_env)" using release_float_ok by (simp add: asset_env_def)
  have read: "read_json asset_env (path_join ''a'' RELEASE_ASSET_MANIFEST) = Inr (PDict sample_asset_manifest)"
    by (simp add: archived_document_def path_join_def py_consts)
  have fs: "asset_env\<lparr>filesystem := filesystem asset_env\<rparr> = asset_env" by simp
  have read': "read_json (asset_env\<lparr>filesystem := filesystem asset_env\<rparr>) (path_join ''a'' RELEASE_ASSET_MANIFEST) =
      Inr (PDict sample_asset_manifest)"
    unfolding fs by (rule read)
  have accepted': "verify_release_asset_dir (asset_env\<lparr>filesystem := filesystem asset_env\<rparr>) sample_host ''schema'' ''d'' ''a'' =
      Inr [(''status'', PStr ''RELEASE_ASSET_OK''), (''build_commit'', PStr ''ab''),
        (''build_config_id'', PStr ''ab''), (''proof_input_digest'', PStr sample_digest), (''release_tag'', PStr ''v1'')]"
    unfolding fs by (rule asset_accepted)
  note wf = sample_asset_manifest_wf
  from asset_manifest_binds_files [OF fl asset_accepted accepted' read wf read' wf refl] show ?thesis
    by (auto simp: RELEASE_ASSET_PAYLOAD_FILES_def)
qed

end
