(* ===== verification/ReleaseRemote.thy ===== *)
theory ReleaseRemote
  imports Archives
begin

text \<open>
  \<^verbatim>\<open>scripts/verify_release_remote.py\<close>: the checks of a release against GitHub Actions, the paged lists of
  its API and the archive of the proof inputs. A page is a function of its number; the loop over the
  pages may not end, so its value is an option.
\<close>

definition PROOF_INPUT_TAR :: string where
  [py_consts]: "PROOF_INPUT_TAR = ''proof-input.tar''"

section \<open>The client\<close>

definition actions_json :: "py_env \<Rightarrow> host \<Rightarrow> github_client \<Rightarrow> string \<Rightarrow> pyval py" where
  "actions_json E H = github_json E H ''GitHub API'' ''adn-release-remote-verifier''"

definition repo_path :: "string \<Rightarrow> string py" where
  "repo_path repository =
     bindE (parse_repository repository) (\<lambda>(owner, repo). Inr (''/repos/'' @ owner @ ''/'' @ repo))"

definition get_workflow_run :: "py_env \<Rightarrow> host \<Rightarrow> github_client \<Rightarrow> string \<Rightarrow> string \<Rightarrow> pyval py" where
  "get_workflow_run E H c repository run_id =
     bindE (repo_path repository) (\<lambda>path. actions_json E H c (path @ ''/actions/runs/'' @ run_id))"

text \<open>\<open>(d.get(k) or {})\<close> used as a dictionary.\<close>

definition nested :: "pydict \<Rightarrow> string \<Rightarrow> pydict py" where
  "nested d k = as_dict (py_or (dget d k PNone) (PDict []))"

definition get_workflow_run_artifact ::
  "py_env \<Rightarrow> host \<Rightarrow> github_client \<Rightarrow> string \<Rightarrow> string \<Rightarrow> string \<Rightarrow> pydict py" where
  "get_workflow_run_artifact E H c repository run_id artifact_id =
     bindE (repo_path repository) (\<lambda>path.
     bindE (bindE (actions_json E H c (path @ ''/actions/artifacts/'' @ artifact_id)) as_dict) (\<lambda>artifact.
     bindE (nested artifact ''workflow_run'') (\<lambda>workflow_run.
     bindE (raise_if (text_field E workflow_run ''id'' \<noteq> run_id)
       ''GitHub artifact does not belong to the declared workflow run'') (\<lambda>_. Inr artifact))))"

text \<open>One page: the total it announces and its items.\<close>

definition page_items :: "py_env \<Rightarrow> string \<Rightarrow> string \<Rightarrow> pyval py \<Rightarrow> (int \<times> pyval list) py" where
  "page_items E key what page =
     bindE (bindE page as_dict) (\<lambda>payload.
     bindE (py_int E (dget payload ''total_count'' (PInt 0))) (\<lambda>total_count.
     case dget payload key (PList []) of
       PList items \<Rightarrow> Inr (total_count, items)
     | _ \<Rightarrow> Inl (RuntimeError (''GitHub '' @ what @ '' response is malformed''))))"

definition wants_more :: "pyval list \<Rightarrow> int option \<Rightarrow> bool" where
  "wants_more items announced = (case announced of None \<Rightarrow> True | Some n \<Rightarrow> int (length items) < n)"

partial_function (option) list_pages ::
  "(nat \<Rightarrow> (int \<times> pyval list) py) \<Rightarrow> nat \<Rightarrow> pyval list \<Rightarrow> int option \<Rightarrow> pyval list py option" where
  "list_pages page_at page items announced =
     (if \<not> wants_more items announced then Some (Inr items)
      else case page_at page of
        Inl e \<Rightarrow> Some (Inl e)
      | Inr (n, []) \<Rightarrow> Some (Inr items)
      | Inr (n, x # xs) \<Rightarrow> list_pages page_at (Suc page) (items @ x # xs) (Some n))"

declare list_pages.simps [code]

definition artifacts_page :: "py_env \<Rightarrow> host \<Rightarrow> github_client \<Rightarrow> string \<Rightarrow> string \<Rightarrow> nat \<Rightarrow> (int \<times> pyval list) py" where
  "artifacts_page E H c path run_id page = page_items E ''artifacts'' ''artifacts'' (actions_json E H c
     (path @ ''/actions/runs/'' @ run_id @ ''/artifacts?per_page=100&page='' @ dec page))"

definition list_workflow_run_artifacts ::
  "py_env \<Rightarrow> host \<Rightarrow> github_client \<Rightarrow> string \<Rightarrow> string \<Rightarrow> pyval list py option" where
  "list_workflow_run_artifacts E H c repository run_id = (case repo_path repository of
     Inl e \<Rightarrow> Some (Inl e)
   | Inr path \<Rightarrow> list_pages (artifacts_page E H c path run_id) 1 [] None)"

definition runs_page :: "py_env \<Rightarrow> host \<Rightarrow> github_client \<Rightarrow> string \<Rightarrow> string \<Rightarrow> nat \<Rightarrow> (int \<times> pyval list) py" where
  "runs_page E H c path head_sha page = page_items E ''workflow_runs'' ''workflow runs'' (actions_json E H c
     (path @ ''/actions/runs?per_page=100&page='' @ dec page @ ''&head_sha='' @ quote_url head_sha @ ''&status=completed''))"

definition list_workflow_runs_for_head ::
  "py_env \<Rightarrow> host \<Rightarrow> github_client \<Rightarrow> string \<Rightarrow> string \<Rightarrow> pyval list py option" where
  "list_workflow_runs_for_head E H c repository head_sha = (case repo_path repository of
     Inl e \<Rightarrow> Some (Inl e)
   | Inr path \<Rightarrow> list_pages (runs_page E H c path head_sha) 1 [] None)"

definition download_artifact_zip :: "py_env \<Rightarrow> host \<Rightarrow> github_client \<Rightarrow> pydict \<Rightarrow> bytes py" where
  "download_artifact_zip E H c artifact =
     (let url = py_strip (text_field E artifact ''archive_download_url'')
      in if url = [] then Inl (RuntimeError ''GitHub artifact is missing archive_download_url'')
         else github_request H ''GitHub API'' ''adn-release-remote-verifier'' c url ''application/vnd.github+json'')"

section \<open>Values\<close>

definition normalize_digest :: "py_env \<Rightarrow> pyval \<Rightarrow> string py" where
  "normalize_digest E value =
     (let digest = removeprefix (py_lower (py_strip (py_str (float_repr E) (py_or value (PStr []))))) ''sha256:''
      in if hex_digest_text digest then Inr digest
         else Inl (RuntimeError ''GitHub artifact digest must be sha256:<64-hex> or 64-hex''))"

definition require_equal :: "py_env \<Rightarrow> string \<Rightarrow> pyval \<Rightarrow> pyval \<Rightarrow> unit py" where
  "require_equal E label actual expected =
     (let text = py_str (float_repr E)
      in raise_if (text actual \<noteq> text expected)
           (label @ '' mismatch: expected '' @ text expected @ '', got '' @ text actual))"

section \<open>The archive\<close>

definition file_bytes :: "(string \<times> bytes) list \<Rightarrow> string \<Rightarrow> bytes py" where
  "file_bytes files name = (case map_of files name of Some b \<Rightarrow> Inr b | None \<Rightarrow> Inl (KeyError (repr_str name)))"

definition proof_input_digest_from_bytes :: "py_env \<Rightarrow> (string \<times> bytes) list \<Rightarrow> string py" where
  "proof_input_digest_from_bytes E files =
     bindE (mapE (\<lambda>name. bindE (file_bytes files name) (\<lambda>b.
         Inr (PDict [(''path'', PStr name), (''sha256'', PStr (digest_hex E b))]))) PROOF_INPUT_FILES) (\<lambda>digests.
     Inr (digest_hex E (utf8 (canonical_json (float_repr E) (proof_input_payload digests)))))"

definition member_path :: "string \<Rightarrow> string" where
  "member_path name = ''proof/release/'' @ name"

text \<open>The members by normalized name; a later member replaces an earlier one of that name.\<close>

fun archive_members :: "tar_member list \<Rightarrow> (string \<times> tar_member) list \<Rightarrow> (string \<times> tar_member) list py" where
  "archive_members [] members = Inr members"
| "archive_members (m # ms) members =
     (let name = forward_slashes (tm_name m)
      in if startswith name ''/'' \<or> normpath name \<noteq> name \<or> name \<notin> member_path ` set PROOF_INPUT_FILES \<or> \<not> tm_isfile m
         then Inl (RuntimeError (''unexpected proof input archive path: '' @ tm_name m))
         else archive_members ms (dset name m members))"

definition member_bytes :: "(string \<times> tar_member) list \<Rightarrow> string \<Rightarrow> (string \<times> bytes) py" where
  "member_bytes members name = (case map_of members (member_path name) of
     None \<Rightarrow> Inl (RuntimeError (''downloaded GitHub artifact is missing proof input '' @ member_path name))
   | Some m \<Rightarrow> (case tm_data m of
       None \<Rightarrow> Inl (RuntimeError (''downloaded GitHub artifact cannot read proof input '' @ member_path name))
     | Some b \<Rightarrow> Inr (name, b)))"

text \<open>The entries of the archive in their order; of entries with one name the last is read.\<close>

definition extract_artifact_zip :: "host \<Rightarrow> bytes \<Rightarrow> (string \<times> bytes) list py" where
  "extract_artifact_zip H zip_bytes = (case h_zip H zip_bytes of
     None \<Rightarrow> Inl (RuntimeError ''downloaded GitHub artifact is not a valid ZIP archive'')
   | Some entries \<Rightarrow> (case map_of (rev entries) PROOF_INPUT_TAR of
       None \<Rightarrow> Inl (RuntimeError (''downloaded GitHub artifact is missing '' @ PROOF_INPUT_TAR))
     | Some tar \<Rightarrow> (case h_tar H tar of
         None \<Rightarrow> Inl (RuntimeError (PROOF_INPUT_TAR @ '' is not a valid tar archive''))
       | Some ms \<Rightarrow> bindE (archive_members ms []) (\<lambda>members. mapE (member_bytes members) PROOF_INPUT_FILES))))"

text \<open>The files written to the output directory, which may already have some (\<open>occupied\<close>), and the answer.\<close>

definition materialize_proof_inputs ::
  "py_env \<Rightarrow> host \<Rightarrow> (string \<Rightarrow> bool) \<Rightarrow> bytes \<Rightarrow> ((string \<times> bytes) list \<times> pydict) py" where
  "materialize_proof_inputs E H occupied zip_bytes =
     bindE (extract_artifact_zip H zip_bytes) (\<lambda>files.
     bindE (mapE (\<lambda>(name, b). raise_if (occupied name)
       (''refusing to overwrite materialized proof input: '' @ name)) files) (\<lambda>_.
     bindE (proof_input_digest_from_bytes E files) (\<lambda>digest.
     Inr (files, [(''proof_input_digest'', PStr digest), (''proof_input_files'', PList (map PStr PROOF_INPUT_FILES))]))))"

definition compare_file :: "py_env \<Rightarrow> string \<Rightarrow> (string \<times> bytes) list \<Rightarrow> string \<Rightarrow> unit py" where
  "compare_file E proof_dir files name =
     bindE (read_bytes (filesystem E) (path_join proof_dir name)) (\<lambda>local_bytes.
     bindE (file_bytes files name) (\<lambda>remote_bytes.
     raise_if (digest_hex E remote_bytes \<noteq> digest_hex E local_bytes)
       (''downloaded GitHub artifact proof input '' @ name @ '' digest mismatch'')))"

definition verify_archive_contents :: "py_env \<Rightarrow> host \<Rightarrow> string \<Rightarrow> bytes \<Rightarrow> string \<Rightarrow> unit py" where
  "verify_archive_contents E H proof_dir zip_bytes expected_digest =
     bindE (extract_artifact_zip H zip_bytes) (\<lambda>files.
     bindE (mapE (compare_file E proof_dir files) PROOF_INPUT_FILES) (\<lambda>_.
     bindE (proof_input_digest_from_bytes E files) (\<lambda>digest.
     raise_if (digest \<noteq> expected_digest)
       ''downloaded GitHub artifact proof_input_digest does not match CI attestation'')))"

section \<open>The runs and the artifact\<close>

definition verify_run :: "py_env \<Rightarrow> pydict \<Rightarrow> pyval \<Rightarrow> string \<Rightarrow> unit py" where
  "verify_run E ci run_val expected_repo =
     bindE (as_dict run_val) (\<lambda>run.
     let field = (\<lambda>k. dget run k PNone); attested = (\<lambda>k. dget ci k PNone)
     in bindE (require_equal E ''workflow run id'' (field ''id'') (attested ''workflow_run_id'')) (\<lambda>_.
        bindE (require_equal E ''workflow run head_sha'' (field ''head_sha'') (attested ''sha'')) (\<lambda>_.
        bindE (require_equal E ''workflow run conclusion'' (field ''conclusion'') (PStr ''success'')) (\<lambda>_.
        bindE (raise_if (\<not> py_eq (field ''html_url'') (attested ''workflow_run_url''))
          ''workflow run URL does not match CI attestation'') (\<lambda>_.
        bindE (nested run ''repository'') (\<lambda>repository.
        raise_if (dget repository ''full_name'' PNone \<noteq> PStr expected_repo)
          ''workflow run repository does not match expected repository''))))))"

definition verify_tests_run :: "py_env \<Rightarrow> pydict \<Rightarrow> pyval \<Rightarrow> string \<Rightarrow> unit py" where
  "verify_tests_run E ci run_val expected_repo =
     bindE (as_dict run_val) (\<lambda>run.
     let field = (\<lambda>k. dget run k PNone); attested = (\<lambda>k. dget ci k PNone)
     in bindE (require_equal E ''Tests workflow run id'' (field ''id'') (attested ''tests_workflow_run_id'')) (\<lambda>_.
        bindE (require_equal E ''Tests workflow head_sha'' (field ''head_sha'') (attested ''tests_workflow_head_sha'')) (\<lambda>_.
        bindE (require_equal E ''Tests workflow conclusion'' (field ''conclusion'') (PStr ''success'')) (\<lambda>_.
        bindE (require_equal E ''Tests workflow event'' (field ''event'') (attested ''tests_workflow_event'')) (\<lambda>_.
        bindE (require_equal E ''Tests workflow head_branch'' (field ''head_branch'') (attested ''tests_workflow_head_branch'')) (\<lambda>_.
        bindE (raise_first
          [(\<not> py_eq (field ''html_url'') (attested ''tests_workflow_run_url''),
              ''Tests workflow URL does not match CI attestation''),
           (field ''name'' \<noteq> PStr ''Tests'', ''Tests workflow run name does not match required workflow''),
           (field ''event'' \<noteq> PStr ''push'', ''Tests workflow event must be push''),
           (field ''head_branch'' \<noteq> PStr ''main'', ''Tests workflow head_branch must be main'')]) (\<lambda>_.
        bindE (nested run ''repository'') (\<lambda>repository.
        raise_if (dget repository ''full_name'' PNone \<noteq> PStr expected_repo)
          ''Tests workflow repository does not match expected repository''))))))))"

definition tests_run_matches :: "py_env \<Rightarrow> string \<Rightarrow> string \<Rightarrow> pyval \<Rightarrow> (pydict \<times> bool) py" where
  "tests_run_matches E repository head_sha run_val =
     bindE (as_dict run_val) (\<lambda>run.
     if dget run ''name'' PNone = PStr ''Tests'' \<and> dget run ''conclusion'' PNone = PStr ''success'' \<and>
        dget run ''event'' PNone = PStr ''push'' \<and> dget run ''head_branch'' PNone = PStr ''main'' \<and>
        text_field E run ''head_sha'' = head_sha
     then bindE (nested run ''repository'') (\<lambda>r. Inr (run, dget r ''full_name'' PNone = PStr repository))
     else Inr (run, False))"

definition run_time :: "py_env \<Rightarrow> pydict \<Rightarrow> string" where
  "run_time E run = py_str (float_repr E)
     (py_or (dget run ''run_started_at'' PNone) (py_or (dget run ''created_at'' PNone) (PStr [])))"

text \<open>The first of the latest.\<close>

fun latest_run :: "py_env \<Rightarrow> pydict \<Rightarrow> pydict list \<Rightarrow> pydict" where
  "latest_run E best [] = best"
| "latest_run E best (run # runs) = latest_run E (if run_time E best < run_time E run then run else best) runs"

definition find_successful_tests_workflow_run :: "py_env \<Rightarrow> pyval list \<Rightarrow> string \<Rightarrow> string \<Rightarrow> pydict py" where
  "find_successful_tests_workflow_run E runs repository head_sha =
     bindE (mapE (tests_run_matches E repository head_sha) runs) (\<lambda>flags.
     case map fst (filter snd flags) of
       [] \<Rightarrow> Inl (RuntimeError ''no successful Tests workflow run found for release SHA'')
     | run # rest \<Rightarrow> Inr (latest_run E run rest))"

definition artifact_page :: "string \<Rightarrow> string \<Rightarrow> string \<Rightarrow> string" where
  "artifact_page repository run_id artifact_id =
     ''https://github.com/'' @ repository @ ''/actions/runs/'' @ run_id @ ''/artifacts/'' @ artifact_id"

definition verify_artifact :: "py_env \<Rightarrow> pydict \<Rightarrow> pydict \<Rightarrow> string \<Rightarrow> string \<Rightarrow> string py" where
  "verify_artifact E ci artifact repository run_id =
     bindE (require_equal E ''artifact id'' (dget artifact ''id'' PNone) (dget ci ''artifact_id'' PNone)) (\<lambda>_.
     bindE (require_equal E ''artifact name'' (dget artifact ''name'' PNone) (dget ci ''artifact_name'' PNone)) (\<lambda>_.
     bindE (if truthy (dget artifact ''workflow_run'' PNone)
       then bindE (nested artifact ''workflow_run'') (\<lambda>w. raise_if (text_field E w ''id'' \<noteq> run_id)
         ''GitHub artifact does not belong to the declared workflow run'')
       else Inr ()) (\<lambda>_.
     bindE (raise_if (dget ci ''artifact_url'' PNone \<noteq>
         PStr (artifact_page repository run_id (py_str (float_repr E) (dget ci ''artifact_id'' PNone))))
       ''CI release evidence artifact_url does not match expected GitHub artifact URL'') (\<lambda>_.
     bindE (raise_if (dget artifact ''expired'' PNone = PBool True) ''GitHub artifact has expired'') (\<lambda>_.
     bindE (normalize_digest E (dget artifact ''digest'' PNone)) (\<lambda>remote_digest.
     bindE (normalize_digest E (dget ci ''artifact_digest'' PNone)) (\<lambda>attested_digest.
     bindE (raise_if (remote_digest \<noteq> attested_digest)
       ''GitHub artifact metadata digest does not match CI attestation'') (\<lambda>_. Inr attested_digest))))))))"

section \<open>The release\<close>

text \<open>A \<open>client\<close> or an \<open>expected_repository\<close> that is not given comes from the environment.\<close>

definition release_repository :: "py_env \<Rightarrow> string option \<Rightarrow> string" where
  "release_repository E given =
     str_or (opt_str given) (py_strip (getenv_or E ''ADN_RELEASE_REPOSITORY'' DEFAULT_REPOSITORY))"

definition verify_release_remote ::
  "py_env \<Rightarrow> host \<Rightarrow> string \<Rightarrow> github_client option \<Rightarrow> string option \<Rightarrow> string \<Rightarrow> pydict py" where
  "verify_release_remote E H schema_path client expected_repo proof_path =
     bindE (verify_release_dir E schema_path proof_path) (\<lambda>local_result.
     bindE (bindE (read_json E (path_join proof_path ''ci_release_sha.json'')) as_dict) (\<lambda>ci.
     let repository = release_repository E expected_repo;
         c = (case client of Some c \<Rightarrow> c | None \<Rightarrow> default_github_client E);
         run_id = text_field E ci ''workflow_run_id''; artifact_id = text_field E ci ''artifact_id'';
         tests_run_id = text_field E ci ''tests_workflow_run_id''
     in bindE (raise_if (dget ci ''repository'' PNone \<noteq> PStr repository)
          ''CI release evidence repository does not match expected repository'') (\<lambda>_.
        bindE (get_workflow_run E H c repository run_id) (\<lambda>run.
        bindE (verify_run E ci run repository) (\<lambda>_.
        bindE (get_workflow_run E H c repository tests_run_id) (\<lambda>tests_run.
        bindE (verify_tests_run E ci tests_run repository) (\<lambda>_.
        bindE (get_workflow_run_artifact E H c repository run_id artifact_id) (\<lambda>artifact.
        bindE (verify_artifact E ci artifact repository run_id) (\<lambda>attested_digest.
        bindE (download_artifact_zip E H c artifact) (\<lambda>artifact_zip.
        bindE (raise_if (digest_hex E artifact_zip \<noteq> attested_digest)
          ''downloaded artifact digest does not match GitHub artifact metadata'') (\<lambda>_.
        bindE (verify_archive_contents E H proof_path artifact_zip
          (py_str (float_repr E) (dget ci ''proof_input_digest'' PNone))) (\<lambda>_.
        Inr [(''status'', PStr ''REMOTE_OK''), (''build_commit'', dget local_result ''build_commit'' PNone),
             (''build_config_id'', dget local_result ''build_config_id'' PNone),
             (''workflow_run_id'', PStr run_id), (''tests_workflow_run_id'', PStr tests_run_id),
             (''artifact_id'', PStr artifact_id), (''artifact_digest'', PStr (digest_hex E artifact_zip)),
             (''proof_input_digest'', dget local_result ''proof_input_digest'' PNone)]))))))))))))"

end
