(* ===== verification/ReleaseAssetRemote.thy ===== *)
theory ReleaseAssetRemote
  imports ReleaseRemote ReleaseAsset
begin

text \<open>
  \<^verbatim>\<open>scripts/verify_release_asset_remote.py\<close>: the durable assets are fetched from the GitHub release of a
  tag into a new directory \<open>temp\<close> and verified there (the archive in another, \<open>proof_temp\<close>).
\<close>

section \<open>The client\<close>

definition get_release_by_tag :: "py_env \<Rightarrow> host \<Rightarrow> github_client \<Rightarrow> string \<Rightarrow> string \<Rightarrow> pyval py" where
  "get_release_by_tag E H c repository tag =
     bindE (repo_path repository) (\<lambda>path.
     github_json E H ''GitHub release asset'' ''adn-release-asset-remote-verifier'' c
       (path @ ''/releases/tags/'' @ quote_url tag))"

definition download_release_asset :: "py_env \<Rightarrow> host \<Rightarrow> github_client \<Rightarrow> pydict \<Rightarrow> bytes py" where
  "download_release_asset E H c asset =
     (let url = py_strip (py_str (float_repr E)
        (py_or (dget asset ''url'' PNone) (py_or (dget asset ''browser_download_url'' PNone) (PStr []))))
      in if url = []
         then Inl (RuntimeError (''GitHub Release asset '' @ text_field E asset ''name'' @ '' is missing a download URL''))
         else github_request H ''GitHub release asset'' ''adn-release-asset-remote-verifier'' c url ''application/octet-stream'')"

section \<open>The assets of the release\<close>

definition validate_release_metadata :: "py_env \<Rightarrow> pydict \<Rightarrow> string \<Rightarrow> string option \<Rightarrow> unit py" where
  "validate_release_metadata E release tag expected_sha =
     bindE (require_equal E ''release tag'' (dget release ''tag_name'' PNone) (PStr tag)) (\<lambda>_.
     bindE (if opt_str expected_sha = [] then Inr ()
       else require_equal E ''release target_commitish'' (dget release ''target_commitish'' PNone)
         (PStr (opt_str expected_sha))) (\<lambda>_.
     case dget release ''assets'' PNone of
       PList assets \<Rightarrow> Inr ()
     | _ \<Rightarrow> Inl (RuntimeError ''GitHub Release assets response is malformed'')))"

text \<open>The assets by name; duplicates and unexpected names are collected.\<close>

record asset_scan =
  as_by_name :: "(string \<times> pydict) list"
  as_unexpected :: "string list"
  as_duplicate :: "string list"

fun scan_assets :: "py_env \<Rightarrow> pyval list \<Rightarrow> asset_scan \<Rightarrow> asset_scan py" where
  "scan_assets E [] s = Inr s"
| "scan_assets E (v # vs) s = (case v of
     PDict asset \<Rightarrow>
       let name = text_field E asset ''name''
       in if map_of (as_by_name s) name \<noteq> None then scan_assets E vs (s\<lparr>as_duplicate := as_duplicate s @ [name]\<rparr>)
          else if name \<notin> set REQUIRED_RELEASE_ASSET_FILES
          then scan_assets E vs (s\<lparr>as_unexpected := as_unexpected s @ [name]\<rparr>)
          else scan_assets E vs (s\<lparr>as_by_name := dset name asset (as_by_name s)\<rparr>)
   | _ \<Rightarrow> Inl (RuntimeError ''GitHub Release asset entry is malformed''))"

definition release_asset_map :: "py_env \<Rightarrow> pydict \<Rightarrow> (string \<times> pydict) list py" where
  "release_asset_map E release =
     bindE (py_iter (dget release ''assets'' (PList []))) (\<lambda>assets.
     bindE (scan_assets E assets \<lparr>as_by_name = [], as_unexpected = [], as_duplicate = []\<rparr>) (\<lambda>s.
     let missing = sort (filter (\<lambda>name. map_of (as_by_name s) name = None) REQUIRED_RELEASE_ASSET_FILES)
     in bindE (raise_first
          [(as_duplicate s \<noteq> [], ''duplicate GitHub Release assets: '' @ join '', '' (sort (as_duplicate s))),
           (as_unexpected s \<noteq> [], ''unexpected GitHub Release assets: '' @ join '', '' (sort (as_unexpected s))),
           (missing \<noteq> [], ''missing GitHub Release assets: '' @ join '', '' missing)]) (\<lambda>_.
        Inr (as_by_name s))))"

text \<open>The files written to the output directory, which may already have some (\<open>occupied\<close>).\<close>

definition download_release_assets ::
  "py_env \<Rightarrow> host \<Rightarrow> github_client \<Rightarrow> (string \<Rightarrow> bool) \<Rightarrow> pydict \<Rightarrow> (string \<times> bytes) list py" where
  "download_release_assets E H c occupied release =
     bindE (release_asset_map E release) (\<lambda>assets.
     mapE (\<lambda>name. case map_of assets name of
         None \<Rightarrow> Inl (KeyError (repr_str name))
       | Some asset \<Rightarrow> bindE (download_release_asset E H c asset) (\<lambda>b.
           bindE (raise_if (occupied name) (''refusing to overwrite downloaded GitHub Release asset: '' @ name)) (\<lambda>_.
           Inr (name, b)))) REQUIRED_RELEASE_ASSET_FILES)"

definition verify_release_manifest_binding ::
  "py_env \<Rightarrow> string \<Rightarrow> string \<Rightarrow> string \<Rightarrow> string option \<Rightarrow> string \<Rightarrow> pydict py" where
  "verify_release_manifest_binding E asset_dir repository tag expected_sha release_target =
     bindE (bindE (read_json E (path_join asset_dir RELEASE_ASSET_MANIFEST)) as_dict) (\<lambda>manifest.
     let field = (\<lambda>k. dget manifest k PNone)
     in bindE (require_equal E ''release asset manifest repository'' (field ''repository'') (PStr repository)) (\<lambda>_.
        bindE (require_equal E ''release asset manifest release_tag'' (field ''release_tag'') (PStr tag)) (\<lambda>_.
        bindE (require_equal E ''release asset manifest sha'' (field ''sha'')
          (PStr (str_or (opt_str expected_sha) release_target))) (\<lambda>_.
        bindE (require_equal E ''release asset manifest sha'' (field ''sha'') (PStr release_target)) (\<lambda>_.
        Inr manifest)))))"

section \<open>The release\<close>

definition verify_release_asset_remote ::
  "py_env \<Rightarrow> host \<Rightarrow> string \<Rightarrow> string \<Rightarrow> string \<Rightarrow> github_client option \<Rightarrow> string option \<Rightarrow> string option \<Rightarrow>
    string option \<Rightarrow> pydict py" where
  "verify_release_asset_remote E H schema_path temp proof_temp client repository tag expected_sha =
     (let expected_repo = release_repository E repository;
          expected_tag = str_or (opt_str tag) (py_strip (getenv_or E ''ADN_RELEASE_ASSET_TAG'' []));
          c = (case client of Some c \<Rightarrow> c | None \<Rightarrow> default_github_client E)
      in bindE (raise_if (expected_tag = []) ''release asset tag is required'') (\<lambda>_.
      bindE (parse_repository expected_repo) (\<lambda>_.
      bindE (bindE (get_release_by_tag E H c expected_repo expected_tag) as_dict) (\<lambda>release.
      bindE (validate_release_metadata E release expected_tag expected_sha) (\<lambda>_.
      let release_target = py_strip (text_field E release ''target_commitish'')
      in bindE (raise_if (release_target = []) ''GitHub Release target_commitish is required'') (\<lambda>_.
      bindE (download_release_assets E H c (\<lambda>_. False) release) (\<lambda>files.
      let E' = with_files H temp files E; H' = with_listing temp files H
      in bindE (verify_release_manifest_binding E' temp expected_repo expected_tag expected_sha release_target) (\<lambda>manifest.
      bindE (verify_release_asset_dir E' H' schema_path proof_temp temp) (\<lambda>local_result.
      Inr [(''status'', PStr ''REMOTE_RELEASE_ASSET_OK''), (''repository'', PStr expected_repo),
           (''release_tag'', PStr expected_tag), (''sha'', dget manifest ''sha'' PNone),
           (''build_commit'', dget local_result ''build_commit'' PNone),
           (''build_config_id'', dget local_result ''build_config_id'' PNone),
           (''proof_input_digest'', dget local_result ''proof_input_digest'' PNone),
           (''release_url'', dget release ''html_url'' PNone)])))))))))"

end
