(* ===== verification/ReleaseRemoteLaws.thy ===== *)
theory ReleaseRemoteLaws
  imports ReleaseAssetRemote ReleaseAssetLaws
begin

text \<open>
  What the remote verifiers establish: the loop over the pages returns when the announced totals are
  bounded, an accepted release has the files of the archive GitHub attests, and accepted assets are those
  of the tagged release.
\<close>

section \<open>Pages\<close>

definition page_content :: "(nat \<Rightarrow> (int \<times> pyval list) py) \<Rightarrow> nat \<Rightarrow> pyval list" where
  "page_content page_at page = (case page_at page of Inl e \<Rightarrow> [] | Inr (n, xs) \<Rightarrow> xs)"

text \<open>\<open>items\<close> are the contents of the pages before \<open>page\<close>, and the last of them says there is no more.\<close>

definition all_pages :: "(nat \<Rightarrow> (int \<times> pyval list) py) \<Rightarrow> nat \<Rightarrow> pyval list \<Rightarrow> bool" where
  "all_pages page_at page items \<longleftrightarrow> items = concat (map (page_content page_at) [1..<page]) \<and>
     (page_content page_at page = [] \<or> (\<exists>n xs. page_at (page - 1) = Inr (n, xs) \<and> n \<le> int (length items)))"

lemma pages_snoc: "1 \<le> page \<Longrightarrow> concat (map (page_content page_at) [1..<Suc page]) =
    concat (map (page_content page_at) [1..<page]) @ page_content page_at page"
  by simp

lemma list_pages_returns:
  assumes "\<And>page n xs. page_at page = Inr (n, xs) \<Longrightarrow> n \<le> bound"
    and "1 \<le> page" "items = concat (map (page_content page_at) [1..<page])"
    and "\<And>n. announced = Some n \<Longrightarrow> n \<le> bound \<and> (\<exists>xs. page_at (page - 1) = Inr (n, xs))"
  shows "\<exists>r. list_pages page_at page items announced = Some r \<and>
    (\<forall>out. r = Inr out \<longrightarrow> (\<exists>last_page \<ge> page. all_pages page_at last_page out))"
  using assms(2-)
proof (induction "nat (bound - int (length items))" arbitrary: page items announced rule: less_induct)
  case less
  show ?case
  proof (cases "wants_more items announced")
    case False
    then obtain n xs where "announced = Some n" "n \<le> int (length items)" "page_at (page - 1) = Inr (n, xs)"
      using less.prems(3) by (auto simp: wants_more_def split: option.split_asm)
    then have "all_pages page_at page items" using less.prems(2) by (auto simp: all_pages_def)
    then show ?thesis using False by (subst list_pages.simps) auto
  next
    case more: True
    show ?thesis
    proof (cases "page_at page")
      case (Inl e)
      then show ?thesis using more by (subst list_pages.simps) simp
    next
      case page: (Inr answer)
      obtain n xs where nxs: "page_at page = Inr (n, xs)" using page by (cases answer) simp
      show ?thesis
      proof (cases xs)
        case Nil
        then have "all_pages page_at page items" using less.prems(2) nxs by (simp add: all_pages_def page_content_def)
        then show ?thesis using more nxs Nil by (subst list_pages.simps) auto
      next
        case (Cons x rest)
        have step: "list_pages page_at page items announced = list_pages page_at (Suc page) (items @ xs) (Some n)"
          using more nxs Cons by (subst list_pages.simps) simp
        have items: "items @ xs = concat (map (page_content page_at) [1..<Suc page])"
          using less.prems(1,2) nxs by (simp add: page_content_def)
        have n: "n \<le> bound" by (rule assms(1) [OF nxs])
        show ?thesis
        proof (cases "int (length (items @ xs)) < n")
          case False
          then have "all_pages page_at (Suc page) (items @ xs)" using items nxs by (auto simp: all_pages_def)
          moreover have "list_pages page_at (Suc page) (items @ xs) (Some n) = Some (Inr (items @ xs))"
            using False by (subst list_pages.simps) (simp add: wants_more_def)
          ultimately show ?thesis unfolding step by (auto intro: exI [of _ "Suc page"])
        next
          case True
          then have "nat (bound - int (length (items @ xs))) < nat (bound - int (length items))"
            using n Cons by simp
          from less.hyps [OF this _ items, of "Some n"] show ?thesis
            unfolding step using n nxs by (auto dest: Suc_leD)
        qed
      qed
    qed
  qed
qed

lemma list_workflow_run_artifacts_returns:
  assumes "repo_path repository = Inr path"
    and "\<And>page n xs. artifacts_page E H c path run_id page = Inr (n, xs) \<Longrightarrow> n \<le> bound"
  shows "\<exists>r. list_workflow_run_artifacts E H c repository run_id = Some r \<and>
    (\<forall>out. r = Inr out \<longrightarrow> (\<exists>last_page \<ge> 1. all_pages (artifacts_page E H c path run_id) last_page out))"
  using list_pages_returns [of "artifacts_page E H c path run_id" bound 1 "[]" None] assms
  by (simp add: list_workflow_run_artifacts_def)

section \<open>The release\<close>

lemma require_equal_Inr [simp]:
  "require_equal E label actual expected = Inr u \<longleftrightarrow> py_str (float_repr E) actual = py_str (float_repr E) expected"
  by (simp add: require_equal_def Let_def)

text \<open>A run of GitHub Actions as the evidence names it.\<close>

definition run_attested :: "py_env \<Rightarrow> pydict \<Rightarrow> string \<Rightarrow> string \<Rightarrow> string \<Rightarrow> pydict \<Rightarrow> bool" where
  "run_attested E ci id_field sha_field repository run \<longleftrightarrow>
     py_str (float_repr E) (dget run ''id'' PNone) = py_str (float_repr E) (dget ci id_field PNone) \<and>
     py_str (float_repr E) (dget run ''head_sha'' PNone) = py_str (float_repr E) (dget ci sha_field PNone) \<and>
     py_str (float_repr E) (dget run ''conclusion'' PNone) = ''success'' \<and>
     (\<exists>r. nested run ''repository'' = Inr r \<and> dget r ''full_name'' PNone = PStr repository)"

lemma verify_run_attested:
  assumes "verify_run E ci v repository = Inr u"
  shows "\<exists>run. v = PDict run \<and> run_attested E ci ''workflow_run_id'' ''sha'' repository run"
  using assms unfolding verify_run_def run_attested_def by (auto simp: Let_def)

lemma verify_tests_run_attested:
  assumes "verify_tests_run E ci v repository = Inr u"
  shows "\<exists>run. v = PDict run \<and> run_attested E ci ''tests_workflow_run_id'' ''tests_workflow_head_sha'' repository run \<and>
    dget run ''event'' PNone = PStr ''push'' \<and> dget run ''head_branch'' PNone = PStr ''main''"
  using assms unfolding verify_tests_run_def run_attested_def by (auto simp: Let_def)

lemma verify_artifact_digest:
  assumes "verify_artifact E ci artifact repository run_id = Inr digest"
  shows "normalize_digest E (dget ci ''artifact_digest'' PNone) = Inr digest \<and>
    normalize_digest E (dget artifact ''digest'' PNone) = Inr digest"
  using assms unfolding verify_artifact_def by auto

lemma archive_files_same:
  assumes "verify_archive_contents E H dir zip_bytes expected = Inr u"
  shows "\<exists>files. extract_artifact_zip H zip_bytes = Inr files \<and>
    proof_input_digest_from_bytes E files = Inr expected \<and>
    (\<forall>name \<in> set PROOF_INPUT_FILES. \<exists>b b'. read_bytes (filesystem E) (path_join dir name) = Inr b \<and>
       map_of files name = Some b' \<and> (b = b' \<or> collides E b b'))"
proof -
  obtain files us where files: "extract_artifact_zip H zip_bytes = Inr files"
      "proof_input_digest_from_bytes E files = Inr expected"
    and us: "mapE (compare_file E dir files) PROOF_INPUT_FILES = Inr us"
    using assms unfolding verify_archive_contents_def by auto
  have "\<exists>b b'. read_bytes (filesystem E) (path_join dir name) = Inr b \<and>
       map_of files name = Some b' \<and> (b = b' \<or> collides E b b')" if "name \<in> set PROOF_INPUT_FILES" for name
    using mapE_all [OF us that]
    by (auto simp: compare_file_def file_bytes_def collides_def digest_hex_def split: option.split_asm)
  then show ?thesis using files by blast
qed

definition remote_bound :: "py_env \<Rightarrow> host \<Rightarrow> github_client \<Rightarrow> string \<Rightarrow> string \<Rightarrow> pydict \<Rightarrow> bool" where
  "remote_bound E H c repository dir ci \<longleftrightarrow>
     dget ci ''repository'' PNone = PStr repository \<and>
     (\<exists>run. get_workflow_run E H c repository (text_field E ci ''workflow_run_id'') = Inr (PDict run) \<and>
        run_attested E ci ''workflow_run_id'' ''sha'' repository run) \<and>
     (\<exists>run. get_workflow_run E H c repository (text_field E ci ''tests_workflow_run_id'') = Inr (PDict run) \<and>
        run_attested E ci ''tests_workflow_run_id'' ''tests_workflow_head_sha'' repository run \<and>
        dget run ''event'' PNone = PStr ''push'' \<and> dget run ''head_branch'' PNone = PStr ''main'') \<and>
     (\<exists>artifact zip_bytes files. get_workflow_run_artifact E H c repository (text_field E ci ''workflow_run_id'')
          (text_field E ci ''artifact_id'') = Inr artifact \<and>
        download_artifact_zip E H c artifact = Inr zip_bytes \<and>
        normalize_digest E (dget artifact ''digest'' PNone) = Inr (digest_hex E zip_bytes) \<and>
        normalize_digest E (dget ci ''artifact_digest'' PNone) = Inr (digest_hex E zip_bytes) \<and>
        extract_artifact_zip H zip_bytes = Inr files \<and>
        proof_input_digest_from_bytes E files = Inr (py_str (float_repr E) (dget ci ''proof_input_digest'' PNone)) \<and>
        (\<forall>name \<in> set PROOF_INPUT_FILES. \<exists>b b'. read_bytes (filesystem E) (path_join dir name) = Inr b \<and>
           map_of files name = Some b' \<and> (b = b' \<or> collides E b b')))"

lemma verify_release_remote_bound:
  assumes "verify_release_remote E H sp (Some c) expected_repo dir = Inr r"
  shows "\<exists>local_result ci. verify_release_dir E sp dir = Inr local_result \<and>
    read_json E (path_join dir ''ci_release_sha.json'') = Inr (PDict ci) \<and>
    remote_bound E H c (release_repository E expected_repo) dir ci \<and> dget r ''status'' PNone = PStr ''REMOTE_OK''"
proof -
  let ?repo = "release_repository E expected_repo"
  obtain local_result ci run tests_run artifact digest zip_bytes where
    here: "verify_release_dir E sp dir = Inr local_result"
      "read_json E (path_join dir ''ci_release_sha.json'') = Inr (PDict ci)"
      "dget ci ''repository'' PNone = PStr ?repo" "dget r ''status'' PNone = PStr ''REMOTE_OK''"
    and runs: "get_workflow_run E H c ?repo (text_field E ci ''workflow_run_id'') = Inr run"
      "verify_run E ci run ?repo = Inr ()"
      "get_workflow_run E H c ?repo (text_field E ci ''tests_workflow_run_id'') = Inr tests_run"
      "verify_tests_run E ci tests_run ?repo = Inr ()"
    and artifact: "get_workflow_run_artifact E H c ?repo (text_field E ci ''workflow_run_id'')
        (text_field E ci ''artifact_id'') = Inr artifact"
      "verify_artifact E ci artifact ?repo (text_field E ci ''workflow_run_id'') = Inr digest"
      "download_artifact_zip E H c artifact = Inr zip_bytes" "digest_hex E zip_bytes = digest"
      "verify_archive_contents E H dir zip_bytes (py_str (float_repr E) (dget ci ''proof_input_digest'' PNone)) = Inr ()"
    using assms unfolding verify_release_remote_def by (auto simp: Let_def)
  show ?thesis
    using here runs(1,3) artifact(1,3) verify_run_attested [OF runs(2)] verify_tests_run_attested [OF runs(4)]
      verify_artifact_digest [OF artifact(2)] artifact(4) archive_files_same [OF artifact(5)]
    unfolding remote_bound_def by blast
qed

section \<open>Materialized inputs\<close>

lemma extracted_names:
  assumes "extract_artifact_zip H zip_bytes = Inr files"
  shows "map fst files = PROOF_INPUT_FILES"
proof -
  obtain members where m: "mapE (member_bytes members) PROOF_INPUT_FILES = Inr files"
    using assms unfolding extract_artifact_zip_def by (auto split: option.split_asm)
  have "map fst ys = names" if "mapE (member_bytes members) names = Inr ys" for names ys
    using that by (induction names arbitrary: ys) (auto simp: member_bytes_def split: option.split_asm)
  from this [OF m] show ?thesis .
qed

lemma mapE_cong: "(\<And>x. x \<in> set xs \<Longrightarrow> f x = g x) \<Longrightarrow> mapE f xs = mapE g xs"
  by (induction xs) auto

text \<open>The digest of the directory that was written is the digest reported for the archive.\<close>

lemma materialized_digest:
  assumes "materialize_proof_inputs E H occupied zip_bytes = Inr (files, answer)"
  shows "\<exists>digest. compute_proof_input_digest (with_files H dir files E) dir = Inr digest \<and>
    dget answer ''proof_input_digest'' PNone = PStr digest"
proof -
  obtain digest where ex: "extract_artifact_zip H zip_bytes = Inr files"
    and d: "proof_input_digest_from_bytes E files = Inr digest" "dget answer ''proof_input_digest'' PNone = PStr digest"
    using assms unfolding materialize_proof_inputs_def by auto
  have present: "map_of files name \<noteq> None" if "name \<in> set PROOF_INPUT_FILES" for name
    using extracted_names [OF ex] that by (metis map_of_eq_None_iff set_map)
  have "mapE (\<lambda>name. bindE (read_bytes (filesystem (with_files H dir files E)) (path_join dir name)) (\<lambda>b.
         Inr (PDict [(''path'', PStr name), (''sha256'', PStr (digest_hex (with_files H dir files E) b))]))) PROOF_INPUT_FILES
    = mapE (\<lambda>name. bindE (file_bytes files name) (\<lambda>b.
         Inr (PDict [(''path'', PStr name), (''sha256'', PStr (digest_hex E b))]))) PROOF_INPUT_FILES"
    by (rule mapE_cong) (use present in \<open>force simp: file_bytes_def digest_hex_def\<close>)
  moreover have "filter (\<lambda>name. \<not> path_exists (filesystem (with_files H dir files E)) (path_join dir name)) PROOF_INPUT_FILES = []"
    using present by (auto simp: filter_empty_conv)
  ultimately have "compute_proof_input_digest (with_files H dir files E) dir = Inr digest"
    using d(1) unfolding compute_proof_input_digest_def proof_input_file_digests_def require_files_def
      proof_input_digest_from_bytes_def by (simp add: raise_if_def digest_hex_def)
  then show ?thesis using d(2) by blast
qed

section \<open>The assets of a release\<close>

definition assets_bound ::
  "py_env \<Rightarrow> host \<Rightarrow> string \<Rightarrow> github_client \<Rightarrow> string \<Rightarrow> string \<Rightarrow> string option \<Rightarrow> (string \<times> bytes) list \<Rightarrow> pydict \<Rightarrow> bool" where
  "assets_bound E H temp c repository tag expected_sha files manifest \<longleftrightarrow>
     (\<exists>release. get_release_by_tag E H c repository tag = Inr (PDict release) \<and>
        py_str (float_repr E) (dget release ''tag_name'' PNone) = tag \<and>
        download_release_assets E H c (\<lambda>_. False) release = Inr files \<and>
        py_str (float_repr E) (dget manifest ''sha'' PNone) = py_strip (text_field E release ''target_commitish'')) \<and>
     py_str (float_repr E) (dget manifest ''repository'' PNone) = repository \<and>
     py_str (float_repr E) (dget manifest ''release_tag'' PNone) = tag \<and>
     (opt_str expected_sha \<noteq> [] \<longrightarrow> py_str (float_repr E) (dget manifest ''sha'' PNone) = opt_str expected_sha) \<and>
     asset_bound (with_files H temp files E) temp manifest"

lemma verify_release_asset_remote_bound:
  assumes "verify_release_asset_remote E H sp temp proof_temp (Some c) repository tag expected_sha = Inr r"
  shows "\<exists>files manifest. assets_bound E H temp c (release_repository E repository)
      (str_or (opt_str tag) (py_strip (getenv_or E ''ADN_RELEASE_ASSET_TAG'' []))) expected_sha files manifest \<and>
    (\<exists>local_result. verify_release_asset_dir (with_files H temp files E) (with_listing temp files H) sp proof_temp temp
      = Inr local_result)"
proof -
  let ?repo = "release_repository E repository"
  let ?tag = "str_or (opt_str tag) (py_strip (getenv_or E ''ADN_RELEASE_ASSET_TAG'' []))"
  obtain release files manifest local_result where
    release: "get_release_by_tag E H c ?repo ?tag = Inr (PDict release)"
      "validate_release_metadata E release ?tag expected_sha = Inr ()"
      "download_release_assets E H c (\<lambda>_. False) release = Inr files"
    and binding: "verify_release_manifest_binding (with_files H temp files E) temp ?repo ?tag expected_sha
        (py_strip (text_field E release ''target_commitish'')) = Inr manifest"
    and dir: "verify_release_asset_dir (with_files H temp files E) (with_listing temp files H) sp proof_temp temp
        = Inr local_result"
    using assms unfolding verify_release_asset_remote_def by (auto simp: Let_def)
  have tag_name: "py_str (float_repr E) (dget release ''tag_name'' PNone) = ?tag"
    using release(2) unfolding validate_release_metadata_def by auto
  have m: "read_json (with_files H temp files E) (path_join temp RELEASE_ASSET_MANIFEST) = Inr (PDict manifest)"
    and same: "py_str (float_repr E) (dget manifest ''repository'' PNone) = ?repo"
      "py_str (float_repr E) (dget manifest ''release_tag'' PNone) = ?tag"
      "py_str (float_repr E) (dget manifest ''sha'' PNone) =
         str_or (opt_str expected_sha) (py_strip (text_field E release ''target_commitish''))"
      "py_str (float_repr E) (dget manifest ''sha'' PNone) = py_strip (text_field E release ''target_commitish'')"
    using binding unfolding verify_release_manifest_binding_def by (auto simp: Let_def)
  have "asset_bound (with_files H temp files E) temp manifest"
    using verify_release_asset_dir_bound [OF dir] m by (auto simp: asset_bound_def)
  moreover have "opt_str expected_sha \<noteq> [] \<longrightarrow> py_str (float_repr E) (dget manifest ''sha'' PNone) = opt_str expected_sha"
    using same(3) by (simp add: str_or_def)
  ultimately show ?thesis using release(1,3) tag_name same(1,2,4) dir unfolding assets_bound_def by blast
qed

lemma asset_signed_downloaded [simp]: "asset_signed (with_files H dir files E) = asset_signed E"
  by (simp add: fun_eq_iff asset_signed_def pinned_key_def getenv_or_def text_field_def)

lemma asset_bound_downloaded:
  assumes "asset_bound (with_files H dir files E) dir manifest" and "name \<in> set RELEASE_ASSET_PAYLOAD_FILES"
  shows "\<exists>b entries v. map_of files name = Some b \<and> dget manifest ''files'' PNone = PList entries \<and>
    v \<in> set entries \<and> asset_entry E v name (digest_hex E b)"
proof -
  let ?E = "with_files H dir files E"
  have same: "asset_entry ?E = asset_entry E" "digest_hex ?E = digest_hex E"
    by (simp_all add: asset_entry_def digest_hex_def fun_eq_iff)
  obtain entries v digest where v: "dget manifest ''files'' PNone = PList entries" "v \<in> set entries"
      "asset_entry E v name digest"
    using assms unfolding asset_bound_def same by blast
  then obtain name' b where b: "asset_entry E v name' (digest_hex E b)"
      "read_bytes (filesystem ?E) (path_join dir name') = Inr b"
    using assms(1) unfolding asset_bound_def same by force
  have "name' = name" using b(1) v(3) by (auto simp: asset_entry_def)
  then show ?thesis using b v by (auto split: option.split_asm)
qed

end
