(* ===== verification/RemoteTheorems.thy ===== *)
theory RemoteTheorems
  imports ReleaseRemoteLaws AssetTheorems
begin

text \<open>
  The properties of the remote verification (\<^verbatim>\<open>scripts/verify_release_remote.py\<close>,
  \<^verbatim>\<open>scripts/verify_release_asset_remote.py\<close>) and the sample on which they are instantiated: GitHub
  answers each URL with the URL itself, which the JSON reader maps to a document.
\<close>

section \<open>A sample release on GitHub\<close>

definition sample_run :: "int \<Rightarrow> string \<Rightarrow> pydict" where
  "sample_run i url =
     [(''id'', PInt i), (''head_sha'', PStr ''ab''), (''conclusion'', PStr ''success''), (''html_url'', PStr url),
      (''name'', PStr ''Tests''), (''event'', PStr ''push''), (''head_branch'', PStr ''main''),
      (''repository'', PDict [(''full_name'', PStr ''o/r'')])]"

definition sample_artifact :: pydict where
  "sample_artifact =
     [(''id'', PInt 12), (''name'', PStr ''proof''), (''workflow_run'', PDict [(''id'', PInt 7)]),
      (''digest'', PStr (''sha256:'' @ sample_digest)), (''archive_download_url'', PStr ''zip'')]"

definition sample_release :: pydict where
  "sample_release =
     [(''tag_name'', PStr ''v1''), (''target_commitish'', PStr ''ab''), (''html_url'', PStr ''page''),
      (''assets'', PList (map (\<lambda>name. PDict [(''name'', PStr name), (''url'', PStr (''a/'' @ name))])
         REQUIRED_RELEASE_ASSET_FILES))]"

definition remote_document :: "string \<Rightarrow> pyval" where
  "remote_document path =
     (if path = ''d/ci_release_sha.json'' then PDict (digested [''proof_input_digest''] sample_ci)
      else if path = ''u/repos/o/r/actions/runs/7'' then PDict (sample_run 7 ''https://github.com/o/r/actions/runs/7'')
      else if path = ''u/repos/o/r/actions/runs/8'' then PDict (sample_run 8 ''https://github.com/o/r/actions/runs/8'')
      else if path = ''u/repos/o/r/actions/artifacts/12'' then PDict sample_artifact
      else if path = ''u/repos/o/r/releases/tags/v1'' then PDict sample_release
      else archived_document path)"

definition remote_env :: py_env where
  "remote_env = asset_env\<lparr>json_loads := \<lambda>p. Some (remote_document p)\<rparr>"

definition github_host :: host where
  "github_host = sample_host\<lparr>h_zip := \<lambda>b. Some [(''proof-input.tar'', b)], h_fetch := \<lambda>rq. Fetched (rq_url rq)\<rparr>"

definition sample_client :: github_client where
  "sample_client = \<lparr>gh_token = [], gh_api_url = ''u'', gh_api_version = ''v''\<rparr>"

lemma remote_local:
  "verify_release_dir remote_env ''schema'' ''d'' =
     Inr [(''status'', PStr ''OK''), (''build_commit'', PStr ''ab''), (''build_config_id'', PStr ''ab''),
          (''proof_input_digest'', PStr sample_digest)]"
  by code_simp

lemma remote_parts:
  "get_workflow_run remote_env github_host sample_client ''o/r'' ''7'' =
     Inr (PDict (sample_run 7 ''https://github.com/o/r/actions/runs/7''))"
  "get_workflow_run remote_env github_host sample_client ''o/r'' ''8'' =
     Inr (PDict (sample_run 8 ''https://github.com/o/r/actions/runs/8''))"
  "get_workflow_run_artifact remote_env github_host sample_client ''o/r'' ''7'' ''12'' = Inr sample_artifact"
  "download_artifact_zip remote_env github_host sample_client sample_artifact = Inr ''zip''"
  by code_simp+

lemma remote_checks:
  "verify_run remote_env (digested [''proof_input_digest''] sample_ci)
     (PDict (sample_run 7 ''https://github.com/o/r/actions/runs/7'')) ''o/r'' = Inr ()"
  "verify_tests_run remote_env (digested [''proof_input_digest''] sample_ci)
     (PDict (sample_run 8 ''https://github.com/o/r/actions/runs/8'')) ''o/r'' = Inr ()"
  "verify_artifact remote_env (digested [''proof_input_digest''] sample_ci) sample_artifact ''o/r'' ''7'' = Inr sample_digest"
  "verify_archive_contents remote_env github_host ''d'' ''zip'' sample_digest = Inr ()"
  by code_simp+

lemma remote_fields:
  "text_field remote_env (digested [''proof_input_digest''] sample_ci) ''workflow_run_id'' = ''7''"
  "text_field remote_env (digested [''proof_input_digest''] sample_ci) ''tests_workflow_run_id'' = ''8''"
  "text_field remote_env (digested [''proof_input_digest''] sample_ci) ''artifact_id'' = ''12''"
  "dget (digested [''proof_input_digest''] sample_ci) ''proof_input_digest'' PNone = PStr sample_digest"
  "dget (digested [''proof_input_digest''] sample_ci) ''repository'' PNone = PStr ''o/r''"
  by code_simp+

lemma remote_accepted:
  "\<exists>r. verify_release_remote remote_env github_host ''schema'' (Some sample_client) (Some ''o/r'') ''d'' = Inr r"
proof -
  have "read_json remote_env (path_join ''d'' ''ci_release_sha.json'') = Inr (PDict (digested [''proof_input_digest''] sample_ci))"
    by (simp add: remote_env_def asset_env_def release_env_def read_json_def path_join_def remote_document_def)
  moreover have "digest_hex remote_env b = sample_digest" for b
    by (simp add: remote_env_def asset_env_def digest_hex_def)
  moreover have "release_repository remote_env (Some ''o/r'') = ''o/r''"
    by (simp add: release_repository_def str_or_def)
  ultimately show ?thesis
    by (simp add: verify_release_remote_def remote_local remote_parts remote_checks remote_fields raise_if_def)
qed

section \<open>The release\<close>

text \<open>
  C31. A remotely accepted release is the one GitHub attests. Its directory passes the local verification,
  the two workflow runs its evidence names are successful runs of the expected repository at the
  attested commits, the tests on a push to main, and the archive GitHub serves has the attested digest and
  holds, for each of the six input files, the bytes of the local file, unless SHA-256 collides on them.
\<close>

theorem remote_release_attested:
  assumes "verify_release_remote E H schema_path (Some c) expected_repo dir = Inr r"
  shows "\<exists>manifest ci digest. retained E schema_path dir manifest digest \<and> ci_bound E manifest ci digest \<and>
    read_json E (path_join dir ''ci_release_sha.json'') = Inr (PDict ci) \<and>
    remote_bound E H c (release_repository E expected_repo) dir ci"
proof -
  obtain local_result ci where "verify_release_dir E schema_path dir = Inr local_result"
    "read_json E (path_join dir ''ci_release_sha.json'') = Inr (PDict ci)"
    "remote_bound E H c (release_repository E expected_repo) dir ci"
    using verify_release_remote_bound [OF assms] by blast
  then show ?thesis using verify_release_dir_bound [of E schema_path dir local_result] by auto
qed

theorem remote_release_attested_witness:
  "\<exists>manifest ci digest. retained remote_env ''schema'' ''d'' manifest digest \<and> ci_bound remote_env manifest ci digest \<and>
    remote_bound remote_env github_host sample_client (release_repository remote_env (Some ''o/r'')) ''d'' ci"
  using remote_accepted remote_release_attested by blast

section \<open>The assets\<close>

definition sample_downloads :: "(string \<times> bytes) list" where
  "sample_downloads = map (\<lambda>name. (name, ''a/'' @ name)) REQUIRED_RELEASE_ASSET_FILES"

abbreviation download_env :: py_env where
  "download_env \<equiv> with_files github_host ''a'' sample_downloads remote_env"

abbreviation download_host :: host where
  "download_host \<equiv> with_listing ''a'' sample_downloads github_host"

lemma downloads:
  "get_release_by_tag remote_env github_host sample_client ''o/r'' ''v1'' = Inr (PDict sample_release)"
  "validate_release_metadata remote_env sample_release ''v1'' (Some ''ab'') = Inr ()"
  "download_release_assets remote_env github_host sample_client (\<lambda>_. False) sample_release = Inr sample_downloads"
  "verify_release_manifest_binding download_env ''a'' ''o/r'' ''v1'' (Some ''ab'') ''ab'' = Inr sample_asset_manifest"
  by code_simp+

lemma download_checks:
  "require_release_asset_files download_env download_host ''a'' = Inr ()"
  "verify_release_asset_hashes download_env ''a'' sample_asset_manifest = Inr ()"
  "read_json download_env (path_join ''a'' RELEASE_ASSET_MANIFEST) = Inr (PDict sample_asset_manifest)"
  "read_json download_env (path_join ''a'' RELEASE_ASSET_SIGNATURE) = Inr (PDict
     [(''algorithm'', PStr ''ed25519''), (''public_key_hex'', PStr sample_operator_key), (''signature_hex'', PStr ''ab'')])"
  "map_of sample_downloads ''proof-input.tar'' = Some ''a/proof-input.tar''"
  "map_of sample_downloads ''ci_release_sha.json'' = Some ''a/ci_release_sha.json''"
  "extract_proof_input_tar download_host (\<lambda>_. False) ''a/proof-input.tar'' = Inr archived_files"
  by code_simp+

lemma download_env_simps:
  "digest_hex download_env b = sample_digest" "getenv download_env = getenv release_env"
  "ed25519_verify download_env key signature b"
  by (simp_all add: remote_env_def asset_env_def release_env_def digest_hex_def)

lemma download_release:
  "verify_release_dir (with_files download_host ''d'' (archived_files @ [(''ci_release_sha.json'', ''a/ci_release_sha.json'')])
     download_env) ''schema'' ''d'' =
   Inr [(''status'', PStr ''OK''), (''build_commit'', PStr ''ab''), (''build_config_id'', PStr ''ab''),
        (''proof_input_digest'', PStr sample_digest)]"
  by code_simp

lemma download_metadata:
  "verify_release_asset_metadata download_env ''a'' sample_asset_manifest
     [(''status'', PStr ''OK''), (''build_commit'', PStr ''ab''), (''build_config_id'', PStr ''ab''),
      (''proof_input_digest'', PStr sample_digest)] = Inr ()"
  by code_simp

lemma downloads_accepted:
  "\<exists>r. verify_release_asset_remote remote_env github_host ''schema'' ''a'' ''d'' (Some sample_client) (Some ''o/r'')
     (Some ''v1'') (Some ''ab'') = Inr r"
proof -
  have "\<exists>r. verify_release_asset_dir download_env download_host ''schema'' ''d'' ''a'' = Inr r"
    by (simp add: verify_release_asset_dir_def download_checks download_release download_metadata
        asset_manifest_valid download_env_simps(1) asset_signature [OF download_env_simps(2,3)])
  moreover have "parse_repository ''o/r'' = Inr (''o'', ''r'')"
    "release_repository remote_env (Some ''o/r'') = ''o/r''"
    "py_strip (text_field remote_env sample_release ''target_commitish'') = ''ab''"
    by code_simp+
  ultimately show ?thesis
    by (auto simp: verify_release_asset_remote_def downloads raise_if_def str_or_def Let_def)
qed

text \<open>
  C38. The assets a remote verification accepts are those of the tagged release: the manifest among the
  downloaded files names the expected repository and tag and the commit the release targets (the expected
  one, if one is given), it is signed by the pinned operator key, and it lists for each of the four payload
  files the digest of the bytes that were downloaded under that name.
\<close>

theorem remote_assets_bound_to_tag:
  assumes "verify_release_asset_remote E H schema_path temp proof_temp (Some c) repository (Some tag) expected_sha = Inr r"
    and "tag \<noteq> []"
  shows "\<exists>files manifest signature_doc. assets_bound E H temp c (release_repository E repository) tag expected_sha files manifest \<and>
    asset_signed E manifest signature_doc \<and>
    (\<forall>name \<in> set RELEASE_ASSET_PAYLOAD_FILES. \<exists>b entries v. map_of files name = Some b \<and>
       dget manifest ''files'' PNone = PList entries \<and> v \<in> set entries \<and> asset_entry E v name (digest_hex E b))"
proof -
  obtain files manifest where bound: "assets_bound E H temp c (release_repository E repository) tag expected_sha files manifest"
    using verify_release_asset_remote_bound [OF assms(1)] assms(2) by (auto simp: str_or_def)
  then have dir: "asset_bound (with_files H temp files E) temp manifest" by (simp add: assets_bound_def)
  then obtain signature_doc where "asset_signed E manifest signature_doc"
    unfolding asset_bound_def by auto
  moreover have "\<exists>b entries v. map_of files name = Some b \<and> dget manifest ''files'' PNone = PList entries \<and>
      v \<in> set entries \<and> asset_entry E v name (digest_hex E b)" if "name \<in> set RELEASE_ASSET_PAYLOAD_FILES" for name
    using asset_bound_downloaded [OF dir that] .
  ultimately show ?thesis using bound by blast
qed

theorem remote_assets_bound_to_tag_witness:
  "\<exists>files manifest signature_doc. assets_bound remote_env github_host ''a'' sample_client
      (release_repository remote_env (Some ''o/r'')) ''v1'' (Some ''ab'') files manifest \<and>
    asset_signed remote_env manifest signature_doc"
  using downloads_accepted remote_assets_bound_to_tag [where tag = "''v1''"] by blast

end
