(* ===== verification/TextSearch.thy ===== *)
theory TextSearch
  imports PyText
begin

text \<open>
  The text searches of the release gates: lines, counts, and the patterns of \<^verbatim>\<open>scripts/release_gate.py\<close>
  written out as matchers. In each pattern consecutive character classes are disjoint, so that the longest
  run of a class is the only one that can match.
\<close>

section \<open>Characters and lines\<close>

text \<open>\<open>\w\<close>: letters, digits and other numerals below 256, and the underscore.\<close>

definition word_char :: "char \<Rightarrow> bool" where
  "word_char c \<longleftrightarrow> (let n = ord c in is_digit c \<or> (65 \<le> n \<and> n \<le> 90) \<or> (97 \<le> n \<and> n \<le> 122) \<or> n = 95 \<or>
     n \<in> {170, 178, 179, 181, 185, 186, 188, 189, 190} \<or> (192 \<le> n \<and> n \<noteq> 215 \<and> n \<noteq> 247))"

text \<open>After a word character: \<open>\b\<close> holds unless the text goes on with another.\<close>

definition word_ends :: "string \<Rightarrow> bool" where
  "word_ends s \<longleftrightarrow> s = [] \<or> \<not> word_char (hd s)"

definition line_end :: "char \<Rightarrow> bool" where
  "line_end c \<longleftrightarrow> ord c \<in> {10, 11, 12, 13, 28, 29, 30, 133}"

lemma line_end_code [code]:
  "line_end c \<longleftrightarrow> c \<in> {CHR 0x0A, CHR 0x0B, CHR 0x0C, CHR 0x0D, CHR 0x1C, CHR 0x1D, CHR 0x1E, CHR 0x85}"
proof -
  let ?cs = "{CHR 0x0A, CHR 0x0B, CHR 0x0C, CHR 0x0D, CHR 0x1C, CHR 0x1D, CHR 0x1E, CHR 0x85}"
  have "ord ` ?cs = {10, 11, 12, 13, 28, 29, 30, 133}" by (simp add: ord_def)
  moreover have "c \<in> ?cs \<longleftrightarrow> ord c \<in> ord ` ?cs" by (auto simp del: image_insert)
  ultimately show ?thesis by (simp only: line_end_def)
qed

definition skip_newline :: "char \<Rightarrow> string \<Rightarrow> string" where
  "skip_newline c s = (if ord c = 13 \<and> s \<noteq> [] \<and> ord (hd s) = 10 then tl s else s)"

lemma length_skip_newline [termination_simp]: "length (skip_newline c s) < Suc (length s)"
  by (auto simp: skip_newline_def)

fun lines_from :: "string \<Rightarrow> string \<Rightarrow> string list" where
  "lines_from line [] = (if line = [] then [] else [line])"
| "lines_from line (c # s) =
     (if line_end c then line # lines_from [] (skip_newline c s) else lines_from (line @ [c]) s)"

text \<open>\<open>s.splitlines()\<close>\<close>

definition py_splitlines :: "string \<Rightarrow> string list" where
  "py_splitlines s = lines_from [] s"

lemma startswith_code [code]:
  "startswith s [] \<longleftrightarrow> True"
  "startswith [] (d # p) \<longleftrightarrow> False"
  "startswith (c # s) (d # p) \<longleftrightarrow> c = d \<and> startswith s p"
  by (simp_all add: startswith_def)

text \<open>\<open>s.count(p)\<close> for a nonempty \<open>p\<close>: occurrences that do not overlap.\<close>

fun py_count :: "string \<Rightarrow> string \<Rightarrow> nat" where
  "py_count [] p = 0"
| "py_count (c # s) p =
     (if startswith (c # s) p then Suc (py_count (drop (length p - 1) s) p) else py_count s p)"

text \<open>\<open>s.split("\n\n")\<close>\<close>

fun blocks_from :: "string \<Rightarrow> string \<Rightarrow> string list" where
  "blocks_from block [] = [block]"
| "blocks_from block [c] = [block @ [c]]"
| "blocks_from block (c # d # s) =
     (if ord c = 10 \<and> ord d = 10 then block # blocks_from [] s else blocks_from (block @ [c]) (d # s))"

definition split_blocks :: "string \<Rightarrow> string list" where
  "split_blocks s = blocks_from [] s"

section \<open>Workflow references\<close>

text \<open>\<open>uses:\s+\<close> at the start: the text after it.\<close>

definition after_uses :: "string \<Rightarrow> string option" where
  "after_uses s =
     (if startswith s ''uses:''
      then let t = drop 5 s in if t \<noteq> [] \<and> is_space (hd t) then Some (dropWhile is_space t) else None
      else None)"

definition ref_char :: "char \<Rightarrow> bool" where
  "ref_char c \<longleftrightarrow> \<not> is_space c \<and> c \<noteq> CHR ''#''"

text \<open>\<open>uses:\s+([^\s#]+)\<close> at the start: the reference and the text after it.\<close>

definition uses_match :: "string \<Rightarrow> (string \<times> string) option" where
  "uses_match s = (case after_uses s of
     None \<Rightarrow> None
   | Some t \<Rightarrow> if takeWhile ref_char t = [] then None else Some (takeWhile ref_char t, dropWhile ref_char t))"

lemma uses_match_shorter [termination_simp]: "uses_match s = Some (ref, rest) \<Longrightarrow> length rest < length s"
proof -
  assume m: "uses_match s = Some (ref, rest)"
  then have s: "startswith s ''uses:''" and rest: "rest = dropWhile ref_char (dropWhile is_space (drop 5 s))"
    by (auto simp: uses_match_def after_uses_def Let_def split: option.split_asm if_split_asm)
  have "length rest \<le> length (drop 5 s)"
    unfolding rest by (meson length_dropWhile_le order_trans)
  moreover have "5 \<le> length s" using s by (auto simp: startswith_iff)
  ultimately show ?thesis by simp
qed

text \<open>\<open>re.finditer\<close>: from left to right, going on behind each match.\<close>

function uses_refs :: "string \<Rightarrow> string list" where
  "uses_refs s = (case uses_match s of
     Some (ref, rest) \<Rightarrow> ref # uses_refs rest
   | None \<Rightarrow> (case s of [] \<Rightarrow> [] | c # t \<Rightarrow> uses_refs t))"
  by pat_completeness auto
termination by (relation "measure length") (auto dest: uses_match_shorter)

declare uses_refs.simps [simp del]

definition name_char :: "char \<Rightarrow> bool" where
  "name_char c \<longleftrightarrow> c \<noteq> CHR ''@'' \<and> \<not> is_space c"

text \<open>\<open>uses:\s+[^@\s]+@v\d+\b\<close> and \<open>uses:\s+[^@\s]+@stable\b\<close> at the start.\<close>

definition mutable_tail :: "string \<Rightarrow> bool" where
  "mutable_tail t \<longleftrightarrow>
     (startswith t ''@v'' \<and> (let u = drop 2 t in u \<noteq> [] \<and> is_digit (hd u) \<and> word_ends (dropWhile is_digit u)))"

definition stable_tail :: "string \<Rightarrow> bool" where
  "stable_tail t \<longleftrightarrow> startswith t ''@stable'' \<and> word_ends (drop 7 t)"

definition mutable_ref_at :: "(string \<Rightarrow> bool) \<Rightarrow> string \<Rightarrow> bool" where
  "mutable_ref_at tail_ok s \<longleftrightarrow> (case after_uses s of
     None \<Rightarrow> False
   | Some t \<Rightarrow> takeWhile name_char t \<noteq> [] \<and> tail_ok (dropWhile name_char t))"

fun search :: "(string \<Rightarrow> bool) \<Rightarrow> string \<Rightarrow> bool" where
  "search found_at [] \<longleftrightarrow> found_at []"
| "search found_at (c # s) \<longleftrightarrow> found_at (c # s) \<or> search found_at s"

definition MUTABLE_WORKFLOW_REF_PATTERNS :: "(string \<Rightarrow> bool) list" where
  "MUTABLE_WORKFLOW_REF_PATTERNS = [search (mutable_ref_at mutable_tail), search (mutable_ref_at stable_tail)]"

section \<open>Requirements\<close>

text \<open>\<open>\bpip install\b\<close>, with whether a word character comes before.\<close>

fun bare_pip_from :: "bool \<Rightarrow> string \<Rightarrow> bool" where
  "bare_pip_from within [] \<longleftrightarrow> False"
| "bare_pip_from within (c # s) \<longleftrightarrow>
     (\<not> within \<and> startswith (c # s) ''pip install'' \<and> word_ends (drop 10 s)) \<or> bare_pip_from (word_char c) s"

definition bare_pip_install :: "string \<Rightarrow> bool" where
  "bare_pip_install line = bare_pip_from False line"

definition package_char :: "char \<Rightarrow> bool" where
  "package_char c \<longleftrightarrow> is_digit c \<or> (65 \<le> ord c \<and> ord c \<le> 90) \<or> (97 \<le> ord c \<and> ord c \<le> 122) \<or> c \<in> set ''_.-''"

text \<open>\<open>^[A-Za-z0-9_.-]+==[^\s\\]+\<close>, which only matches at the start.\<close>

definition pinned_requirement :: "string \<Rightarrow> bool" where
  "pinned_requirement s \<longleftrightarrow> takeWhile package_char s \<noteq> [] \<and>
     (let t = dropWhile package_char s
      in startswith t ''=='' \<and> drop 2 t \<noteq> [] \<and> \<not> is_space (hd (drop 2 t)) \<and> hd (drop 2 t) \<noteq> CHR 0x5C)"

text \<open>\<open>re.fullmatch(r"[0-9a-f]{40}", s)\<close>\<close>

definition commit_text :: "string \<Rightarrow> bool" where
  "commit_text s \<longleftrightarrow> length s = 40 \<and> (\<forall>c \<in> set s. is_digit c \<or> (97 \<le> ord c \<and> ord c \<le> 102))"

text \<open>\<open>s.rsplit("@", 1)\<close> when there is an \<open>@\<close>.\<close>

definition rsplit_at :: "string \<Rightarrow> string \<times> string" where
  "rsplit_at s = (let tail = takeWhile (\<lambda>c. c \<noteq> CHR ''@'') (rev s)
     in (take (length s - length tail - 1) s, rev tail))"

end
