(* ===== verification/ReleaseGate.thy ===== *)
theory ReleaseGate
  imports TextSearch ReleaseVerifier
begin

text \<open>
  \<^verbatim>\<open>scripts/release_gate.py\<close>, the guard over the release's files, and \<^verbatim>\<open>scripts/check_readme_claims.py\<close>.
  The answers are the exit code and the printed lines; \<open>repo_root\<close> is the repository's directory. The text of
  a failed JSON reading is not modelled.
\<close>

section \<open>Constants\<close>

definition REQUIRED_FILES :: "string list" where
  "REQUIRED_FILES =
     [''docs/release/criteria.md'', ''docs/security/claim-matrix.md'', ''docs/architecture/security-invariants.md'',
      ''scripts/verify_release.py'', ''scripts/verify_release_asset.py'', ''scripts/verify_release_asset_remote.py'',
      ''schemas/adn-release-proof-v1.schema.json'', ''.github/workflows/release-proof-input.yml'',
      ''.github/workflows/release-proof-attest.yml'', ''.github/actions-lock.json'', ''requirements-ci.lock'',
      ''requirements-release.lock'']"

definition RELEASE_PROOF_WORKFLOW_FILES :: "string list" where
  "RELEASE_PROOF_WORKFLOW_FILES =
     [''.github/workflows/release-proof-input.yml'', ''.github/workflows/release-proof-attest.yml'']"

definition WORKFLOW_FILES :: "string list" where
  "WORKFLOW_FILES = ''.github/workflows/ci.yml'' # RELEASE_PROOF_WORKFLOW_FILES"

definition LOCAL_WORKFLOW_ACTION_PREFIX :: string where
  [py_consts]: "LOCAL_WORKFLOW_ACTION_PREFIX = ''./.github/actions/''"

definition RELEASE_ARTIFACT_RETENTION :: string where
  [py_consts]: "RELEASE_ARTIFACT_RETENTION = ''retention-days: 90''"

definition RELEASE_ASSET_TERMS :: "string list" where
  "RELEASE_ASSET_TERMS =
     [''contents: write'', ''remote_verification_result.json'', ''workflow_metadata.json'', ''ADN_RELEASE_ASSET_TAG'',
      ''gh release create'', ''gh release upload'', ''proof-input.tar'', ''ci_release_sha.json'',
      ''release_asset_manifest.json'', ''release_asset_manifest.sig'', ''ADN_RELEASE_OPERATOR_PRIVATE_KEY_HEX'',
      ''python scripts/verify_release_asset.py'', ''python scripts/verify_release_asset_remote.py'',
      ''refusing to overwrite durable proof assets'']"

definition RELEASE_ASSET_FORBIDDEN_TERMS :: "string list" where
  "RELEASE_ASSET_FORBIDDEN_TERMS = [''--clobber'']"

definition PYTHON_REQUIREMENT_LOCKS :: "string list" where
  "PYTHON_REQUIREMENT_LOCKS = [''requirements-ci.lock'', ''requirements-release.lock'']"

definition REQUIRED_TERMS :: "string list" where
  "REQUIRED_TERMS =
     [''source-hardened / live-proof pending'', ''gateway-linked authorization'', ''T3N-attested authorization'',
      ''persistent ledger configuration'', ''executor key separation'', ''deployment manifest finalization'',
      ''live proof artifact'', ''visible CI success'', ''contract-layer persistence'']"

definition FORBIDDEN_CLAIMS :: "string list" where
  "FORBIDDEN_CLAIMS =
     [''T3N-attested worker dispatch: supported'', ''T3N-attested worker dispatch: complete'',
      ''contract-layer persistence: supported'', ''contract-layer persistence: complete'',
      ''persistent feature systems: supported'', ''persistent feature systems: complete'']"

definition gate_read :: "py_env \<Rightarrow> string \<Rightarrow> string \<Rightarrow> string py" where
  "gate_read E repo_root path = read_text (filesystem E) (path_join repo_root path)"

section \<open>Pinned actions\<close>

text \<open>The lock entries: the errors, and the commit of each action (a later entry replaces an earlier).\<close>

definition lock_entry :: "pydict \<Rightarrow> string list \<times> (string \<times> string) option" where
  "lock_entry entry =
     (case dget entry ''action'' PNone of
        PStr action \<Rightarrow>
          if action = [] then ([''release gate action lock entry missing action''], None)
          else (case dget entry ''commit_sha'' PNone of
             PStr sha \<Rightarrow>
               if commit_text sha
               then ((if truthy (dget entry ''approved_version'' PNone) \<and> truthy (dget entry ''review_date'' PNone) \<and>
                        truthy (dget entry ''update_owner'' PNone) then []
                      else [''release gate action lock entry for '' @ action @ '' missing review metadata'']),
                     Some (action, sha))
               else ([''release gate action lock entry for '' @ action @ '' must use a 40-character commit_sha''], None)
           | _ \<Rightarrow> ([''release gate action lock entry for '' @ action @ '' must use a 40-character commit_sha''], None))
      | _ \<Rightarrow> ([''release gate action lock entry missing action''], None))"

fun lock_entries ::
  "pyval list \<Rightarrow> string list \<Rightarrow> (string \<times> string) list \<Rightarrow> (string list \<times> (string \<times> string) list) py" where
  "lock_entries [] errors locked = Inr (errors, locked)"
| "lock_entries (v # vs) errors locked =
     bindE (as_dict v) (\<lambda>entry.
     let (errs, found) = lock_entry entry
     in lock_entries vs (errors @ errs)
          (case found of Some (action, sha) \<Rightarrow> dset action sha locked | None \<Rightarrow> locked))"

definition reference_error :: "(string \<times> string) list \<Rightarrow> string \<Rightarrow> string \<Rightarrow> string option" where
  "reference_error locked workflow action_ref =
     (if startswith action_ref LOCAL_WORKFLOW_ACTION_PREFIX then None
      else if CHR ''@'' \<notin> set action_ref
      then Some (''release gate workflow action reference missing @ in '' @ workflow @ '': '' @ action_ref)
      else let (action, ref) = rsplit_at action_ref
        in case map_of locked action of
             None \<Rightarrow> Some (''release gate workflow '' @ workflow @
               '' uses external action not listed in .github/actions-lock.json: '' @ action)
           | Some locked_commit \<Rightarrow>
               if ref \<noteq> locked_commit
               then Some (''release gate workflow '' @ workflow @ '' uses '' @ action @ ''@'' @ ref @ '', expected '' @ locked_commit)
               else None)"

definition workflow_errors :: "py_env \<Rightarrow> string \<Rightarrow> (string \<times> string) list \<Rightarrow> string \<Rightarrow> string list py" where
  "workflow_errors E repo_root locked workflow =
     bindE (gate_read E repo_root workflow) (\<lambda>content. Inr
       (map (\<lambda>_. ''release gate mutable workflow action reference present in '' @ workflow)
          (filter (\<lambda>found. found content) MUTABLE_WORKFLOW_REF_PATTERNS) @
        List.map_filter (reference_error locked workflow) (uses_refs content)))"

definition assert_workflow_actions_are_pinned :: "py_env \<Rightarrow> string \<Rightarrow> string list py" where
  "assert_workflow_actions_are_pinned E repo_root =
     (case gate_read E repo_root ''.github/actions-lock.json'' of
        Inl (OSError m) \<Rightarrow> Inr [''release gate cannot read .github/actions-lock.json: '' @ m]
      | Inl e \<Rightarrow> Inl e
      | Inr txt \<Rightarrow> (case json_loads E txt of
          None \<Rightarrow> Inr [''release gate cannot read .github/actions-lock.json: JSONDecodeError'']
        | Some v \<Rightarrow>
            bindE (as_dict v) (\<lambda>lock.
            bindE (py_iter (dget lock ''actions'' (PList []))) (\<lambda>entries.
            bindE (lock_entries entries [] []) (\<lambda>(errors, locked).
            bindE (mapE (workflow_errors E repo_root locked) WORKFLOW_FILES) (\<lambda>found.
            Inr (errors @ concat found)))))))"

section \<open>Locked dependencies\<close>

definition required_installs :: "(string \<times> string) list" where
  "required_installs =
     [(''.github/workflows/ci.yml'', ''python -m pip install --require-hashes -r requirements-ci.lock''),
      (''.github/workflows/release-proof-input.yml'',
         ''python -m pip install --require-hashes -r requirements-release.lock''),
      (''.github/workflows/release-proof-attest.yml'',
         ''python -m pip install --require-hashes -r requirements-release.lock'')]"

definition bare_install :: "string \<Rightarrow> bool" where
  "bare_install line \<longleftrightarrow> bare_pip_install line \<and> \<not> contains line ''--require-hashes''"

definition install_errors :: "string \<Rightarrow> string \<Rightarrow> string \<Rightarrow> string list" where
  "install_errors workflow required_command content =
     (if contains content required_command then []
      else [''release gate workflow '' @ workflow @ '' must install Python deps with '' @ required_command]) @
     map (\<lambda>line. ''release gate bare pip install present in '' @ workflow @ '': '' @ py_strip line)
       (filter bare_install (py_splitlines content))"

definition requirement_lines :: "string \<Rightarrow> string list" where
  "requirement_lines block = map py_rstrip
     (filter (\<lambda>line. py_strip line \<noteq> [] \<and> \<not> startswith (py_lstrip line) ''#'') (py_splitlines block))"

definition block_errors :: "string \<Rightarrow> string \<Rightarrow> string list" where
  "block_errors lock_path block = (case requirement_lines block of
     [] \<Rightarrow> []
   | first # rest \<Rightarrow>
       (if pinned_requirement first then []
        else [''release gate Python lock '' @ lock_path @ '' has unpinned requirement: '' @ first]) @
       (if list_ex (\<lambda>line. contains line ''--hash=sha256:'') (first # rest) then []
        else [''release gate Python lock '' @ lock_path @ '' requirement missing hash: '' @ first]))"

definition lock_errors :: "string \<Rightarrow> string \<Rightarrow> string list" where
  "lock_errors lock_path content =
     (if contains content ''--require-hashes'' \<or> contains content ''-r ''
      then [''release gate Python lock '' @ lock_path @ '' must contain only pinned packages, not pip options''] else []) @
     (let blocks = filter pinned_requirement (split_blocks content)
      in if blocks = [] then [''release gate Python lock '' @ lock_path @ '' has no pinned packages'']
         else concat (map (block_errors lock_path) blocks))"

definition assert_python_dependencies_are_hash_locked :: "py_env \<Rightarrow> string \<Rightarrow> string list py" where
  "assert_python_dependencies_are_hash_locked E repo_root =
     bindE (mapE (\<lambda>workflow. bindE (gate_read E repo_root workflow) (\<lambda>content. Inr (workflow, content))) WORKFLOW_FILES)
       (\<lambda>workflow_text.
     bindE (mapE (\<lambda>(workflow, command). case map_of workflow_text workflow of
         None \<Rightarrow> Inl (KeyError (repr_str workflow))
       | Some content \<Rightarrow> Inr (install_errors workflow command content)) required_installs) (\<lambda>installs.
     bindE (mapE (\<lambda>lock_path. bindE (gate_read E repo_root lock_path) (\<lambda>content. Inr (lock_errors lock_path content)))
       PYTHON_REQUIREMENT_LOCKS) (\<lambda>locks.
     Inr (concat installs @ concat locks))))"

section \<open>Durable proof assets\<close>

definition retention_error :: "py_env \<Rightarrow> string \<Rightarrow> string \<Rightarrow> string list py" where
  "retention_error E repo_root workflow =
     bindE (gate_read E repo_root workflow) (\<lambda>content.
     let upload_count = py_count content ''actions/upload-artifact@'';
         retention_count = py_count content RELEASE_ARTIFACT_RETENTION
     in Inr (if upload_count \<noteq> 0 \<and> retention_count < upload_count
          then [''release gate workflow '' @ workflow @ '' must set '' @ RELEASE_ARTIFACT_RETENTION @
            '' for every uploaded proof artifact'']
          else []))"

definition assert_release_proof_retention_is_durable :: "py_env \<Rightarrow> string \<Rightarrow> string list py" where
  "assert_release_proof_retention_is_durable E repo_root =
     bindE (mapE (retention_error E repo_root) RELEASE_PROOF_WORKFLOW_FILES) (\<lambda>errors.
     bindE (gate_read E repo_root ''.github/workflows/release-proof-attest.yml'') (\<lambda>attest_workflow.
     Inr (concat errors @
       map (\<lambda>term. ''release gate durable release asset publication missing required term: '' @ term)
         (filter (\<lambda>term. \<not> contains attest_workflow term) RELEASE_ASSET_TERMS) @
       map (\<lambda>term. ''release gate durable release asset publication must not overwrite existing assets: '' @ term)
         (filter (\<lambda>term. contains attest_workflow term) RELEASE_ASSET_FORBIDDEN_TERMS))))"

section \<open>The gate\<close>

definition claim_errors :: "string \<Rightarrow> string list" where
  "claim_errors combined =
     map (\<lambda>term. ''release gate missing required term: '' @ term)
       (filter (\<lambda>term. \<not> contains combined term) REQUIRED_TERMS) @
     map (\<lambda>claim. ''release gate forbidden claim present: '' @ claim)
       (filter (\<lambda>claim. contains combined claim) FORBIDDEN_CLAIMS)"

definition release_gate :: "py_env \<Rightarrow> string \<Rightarrow> (int \<times> string list) py" where
  "release_gate E repo_root =
     (let missing = filter (\<lambda>path. \<not> path_exists (filesystem E) (path_join repo_root path)) REQUIRED_FILES
      in if missing \<noteq> [] then Inr (1, map (\<lambda>path. ''release gate missing file: '' @ path) missing)
         else bindE (mapE (gate_read E repo_root) REQUIRED_FILES) (\<lambda>contents.
           bindE (assert_workflow_actions_are_pinned E repo_root) (\<lambda>pinned.
           bindE (assert_python_dependencies_are_hash_locked E repo_root) (\<lambda>locked.
           bindE (assert_release_proof_retention_is_durable E repo_root) (\<lambda>durable.
           let errors = claim_errors (join [CHR 0x0A] contents) @ pinned @ locked @ durable
           in Inr (if errors = [] then 0 else 1, errors))))))"

end
