(* ===== verification/ReleaseGateLaws.thy ===== *)
theory ReleaseGateLaws
  imports ReleaseGate
begin

text \<open>
  What the release gate establishes when it accepts, and what its checks of the lock files leave out.
\<close>

section \<open>Matches of a pattern\<close>

lemma search_iff: "search found_at s \<longleftrightarrow> (\<exists>a t. s = a @ t \<and> found_at t)"
proof (induction found_at s rule: search.induct)
  case (2 found_at c s)
  then show ?case by (auto simp: Cons_eq_append_conv)
qed simp

lemma after_uses_Some:
  assumes "after_uses s = Some t"
  shows "\<exists>sp. s = ''uses:'' @ sp @ t \<and> sp \<noteq> [] \<and> (\<forall>c \<in> set sp. is_space c) \<and> (t = [] \<or> \<not> is_space (hd t))"
proof -
  let ?u = "drop 5 s"
  have s: "startswith s ''uses:''" "?u \<noteq> []" "is_space (hd ?u)" "t = dropWhile is_space ?u"
    using assms by (auto simp: after_uses_def Let_def split: if_split_asm)
  have "s = ''uses:'' @ takeWhile is_space ?u @ t" using s(1,4) by (auto simp: startswith_iff)
  moreover have "takeWhile is_space ?u \<noteq> []" using s(2,3) by (cases ?u) auto
  moreover have "t = [] \<or> \<not> is_space (hd t)" using s(4) by (metis hd_dropWhile)
  moreover have "\<forall>c \<in> set (takeWhile is_space ?u). is_space c" by (blast dest: set_takeWhileD)
  ultimately show ?thesis by blast
qed

lemma uses_match_Some:
  assumes "uses_match s = Some (ref, rest)"
  shows "\<exists>sp. s = ''uses:'' @ sp @ ref @ rest \<and> sp \<noteq> [] \<and> (\<forall>c \<in> set sp. is_space c) \<and> ref \<noteq> [] \<and>
    (\<forall>c \<in> set ref. ref_char c) \<and> (rest = [] \<or> \<not> ref_char (hd rest))"
proof -
  obtain t where t: "after_uses s = Some t" "ref = takeWhile ref_char t" "rest = dropWhile ref_char t" "ref \<noteq> []"
    using assms by (auto simp: uses_match_def split: option.split_asm if_split_asm)
  moreover have "rest = [] \<or> \<not> ref_char (hd rest)" using t(3) by (metis hd_dropWhile)
  ultimately show ?thesis using after_uses_Some [OF t(1)] by (auto dest: set_takeWhileD)
qed

text \<open>The reference at a place that starts inside an earlier match: that match ends there with \<open>uses:\<close>.\<close>

lemma overlapping_uses:
  assumes m: "uses_match t = Some (ref, rest)" and "a \<noteq> []"
    and pre: "a @ us = ''uses:'' @ sp @ r" and "us \<noteq> []" and t: "t = us @ rest0"
    and "\<forall>c \<in> set sp. is_space c" and r: "\<forall>c \<in> set r. ref_char c" "rest0 = [] \<or> \<not> ref_char (hd rest0)"
  shows "\<exists>p. r = p @ ''uses:''"
proof -
  obtain sp' tail where u: "t = ''uses:'' @ sp' @ tail" "sp' \<noteq> []" "\<forall>c \<in> set sp'. is_space c"
    using uses_match_Some [OF m] by blast
  then have "hd us = CHR ''u''" using t assms(4) by (cases us) auto
  moreover have "\<not> is_space CHR ''u''" by (simp add: is_space_def ord_def)
  ultimately have hd_us: "us \<noteq> [] \<Longrightarrow> hd us \<notin> set sp" "hd us = CHR ''u''" using assms(6) by auto
  consider (inner) v where "a @ v = ''uses:''" "us = v @ sp @ r" | (later) v where "v @ us = sp @ r"
    using iffD1 [OF append_eq_append_conv2 pre] by blast
  then obtain v where v: "v @ us = sp @ r"
  proof cases
    case inner
    have "v = []"
    proof (rule ccontr)
      assume "v \<noteq> []"
      then have "hd v = CHR ''u''" using hd_us(2) inner(2) by (simp add: hd_append)
      then have "\<exists>b. a @ CHR ''u'' # b = ''uses:''" using inner(1) \<open>v \<noteq> []\<close> by (metis list.exhaust_sel)
      then show False using assms(2) by (auto simp: append_eq_Cons_conv)
    qed
    then show ?thesis using that [of "[]"] inner(2) by simp
  qed (use that in blast)
  then obtain x where x: "r = x @ us"
  proof -
    consider w where "v @ w = sp" "us = w @ r" | w where "w @ us = r" "v = sp @ w"
      using iffD1 [OF append_eq_append_conv2 v] by blast
    then show ?thesis
    proof cases
      case 1
      then have "w = []" using hd_us assms(4) by (cases w) auto
      then show ?thesis using that [of "[]"] 1 by simp
    next
      case 2
      then show ?thesis using that [of w] by simp
    qed
  qed
  have "takeWhile ref_char t = us" unfolding t
    by (rule takeWhile_append_all) (use r x in auto)
  moreover have "takeWhile ref_char t = ''uses:''" unfolding u(1)
    by (rule takeWhile_append_all)
       (use u(2,3) in \<open>auto simp: ref_char_def is_space_def ord_def hd_append\<close>)
  ultimately show ?thesis using x by blast
qed

lemma uses_refs_complete:
  assumes "content = a @ t" and "uses_match t = Some (ref, rest)"
  shows "ref \<in> set (uses_refs content) \<or> (\<exists>r \<in> set (uses_refs content). \<exists>p. r = p @ ''uses:'')"
  using assms(1)
proof (induction content arbitrary: a rule: uses_refs.induct)
  case (1 content)
  show ?case
  proof (cases "uses_match content")
    case None
    then have "a \<noteq> []" using 1(3) assms(2) by auto
    then obtain c a' where a: "a = c # a'" by (cases a) auto
    then have "content = c # a' @ t" using 1(3) by simp
    moreover have "uses_refs content = uses_refs (a' @ t)"
      by (subst uses_refs.simps) (use None calculation in simp)
    ultimately show ?thesis using "1.IH"(1) [OF None _ refl] by simp
  next
    case (Some m)
    obtain r0 rest0 where m: "uses_match content = Some (r0, rest0)" using Some by (cases m) simp
    then have refs: "uses_refs content = r0 # uses_refs rest0" by (subst uses_refs.simps) simp
    obtain sp where sp: "content = ''uses:'' @ sp @ r0 @ rest0" "\<forall>c \<in> set sp. is_space c"
      "\<forall>c \<in> set r0. ref_char c" "rest0 = [] \<or> \<not> ref_char (hd rest0)"
      using uses_match_Some [OF m] by blast
    show ?thesis
    proof (cases "a = []")
      case True
      then show ?thesis using m assms(2) 1(3) refs by simp
    next
      case False
      have "a @ t = (''uses:'' @ sp @ r0) @ rest0" using sp(1) 1(3) by simp
      then obtain us where us: "(a = (''uses:'' @ sp @ r0) @ us \<and> us @ t = rest0) \<or>
          (a @ us = ''uses:'' @ sp @ r0 \<and> t = us @ rest0)"
        using append_eq_append_conv2 [THEN iffD1] by blast
      consider us where "us @ t = rest0" | us where "a @ us = ''uses:'' @ sp @ r0" "us \<noteq> []" "t = us @ rest0"
      proof (cases "us = []")
        case True
        then have "[] @ t = rest0" using us by auto
        then show thesis by (rule that(1))
      next
        case False
        then show thesis using us that by blast
      qed
      then show ?thesis
      proof cases
        case 1
        from "1.IH"(2) [OF m refl 1 [symmetric]] show ?thesis by (auto simp: refs)
      next
        case 2
        from overlapping_uses [OF assms(2) False 2 sp(2-4)] show ?thesis by (simp add: refs)
      qed
    qed
  qed
qed

section \<open>Pinned actions\<close>

lemma rsplit_at_eq:
  assumes "CHR ''@'' \<in> set s" and "rsplit_at s = (action, ref)"
  shows "s = action @ ''@'' @ ref"
proof -
  let ?p = "\<lambda>c. c \<noteq> CHR ''@''"
  let ?tail = "takeWhile ?p (rev s)"
  have ne: "dropWhile ?p (rev s) \<noteq> []" using assms(1) by (auto simp: dropWhile_eq_Nil_conv)
  then have "hd (dropWhile ?p (rev s)) = CHR ''@''" using hd_dropWhile [OF ne] by simp
  then obtain front where "dropWhile ?p (rev s) = CHR ''@'' # front" using ne by (cases "dropWhile ?p (rev s)") auto
  then have "rev s = ?tail @ CHR ''@'' # front" by (metis takeWhile_dropWhile_id)
  then have s: "s = rev front @ ''@'' @ rev ?tail" by (metis append.assoc append_Cons append_Nil rev_append rev_rev_ident rev.simps(2))
  then have "take (length s - length ?tail - 1) s = rev front" by (metis (no_types, lifting) add_diff_cancel_right'
        append_eq_conv_conj diff_diff_left length_append length_Cons length_rev list.size(3) add.commute One_nat_def append_Cons append_Nil)
  then show ?thesis using assms(2) s by (auto simp: rsplit_at_def Let_def)
qed

definition approved_action :: "pydict \<Rightarrow> string \<Rightarrow> string \<Rightarrow> bool" where
  "approved_action entry action sha \<longleftrightarrow> dget entry ''action'' PNone = PStr action \<and>
     dget entry ''commit_sha'' PNone = PStr sha \<and> commit_text sha \<and> truthy (dget entry ''approved_version'' PNone) \<and>
     truthy (dget entry ''review_date'' PNone) \<and> truthy (dget entry ''update_owner'' PNone)"

lemma lock_entry_approved: "lock_entry entry = ([], Some (action, sha)) \<Longrightarrow> approved_action entry action sha"
  by (auto simp: lock_entry_def approved_action_def split: pyval.split_asm if_split_asm)

lemma lock_entries_approved:
  assumes "lock_entries vs errors locked = Inr ([], locked')"
  shows "errors = [] \<and> (map_of locked' action = Some sha \<longrightarrow> map_of locked action = Some sha \<or>
    (\<exists>entry. PDict entry \<in> set vs \<and> approved_action entry action sha))"
  using assms
proof (induction vs errors locked rule: lock_entries.induct)
  case (2 v vs errors locked)
  obtain entry where entry: "v = PDict entry" using "2.prems" by auto
  obtain errs found where found: "lock_entry entry = (errs, found)" by (cases "lock_entry entry")
  note v = entry found
  have rest: "lock_entries vs (errors @ errs)
      (case found of Some (action, sha) \<Rightarrow> dset action sha locked | None \<Rightarrow> locked) = Inr ([], locked')"
    using "2.prems" unfolding v(1) by (simp add: as_dict_def v(2))
  have IH: "errors @ errs = []" "map_of locked' action = Some sha \<longrightarrow>
      map_of (case found of Some (action, sha) \<Rightarrow> dset action sha locked | None \<Rightarrow> locked) action = Some sha \<or>
      (\<exists>entry. PDict entry \<in> set vs \<and> approved_action entry action sha)"
    using "2.IH" [OF _ v(2) [symmetric] refl] rest v(1) by auto
  then show ?case using v lock_entry_approved [of entry action sha]
    by (auto split: option.split_asm if_split_asm)
qed simp

text \<open>A reference the gate accepts: local, or pinned to the commit of an approved lock entry.\<close>

definition local_reference :: "string \<Rightarrow> bool" where
  "local_reference ref \<longleftrightarrow> startswith ref LOCAL_WORKFLOW_ACTION_PREFIX"

definition pinned_reference :: "pyval list \<Rightarrow> string \<Rightarrow> bool" where
  "pinned_reference entries ref \<longleftrightarrow> (\<exists>action sha entry. ref = action @ ''@'' @ sha \<and> PDict entry \<in> set entries \<and>
     approved_action entry action sha)"

lemma reference_error_None:
  assumes "reference_error locked workflow ref = None" and "lock_entries entries [] [] = Inr ([], locked)"
  shows "local_reference ref \<or> pinned_reference entries ref"
proof (cases "local_reference ref")
  case False
  obtain action sha where split: "rsplit_at ref = (action, sha)" by (cases "rsplit_at ref") simp
  then have "CHR ''@'' \<in> set ref" "map_of locked action = Some sha"
    using assms(1) False by (auto simp: reference_error_def local_reference_def split: if_split_asm option.split_asm)
  then show ?thesis using rsplit_at_eq [OF _ split] lock_entries_approved [OF assms(2), of action sha]
    by (auto simp: pinned_reference_def)
qed simp

text \<open>A pinned reference ends in a digit of its commit.\<close>

lemma pinned_not_uses: "pinned_reference entries (p @ ''uses:'') \<Longrightarrow> False"
proof -
  assume "pinned_reference entries (p @ ''uses:'')"
  then obtain action sha where sha: "p @ ''uses:'' = action @ ''@'' @ sha" "commit_text sha"
    by (auto simp: pinned_reference_def approved_action_def)
  then have "sha \<noteq> []" by (auto simp: commit_text_def)
  then have "last sha = CHR '':''" "last sha \<in> set sha" using arg_cong [OF sha(1), of last] by simp_all
  then show False using sha(2) by (auto simp: commit_text_def is_digit_def ord_def)
qed

text \<open>Every reference of a workflow, wherever it stands, but one hidden behind a local reference.\<close>

definition workflow_pinned :: "pyval list \<Rightarrow> string \<Rightarrow> bool" where
  "workflow_pinned entries content \<longleftrightarrow>
     (\<forall>a t ref rest. content = a @ t \<and> uses_match t = Some (ref, rest) \<longrightarrow>
        local_reference ref \<or> pinned_reference entries ref \<or>
        (\<exists>r \<in> set (uses_refs content). local_reference r \<and> (\<exists>p. r = p @ ''uses:''))) \<and>
     (\<forall>a t. content = a @ t \<longrightarrow> \<not> mutable_ref_at mutable_tail t \<and> \<not> mutable_ref_at stable_tail t)"

lemma map_filter_Nil: "List.map_filter f xs = [] \<longleftrightarrow> (\<forall>x \<in> set xs. f x = None)"
  by (induction xs) (auto simp: map_filter_simps split: option.split)

lemma workflow_errors_Nil:
  assumes "workflow_errors E repo_root locked workflow = Inr []" and "lock_entries entries [] [] = Inr ([], locked)"
  shows "\<exists>content. gate_read E repo_root workflow = Inr content \<and> workflow_pinned entries content"
proof -
  obtain content where c: "gate_read E repo_root workflow = Inr content"
    and none: "\<forall>found \<in> set MUTABLE_WORKFLOW_REF_PATTERNS. \<not> found content"
      "\<forall>ref \<in> set (uses_refs content). reference_error locked workflow ref = None"
    using assms(1) by (auto simp: workflow_errors_def filter_empty_conv map_filter_Nil)
  have ok: "\<forall>ref \<in> set (uses_refs content). local_reference ref \<or> pinned_reference entries ref"
    using none(2) reference_error_None [OF _ assms(2)] by blast
  have "local_reference ref \<or> pinned_reference entries ref \<or>
      (\<exists>r \<in> set (uses_refs content). local_reference r \<and> (\<exists>p. r = p @ ''uses:''))"
    if "content = a @ t" "uses_match t = Some (ref, rest)" for a t ref rest
    using uses_refs_complete [OF that] ok pinned_not_uses by blast
  moreover have "\<not> mutable_ref_at mutable_tail t \<and> \<not> mutable_ref_at stable_tail t" if "content = a @ t" for a t
    using none(1) that by (auto simp: MUTABLE_WORKFLOW_REF_PATTERNS_def search_iff)
  ultimately show ?thesis using c unfolding workflow_pinned_def by blast
qed

lemma mapE_concat_Nil:
  assumes "mapE f xs = Inr ys" and "concat ys = []" and "x \<in> set xs"
  shows "f x = Inr []"
  using assms by (induction xs arbitrary: ys) auto

lemma actions_pinned:
  assumes "assert_workflow_actions_are_pinned E repo_root = Inr []"
  shows "\<exists>lock entries. read_json E (path_join repo_root ''.github/actions-lock.json'') = Inr (PDict lock) \<and>
    py_iter (dget lock ''actions'' (PList [])) = Inr entries \<and>
    (\<forall>workflow \<in> set WORKFLOW_FILES. \<exists>content. gate_read E repo_root workflow = Inr content \<and>
       workflow_pinned entries content)"
proof -
  obtain json where json: "gate_read E repo_root ''.github/actions-lock.json'' = Inr json"
    using assms by (auto simp: assert_workflow_actions_are_pinned_def split: sum.split_asm py_error.split_asm)
  obtain v where v: "json_loads E json = Some v"
    using assms json by (auto simp: assert_workflow_actions_are_pinned_def split: option.split_asm)
  obtain lock entries locked found where lock: "v = PDict lock" "py_iter (dget lock ''actions'' (PList [])) = Inr entries"
      "lock_entries entries [] [] = Inr ([], locked)"
      "mapE (workflow_errors E repo_root locked) WORKFLOW_FILES = Inr found" "concat found = []"
    using assms json v by (auto simp: assert_workflow_actions_are_pinned_def)
  have "read_json E (path_join repo_root ''.github/actions-lock.json'') = Inr (PDict lock)"
    using json v lock(1) by (simp add: read_json_def gate_read_def)
  moreover have "\<exists>content. gate_read E repo_root workflow = Inr content \<and> workflow_pinned entries content"
    if "workflow \<in> set WORKFLOW_FILES" for workflow
    by (rule workflow_errors_Nil [OF mapE_concat_Nil [OF lock(4,5) that] lock(3)])
  ultimately show ?thesis using lock(2) by blast
qed

section \<open>Installs, locks and claims\<close>

definition installs_hashed :: "string \<Rightarrow> bool" where
  "installs_hashed content \<longleftrightarrow> (\<forall>line \<in> set (py_splitlines content).
     bare_pip_install line \<longrightarrow> contains line ''--require-hashes'')"

text \<open>What the gate checks of a lock: at least one pin, and a hash in each block that starts with a pin.\<close>

definition pins_hashed :: "string \<Rightarrow> bool" where
  "pins_hashed content \<longleftrightarrow> (\<exists>block \<in> set (split_blocks content). pinned_requirement block) \<and>
     (\<forall>block \<in> set (split_blocks content). pinned_requirement block \<and> requirement_lines block \<noteq> [] \<longrightarrow>
        (\<exists>line \<in> set (requirement_lines block). contains line ''--hash=sha256:''))"

lemma block_errors_hash:
  "block_errors lock_path block = [] \<Longrightarrow> requirement_lines block \<noteq> [] \<Longrightarrow>
    \<exists>line \<in> set (requirement_lines block). contains line ''--hash=sha256:''"
  by (cases "requirement_lines block") (auto simp: block_errors_def list_ex_iff split: if_split_asm)

lemma lock_errors_Nil: "lock_errors lock_path content = [] \<Longrightarrow> pins_hashed content"
  by (auto simp: lock_errors_def pins_hashed_def Let_def filter_empty_conv dest: block_errors_hash
      split: if_split_asm)

lemma dependencies_locked:
  assumes "assert_python_dependencies_are_hash_locked E repo_root = Inr []"
  shows "(\<forall>workflow \<in> set WORKFLOW_FILES. \<exists>content. gate_read E repo_root workflow = Inr content \<and> installs_hashed content) \<and>
    (\<forall>lock_path \<in> set PYTHON_REQUIREMENT_LOCKS. \<exists>content. gate_read E repo_root lock_path = Inr content \<and>
       pins_hashed content)"
proof -
  obtain texts installs locks where
    texts: "mapE (\<lambda>workflow. bindE (gate_read E repo_root workflow) (\<lambda>content. Inr (workflow, content))) WORKFLOW_FILES = Inr texts"
    and installs: "mapE (\<lambda>(workflow, command). case map_of texts workflow of
         None \<Rightarrow> Inl (KeyError (repr_str workflow))
       | Some content \<Rightarrow> Inr (install_errors workflow command content)) required_installs = Inr installs" "concat installs = []"
    and locks: "mapE (\<lambda>lock_path. bindE (gate_read E repo_root lock_path) (\<lambda>content. Inr (lock_errors lock_path content)))
       PYTHON_REQUIREMENT_LOCKS = Inr locks" "concat locks = []"
    using assms by (auto simp: assert_python_dependencies_are_hash_locked_def)
  have read: "gate_read E repo_root workflow = Inr content" if "map_of ts workflow = Some content"
      "mapE (\<lambda>workflow. bindE (gate_read E repo_root workflow) (\<lambda>content. Inr (workflow, content))) ws = Inr ts"
    for ws ts workflow content
    using that by (induction ws arbitrary: ts) (auto split: if_split_asm)
  have "\<exists>content. gate_read E repo_root workflow = Inr content \<and> installs_hashed content"
    if w: "workflow \<in> set WORKFLOW_FILES" for workflow
  proof -
    obtain command where "(workflow, command) \<in> set required_installs"
      using w by (auto simp: WORKFLOW_FILES_def RELEASE_PROOF_WORKFLOW_FILES_def required_installs_def)
    from mapE_concat_Nil [OF installs this] obtain content where "map_of texts workflow = Some content"
        "install_errors workflow command content = []"
      by (auto split: option.split_asm)
    then show ?thesis using read [OF _ texts]
      by (auto simp: install_errors_def installs_hashed_def bare_install_def filter_empty_conv split: if_split_asm)
  qed
  moreover have "\<exists>content. gate_read E repo_root lock_path = Inr content \<and> pins_hashed content"
    if "lock_path \<in> set PYTHON_REQUIREMENT_LOCKS" for lock_path
    using mapE_concat_Nil [OF locks that] lock_errors_Nil by auto
  ultimately show ?thesis by blast
qed

text \<open>A text without the separator lies within one of the joined pieces.\<close>

lemma contains_separated:
  assumes "c \<notin> set p" "p \<noteq> []"
  shows "contains (a @ c # b) p \<longleftrightarrow> contains a p \<or> contains b p"
proof
  assume "contains (a @ c # b) p"
  then obtain x y where xy: "a @ c # b = x @ p @ y" by (auto simp: contains_iff)
  then consider u where "a = x @ u" "u @ c # b = p @ y" | u where "a @ u = x" "c # b = u @ p @ y"
    by (auto simp: append_eq_append_conv2)
  then show "contains a p \<or> contains b p"
  proof cases
    case 1
    then consider v where "u = p @ v" | v where "u @ v = p" "c # b = v @ y"
      by (auto simp: append_eq_append_conv2)
    then show ?thesis
    proof cases
      case 2
      then have "v = []" using assms(1) by (cases v) auto
      then have "a = x @ p @ []" using 1(1) 2(1) by simp
      then show ?thesis unfolding contains_iff by blast
    qed (use 1(1) in \<open>auto simp: contains_iff\<close>)
  next
    case 2
    then show ?thesis using assms
      by (cases u) (auto simp: contains_iff Cons_eq_append_conv)
  qed
next
  assume "contains a p \<or> contains b p"
  then show "contains (a @ c # b) p" by (auto simp: contains_iff) (metis append.assoc append_Cons)+
qed

lemma contains_join_iff:
  assumes "c \<notin> set p" "p \<noteq> []"
  shows "contains (join [c] xs) p \<longleftrightarrow> list_ex (\<lambda>x. contains x p) xs"
  using assms by (induction "[c]" xs rule: join.induct) (auto simp: contains_separated)

lemma release_gate_accepts:
  assumes "release_gate E repo_root = Inr (0, out)"
  shows "assert_workflow_actions_are_pinned E repo_root = Inr [] \<and>
    assert_python_dependencies_are_hash_locked E repo_root = Inr [] \<and>
    assert_release_proof_retention_is_durable E repo_root = Inr [] \<and>
    (\<forall>path \<in> set REQUIRED_FILES. \<exists>content. gate_read E repo_root path = Inr content \<and>
       (\<forall>claim \<in> set FORBIDDEN_CLAIMS. \<not> contains content claim))"
proof -
  obtain contents where read: "mapE (gate_read E repo_root) REQUIRED_FILES = Inr contents"
    and parts: "assert_workflow_actions_are_pinned E repo_root = Inr []"
      "assert_python_dependencies_are_hash_locked E repo_root = Inr []"
      "assert_release_proof_retention_is_durable E repo_root = Inr []"
    and claims: "claim_errors (join [CHR 0x0A] contents) = []"
    using assms by (auto simp: release_gate_def Let_def split: if_split_asm)
  have "\<exists>content. gate_read E repo_root path = Inr content \<and> (\<forall>claim \<in> set FORBIDDEN_CLAIMS. \<not> contains content claim)"
    if path: "path \<in> set REQUIRED_FILES" for path
  proof -
    have "\<exists>content \<in> set ys. gate_read E repo_root path = Inr content"
      if "path \<in> set ps" "mapE (gate_read E repo_root) ps = Inr ys" for ps ys
      using that by (induction ps arbitrary: ys) auto
    from this [OF path read] obtain content where "content \<in> set contents" "gate_read E repo_root path = Inr content"
      by blast
    moreover have "\<forall>claim \<in> set FORBIDDEN_CLAIMS. \<not> contains (join [CHR 0x0A] contents) claim"
      using claims by (auto simp: claim_errors_def filter_empty_conv)
    ultimately show ?thesis using contains_join by blast
  qed
  then show ?thesis using parts by blast
qed

end
