(* ===== verification/GateTheorems.thy ===== *)
theory GateTheorems
  imports ReleaseGateLaws SampleData
begin

text \<open>
  The property of the release gate (\<^verbatim>\<open>scripts/release_gate.py\<close>), a sample repository in \<open>r\<close> that it
  accepts, and a lock file with an unpinned requirement that it accepts too.
\<close>

section \<open>A sample repository\<close>

definition sample_commit :: string where
  "sample_commit = replicate 40 CHR ''0''"

definition sample_lock_entry :: pydict where
  "sample_lock_entry =
     [(''action'', PStr ''a/b''), (''commit_sha'', PStr sample_commit), (''approved_version'', PStr ''v1''),
      (''review_date'', PStr ''t''), (''update_owner'', PStr ''o'')]"

definition sample_workflow :: "string \<Rightarrow> string list" where
  "sample_workflow lock = [''uses: a/b@'' @ sample_commit, ''run: python -m pip install --require-hashes -r '' @ lock]"

definition text_of_lines :: "string list \<Rightarrow> string" where
  "text_of_lines = join [CHR 0x0A]"

definition repository_lines :: "string \<Rightarrow> string list" where
  "repository_lines path =
     (if path = ''r/.github/workflows/ci.yml'' then sample_workflow ''requirements-ci.lock''
      else if path = ''r/.github/workflows/release-proof-input.yml'' then sample_workflow ''requirements-release.lock''
      else if path = ''r/.github/workflows/release-proof-attest.yml''
      then sample_workflow ''requirements-release.lock'' @ RELEASE_ASSET_TERMS
      else if path \<in> {''r/requirements-ci.lock'', ''r/requirements-release.lock''} then [''a==1 --hash=sha256:0'']
      else if path = ''r/docs/release/criteria.md'' then REQUIRED_TERMS
      else [])"

abbreviation repository_text :: "string \<Rightarrow> string" where
  "repository_text path \<equiv> text_of_lines (repository_lines path)"

definition gate_env :: py_env where
  "gate_env = (sample_env ''live'')
     \<lparr>json_loads := \<lambda>s. Some (PDict [(''actions'', PList [PDict sample_lock_entry])]),
      filesystem := sample_files\<lparr>read_text := \<lambda>p. Inr (repository_text p), path_exists := \<lambda>p. True\<rparr>\<rparr>"

lemma gate_pinned: "assert_workflow_actions_are_pinned gate_env ''r'' = Inr []"
  by code_simp

lemma gate_locked: "assert_python_dependencies_are_hash_locked gate_env ''r'' = Inr []"
  by code_simp

lemma contains_line: "w \<in> set ls \<Longrightarrow> contains (text_of_lines ls) w"
  unfolding text_of_lines_def by (rule contains_join [OF _ contains_itself])

lemma contains_lines:
  "CHR 0x0A \<notin> set p \<Longrightarrow> p \<noteq> [] \<Longrightarrow> contains (text_of_lines ls) p \<longleftrightarrow> list_ex (\<lambda>l. contains l p) ls"
  unfolding text_of_lines_def by (rule contains_join_iff)

lemma gate_durable: "assert_release_proof_retention_is_durable gate_env ''r'' = Inr []"
proof -
  let ?t = "repository_text ''r/.github/workflows/release-proof-attest.yml''"
  have "contains ?t w" if "w \<in> set RELEASE_ASSET_TERMS" for w
    by (rule contains_line) (use that in \<open>simp add: repository_lines_def\<close>)
  moreover have "\<not> list_ex (\<lambda>l. contains l ''--clobber'') (repository_lines ''r/.github/workflows/release-proof-attest.yml'')"
    by code_simp
  then have "\<not> contains ?t ''--clobber''" by (simp add: contains_lines)
  moreover have "py_count ?t ''actions/upload-artifact@'' = 0"
    "py_count (repository_text ''r/.github/workflows/release-proof-input.yml'') ''actions/upload-artifact@'' = 0"
    by code_simp+
  then have "mapE (retention_error gate_env ''r'') RELEASE_PROOF_WORKFLOW_FILES = Inr (map (\<lambda>_. []) RELEASE_PROOF_WORKFLOW_FILES)"
    by (intro mapE_Inr_map)
       (auto simp: retention_error_def gate_read_def gate_env_def RELEASE_PROOF_WORKFLOW_FILES_def path_join_def)
  ultimately show ?thesis
    by (auto simp: assert_release_proof_retention_is_durable_def gate_read_def gate_env_def path_join_def
        filter_empty_conv RELEASE_ASSET_FORBIDDEN_TERMS_def)
qed

definition required_texts :: "string list" where
  "required_texts = map (\<lambda>path. repository_text (path_join ''r'' path)) REQUIRED_FILES"

lemma required_present: "w \<in> set REQUIRED_TERMS \<Longrightarrow> contains (join [CHR 0x0A] required_texts) w"
  by (rule contains_join [of "text_of_lines REQUIRED_TERMS", OF _ contains_line])
     (simp_all add: required_texts_def REQUIRED_FILES_def path_join_def repository_lines_def)

lemma no_forbidden_claim:
  assumes "claim \<in> set FORBIDDEN_CLAIMS"
  shows "\<not> contains (join [CHR 0x0A] required_texts) claim"
proof -
  have claim: "CHR 0x0A \<notin> set claim" "claim \<noteq> []" using assms by (auto simp: FORBIDDEN_CLAIMS_def)
  have "list_all (\<lambda>path. list_all (\<lambda>l. list_all (\<lambda>p. \<not> contains l p) FORBIDDEN_CLAIMS)
      (repository_lines (path_join ''r'' path))) REQUIRED_FILES"
    by code_simp
  then show ?thesis using assms
    by (auto simp: contains_join_iff [OF claim] contains_lines [OF claim] required_texts_def list_ex_iff list_all_iff)
qed

lemma gate_accepted: "release_gate gate_env ''r'' = Inr (0, [])"
proof -
  have "mapE (gate_read gate_env ''r'') REQUIRED_FILES = Inr required_texts"
    unfolding required_texts_def by (rule mapE_Inr_map) (simp add: gate_read_def gate_env_def)
  moreover have "claim_errors (join [CHR 0x0A] required_texts) = []"
    using required_present no_forbidden_claim by (auto simp: claim_errors_def filter_empty_conv)
  moreover have "filter (\<lambda>path. \<not> path_exists (filesystem gate_env) (path_join ''r'' path)) REQUIRED_FILES = []"
    by (simp add: gate_env_def)
  ultimately show ?thesis by (simp add: release_gate_def gate_pinned gate_locked gate_durable)
qed

section \<open>Properties\<close>

text \<open>
  An unpinned requirement in a block of its own is not looked at: only blocks that start with a pin
  are checked, so the gate accepts this lock although \<open>b\<close> has neither a pin nor a hash.
\<close>

lemma unpinned_block_accepted:
  "lock_errors ''requirements-ci.lock'' (''a==1 --hash=sha256:0'' @ [CHR 0x0A, CHR 0x0A] @ ''b>=2'') = []"
  by code_simp

text \<open>
  C35. A repository the release gate accepts has pinned workflows: whatever a workflow \<open>uses\<close>, wherever in
  the file, is a local action or has the 40-digit commit of an approved entry of the lock file, but for a
  text behind a local reference that itself ends in \<open>uses:\<close>; no action is used by a version tag or \<open>stable\<close>;
  each line that installs Python packages requires hashes; each lock file has pins, with a hash in each
  block that starts with one; and no required file makes a forbidden claim.
\<close>

theorem accepted_repository_is_pinned:
  assumes "release_gate E repo_root = Inr (0, out)"
  shows "(\<exists>lock entries. read_json E (path_join repo_root ''.github/actions-lock.json'') = Inr (PDict lock) \<and>
      py_iter (dget lock ''actions'' (PList [])) = Inr entries \<and>
      (\<forall>workflow \<in> set WORKFLOW_FILES. \<exists>content. gate_read E repo_root workflow = Inr content \<and>
         workflow_pinned entries content \<and> installs_hashed content)) \<and>
    (\<forall>lock_path \<in> set PYTHON_REQUIREMENT_LOCKS. \<exists>content. gate_read E repo_root lock_path = Inr content \<and>
       pins_hashed content) \<and>
    (\<forall>path \<in> set REQUIRED_FILES. \<exists>content. gate_read E repo_root path = Inr content \<and>
       (\<forall>claim \<in> set FORBIDDEN_CLAIMS. \<not> contains content claim))"
proof -
  note parts = release_gate_accepts [OF assms]
  obtain lock entries where lock: "read_json E (path_join repo_root ''.github/actions-lock.json'') = Inr (PDict lock)"
      "py_iter (dget lock ''actions'' (PList [])) = Inr entries"
    and pinned: "\<forall>workflow \<in> set WORKFLOW_FILES. \<exists>content. gate_read E repo_root workflow = Inr content \<and>
       workflow_pinned entries content"
    using actions_pinned parts by blast
  have "\<exists>content. gate_read E repo_root workflow = Inr content \<and> workflow_pinned entries content \<and> installs_hashed content"
    if "workflow \<in> set WORKFLOW_FILES" for workflow
    using pinned dependencies_locked [of E repo_root] parts that by (metis sum.inject(2))
  then show ?thesis using lock dependencies_locked [of E repo_root] parts by blast
qed

theorem accepted_repository_is_pinned_witness:
  "\<exists>content. gate_read gate_env ''r'' ''.github/workflows/ci.yml'' = Inr content \<and> installs_hashed content"
proof -
  have "''.github/workflows/ci.yml'' \<in> set WORKFLOW_FILES" by (simp add: WORKFLOW_FILES_def)
  then show ?thesis using accepted_repository_is_pinned [OF gate_accepted] by blast
qed

end
