(* ===== verification/ReadmeGate.thy ===== *)
theory ReadmeGate
  imports TextSearch Runtime
begin

text \<open>
  \<^verbatim>\<open>scripts/check_readme_claims.py\<close>: the search for claims in the README that the release does not
  support. A pattern is a literal and possibly a second one, between which \<open>.*\<close> matches the longest run within
  the line; letters match in either case.
\<close>

definition FORBIDDEN_PHRASES :: "(string \<times> string option) list" where
  "FORBIDDEN_PHRASES =
     [(''v3.9.2 live proven'', None), (''T3N-attested worker execution'', None), (''production-ready'', None),
      (''cryptographically verified'', Some ''platform evidence''), (''remotely verifiable'', Some ''v3.9.2'')]"

definition GATE_MARKER :: string where
  "GATE_MARKER = ''# README_CLAIMS_GATE_PASSED''"

definition starts_any_case :: "string \<Rightarrow> string \<Rightarrow> bool" where
  "starts_any_case s p \<longleftrightarrow> startswith (py_lower s) (py_lower p)"

fun last_any_case :: "string \<Rightarrow> string \<Rightarrow> nat option" where
  "last_any_case p [] = None"
| "last_any_case p (c # s) = (case last_any_case p s of
     Some k \<Rightarrow> Some (Suc k)
   | None \<Rightarrow> if starts_any_case (c # s) p then Some 0 else None)"

text \<open>The length of the match at the start; a further piece is looked for in the rest of the line, last place first.\<close>

definition phrase_at :: "string \<times> string option \<Rightarrow> string \<Rightarrow> nat option" where
  "phrase_at = (\<lambda>(p, more) s.
     if \<not> starts_any_case s p then None
     else case more of
       None \<Rightarrow> Some (length p)
     | Some q \<Rightarrow> map_option (\<lambda>k. length p + k + length q)
         (last_any_case q (takeWhile (\<lambda>c. ord c \<noteq> 10) (drop (length p) s))))"

text \<open>\<open>re.findall\<close> of a pattern that matches no empty text.\<close>

fun find_all :: "(string \<Rightarrow> nat option) \<Rightarrow> string \<Rightarrow> string list" where
  "find_all found_at [] = []"
| "find_all found_at (c # s) = (case found_at (c # s) of
     Some n \<Rightarrow> take n (c # s) # find_all found_at (drop (n - 1) s)
   | None \<Rightarrow> find_all found_at s)"

definition claims_found :: "string \<Rightarrow> string list" where
  "claims_found content = concat (map (\<lambda>phrase. find_all (phrase_at phrase) content) FORBIDDEN_PHRASES)"

text \<open>The exit code and the printed texts.\<close>

definition check_readme_claims :: "py_env \<Rightarrow> (int \<times> string list) py" where
  "check_readme_claims E =
     bindE (read_text (filesystem E) ''README.md'') (\<lambda>content.
     let found = claims_found content
     in Inr (if contains content GATE_MARKER
        then (0, [''README claims gate: marker found, skipping phrase check.''])
        else if found \<noteq> []
        then (1, [''[FAIL] README contains '' @ dec (length found) @ '' forbidden overclaim phrase(s):''] @
          map (\<lambda>m. ''  - '' @ repr_str m) found @
          [[CHR 0x0A] @ ''Do not claim v3.9.2 is live-proven, T3N-attested, or production-ready'',
           ''until all proof verifiers pass (Phase 7 of ADN Complete Remediation).''])
        else (0, [''[PASS] README claims gate: no overclaim phrases found.''])))"

section \<open>What the check finds\<close>

lemma find_all_Nil: "find_all found_at s = [] \<longleftrightarrow> (\<forall>a t. s = a @ t \<and> t \<noteq> [] \<longrightarrow> found_at t = None)"
proof (induction found_at s rule: find_all.induct)
  case (2 found_at c s)
  show ?case
  proof (cases "found_at (c # s)")
    case None
    then have "find_all found_at (c # s) = [] \<longleftrightarrow> (\<forall>a t. s = a @ t \<and> t \<noteq> [] \<longrightarrow> found_at t = None)" using None "2.IH" by simp
    then show ?thesis using None by (auto simp: Cons_eq_append_conv)
  qed force
qed simp

text \<open>Without the marker an accepted README contains none of the single phrases, in any case.\<close>

lemma accepted_readme:
  assumes "check_readme_claims E = Inr (0, out)" and "read_text (filesystem E) ''README.md'' = Inr content"
    and "\<not> contains content GATE_MARKER"
  shows "\<forall>p \<in> {''v3.9.2 live proven'', ''T3N-attested worker execution'', ''production-ready''}.
    \<not> contains (py_lower content) (py_lower p)"
proof (intro ballI notI)
  fix p
  assume p: "p \<in> {''v3.9.2 live proven'', ''T3N-attested worker execution'', ''production-ready''}"
    and c: "contains (py_lower content) (py_lower p)"
  have "claims_found content = []" using assms by (auto simp: check_readme_claims_def Let_def split: if_split_asm)
  then have "find_all (phrase_at (p, None)) content = []" using p by (auto simp: claims_found_def FORBIDDEN_PHRASES_def)
  then have none: "\<forall>a t. content = a @ t \<and> t \<noteq> [] \<longrightarrow> phrase_at (p, None) t = None" by (simp add: find_all_Nil)
  obtain x y where xy: "py_lower content = x @ py_lower p @ y" using c by (auto simp: contains_iff)
  let ?t = "drop (length x) content"
  have "py_lower ?t = py_lower p @ y" using xy by (simp add: py_lower_def drop_map [symmetric])
  moreover have "?t \<noteq> []" using calculation p by (auto simp: py_lower_def)
  ultimately show False using none [rule_format, of "take (length x) content" ?t]
    by (simp add: starts_any_case_def phrase_at_def)
qed

end
