(* ===== verification/FeatureAgents.thy ===== *)
theory FeatureAgents
  imports Identity PySets HttpClients
begin

text \<open>
  The feature agents (\<^verbatim>\<open>src/blind_auction.py\<close>, \<^verbatim>\<open>agent_dao.py\<close>, \<^verbatim>\<open>kyc_pipeline.py\<close>,
  \<^verbatim>\<open>decision_audit_agent.py\<close>, \<^verbatim>\<open>secret_vault_agent.py\<close>, \<^verbatim>\<open>temporal_delegation.py\<close>,
  \<^verbatim>\<open>performance_bond.py\<close>, \<^verbatim>\<open>reputation_ledger.py\<close>): objects that keep a list or a dictionary and call
  the TEE function they are given. A method is an action on the object's state; \<open>tee\<close> is the function
  of the call, \<open>llm prompt system\<close> is \<open>ask\<close>, random texts and the epoch of the clock are arguments.
\<close>

type_synonym tee_fn = "string \<Rightarrow> pydict \<Rightarrow> pydict py"
type_synonym llm_fn = "string \<Rightarrow> string \<Rightarrow> string py"

definition clip :: "nat \<Rightarrow> string \<Rightarrow> string" where
  "clip n s = (if length s > n then take n s @ ''...'' else s)"

definition hash_prefix :: "py_env \<Rightarrow> nat \<Rightarrow> string \<Rightarrow> string" where
  "hash_prefix E n s = take n (sha256_hex E (utf8 s))"

text \<open>\<open>f"{v:.2f}"\<close>\<close>

definition two_digits :: "nat \<Rightarrow> string" where
  "two_digits n = [hexdigit (n div 10), hexdigit (n mod 10)]"

definition format2 :: "pyval \<Rightarrow> string py" where
  "format2 v = (case num_of v of
     Some q \<Rightarrow> (let c = nat \<bar>round_half_even (q * 100)\<bar>
       in Inr ((if q < 0 then ''-'' else []) @ dec (c div 100) @ ''.'' @ two_digits (c mod 100)))
   | None \<Rightarrow> (case v of
       PStr s \<Rightarrow> Inl (ValueError ''Unknown format code for object of type str'')
     | _ \<Rightarrow> Inl (TypeError ''unsupported format string passed to __format__'')))"

section \<open>Blind auction\<close>

record blind_auction =
  ba_item_id :: string
  ba_bids :: "pyval list"
  ba_sealed_receipts :: "pydict list"
  ba_result :: "pydict option"

definition create_auction :: "string \<Rightarrow> blind_auction" where
  "create_auction item_id = \<lparr>ba_item_id = item_id, ba_bids = [], ba_sealed_receipts = [], ba_result = None\<rparr>"

definition write_task_spec :: "llm_fn \<Rightarrow> blind_auction \<Rightarrow> string py" where
  "write_task_spec llm a = llm
     (''Write a concise task specification for an AI agent auction. Task ID: '' @ ba_item_id a @
      ''. The winning agent will process premium sales data. Include deliverable and SLA.'')
     ''You write short, precise task specifications for AI agent work auctions.''"

definition bid_payload :: "blind_auction \<Rightarrow> string \<Rightarrow> pyval \<Rightarrow> string \<Rightarrow> pydict" where
  "bid_payload a did amount nonce =
     [(''bidder_did'', PStr did), (''item_id'', PStr (ba_item_id a)), (''amount'', amount), (''nonce'', PStr nonce)]"

definition submit_bid :: "tee_fn \<Rightarrow> string \<Rightarrow> agent_identity \<Rightarrow> pyval \<Rightarrow> (blind_auction, pydict) action" where
  "submit_bid tee nonce worker amount a = (case tee ''submit-bid'' (bid_payload a (id_did worker) amount nonce) of
     Inl e \<Rightarrow> (Inl e, a)
   | Inr tee_result \<Rightarrow>
       let receipt =
         [(''bidder_did'', PStr (id_did worker)), (''item_id'', PStr (ba_item_id a)), (''amount'', amount),
          (''bid_hash'', dget tee_result ''bid_hash'' (PStr [])), (''receipt'', dget tee_result ''receipt'' (PStr [])),
          (''sealed_in_tee'', dget tee_result ''sealed_in_tee'' (PBool False))]
       in (Inr receipt,
           a\<lparr>ba_bids := ba_bids a @ [PDict [(''bidder_did'', PStr (id_did worker)), (''amount'', amount)]],
             ba_sealed_receipts := ba_sealed_receipts a @ [receipt]\<rparr>))"

definition resolve_auction :: "tee_fn \<Rightarrow> (blind_auction, pydict) action" where
  "resolve_auction tee a =
     (if ba_bids a = [] then (Inl (ValueError ''No bids to resolve''), a)
      else case tee ''resolve-auction'' [(''item_id'', PStr (ba_item_id a)), (''bids'', PList (ba_bids a))] of
        Inl e \<Rightarrow> (Inl e, a)
      | Inr result \<Rightarrow> (Inr result, a\<lparr>ba_result := Some result\<rparr>))"

definition auction_demo ::
  "llm_fn \<Rightarrow> (nat \<Rightarrow> tee_fn) \<Rightarrow> (nat \<Rightarrow> string) \<Rightarrow> agent_identity list \<Rightarrow> pyval list \<Rightarrow> (blind_auction, pydict) action" where
  "auction_demo llm tee nonce workers amounts a =
     bindS (liftS (write_task_spec llm a)) (\<lambda>spec.
     bindS (mapS (\<lambda>(i, w, x). submit_bid (tee i) (nonce i) w x) (enumerate 0 (zip workers amounts))) (\<lambda>receipts.
     bindS (resolve_auction (tee (length receipts))) (\<lambda>result.
     liftS (Inr
       [(''phase'', PStr ''blind_auction''), (''item_id'', PStr (ba_item_id a)), (''task_spec'', PStr (clip 120 spec)),
        (''bids_submitted'', PInt (int (length receipts))),
        (''sealed_receipts'', PList (map (\<lambda>r. dget r ''receipt'' PNone) receipts)),
        (''winner_did'', dget result ''winner_did'' PNone), (''winning_amount'', dget result ''winning_amount'' PNone),
        (''total_bids'', dget result ''total_bids'' PNone),
        (''resolved_in_tee'', dget result ''resolved_in_tee'' (PBool False))])))) a"

section \<open>Agent DAO\<close>

record agent_dao =
  dao_proposal_id :: string
  dao_quorum_threshold :: int
  dao_votes :: "pyval list"

definition create_dao :: "string \<Rightarrow> int \<Rightarrow> agent_dao" where
  "create_dao proposal_id quorum_threshold =
     \<lparr>dao_proposal_id = proposal_id, dao_quorum_threshold = quorum_threshold, dao_votes = []\<rparr>"

definition draft_proposal :: "llm_fn \<Rightarrow> string \<Rightarrow> agent_dao \<Rightarrow> string py" where
  "draft_proposal llm context d = llm
     (''Draft a 2-sentence DAO proposal for a multi-agent system. Proposal ID: '' @ dao_proposal_id d @
      ''. Context: '' @ str_or context ''Q1 2026 premium sales data processing prioritization'' @ ''.'')
     ''You write concise governance proposals for autonomous AI agent DAOs.''"

definition ballot :: "string \<Rightarrow> string \<Rightarrow> pyval" where
  "ballot did vote = PDict [(''voter_did'', PStr did), (''vote'', PStr vote)]"

definition cast_vote :: "py_env \<Rightarrow> tee_fn \<Rightarrow> agent_identity \<Rightarrow> string \<Rightarrow> string \<Rightarrow> (agent_dao, pydict) action" where
  "cast_vote E tee voter vote rationale d =
     (if vote \<notin> {''FOR'', ''AGAINST'', ''ABSTAIN''} then (Inl (AssertionError (''Invalid vote: '' @ vote)), d)
      else case tee ''cast-vote''
          [(''voter_did'', PStr (id_did voter)), (''proposal_id'', PStr (dao_proposal_id d)), (''vote'', PStr vote),
           (''rationale_hash'', PStr (hash_prefix E 16 rationale))] of
        Inl e \<Rightarrow> (Inl e, d)
      | Inr result \<Rightarrow> (Inr result, d\<lparr>dao_votes := dao_votes d @ [ballot (id_did voter) vote]\<rparr>))"

definition tally_payload :: "agent_dao \<Rightarrow> pydict" where
  "tally_payload d =
     [(''proposal_id'', PStr (dao_proposal_id d)), (''votes'', PList (dao_votes d)),
      (''quorum_threshold'', PInt (dao_quorum_threshold d))]"

definition tally :: "tee_fn \<Rightarrow> (agent_dao, pydict) action" where
  "tally tee d = (tee ''tally-votes'' (tally_payload d), d)"

definition vote_rationale :: "agent_dao \<Rightarrow> agent_identity \<Rightarrow> string \<Rightarrow> string" where
  "vote_rationale d agent vote = ''Agent '' @ id_agent_name agent @ '' votes '' @ vote @ '' on '' @ dao_proposal_id d"

definition dao_demo ::
  "py_env \<Rightarrow> llm_fn \<Rightarrow> (nat \<Rightarrow> tee_fn) \<Rightarrow> agent_identity list \<Rightarrow> string list \<Rightarrow> (agent_dao, pydict) action" where
  "dao_demo E llm tee agents votes d =
     bindS (liftS (draft_proposal llm [] d)) (\<lambda>proposal_text.
     bindS (mapS (\<lambda>(i, agent, vote). cast_vote E (tee i) agent vote (vote_rationale d agent vote))
         (enumerate 0 (zip agents votes))) (\<lambda>results.
     bindS (tally (tee (length results))) (\<lambda>outcome.
     liftS (Inr
       [(''phase'', PStr ''agent_dao''), (''proposal_id'', PStr (dao_proposal_id d)),
        (''proposal_text'', PStr (clip 100 proposal_text)), (''votes_cast'', PInt (int (length results))),
        (''result'', dget outcome ''result'' PNone), (''votes_for'', dget outcome ''votes_for'' PNone),
        (''votes_against'', dget outcome ''votes_against'' PNone), (''quorum_met'', dget outcome ''quorum_met'' PNone),
        (''tallied_in_tee'', dget outcome ''tallied_in_tee'' (PBool False))])))) d"

section \<open>KYC pipeline\<close>

definition KYC_STEPS :: "string list" where
  [py_consts]: "KYC_STEPS = [''identity'', ''address'', ''financial'', ''compliance'']"

record kyc_pipeline =
  kyc_applicant_id :: string
  kyc_completed_steps :: "string list"

definition create_kyc :: "string \<Rightarrow> kyc_pipeline" where
  "create_kyc applicant_id = \<lparr>kyc_applicant_id = applicant_id, kyc_completed_steps = []\<rparr>"

definition kyc_submit_step ::
  "py_env \<Rightarrow> tee_fn \<Rightarrow> agent_identity \<Rightarrow> string \<Rightarrow> string \<Rightarrow> (kyc_pipeline, pydict) action" where
  "kyc_submit_step E tee agent step raw_data k =
     (if step \<notin> set KYC_STEPS
      then (Inl (ValueError (''Unknown KYC step: '' @ step @ ''. Must be one of '' @
             py_repr (float_repr E) (PList (map PStr KYC_STEPS)))), k)
      else case tee ''kyc-submit-step''
          [(''agent_did'', PStr (id_did agent)), (''applicant_id'', PStr (kyc_applicant_id k)), (''step'', PStr step),
           (''data_hash'', PStr (hash_prefix E 20 raw_data))] of
        Inl e \<Rightarrow> (Inl e, k)
      | Inr result \<Rightarrow> (Inr result, k\<lparr>kyc_completed_steps := kyc_completed_steps k @ [step]\<rparr>))"

definition kyc_get_status :: "tee_fn \<Rightarrow> (kyc_pipeline, pydict) action" where
  "kyc_get_status tee k = (tee ''kyc-get-status''
     [(''applicant_id'', PStr (kyc_applicant_id k)), (''steps_completed'', PList (map PStr (kyc_completed_steps k)))], k)"

definition pick_agent :: "agent_identity list \<Rightarrow> nat \<Rightarrow> agent_identity py" where
  "pick_agent agents i =
     (if agents = [] then Inl (ZeroDivisionError ''integer modulo by zero'') else Inr (agents ! (i mod length agents)))"

definition kyc_demo :: "py_env \<Rightarrow> (nat \<Rightarrow> tee_fn) \<Rightarrow> agent_identity list \<Rightarrow> (kyc_pipeline, pydict) action" where
  "kyc_demo E tee agents k =
     bindS (mapS (\<lambda>(i, step). bindS (liftS (pick_agent agents i)) (\<lambda>agent.
         kyc_submit_step E (tee i) agent step
           (''applicant:'' @ kyc_applicant_id k @ '':step:'' @ step @ '':verified''))) (enumerate 0 KYC_STEPS)) (\<lambda>results.
     bindS (kyc_get_status (tee (length results))) (\<lambda>status.
     liftS (Inr
       [(''phase'', PStr ''kyc_pipeline''), (''applicant_id'', PStr (kyc_applicant_id k)),
        (''steps_submitted'', PInt (int (length results))), (''status'', dget status ''status'' PNone),
        (''steps_completed'', dget status ''steps_completed'' PNone),
        (''steps_required'', dget status ''steps_required'' PNone),
        (''missing_steps'', dget status ''missing_steps'' (PList [])),
        (''verified_in_tee'', dget status ''verified_in_tee'' (PBool False))]))) k"

section \<open>Decision audit\<close>

record decision_audit =
  da_auditor :: agent_identity
  da_entries :: "pydict list"

definition log_decision ::
  "py_env \<Rightarrow> tee_fn \<Rightarrow> agent_identity \<Rightarrow> string \<Rightarrow> string \<Rightarrow> string \<Rightarrow> pyval \<Rightarrow> (decision_audit, pydict) action" where
  "log_decision E tee agent decision_id action rationale confidence d = (case tee ''log-decision''
       [(''agent_did'', PStr (id_did agent)), (''decision_id'', PStr decision_id), (''action'', PStr action),
        (''rationale_hash'', PStr (hash_prefix E 20 rationale)), (''confidence'', confidence)] of
     Inl e \<Rightarrow> (Inl e, d)
   | Inr result \<Rightarrow> (Inr result, d\<lparr>da_entries := da_entries d @
       [[(''agent_did'', PStr (id_did agent)), (''action'', PStr action), (''confidence'', confidence),
         (''entry_hash'', dget result ''entry_hash'' (PStr []))]]\<rparr>))"

definition audit_entry :: "pydict \<Rightarrow> pyval" where
  "audit_entry e = PDict (map (\<lambda>k. (k, dget e k PNone)) [''agent_did'', ''action'', ''confidence''])"

definition run_audit :: "tee_fn \<Rightarrow> (decision_audit, pydict) action" where
  "run_audit tee d = (tee ''audit-decisions''
     [(''auditor_did'', PStr (id_did (da_auditor d))), (''entries'', PList (map audit_entry (da_entries d)))], d)"

definition generate_report :: "py_env \<Rightarrow> llm_fn \<Rightarrow> pydict \<Rightarrow> string py" where
  "generate_report E llm audit =
     bindE (format2 (dget audit ''risk_score'' (PInt 0))) (\<lambda>risk. llm
       (''Write a 2-sentence audit summary. Total decisions: '' @
        py_str (float_repr E) (dget audit ''total_decisions'' (PInt 0)) @ ''. Anomalies: '' @
        py_str (float_repr E) (dget audit ''anomalies_detected'' (PInt 0)) @ ''. Risk score: '' @ risk @ ''.'')
       ''You write concise security audit summaries for AI agent systems.'')"

definition demo_decisions :: "(nat \<times> string \<times> string \<times> string \<times> rat) list" where
  "demo_decisions =
     [(0, ''D001'', ''route_to_premium_processor'', ''High revenue segment detected'', 95 / 100),
      (1, ''D002'', ''apply_quality_filter'', ''Data quality score below threshold'', 88 / 100),
      (0, ''D003'', ''escalate_to_human'', ''Edge case outside training distribution'', 30 / 100),
      (1, ''D004'', ''proceed_with_delegation'', ''All checks passed'', 92 / 100)]"

definition list_index :: "'a list \<Rightarrow> nat \<Rightarrow> 'a py" where
  "list_index xs i = (if i < length xs then Inr (xs ! i) else Inl (IndexError ''list index out of range''))"

definition audit_demo ::
  "py_env \<Rightarrow> llm_fn \<Rightarrow> (nat \<Rightarrow> tee_fn) \<Rightarrow> agent_identity list \<Rightarrow> (decision_audit, pydict) action" where
  "audit_demo E llm tee agents d =
     bindS (liftS (mapE (\<lambda>(i, _). list_index agents i) demo_decisions)) (\<lambda>who.
     bindS (mapS (\<lambda>(i, agent, _, decision, action, rationale, conf).
         log_decision E (tee i) agent decision action rationale (PFloat conf))
         (enumerate 0 (zip who demo_decisions))) (\<lambda>results.
     bindS (run_audit (tee (length results))) (\<lambda>audit.
     bindS (liftS (generate_report E llm audit)) (\<lambda>report.
     liftS (Inr
       [(''phase'', PStr ''decision_audit''), (''decisions_logged'', PInt (int (length results))),
        (''anomalies_detected'', dget audit ''anomalies_detected'' PNone),
        (''risk_score'', dget audit ''risk_score'' PNone), (''attestation'', dget audit ''attestation'' PNone),
        (''audited_in_tee'', dget audit ''audited_in_tee'' PNone), (''report'', PStr (clip 120 report))]))))) d"

end
