(* ===== verification/FeatureServices.thy ===== *)
theory FeatureServices
  imports FeatureAgents
begin

text \<open>
  The other feature agents: \<^verbatim>\<open>src/secret_vault_agent.py\<close>, \<^verbatim>\<open>temporal_delegation.py\<close>,
  \<^verbatim>\<open>performance_bond.py\<close>, \<^verbatim>\<open>reputation_ledger.py\<close>, \<^verbatim>\<open>personalization_agent.py\<close> and
  \<^verbatim>\<open>cross_tenant_collab.py\<close>. A dictionary whose keys come from the TEE has values as keys.
\<close>

text \<open>\<open>d[k] = v\<close> and \<open>d.get(k)\<close> for a key from the TEE.\<close>

definition put :: "pyval \<Rightarrow> 'a \<Rightarrow> (pyval \<times> 'a) list \<Rightarrow> (pyval \<times> 'a) list py" where
  "put k v d = (if hashable k then Inr (vset k v d) else Inl (unhashable_error k))"

definition look :: "(pyval \<times> 'a) list \<Rightarrow> pyval \<Rightarrow> 'a option py" where
  "look d k = (if hashable k then Inr (vget d k) else Inl (unhashable_error k))"

section \<open>Secret vault\<close>

record vault =
  va_vault_id :: pyval
  va_label :: string
  va_allowed_dids :: "string list"
  va_stored_in_tee :: pyval

record secret_vault =
  sv_owner :: agent_identity
  sv_vaults :: "(string \<times> vault) list"

definition permission_hash :: "py_env \<Rightarrow> string list \<Rightarrow> string" where
  "permission_hash E allowed_dids =
     hash_prefix E 24 (json_spaced (float_repr E) (PList (map PStr (sort allowed_dids))))"

definition store_secret ::
  "py_env \<Rightarrow> tee_fn \<Rightarrow> string \<Rightarrow> string \<Rightarrow> string list \<Rightarrow> (secret_vault, pydict) action" where
  "store_secret E tee label secret_value allowed_dids v = (case tee ''store-secret''
       [(''owner_did'', PStr (id_did (sv_owner v))), (''secret_hash'', PStr (hash_prefix E 24 secret_value)),
        (''permission_hash'', PStr (permission_hash E allowed_dids)), (''label'', PStr label)] of
     Inl e \<Rightarrow> (Inl e, v)
   | Inr result \<Rightarrow> (Inr result, v\<lparr>sv_vaults := dset label
       \<lparr>va_vault_id = dget result ''vault_id'' PNone, va_label = label, va_allowed_dids = allowed_dids,
        va_stored_in_tee = dget result ''stored_in_tee'' (PBool False)\<rparr> (sv_vaults v)\<rparr>))"

definition may_invoke :: "secret_vault \<Rightarrow> vault \<Rightarrow> agent_identity \<Rightarrow> bool" where
  "may_invoke v vault requester \<longleftrightarrow>
     id_did requester \<in> set (va_allowed_dids vault) \<or> id_did requester = id_did (sv_owner v)"

definition invoke_payload :: "py_env \<Rightarrow> vault \<Rightarrow> agent_identity \<Rightarrow> string \<Rightarrow> pydict" where
  "invoke_payload E vault requester action =
     [(''vault_id'', va_vault_id vault), (''requester_did'', PStr (id_did requester)), (''action'', PStr action),
      (''permission_proof'', PStr (hash_prefix E 24
         (id_did requester @ '':'' @ py_str (float_repr E) (va_vault_id vault) @ '':'' @ action)))]"

definition invoke_with_secret ::
  "py_env \<Rightarrow> tee_fn \<Rightarrow> string \<Rightarrow> agent_identity \<Rightarrow> string \<Rightarrow> (secret_vault, pydict) action" where
  "invoke_with_secret E tee label requester action v = (case map_of (sv_vaults v) label of
     None \<Rightarrow> (Inl (ValueError (''Vault '' @ [CHR 0x27] @ label @ [CHR 0x27] @ '' not found - store-secret first'')), v)
   | Some vault \<Rightarrow>
       if \<not> may_invoke v vault requester
       then (Inl (PermissionError (id_did requester @ '' is not authorized for vault '' @ [CHR 0x27] @ label @ [CHR 0x27])), v)
       else (tee ''invoke-with-secret'' (invoke_payload E vault requester action), v))"

definition vault_demo ::
  "py_env \<Rightarrow> (nat \<Rightarrow> tee_fn) \<Rightarrow> string \<Rightarrow> agent_identity list \<Rightarrow> (secret_vault, pydict) action" where
  "vault_demo E tee secret_value workers v =
     bindS (store_secret E (tee 0) ''api_key_production'' secret_value (map id_did (take 1 workers))) (\<lambda>stored.
     bindS (liftS (list_index workers 0)) (\<lambda>worker.
     bindS (invoke_with_secret E (tee 1) ''api_key_production'' worker ''fetch_external_data'') (\<lambda>invoked.
     liftS (Inr
       [(''phase'', PStr ''tee_secret_vault''), (''vault_id'', dget stored ''vault_id'' PNone),
        (''label'', dget stored ''label'' PNone), (''stored_in_tee'', dget stored ''stored_in_tee'' PNone),
        (''action_executed'', dget invoked ''action_executed'' PNone),
        (''tee_attested'', dget invoked ''tee_attested'' PNone),
        (''raw_secret_exposed'', dget invoked ''raw_secret_exposed'' (PBool True))])))) v"

section \<open>Temporal delegation\<close>

record temporal_delegation =
  td_coordinator :: agent_identity
  td_grants :: "(pyval \<times> pydict) list"

definition issue_grant ::
  "tee_fn \<Rightarrow> int \<Rightarrow> agent_identity \<Rightarrow> string \<Rightarrow> int \<Rightarrow> (temporal_delegation, pydict) action" where
  "issue_grant tee current_epoch grantee action duration_seconds t =
     (let valid_until = current_epoch + duration_seconds
      in case tee ''issue-time-grant''
          [(''grantee_did'', PStr (id_did grantee)), (''action'', PStr action), (''valid_until_epoch'', PInt valid_until),
           (''issuer_nonce'', PStr (id_agent_id (td_coordinator t) @ '':'' @ int_text current_epoch))] of
        Inl e \<Rightarrow> (Inl e, t)
      | Inr result \<Rightarrow>
          let token = dget result ''grant_token'' (PStr [])
          in case put token
              [(''grantee_did'', PStr (id_did grantee)), (''action'', PStr action), (''valid_until_epoch'', PInt valid_until),
               (''grant_token'', token), (''issued_in_tee'', dget result ''issued_in_tee'' (PBool False))] (td_grants t) of
            Inl e \<Rightarrow> (Inl e, t)
          | Inr grants \<Rightarrow> (Inr result, t\<lparr>td_grants := grants\<rparr>))"

definition check_payload :: "pyval \<Rightarrow> string \<Rightarrow> string \<Rightarrow> pyval \<Rightarrow> int \<Rightarrow> pydict" where
  "check_payload token did action until current_epoch =
     [(''grant_token'', token), (''grantee_did'', PStr did), (''action'', PStr action),
      (''valid_until_epoch'', until), (''current_epoch'', PInt current_epoch)]"

definition check_grant ::
  "tee_fn \<Rightarrow> int \<Rightarrow> pyval \<Rightarrow> agent_identity \<Rightarrow> string \<Rightarrow> (temporal_delegation, pydict) action" where
  "check_grant tee current_epoch grant_token grantee action t = (case look (td_grants t) grant_token of
     Inl e \<Rightarrow> (Inl e, t)
   | Inr found \<Rightarrow> (tee ''check-grant'' (check_payload grant_token (id_did grantee) action
       (dget (case found of Some g \<Rightarrow> g | None \<Rightarrow> []) ''valid_until_epoch'' (PInt 0)) current_epoch), t))"

definition temporal_demo ::
  "(nat \<Rightarrow> tee_fn) \<Rightarrow> (nat \<Rightarrow> int) \<Rightarrow> agent_identity list \<Rightarrow> (temporal_delegation, pydict) action" where
  "temporal_demo tee epoch workers t =
     bindS (liftS (list_index workers 0)) (\<lambda>worker.
     bindS (issue_grant (tee 0) (epoch 0) worker ''process_premium_data'' 300) (\<lambda>granted.
     let token = dget granted ''grant_token'' (PStr [])
     in bindS (check_grant (tee 1) (epoch 1) token worker ''process_premium_data'') (\<lambda>valid.
        bindS (liftS (tee 2 ''check-grant'' (check_payload (PStr ''tgrant-expired-test'') (id_did worker)
          ''process_premium_data'' (PInt (epoch 2 - 600)) (epoch 3)))) (\<lambda>expired.
        bindS (liftS (as_str token)) (\<lambda>token_text.
        liftS (Inr
          [(''phase'', PStr ''temporal_delegation''), (''grant_token'', PStr (take 20 token_text @ ''...'')),
           (''grantee_did'', PStr (id_did worker)), (''valid_grant_check'', dget valid ''valid'' PNone),
           (''valid_grant_reason'', dget valid ''reason'' PNone), (''expired_grant_check'', dget expired ''valid'' PNone),
           (''expired_grant_reason'', dget expired ''reason'' PNone),
           (''checked_in_tee'', dget valid ''checked_in_tee'' (PBool False))])))))) t"

section \<open>Performance bonds\<close>

record bond =
  bo_agent_did :: string
  bo_task_id :: string
  bo_bond_amount :: pyval
  bo_deadline_epoch :: int
  bo_locked_in_tee :: pyval

type_synonym bonds = "(pyval \<times> bond) list"

definition lock_bond ::
  "tee_fn \<Rightarrow> int \<Rightarrow> agent_identity \<Rightarrow> string \<Rightarrow> pyval \<Rightarrow> int \<Rightarrow> (bonds, pydict) action" where
  "lock_bond tee current_epoch agent task_id bond_amount duration_seconds b =
     (let deadline_epoch = current_epoch + duration_seconds
      in case tee ''lock-bond''
          [(''agent_did'', PStr (id_did agent)), (''task_id'', PStr task_id), (''bond_amount'', bond_amount),
           (''deadline_epoch'', PInt deadline_epoch)] of
        Inl e \<Rightarrow> (Inl e, b)
      | Inr result \<Rightarrow>
          case put (dget result ''bond_id'' (PStr []))
            \<lparr>bo_agent_did = id_did agent, bo_task_id = task_id, bo_bond_amount = bond_amount,
             bo_deadline_epoch = deadline_epoch, bo_locked_in_tee = dget result ''locked_in_tee'' (PBool False)\<rparr> b of
            Inl e \<Rightarrow> (Inl e, b)
          | Inr b' \<Rightarrow> (Inr result, b'))"

definition settle_payload :: "pyval \<Rightarrow> string \<Rightarrow> bond \<Rightarrow> int \<Rightarrow> bool \<Rightarrow> pyval \<Rightarrow> pydict" where
  "settle_payload bond_id did bond current_epoch completed quality_score =
     [(''bond_id'', bond_id), (''agent_did'', PStr did), (''task_id'', PStr (bo_task_id bond)),
      (''bond_amount'', bo_bond_amount bond), (''deadline_epoch'', PInt (bo_deadline_epoch bond)),
      (''current_epoch'', PInt current_epoch), (''completed'', PBool completed), (''quality_score'', quality_score)]"

definition settle_bond ::
  "py_env \<Rightarrow> tee_fn \<Rightarrow> int \<Rightarrow> pyval \<Rightarrow> agent_identity \<Rightarrow> bool \<Rightarrow> pyval \<Rightarrow> (bonds, pydict) action" where
  "settle_bond E tee current_epoch bond_id agent completed quality_score b = (case look b bond_id of
     Inl e \<Rightarrow> (Inl e, b)
   | Inr None \<Rightarrow> (Inl (ValueError (''Bond '' @ py_str (float_repr E) bond_id @ '' not found'')), b)
   | Inr (Some bond) \<Rightarrow> (tee ''verify-and-settle''
       (settle_payload bond_id (id_did agent) bond current_epoch completed quality_score), b))"

definition bond_scenarios :: "(nat \<times> string \<times> rat \<times> int \<times> bool \<times> rat) list" where
  "bond_scenarios =
     [(0, ''TASK-001'', 100, 3600, True, 95 / 100), (1, ''TASK-002'', 50, 3600, True, 75 / 100),
      (0, ''TASK-003'', 80, 3600, False, 0)]"

definition bond_demo ::
  "py_env \<Rightarrow> (nat \<Rightarrow> tee_fn) \<Rightarrow> (nat \<Rightarrow> int) \<Rightarrow> agent_identity list \<Rightarrow> (bonds, pydict) action" where
  "bond_demo E tee epoch agents b =
     bindS (liftS (mapE (\<lambda>(i, _). list_index agents i) bond_scenarios)) (\<lambda>who.
     bindS (mapS (\<lambda>(i, agent, _, task_id, amount, duration, completed, quality).
         bindS (lock_bond (tee (2 * i)) (epoch (2 * i)) agent task_id (PFloat amount) duration) (\<lambda>lock.
         bindS (settle_bond E (tee (2 * i + 1)) (epoch (2 * i + 1)) (dget lock ''bond_id'' (PStr [])) agent
           completed (PFloat quality)) (\<lambda>settled.
         liftS (Inr (PDict ([(''task_id'', PStr task_id), (''bond_amount'', PFloat amount)] @
           map (\<lambda>k. (k, dget settled k PNone))
             [''settlement'', ''payout_pct'', ''payout_amount'', ''reason'', ''settled_in_tee'']))))))
         (enumerate 0 (zip who bond_scenarios))) (\<lambda>results.
     liftS (Inr [(''phase'', PStr ''performance_bond''), (''bonds_settled'', PInt (int (length results))),
                 (''settlements'', PList results)]))) b"

section \<open>Reputation\<close>

type_synonym histories = "(string \<times> pydict list) list"

definition history_of :: "histories \<Rightarrow> string \<Rightarrow> pydict list" where
  "history_of h did = (case map_of h did of Some es \<Rightarrow> es | None \<Rightarrow> [])"

definition record_task ::
  "tee_fn \<Rightarrow> agent_identity \<Rightarrow> string \<Rightarrow> pyval \<Rightarrow> bool \<Rightarrow> (histories, pydict) action" where
  "record_task tee agent task_id quality_score on_time h = (case tee ''record-completion''
       [(''agent_did'', PStr (id_did agent)), (''task_id'', PStr task_id), (''quality_score'', quality_score),
        (''on_time'', PBool on_time)] of
     Inl e \<Rightarrow> (Inl e, h)
   | Inr result \<Rightarrow> (Inr result, dset (id_did agent) (history_of h (id_did agent) @
       [[(''task_id'', PStr task_id), (''quality_score'', quality_score), (''on_time'', PBool on_time),
         (''reputation_delta'', dget result ''reputation_delta'' (PFloat 0)),
         (''recorded_in_tee'', dget result ''recorded_in_tee'' (PBool False))]]) h))"

definition reputation_payload :: "string \<Rightarrow> pydict list \<Rightarrow> pydict" where
  "reputation_payload did es =
     [(''agent_did'', PStr did),
      (''history'', PList (map (\<lambda>e. PDict [(''quality_score'', dget e ''quality_score'' PNone),
         (''on_time'', dget e ''on_time'' PNone)]) es))]"

definition get_reputation :: "tee_fn \<Rightarrow> agent_identity \<Rightarrow> (histories, pydict) action" where
  "get_reputation tee agent h =
     (let es = history_of h (id_did agent)
      in if es = []
         then (Inr [(''agent_did'', PStr (id_did agent)), (''reputation_score'', PFloat 0), (''tier'', PStr ''UNRATED''),
                    (''tasks_evaluated'', PInt 0)], h)
         else (tee ''get-reputation'' (reputation_payload (id_did agent) es), h))"

text \<open>\<open>sorted(xs, key=..., reverse=True)\<close>: descending, equal keys in their order.\<close>

definition sort_descending :: "('a \<Rightarrow> pyval) \<Rightarrow> 'a list \<Rightarrow> 'a list py" where
  "sort_descending key xs =
     (if length xs \<le> 1 then Inr xs
      else if \<forall>x \<in> set xs. num_of (key x) \<noteq> None
      then Inr (rev (sort_key (\<lambda>x. the (num_of (key x))) (rev xs)))
      else if \<forall>x \<in> set xs. \<exists>s. key x = PStr s
      then Inr (rev (sort_key (\<lambda>x. py_str (\<lambda>q. []) (key x)) (rev xs)))
      else Inl (TypeError ''< not supported between instances of these types''))"

definition ranking_entry :: "agent_identity \<Rightarrow> pydict \<Rightarrow> pydict" where
  "ranking_entry agent rep =
     [(''agent_did'', PStr (id_did agent)), (''agent_name'', PStr (id_agent_name agent)),
      (''reputation_score'', dget rep ''reputation_score'' (PFloat 0)), (''tier'', dget rep ''tier'' (PStr ''UNRATED'')),
      (''tasks_evaluated'', dget rep ''tasks_evaluated'' (PInt 0))]"

definition rank_agents :: "(nat \<Rightarrow> tee_fn) \<Rightarrow> agent_identity list \<Rightarrow> (histories, pydict list) action" where
  "rank_agents tee agents =
     bindS (mapS (\<lambda>(i, agent). bindS (get_reputation (tee i) agent) (\<lambda>rep. liftS (Inr (ranking_entry agent rep))))
         (enumerate 0 agents)) (\<lambda>scores.
     liftS (sort_descending (\<lambda>x. dget x ''reputation_score'' PNone) scores))"

definition generate_assessment :: "py_env \<Rightarrow> llm_fn \<Rightarrow> pydict \<Rightarrow> string py" where
  "generate_assessment E llm rep =
     bindE (format2 (dget rep ''reputation_score'' (PInt 0))) (\<lambda>score. llm
       (''Write a 2-sentence quality assessment for an AI agent. Reputation score: '' @ score @ ''/1.0. Tier: '' @
        py_str (float_repr E) (dget rep ''tier'' (PStr ''UNRATED'')) @ ''. Tasks evaluated: '' @
        py_str (float_repr E) (dget rep ''tasks_evaluated'' (PInt 0)) @ ''.'')
       ''You write concise agent performance assessments for multi-agent systems.'')"

text \<open>A task record is the index of its agent, the task, its quality and whether it was on time.\<close>

definition reputation_demo ::
  "py_env \<Rightarrow> llm_fn \<Rightarrow> (nat \<Rightarrow> tee_fn) \<Rightarrow> agent_identity list \<Rightarrow> (nat \<times> string \<times> pyval \<times> bool) list \<Rightarrow>
    (histories, pydict) action" where
  "reputation_demo E llm tee agents task_records =
     bindS (mapS (\<lambda>(i, agent_idx, task_id, quality, on_time).
         bindS (liftS (list_index agents agent_idx)) (\<lambda>agent. record_task (tee i) agent task_id quality on_time))
         (enumerate 0 task_records)) (\<lambda>completions.
     bindS (rank_agents (\<lambda>i. tee (length completions + i)) agents) (\<lambda>rankings.
     let top = (case rankings of x # _ \<Rightarrow> x | [] \<Rightarrow> [])
     in bindS (liftS (if rankings = [] then Inr [] else generate_assessment E llm
            [(''reputation_score'', dget top ''reputation_score'' (PInt 0)), (''tier'', dget top ''tier'' (PStr ''?'')),
             (''tasks_evaluated'', dget top ''tasks_evaluated'' (PInt 0))])) (\<lambda>assessment.
        liftS (Inr
          [(''phase'', PStr ''reputation_ledger''), (''tasks_recorded'', PInt (int (length completions))),
           (''rankings'', PList (map PDict rankings)), (''top_agent_did'', dget top ''agent_did'' PNone),
           (''top_tier'', dget top ''tier'' PNone), (''assessment'', PStr (clip 100 assessment))]))))"

section \<open>Personalization\<close>

definition personalize :: "tee_fn \<Rightarrow> string \<Rightarrow> string \<Rightarrow> string \<Rightarrow> pydict py" where
  "personalize tee customer_id segment template_id = tee ''send-personalized-outreach''
     [(''customer_id'', PStr customer_id), (''segment'', PStr segment), (''template_id'', PStr template_id),
      (''data_hash'', PStr (''hash:'' @ customer_id @ '':'' @ segment))]"

definition compose_message :: "py_env \<Rightarrow> llm_fn \<Rightarrow> pyval \<Rightarrow> string \<Rightarrow> string py" where
  "compose_message E llm variant customer_id = llm
     (''Write a 1-sentence personalized outreach message for variant: '' @ py_str (float_repr E) variant @
      ''. Customer ID prefix: '' @ take 6 customer_id @ ''. Keep it warm and professional.'')
     ''You write short, personalized outreach messages for sales teams.''"

definition outreach :: "py_env \<Rightarrow> llm_fn \<Rightarrow> tee_fn \<Rightarrow> string \<times> string \<times> string \<Rightarrow> pydict py" where
  "outreach E llm tee = (\<lambda>(customer_id, segment, template_id).
     bindE (personalize tee customer_id segment template_id) (\<lambda>tee_result.
     let variant = dget tee_result ''message_variant'' (PStr ''standard'')
     in bindE (compose_message E llm variant customer_id) (\<lambda>message.
        Inr [(''customer_id'', PStr customer_id), (''message_variant'', variant),
             (''personalization_score'', dget tee_result ''personalization_score'' PNone),
             (''raw_data_exposed'', dget tee_result ''raw_data_exposed'' (PBool True)),
             (''processed_in_tee'', dget tee_result ''processed_in_tee'' (PBool False)),
             (''message'', PStr (clip 80 message))])))"

definition personalization_demo ::
  "py_env \<Rightarrow> llm_fn \<Rightarrow> (nat \<Rightarrow> tee_fn) \<Rightarrow> (string \<times> string \<times> string) list \<Rightarrow> pydict py" where
  "personalization_demo E llm tee customers =
     bindE (mapE (\<lambda>(i, c). outreach E llm (tee i) c) (enumerate 0 customers)) (\<lambda>results.
     Inr [(''phase'', PStr ''personalization''), (''customers_processed'', PInt (int (length results))),
          (''all_private'', PBool (\<forall>r \<in> set results. \<not> truthy (dget r ''raw_data_exposed'' PNone))),
          (''results'', PList (map PDict results))])"

section \<open>Cross-tenant computation\<close>

definition process_tenant_data :: "tee_fn \<Rightarrow> string \<Rightarrow> rat list \<Rightarrow> pydict py" where
  "process_tenant_data tee tenant_name records = tee ''process-data''
     [(''data_source'', PStr (tenant_name @ ''_private_records'')), (''time_period'', PStr ''Q1-2026''),
      (''filters'', PList [PStr (''tenant:'' @ tenant_name)]), (''records'', PList (map PFloat records))]"

definition aggregate_results :: "pydict list \<Rightarrow> pydict py" where
  "aggregate_results results =
     bindE (num_sum (PInt 0) (map (\<lambda>r. dget r ''records_processed'' (PInt 0)) results)) (\<lambda>total_records.
     bindE (num_sum (PInt 0) (map (\<lambda>r. dget r ''total_revenue'' (PFloat 0)) results)) (\<lambda>total_revenue.
     bindE (py_greater total_records (PInt 0)) (\<lambda>some.
     bindE (if some then div_num total_revenue (the (num_of total_records)) else Inr (PFloat 0)) (\<lambda>combined_avg.
     bindE (round2 total_revenue) (\<lambda>revenue.
     bindE (round2 combined_avg) (\<lambda>avg.
     Inr [(''total_records'', total_records), (''combined_revenue'', revenue), (''combined_avg'', avg),
          (''all_processed_in_tee'', PBool (\<forall>r \<in> set results. truthy (dget r ''processed_in_tee'' (PBool False))))]))))))"

definition tenant_a_records :: "rat list" where
  "tenant_a_records = [4125 / 10, 289, 53175 / 100, 19825 / 100, 644, 3215 / 10, 488, 27525 / 100]"

definition tenant_b_records :: "rat list" where
  "tenant_b_records = [56375 / 100, 392, 4455 / 10, 31225 / 100, 589, 23475 / 100, 6785 / 10, 356]"

definition cross_tenant_demo :: "(nat \<Rightarrow> tee_fn) \<Rightarrow> pydict py" where
  "cross_tenant_demo tee =
     bindE (process_tenant_data (tee 0) ''tenant_alpha'' tenant_a_records) (\<lambda>result_a.
     bindE (process_tenant_data (tee 1) ''tenant_beta'' tenant_b_records) (\<lambda>result_b.
     bindE (aggregate_results [result_a, result_b]) (\<lambda>aggregate.
     bindE (tee 2 ''validate-quality''
       [(''records_processed'', dget aggregate ''total_records'' PNone),
        (''avg_value'', dget aggregate ''combined_avg'' PNone),
        (''total_revenue'', dget aggregate ''combined_revenue'' PNone),
        (''trend'', dget result_a ''trend'' (PStr ''stable''))]) (\<lambda>validation.
     Inr [(''phase'', PStr ''cross_tenant_collab''),
          (''tenant_alpha_records'', PInt (int (length tenant_a_records))),
          (''tenant_beta_records'', PInt (int (length tenant_b_records))),
          (''tenant_alpha_revenue'', dget result_a ''total_revenue'' PNone),
          (''tenant_beta_revenue'', dget result_b ''total_revenue'' PNone),
          (''combined_records'', dget aggregate ''total_records'' PNone),
          (''combined_revenue'', dget aggregate ''combined_revenue'' PNone),
          (''combined_avg'', dget aggregate ''combined_avg'' PNone),
          (''quality_score'', dget validation ''quality_score'' PNone),
          (''all_processed_in_tee'', dget aggregate ''all_processed_in_tee'' PNone)]))))"

end
