(* ===== verification/TeeStub.thy ===== *)
theory TeeStub
  imports AuthAdapter PyOps "HOL-Library.Word"
begin

unbundle bit_operations_syntax

text \<open>
  \<^verbatim>\<open>_tee_stub\<close> of \<^verbatim>\<open>demo/features_demo.py\<close>: the answers of the TEE contract's functions as the
  repository's Python code gives them, one definition per case of its \<open>match\<close>. Decimal literals are
  their decimal values; an operand of the wrong type raises, with a message that is not CPython's.
\<close>

section \<open>Hashes and texts\<close>

definition short_hash :: "py_env \<Rightarrow> string \<Rightarrow> string" where
  "short_hash E s = take 16 (sha256_hex E (utf8 s))"

text \<open>The 64-bit FNV-1a hash, as hexadecimal digits without leading zeros.\<close>

definition fnv_offset :: "64 word" where
  "fnv_offset = 0xcbf29ce484222325"

definition fnv_prime :: "64 word" where
  "fnv_prime = 0x100000001b3"

definition fnv1a :: "bytes \<Rightarrow> 64 word" where
  "fnv1a b = foldl (\<lambda>h c. (h XOR of_nat (ord c)) * fnv_prime) fnv_offset b"

fun hex_digits :: "nat \<Rightarrow> string" where
  "hex_digits n = (if n < 16 then [hexdigit n] else hex_digits (n div 16) @ [hexdigit (n mod 16)])"

declare hex_digits.simps [simp del]

definition fhash :: "string \<Rightarrow> string" where
  "fhash s = hex_digits (unat (fnv1a (utf8 s)))"

definition text_item :: "py_env \<Rightarrow> pydict \<Rightarrow> string \<Rightarrow> string py" where
  "text_item E d k = bindE (item d k) (\<lambda>v. Inr (py_str (float_repr E) v))"

definition str_of_item :: "pydict \<Rightarrow> string \<Rightarrow> string py" where
  "str_of_item d k = bindE (item d k) as_str"

definition truthy_item :: "pydict \<Rightarrow> string \<Rightarrow> bool py" where
  "truthy_item d k = bindE (item d k) (\<lambda>v. Inr (truthy v))"

definition list_item :: "pydict \<Rightarrow> string \<Rightarrow> pyval list py" where
  "list_item d k = bindE (item d k) py_iter"

section \<open>Auctions\<close>

definition stub_submit_bid :: "py_env \<Rightarrow> pydict \<Rightarrow> pydict py" where
  "stub_submit_bid E p =
     bindE (text_item E p ''bidder_did'') (\<lambda>bidder.
     bindE (text_item E p ''amount'') (\<lambda>amount.
     bindE (text_item E p ''nonce'') (\<lambda>nonce.
     let seal = short_hash E (bidder @ '':'' @ amount @ '':'' @ nonce)
     in bindE (item p ''item_id'') (\<lambda>item_id.
        Inr [(''bid_hash'', PStr seal), (''item_id'', item_id), (''sealed_in_tee'', PBool True),
             (''receipt'', PStr (''bid-receipt-'' @ take 12 seal))]))))"

text \<open>\<open>min(bids, key=lambda b: b["amount"])\<close>: the first of the least.\<close>

fun least_bid :: "pyval \<Rightarrow> pyval \<Rightarrow> pyval list \<Rightarrow> pyval py" where
  "least_bid best key [] = Inr best"
| "least_bid best key (b # bids) =
     bindE (subscript b ''amount'') (\<lambda>k.
     bindE (py_less k key) (\<lambda>less. if less then least_bid b k bids else least_bid best key bids))"

definition min_by_amount :: "pyval list \<Rightarrow> pyval py" where
  "min_by_amount bids = (case bids of
     [] \<Rightarrow> Inl (ValueError ''min() iterable argument is empty'')
   | b # rest \<Rightarrow> bindE (subscript b ''amount'') (\<lambda>k. least_bid b k rest))"

definition stub_resolve_auction :: "py_env \<Rightarrow> pydict \<Rightarrow> pydict py" where
  "stub_resolve_auction E p =
     bindE (list_item p ''bids'') (\<lambda>bids.
     bindE (min_by_amount bids) (\<lambda>winner.
     bindE (subscript winner ''bidder_did'') (\<lambda>did.
     bindE (subscript winner ''amount'') (\<lambda>amount.
     bindE (item p ''item_id'') (\<lambda>item_id.
     Inr [(''winner_did'', did), (''winning_amount'', amount), (''item_id'', item_id),
          (''total_bids'', PInt (int (length bids))), (''resolved_in_tee'', PBool True)])))))"

section \<open>Reputation and outreach\<close>

definition task_score :: "pyval \<Rightarrow> bool \<Rightarrow> pyval py" where
  "task_score quality on_time =
     bindE (mul_float quality (7 / 10)) (\<lambda>q. num_add q (PFloat (if on_time then 3 / 10 else 0)))"

definition stub_record_completion :: "py_env \<Rightarrow> pydict \<Rightarrow> pydict py" where
  "stub_record_completion E p =
     bindE (item p ''quality_score'') (\<lambda>quality.
     bindE (mul_float quality (7 / 10)) (\<lambda>_.
     bindE (truthy_item p ''on_time'') (\<lambda>on_time.
     bindE (bindE (task_score quality on_time) round2) (\<lambda>delta.
     bindE (item p ''agent_did'') (\<lambda>did.
     bindE (item p ''task_id'') (\<lambda>task.
     Inr [(''agent_did'', did), (''task_id'', task), (''reputation_delta'', delta), (''recorded_in_tee'', PBool True)]))))))"

definition history_score :: "pyval \<Rightarrow> pyval py" where
  "history_score e =
     bindE (subscript e ''quality_score'') (\<lambda>quality.
     bindE (mul_float quality (7 / 10)) (\<lambda>_.
     bindE (subscript e ''on_time'') (\<lambda>on_time. task_score quality (truthy on_time))))"

definition tier_of :: "rat \<Rightarrow> string" where
  "tier_of score = (if score \<ge> 9 / 10 then ''GOLD'' else if score \<ge> 3 / 4 then ''SILVER'' else ''BRONZE'')"

definition rat_of :: "pyval \<Rightarrow> rat" where
  "rat_of v = (case num_of v of Some q \<Rightarrow> q | None \<Rightarrow> 0)"

definition stub_get_reputation :: "py_env \<Rightarrow> pydict \<Rightarrow> pydict py" where
  "stub_get_reputation E p =
     bindE (list_item p ''history'') (\<lambda>hist.
     bindE (mapE history_score hist) (\<lambda>scores.
     bindE (num_sum (PInt 0) scores) (\<lambda>total.
     bindE (div_num total (of_nat (length hist))) (\<lambda>average.
     bindE (round2 average) (\<lambda>score.
     bindE (item p ''agent_did'') (\<lambda>did.
     Inr [(''agent_did'', did), (''reputation_score'', score), (''tier'', PStr (tier_of (rat_of score))),
          (''tasks_evaluated'', PInt (int (length hist))), (''computed_in_tee'', PBool True)]))))))"

definition variant_map :: "(string \<times> string) list" where
  "variant_map =
     [(''high_value'', ''premium_offer''), (''at_risk'', ''retention_offer''), (''new_user'', ''onboarding_offer'')]"

definition score_map :: "(string \<times> rat) list" where
  "score_map = [(''high_value'', 95 / 100), (''at_risk'', 82 / 100), (''new_user'', 78 / 100)]"

definition segment_get :: "(string \<times> 'a) list \<Rightarrow> pyval \<Rightarrow> 'a \<Rightarrow> 'a py" where
  "segment_get m k dflt =
     (if \<not> hashable k then Inl (unhashable_error k)
      else Inr (case k of PStr s \<Rightarrow> (case map_of m s of Some x \<Rightarrow> x | None \<Rightarrow> dflt) | _ \<Rightarrow> dflt))"

definition stub_outreach :: "py_env \<Rightarrow> pydict \<Rightarrow> pydict py" where
  "stub_outreach E p =
     bindE (item p ''segment'') (\<lambda>segment.
     bindE (segment_get variant_map segment ''standard_offer'') (\<lambda>variant.
     bindE (item p ''customer_id'') (\<lambda>customer.
     bindE (text_item E p ''template_id'') (\<lambda>template.
     bindE (segment_get score_map segment (7 / 10)) (\<lambda>score.
     Inr [(''customer_id'', customer), (''message_variant'', PStr (template @ '':'' @ variant)),
          (''personalization_score'', PFloat score), (''raw_data_exposed'', PBool False),
          (''processed_in_tee'', PBool True)])))))"

section \<open>Grants\<close>

definition stub_issue_time_grant :: "py_env \<Rightarrow> pydict \<Rightarrow> pydict py" where
  "stub_issue_time_grant E p =
     bindE (text_item E p ''grantee_did'') (\<lambda>grantee.
     bindE (text_item E p ''action'') (\<lambda>action.
     bindE (text_item E p ''valid_until_epoch'') (\<lambda>until.
     bindE (text_item E p ''issuer_nonce'') (\<lambda>nonce.
     Inr [(''grant_token'', PStr (''tgrant-'' @ fhash (grantee @ '':'' @ action @ '':'' @ until @ '':'' @ nonce))),
          (''grantee_did'', dget p ''grantee_did'' PNone), (''action'', dget p ''action'' PNone),
          (''valid_until_epoch'', dget p ''valid_until_epoch'' PNone), (''issued_in_tee'', PBool True)]))))"

definition stub_check_grant :: "py_env \<Rightarrow> pydict \<Rightarrow> pydict py" where
  "stub_check_grant E p =
     bindE (item p ''current_epoch'') (\<lambda>current.
     bindE (item p ''valid_until_epoch'') (\<lambda>until.
     bindE (py_greater current until) (\<lambda>expired.
     Inr [(''valid'', PBool (\<not> expired)),
          (''reason'', PStr (if expired then ''GRANT_EXPIRED''
             else ''VALID until epoch '' @ py_str (float_repr E) until)),
          (''checked_in_tee'', PBool True)])))"

section \<open>KYC\<close>

definition kyc_step_names :: "string list" where
  "kyc_step_names = [''identity'', ''address'', ''financial'', ''compliance'']"

fun index_of :: "'a \<Rightarrow> 'a list \<Rightarrow> nat" where
  "index_of x [] = 0"
| "index_of x (y # ys) = (if x = y then 0 else Suc (index_of x ys))"

definition stub_kyc_submit_step :: "py_env \<Rightarrow> pydict \<Rightarrow> pydict py" where
  "stub_kyc_submit_step E p =
     bindE (item p ''step'') (\<lambda>step.
     let idx = (case step of PStr s \<Rightarrow> if s \<in> set kyc_step_names then index_of s kyc_step_names else 0 | _ \<Rightarrow> 0)
     in bindE (item p ''applicant_id'') (\<lambda>applicant.
        bindE (str_of_item p ''data_hash'') (\<lambda>data_hash.
        Inr [(''applicant_id'', applicant), (''step'', step),
             (''step_receipt'', PStr (''kyc-'' @ py_str (float_repr E) step @ ''-'' @ take 8 data_hash)),
             (''progress_pct'', PInt (round_half_even (of_nat (idx + 1) / of_nat (length kyc_step_names) * 100))),
             (''recorded_in_tee'', PBool True)])))"

definition missing_steps :: "pyval \<Rightarrow> string list py" where
  "missing_steps completed =
     bindE (mapE (\<lambda>s. bindE (py_in (PStr s) completed) (\<lambda>present. Inr (s, present))) kyc_step_names) (\<lambda>flags.
     Inr (map fst (filter (\<lambda>(s, present). \<not> present) flags)))"

definition stub_kyc_get_status :: "py_env \<Rightarrow> pydict \<Rightarrow> pydict py" where
  "stub_kyc_get_status E p =
     bindE (item p ''steps_completed'') (\<lambda>completed.
     bindE (missing_steps completed) (\<lambda>missing.
     bindE (item p ''applicant_id'') (\<lambda>applicant.
     bindE (py_len completed) (\<lambda>n.
     Inr [(''applicant_id'', applicant), (''status'', PStr (if missing = [] then ''APPROVED'' else ''PENDING'')),
          (''steps_completed'', PInt (int n)), (''steps_required'', PInt 4),
          (''missing_steps'', PList (map PStr missing)), (''verified_in_tee'', PBool True)]))))"

section \<open>Secrets and votes\<close>

definition stub_store_secret :: "py_env \<Rightarrow> pydict \<Rightarrow> pydict py" where
  "stub_store_secret E p =
     bindE (str_of_item p ''owner_did'') (\<lambda>owner.
     bindE (str_of_item p ''secret_hash'') (\<lambda>secret.
     bindE (str_of_item p ''label'') (\<lambda>label.
     Inr [(''vault_id'', PStr (''vault-'' @ short_hash E (owner @ '':'' @ secret @ '':'' @ label))),
          (''owner_did'', PStr owner), (''label'', PStr label), (''stored_in_tee'', PBool True)])))"

definition stub_invoke_with_secret :: "py_env \<Rightarrow> pydict \<Rightarrow> pydict py" where
  "stub_invoke_with_secret E p =
     bindE (item p ''vault_id'') (\<lambda>vault.
     bindE (item p ''action'') (\<lambda>action.
     Inr [(''vault_id'', vault), (''action_executed'', action), (''tee_attested'', PBool True),
          (''raw_secret_exposed'', PBool False)]))"

definition stub_cast_vote :: "py_env \<Rightarrow> pydict \<Rightarrow> pydict py" where
  "stub_cast_vote E p =
     bindE (str_of_item p ''voter_did'') (\<lambda>voter.
     bindE (str_of_item p ''proposal_id'') (\<lambda>proposal.
     bindE (str_of_item p ''vote'') (\<lambda>vote.
     Inr [(''voter_did'', PStr voter), (''proposal_id'', PStr proposal),
          (''vote_receipt'', PStr (''vote-'' @ short_hash E (voter @ '':'' @ proposal @ '':'' @ vote))),
          (''recorded_in_tee'', PBool True)])))"

text \<open>\<open>sum(1 for v in votes if v["vote"] == x)\<close>\<close>

definition count_votes :: "string \<Rightarrow> pyval list \<Rightarrow> nat py" where
  "count_votes x votes =
     bindE (mapE (\<lambda>v. subscript v ''vote'') votes) (\<lambda>cast. Inr (length (filter (\<lambda>w. w = PStr x) cast)))"

definition stub_tally_votes :: "py_env \<Rightarrow> pydict \<Rightarrow> pydict py" where
  "stub_tally_votes E p =
     bindE (list_item p ''votes'') (\<lambda>votes.
     bindE (count_votes ''FOR'' votes) (\<lambda>for_v.
     bindE (count_votes ''AGAINST'' votes) (\<lambda>against.
     let total = length votes
     in bindE (bindE (item p ''quorum_threshold'') (py_ge (PInt (int total)))) (\<lambda>quorum.
     let result = (if quorum \<and> for_v > against then ''PASSED'' else if quorum then ''REJECTED'' else ''NO_QUORUM'')
     in bindE (item p ''proposal_id'') (\<lambda>proposal.
        Inr [(''proposal_id'', proposal), (''result'', PStr result), (''votes_for'', PInt (int for_v)),
             (''votes_against'', PInt (int against)), (''quorum_met'', PBool quorum),
             (''tallied_in_tee'', PBool True)])))))"

section \<open>Audits\<close>

definition stub_log_decision :: "py_env \<Rightarrow> pydict \<Rightarrow> pydict py" where
  "stub_log_decision E p =
     bindE (text_item E p ''agent_did'') (\<lambda>agent.
     bindE (text_item E p ''decision_id'') (\<lambda>decision.
     bindE (text_item E p ''action'') (\<lambda>action.
     bindE (text_item E p ''rationale_hash'') (\<lambda>rationale.
     Inr [(''decision_id'', dget p ''decision_id'' PNone), (''agent_did'', dget p ''agent_did'' PNone),
          (''entry_hash'', PStr (short_hash E (agent @ '':'' @ decision @ '':'' @ action @ '':'' @ rationale))),
          (''logged_in_tee'', PBool True)]))))"

definition count_anomalies :: "pyval list \<Rightarrow> nat py" where
  "count_anomalies entries =
     bindE (mapE (\<lambda>e. bindE (subscript e ''confidence'') (\<lambda>c. py_less c (PFloat (1 / 2)))) entries) (\<lambda>low.
     Inr (length (filter id low)))"

definition stub_audit_decisions :: "py_env \<Rightarrow> pydict \<Rightarrow> pydict py" where
  "stub_audit_decisions E p =
     bindE (list_item p ''entries'') (\<lambda>entries.
     bindE (count_anomalies entries) (\<lambda>anomalies.
     let total = length entries;
         risk = (if total > 0 then round2_rat (of_nat anomalies / of_nat total) else 0)
     in bindE (str_of_item p ''auditor_did'') (\<lambda>auditor.
        Inr [(''total_decisions'', PInt (int total)), (''anomalies_detected'', PInt (int anomalies)),
             (''risk_score'', PFloat risk), (''attestation'', PStr (''audit-'' @ short_hash E auditor)),
             (''audited_in_tee'', PBool True)])))"

section \<open>Bonds\<close>

definition stub_lock_bond :: "py_env \<Rightarrow> pydict \<Rightarrow> pydict py" where
  "stub_lock_bond E p =
     bindE (str_of_item p ''agent_did'') (\<lambda>agent.
     bindE (str_of_item p ''task_id'') (\<lambda>task.
     bindE (item p ''bond_amount'') (\<lambda>amount.
     Inr [(''bond_id'', PStr (''bond-'' @ short_hash E (agent @ '':'' @ task))), (''agent_did'', PStr agent),
          (''task_id'', PStr task), (''bond_amount'', amount), (''locked_in_tee'', PBool True)])))"

text \<open>The share that is paid out, the reason and the settlement.\<close>

definition settlement_terms :: "bool \<Rightarrow> bool \<Rightarrow> pyval \<Rightarrow> (pyval \<times> string \<times> string) py" where
  "settlement_terms completed on_time quality =
     (if \<not> completed then Inr (PFloat 0, ''TASK_INCOMPLETE'', ''SLASHED'')
      else if \<not> on_time then Inr (PFloat (1 / 2), ''DELIVERED_LATE'', ''PARTIAL'')
      else bindE (py_ge quality (PFloat (9 / 10))) (\<lambda>excellent.
        if excellent then Inr (PFloat 1, ''EXCELLENT_DELIVERY'', ''FULL'')
        else bindE (py_ge quality (PFloat (7 / 10))) (\<lambda>acceptable.
          if acceptable then Inr (quality, ''ACCEPTABLE_DELIVERY'', ''PARTIAL'')
          else Inr (PFloat (1 / 4), ''BELOW_THRESHOLD'', ''PENALIZED''))))"

definition stub_verify_and_settle :: "py_env \<Rightarrow> pydict \<Rightarrow> pydict py" where
  "stub_verify_and_settle E p =
     bindE (item p ''current_epoch'') (\<lambda>current.
     bindE (bindE (item p ''deadline_epoch'') (py_le current)) (\<lambda>on_time.
     bindE (truthy_item p ''completed'') (\<lambda>completed.
     bindE (if completed \<and> on_time then item p ''quality_score'' else Inr PNone) (\<lambda>quality.
     bindE (settlement_terms completed on_time quality) (\<lambda>(pct, reason, sett).
     bindE (item p ''bond_id'') (\<lambda>bond.
     bindE (bindE (item p ''bond_amount'') (\<lambda>amount. mul_float amount (rat_of pct))) (\<lambda>payout.
     bindE (round2 payout) (\<lambda>payout_amount.
     Inr [(''bond_id'', bond), (''settlement'', PStr sett), (''payout_pct'', pct),
          (''payout_amount'', payout_amount), (''reason'', PStr reason), (''settled_in_tee'', PBool True)]))))))))"

section \<open>Data\<close>

fun extreme :: "(pyval \<Rightarrow> pyval \<Rightarrow> bool py) \<Rightarrow> pyval \<Rightarrow> pyval list \<Rightarrow> pyval py" where
  "extreme better best [] = Inr best"
| "extreme better best (x # xs) =
     bindE (better x best) (\<lambda>b. extreme better (if b then x else best) xs)"

definition stub_process_data :: "py_env \<Rightarrow> pydict \<Rightarrow> pydict py" where
  "stub_process_data E p =
     (let records_val = dget p ''records'' (PList [])
      in if \<not> truthy records_val then Inr [(''error'', PStr ''no records'')]
         else bindE (py_iter records_val) (\<lambda>records.
           bindE (num_sum (PInt 0) records) (\<lambda>total.
           bindE (bindE (div_num total (of_nat (length records))) round2) (\<lambda>avg.
           bindE (round2 total) (\<lambda>revenue.
           bindE (bindE (extreme py_less (hd records) (tl records)) round2) (\<lambda>least.
           bindE (bindE (extreme py_greater (hd records) (tl records)) round2) (\<lambda>greatest.
           Inr [(''records_processed'', PInt (int (length records))), (''total_revenue'', revenue),
                (''avg_value'', avg), (''min_value'', least), (''max_value'', greatest),
                (''trend'', PStr ''increasing''), (''processed_in_tee'', PBool True),
                (''data_source'', dget p ''data_source'' (PStr [])),
                (''time_period'', dget p ''time_period'' (PStr []))])))))))"

definition stub_validate_quality :: "py_env \<Rightarrow> pydict \<Rightarrow> pydict py" where
  "stub_validate_quality E p =
     (let none = py_eq (dget p ''records_processed'' (PInt 0)) (PInt 0)
      in bindE (py_le (dget p ''avg_value'' (PInt 0)) (PInt 0)) (\<lambda>flat.
         let score = 1 - (if none then 4 / 10 else 0) - (if flat then 3 / 10 else 0);
             issues = (if none then [''records_processed is zero''] else []) @
                      (if flat then [''avg_value non-positive''] else [])
         in Inr [(''quality_score'', PFloat (round2_rat (max score 0))), (''passed'', PBool (score \<ge> 8 / 10)),
                 (''issues'', PList (map PStr issues)), (''validated_in_tee'', PBool True)]))"

section \<open>The dispatch\<close>

definition tee_stub :: "py_env \<Rightarrow> string \<Rightarrow> pydict \<Rightarrow> pydict py" where
  "tee_stub E function_name payload =
     (if function_name = ''submit-bid'' then stub_submit_bid E payload
      else if function_name = ''resolve-auction'' then stub_resolve_auction E payload
      else if function_name = ''record-completion'' then stub_record_completion E payload
      else if function_name = ''get-reputation'' then stub_get_reputation E payload
      else if function_name = ''send-personalized-outreach'' then stub_outreach E payload
      else if function_name = ''issue-time-grant'' then stub_issue_time_grant E payload
      else if function_name = ''check-grant'' then stub_check_grant E payload
      else if function_name = ''kyc-submit-step'' then stub_kyc_submit_step E payload
      else if function_name = ''kyc-get-status'' then stub_kyc_get_status E payload
      else if function_name = ''store-secret'' then stub_store_secret E payload
      else if function_name = ''invoke-with-secret'' then stub_invoke_with_secret E payload
      else if function_name = ''cast-vote'' then stub_cast_vote E payload
      else if function_name = ''tally-votes'' then stub_tally_votes E payload
      else if function_name = ''log-decision'' then stub_log_decision E payload
      else if function_name = ''audit-decisions'' then stub_audit_decisions E payload
      else if function_name = ''lock-bond'' then stub_lock_bond E payload
      else if function_name = ''verify-and-settle'' then stub_verify_and_settle E payload
      else if function_name = ''process-data'' then stub_process_data E payload
      else if function_name = ''validate-quality'' then stub_validate_quality E payload
      else Inr [(''error'', PStr (''unknown function: '' @ function_name)), (''tee_attested'', PBool False)])"

end
