(* ===== verification/FeatureLaws.thy ===== *)
theory FeatureLaws
  imports FeatureServices TeeStub
begin

text \<open>
  What the feature agents rely on of the TEE functions they call, as interfaces: a KYC service, a
  voting service and an escrow service. The agents' results are proved from the interfaces' laws;
  \<open>tee_stub\<close>, the repository's own implementation of the functions, satisfies each.
\<close>

section \<open>KYC\<close>

text \<open>The pipeline after some submissions (agent, step, raw data); a refused one changes nothing.\<close>

definition after_steps ::
  "py_env \<Rightarrow> tee_fn \<Rightarrow> (agent_identity \<times> string \<times> string) list \<Rightarrow> kyc_pipeline \<Rightarrow> kyc_pipeline" where
  "after_steps E tee subs k = foldl (\<lambda>k (agent, step, raw). snd (kyc_submit_step E tee agent step raw k)) k subs"

definition steps_of :: "(agent_identity \<times> string \<times> string) list \<Rightarrow> string list" where
  "steps_of subs = filter (\<lambda>s. s \<in> set KYC_STEPS) (map (\<lambda>(_, step, _). step) subs)"

lemma after_steps_simps [simp]:
  "after_steps E tee [] k = k"
  "after_steps E tee ((agent, step, raw) # subs) k =
     after_steps E tee subs (snd (kyc_submit_step E tee agent step raw k))"
  by (simp_all add: after_steps_def)

lemma steps_of_simps [simp]:
  "steps_of [] = []"
  "steps_of ((agent, step, raw) # subs) = (if step \<in> set KYC_STEPS then step # steps_of subs else steps_of subs)"
  by (simp_all add: steps_of_def)

locale kyc_service =
  fixes tee :: tee_fn
  assumes records: "step \<in> set KYC_STEPS \<Longrightarrow> \<exists>r. tee ''kyc-submit-step''
      [(''agent_did'', PStr did), (''applicant_id'', PStr a), (''step'', PStr step), (''data_hash'', PStr h)] = Inr r"
    and answers: "\<exists>r. tee ''kyc-get-status''
        [(''applicant_id'', PStr a), (''steps_completed'', PList (map PStr steps))] = Inr r \<and>
      dget r ''status'' PNone = PStr (if set KYC_STEPS \<subseteq> set steps then ''APPROVED'' else ''PENDING'') \<and>
      dget r ''steps_completed'' PNone = PInt (int (length steps)) \<and>
      dget r ''missing_steps'' PNone = PList (map PStr (filter (\<lambda>s. s \<notin> set steps) KYC_STEPS))"
begin

lemma submit_state:
  "snd (kyc_submit_step E tee agent step raw k) =
     (if step \<in> set KYC_STEPS then k\<lparr>kyc_completed_steps := kyc_completed_steps k @ [step]\<rparr> else k)"
proof (cases "step \<in> set KYC_STEPS")
  case True
  then show ?thesis using records [OF True, of "id_did agent" "kyc_applicant_id k" "hash_prefix E 20 raw"]
    by (auto simp: kyc_submit_step_def)
qed (simp add: kyc_submit_step_def)

lemma after_steps_state:
  "after_steps E tee subs k = k\<lparr>kyc_completed_steps := kyc_completed_steps k @ steps_of subs\<rparr>"
  by (induction subs arbitrary: k) (auto simp: submit_state)

lemma status_after:
  "\<exists>r. kyc_get_status tee (after_steps E tee subs (create_kyc a)) = (Inr r, after_steps E tee subs (create_kyc a)) \<and>
     dget r ''status'' PNone = PStr (if set KYC_STEPS \<subseteq> set (steps_of subs) then ''APPROVED'' else ''PENDING'') \<and>
     dget r ''steps_completed'' PNone = PInt (int (length (steps_of subs))) \<and>
     dget r ''missing_steps'' PNone = PList (map PStr (filter (\<lambda>s. s \<notin> set (steps_of subs)) KYC_STEPS))"
  using answers [of a "steps_of subs"] by (simp add: kyc_get_status_def after_steps_state create_kyc_def)

end

lemma list_ex_py_eq_PStr [simp]: "list_ex (py_eq (PStr s)) (map PStr xs) \<longleftrightarrow> s \<in> set xs"
  by (induction xs) auto

lemma py_in_strings [simp]: "py_in (PStr s) (PList (map PStr xs)) = Inr (s \<in> set xs)"
  by (simp add: py_in_def)

lemma missing_steps_strings:
  "missing_steps (PList (map PStr xs)) = Inr (filter (\<lambda>s. s \<notin> set xs) kyc_step_names)"
  by (simp add: missing_steps_def kyc_step_names_def)

interpretation stub_kyc: kyc_service "tee_stub E" for E
proof
  fix step did a h
  show "\<exists>r. tee_stub E ''kyc-submit-step''
      [(''agent_did'', PStr did), (''applicant_id'', PStr a), (''step'', PStr step), (''data_hash'', PStr h)] = Inr r"
    by (simp add: tee_stub_def stub_kyc_submit_step_def item_def str_of_item_def as_str_def Let_def)
next
  fix a steps
  have none: "filter (\<lambda>s. s \<notin> set steps) KYC_STEPS = [] \<longleftrightarrow> set KYC_STEPS \<subseteq> set steps"
    by (auto simp: filter_empty_conv)
  show "\<exists>r. tee_stub E ''kyc-get-status''
        [(''applicant_id'', PStr a), (''steps_completed'', PList (map PStr steps))] = Inr r \<and>
      dget r ''status'' PNone = PStr (if set KYC_STEPS \<subseteq> set steps then ''APPROVED'' else ''PENDING'') \<and>
      dget r ''steps_completed'' PNone = PInt (int (length steps)) \<and>
      dget r ''missing_steps'' PNone = PList (map PStr (filter (\<lambda>s. s \<notin> set steps) KYC_STEPS))"
    unfolding none [symmetric]
    by (simp add: tee_stub_def stub_kyc_get_status_def item_def missing_steps_strings py_len_def
        kyc_step_names_def KYC_STEPS_def)
qed

section \<open>Votes\<close>

definition VOTES :: "string list" where
  "VOTES = [''FOR'', ''AGAINST'', ''ABSTAIN'']"

text \<open>The DAO after some votes (agent, vote, rationale), and the votes that count.\<close>

definition after_votes ::
  "py_env \<Rightarrow> tee_fn \<Rightarrow> (agent_identity \<times> string \<times> string) list \<Rightarrow> agent_dao \<Rightarrow> agent_dao" where
  "after_votes E tee votes d = foldl (\<lambda>d (agent, vote, rationale). snd (cast_vote E tee agent vote rationale d)) d votes"

definition counted :: "(agent_identity \<times> string \<times> string) list \<Rightarrow> (string \<times> string) list" where
  "counted votes = map (\<lambda>(agent, vote, _). (id_did agent, vote)) (filter (\<lambda>(_, vote, _). vote \<in> set VOTES) votes)"

definition votes_for :: "string \<Rightarrow> (string \<times> string) list \<Rightarrow> nat" where
  "votes_for x bs = length (filter (\<lambda>(_, vote). vote = x) bs)"

definition outcome_of :: "int \<Rightarrow> (string \<times> string) list \<Rightarrow> string" where
  "outcome_of quorum bs =
     (if int (length bs) < quorum then ''NO_QUORUM''
      else if votes_for ''FOR'' bs > votes_for ''AGAINST'' bs then ''PASSED'' else ''REJECTED'')"

lemma after_votes_simps [simp]:
  "after_votes E tee [] d = d"
  "after_votes E tee ((agent, vote, rationale) # votes) d =
     after_votes E tee votes (snd (cast_vote E tee agent vote rationale d))"
  by (simp_all add: after_votes_def)

lemma counted_simps [simp]:
  "counted [] = []"
  "counted ((agent, vote, rationale) # votes) =
     (if vote \<in> set VOTES then (id_did agent, vote) # counted votes else counted votes)"
  by (simp_all add: counted_def)

locale voting_service =
  fixes tee :: tee_fn
  assumes seals: "vote \<in> set VOTES \<Longrightarrow> \<exists>r. tee ''cast-vote''
      [(''voter_did'', PStr did), (''proposal_id'', PStr i), (''vote'', PStr vote), (''rationale_hash'', PStr h)] = Inr r"
    and tallies: "\<exists>r. tee ''tally-votes''
        [(''proposal_id'', PStr i), (''votes'', PList (map (\<lambda>(did, vote). ballot did vote) bs)),
         (''quorum_threshold'', PInt quorum)] = Inr r \<and>
      dget r ''result'' PNone = PStr (outcome_of quorum bs) \<and>
      dget r ''votes_for'' PNone = PInt (int (votes_for ''FOR'' bs)) \<and>
      dget r ''votes_against'' PNone = PInt (int (votes_for ''AGAINST'' bs))"
begin

lemma vote_state:
  "snd (cast_vote E tee agent vote rationale d) =
     (if vote \<in> set VOTES then d\<lparr>dao_votes := dao_votes d @ [ballot (id_did agent) vote]\<rparr> else d)"
proof (cases "vote \<in> set VOTES")
  case True
  then have "vote = ''FOR'' \<or> vote = ''AGAINST'' \<or> vote = ''ABSTAIN''" by (simp add: VOTES_def)
  then show ?thesis using seals [OF True, of "id_did agent" "dao_proposal_id d" "hash_prefix E 16 rationale"] True
    by (auto simp: cast_vote_def)
qed (simp add: cast_vote_def VOTES_def)

lemma after_votes_state:
  "after_votes E tee votes d = d\<lparr>dao_votes := dao_votes d @ map (\<lambda>(did, vote). ballot did vote) (counted votes)\<rparr>"
  by (induction votes arbitrary: d) (auto simp: vote_state)

lemma tally_after:
  "\<exists>r. tally tee (after_votes E tee votes (create_dao i quorum)) = (Inr r, after_votes E tee votes (create_dao i quorum)) \<and>
     dget r ''result'' PNone = PStr (outcome_of quorum (counted votes)) \<and>
     dget r ''votes_for'' PNone = PInt (int (votes_for ''FOR'' (counted votes))) \<and>
     dget r ''votes_against'' PNone = PInt (int (votes_for ''AGAINST'' (counted votes)))"
  using tallies [of i "counted votes" quorum] by (simp add: tally_def tally_payload_def after_votes_state create_dao_def)

end

lemma ballot_vote [simp]: "subscript (ballot did vote) ''vote'' = Inr (PStr vote)"
  by (simp add: ballot_def subscript_def item_def)

lemma count_ballots [simp]:
  "count_votes x (map (\<lambda>(did, vote). ballot did vote) bs) = Inr (votes_for x bs)"
proof -
  have "mapE (\<lambda>v. subscript v ''vote'') (map (\<lambda>(did, vote). ballot did vote) bs) = Inr (map (\<lambda>(_, vote). PStr vote) bs)"
    by (induction bs) auto
  moreover have "length (filter (\<lambda>w. w = PStr x) (map (\<lambda>(_, vote). PStr vote) bs)) = votes_for x bs"
    unfolding votes_for_def by (induction bs) auto
  ultimately show ?thesis by (simp add: count_votes_def)
qed

interpretation stub_votes: voting_service "tee_stub E" for E
proof
  fix vote did i h
  show "\<exists>r. tee_stub E ''cast-vote''
      [(''voter_did'', PStr did), (''proposal_id'', PStr i), (''vote'', PStr vote), (''rationale_hash'', PStr h)] = Inr r"
    by (simp add: tee_stub_def stub_cast_vote_def item_def str_of_item_def as_str_def)
next
  fix i bs quorum
  show "\<exists>r. tee_stub E ''tally-votes''
        [(''proposal_id'', PStr i), (''votes'', PList (map (\<lambda>(did, vote). ballot did vote) bs)),
         (''quorum_threshold'', PInt quorum)] = Inr r \<and>
      dget r ''result'' PNone = PStr (outcome_of quorum bs) \<and>
      dget r ''votes_for'' PNone = PInt (int (votes_for ''FOR'' bs)) \<and>
      dget r ''votes_against'' PNone = PInt (int (votes_for ''AGAINST'' bs))"
    by (simp add: tee_stub_def stub_tally_votes_def list_item_def item_def py_iter_def py_compare_def outcome_of_def Let_def)
qed

section \<open>Bonds\<close>

text \<open>The share of a bond that is paid out.\<close>

definition bond_share :: "bool \<Rightarrow> bool \<Rightarrow> rat \<Rightarrow> rat" where
  "bond_share completed on_time quality =
     (if \<not> completed then 0 else if \<not> on_time then 1 / 2
      else if quality \<ge> 9 / 10 then 1 else if quality \<ge> 7 / 10 then quality else 1 / 4)"

lemma bond_share_bounds: "0 \<le> bond_share completed on_time quality" "bond_share completed on_time quality \<le> 1"
  by (auto simp: bond_share_def)

lemma round2_rat_zero [simp]: "round2_rat 0 = 0"
  using round_half_even_int [of 0] by (simp add: round2_rat_def)

lemma payout_bounds:
  assumes "0 \<le> amount" "0 \<le> share" "share \<le> 1"
  shows "0 \<le> round2_rat (amount * share)" "round2_rat (amount * share) \<le> round2_rat amount"
  using round2_rat_mono [of 0 "amount * share"] round2_rat_mono [of "amount * share" amount] assms
  by (simp_all add: mult_left_le)

locale escrow_service =
  fixes tee :: tee_fn
  assumes locks: "\<exists>r i. tee ''lock-bond''
      [(''agent_did'', PStr did), (''task_id'', PStr task), (''bond_amount'', PFloat amount), (''deadline_epoch'', PInt deadline)]
        = Inr r \<and> dget r ''bond_id'' (PStr []) = PStr i"
    and settles: "bo_bond_amount b = PFloat amount \<Longrightarrow> \<exists>r. tee ''verify-and-settle''
        (settle_payload (PStr i) did b epoch completed (PFloat quality)) = Inr r \<and>
      dget r ''payout_amount'' PNone =
        PFloat (round2_rat (amount * bond_share completed (epoch \<le> bo_deadline_epoch b) quality))"
begin

lemma lock_state:
  "\<exists>r i b'. lock_bond tee epoch agent task (PFloat amount) duration b = (Inr r, b') \<and>
     dget r ''bond_id'' (PStr []) = PStr i \<and>
     (\<exists>bond. vget b' (PStr i) = Some bond \<and> bo_bond_amount bond = PFloat amount \<and>
        bo_deadline_epoch bond = epoch + duration)"
proof -
  obtain r i where r: "tee ''lock-bond''
      [(''agent_did'', PStr (id_did agent)), (''task_id'', PStr task), (''bond_amount'', PFloat amount),
       (''deadline_epoch'', PInt (epoch + duration))] = Inr r" "dget r ''bond_id'' (PStr []) = PStr i"
    using locks by blast
  then show ?thesis by (simp add: lock_bond_def put_def Let_def vget_vset)
qed

lemma settle_state:
  assumes "vget b (PStr i) = Some bond" "bo_bond_amount bond = PFloat amount"
  shows "\<exists>r. settle_bond E tee epoch (PStr i) agent completed (PFloat quality) b = (Inr r, b) \<and>
    dget r ''payout_amount'' PNone =
      PFloat (round2_rat (amount * bond_share completed (epoch \<le> bo_deadline_epoch bond) quality))"
  using settles [OF assms(2), of i "id_did agent" epoch completed quality] assms(1)
  by (auto simp: settle_bond_def look_def)

end

lemma settlement_terms_share:
  "\<exists>reason sett. settlement_terms completed on_time (PFloat quality) =
     Inr (PFloat (bond_share completed on_time quality), reason, sett)"
  by (simp add: settlement_terms_def bond_share_def py_compare_def)

lemma settlement_terms_unused:
  "\<not> (completed \<and> on_time) \<Longrightarrow> settlement_terms completed on_time v = settlement_terms completed on_time w"
  by (auto simp: settlement_terms_def)

interpretation stub_escrow: escrow_service "tee_stub E" for E
proof
  fix did task :: string and amount :: rat and deadline :: int
  show "\<exists>r i. tee_stub E ''lock-bond''
      [(''agent_did'', PStr did), (''task_id'', PStr task), (''bond_amount'', PFloat amount), (''deadline_epoch'', PInt deadline)]
        = Inr r \<and> dget r ''bond_id'' (PStr []) = PStr i"
    by (simp add: tee_stub_def stub_lock_bond_def item_def str_of_item_def as_str_def)
next
  fix b :: bond and amount quality :: rat and i did :: string and epoch :: int and completed :: bool
  assume a: "bo_bond_amount b = PFloat amount"
  let ?on_time = "epoch \<le> bo_deadline_epoch b"
  obtain reason sett where t: "settlement_terms completed ?on_time (PFloat quality) =
      Inr (PFloat (bond_share completed ?on_time quality), reason, sett)"
    using settlement_terms_share by blast
  have u: "settlement_terms completed ?on_time (if completed \<and> ?on_time then PFloat quality else PNone) =
      Inr (PFloat (bond_share completed ?on_time quality), reason, sett)"
    using t settlement_terms_unused [of completed ?on_time "PFloat quality" PNone] by auto
  have "bindE (if completed \<and> ?on_time then Inr (PFloat quality) else Inr PNone) (settlement_terms completed ?on_time) =
      Inr (PFloat (bond_share completed ?on_time quality), reason, sett)"
    using u by (auto split: if_split_asm)
  then show "\<exists>r. tee_stub E ''verify-and-settle''
        (settle_payload (PStr i) did b epoch completed (PFloat quality)) = Inr r \<and>
      dget r ''payout_amount'' PNone = PFloat (round2_rat (amount * bond_share completed ?on_time quality))"
    using a by (auto simp: tee_stub_def stub_verify_and_settle_def settle_payload_def item_def truthy_item_def
        py_compare_def mul_float_def rat_of_def round2_def)
qed

end
