(* ===== verification/FeatureTheorems.thy ===== *)
theory FeatureTheorems
  imports FeatureLaws SampleData
begin

text \<open>
  The properties of the feature agents together with \<open>tee_stub\<close>: the answers a KYC pipeline, a DAO and a
  bond give after any sequence of operations. The last section shows what the agents do not check.
\<close>

section \<open>Properties\<close>

text \<open>
  C37. After any submissions, by whomever and in whatever order, refused ones included, the KYC status
  is \<open>APPROVED\<close> exactly when each of the four steps was submitted; the missing steps are exactly the
  others, in the order of the pipeline, and a step submitted twice counts twice.
\<close>

theorem kyc_approved_iff_all_steps:
  "\<exists>r. kyc_get_status (tee_stub E) (after_steps E (tee_stub E) subs (create_kyc a)) =
       (Inr r, after_steps E (tee_stub E) subs (create_kyc a)) \<and>
     (dget r ''status'' PNone = PStr ''APPROVED'' \<longleftrightarrow> set KYC_STEPS \<subseteq> (\<lambda>(_, step, _). step) ` set subs) \<and>
     dget r ''missing_steps'' PNone =
       PList (map PStr (filter (\<lambda>s. s \<notin> (\<lambda>(_, step, _). step) ` set subs) KYC_STEPS)) \<and>
     dget r ''steps_completed'' PNone =
       PInt (int (length (filter (\<lambda>(_, step, _). step \<in> set KYC_STEPS) subs)))"
proof -
  let ?given = "(\<lambda>(_, step, _). step) ` set subs"
  have given: "set (steps_of subs) = ?given \<inter> set KYC_STEPS"
    unfolding steps_of_def by (simp only: set_filter set_map) blast
  have "length (steps_of subs) = length (filter (\<lambda>(_, step, _). step \<in> set KYC_STEPS) subs)"
    by (induction subs) auto
  moreover have "filter (\<lambda>s. s \<notin> set (steps_of subs)) KYC_STEPS = filter (\<lambda>s. s \<notin> ?given) KYC_STEPS"
    by (rule filter_cong) (simp_all add: given)
  moreover obtain r where "kyc_get_status (tee_stub E) (after_steps E (tee_stub E) subs (create_kyc a)) =
       (Inr r, after_steps E (tee_stub E) subs (create_kyc a))"
    "dget r ''status'' PNone = PStr (if set KYC_STEPS \<subseteq> set (steps_of subs) then ''APPROVED'' else ''PENDING'')"
    "dget r ''steps_completed'' PNone = PInt (int (length (steps_of subs)))"
    "dget r ''missing_steps'' PNone = PList (map PStr (filter (\<lambda>s. s \<notin> set (steps_of subs)) KYC_STEPS))"
    using stub_kyc.status_after [of E E subs a] by blast
  moreover have "(if set KYC_STEPS \<subseteq> set (steps_of subs) then ''APPROVED'' else ''PENDING'') = ''APPROVED'' \<longleftrightarrow>
      set KYC_STEPS \<subseteq> ?given"
    by (simp add: given)
  ultimately show ?thesis by (intro exI [of _ r]) simp
qed

text \<open>
  After any votes the tally is that of the votes the DAO accepted (\<open>FOR\<close>, \<open>AGAINST\<close> or
  \<open>ABSTAIN\<close>): \<open>PASSED\<close> exactly when they reach the quorum and more are for than against, \<open>NO_QUORUM\<close>
  exactly when they are fewer than the quorum, and the counts are exact.
\<close>

theorem dao_outcome:
  "\<exists>r. tally (tee_stub E) (after_votes E (tee_stub E) votes (create_dao i quorum)) =
       (Inr r, after_votes E (tee_stub E) votes (create_dao i quorum)) \<and>
     (dget r ''result'' PNone = PStr ''PASSED'' \<longleftrightarrow>
        quorum \<le> int (length (counted votes)) \<and>
        votes_for ''FOR'' (counted votes) > votes_for ''AGAINST'' (counted votes)) \<and>
     (dget r ''result'' PNone = PStr ''NO_QUORUM'' \<longleftrightarrow> int (length (counted votes)) < quorum) \<and>
     dget r ''votes_for'' PNone = PInt (int (votes_for ''FOR'' (counted votes))) \<and>
     dget r ''votes_against'' PNone = PInt (int (votes_for ''AGAINST'' (counted votes)))"
  using stub_votes.tally_after [of E E votes i quorum] by (auto simp: outcome_of_def)

text \<open>
  C39. A locked bond settles to its amount times the share the delivery earns, rounded to cents: never
  less than nothing and never more than the rounded bond, whoever settles it and whatever quality is
  claimed; the bond stays and settles again to the same.
\<close>

theorem bond_payout_bounded:
  assumes "0 \<le> amount"
    and "lock_bond (tee_stub E) epoch agent task (PFloat amount) duration b = (Inr locked, b')"
  shows "\<exists>r. settle_bond E (tee_stub E) epoch' (dget locked ''bond_id'' (PStr [])) settler finished (PFloat quality) b' = (Inr r, b') \<and>
     dget r ''payout_amount'' PNone =
       PFloat (round2_rat (amount * bond_share finished (epoch' \<le> epoch + duration) quality)) \<and>
     0 \<le> round2_rat (amount * bond_share finished (epoch' \<le> epoch + duration) quality) \<and>
     round2_rat (amount * bond_share finished (epoch' \<le> epoch + duration) quality) \<le> round2_rat amount"
proof -
  obtain i bond where i: "dget locked ''bond_id'' (PStr []) = PStr i"
    and bond: "vget b' (PStr i) = Some bond" "bo_bond_amount bond = PFloat amount" "bo_deadline_epoch bond = epoch + duration"
    using stub_escrow.lock_state [of E epoch agent task amount duration b] assms(2) by auto
  show ?thesis
    using stub_escrow.settle_state [OF bond(1,2), of E E epoch' settler finished quality] bond(3)
      payout_bounds [OF assms(1) bond_share_bounds] by (auto simp: i)
qed

theorem bond_payout_bounded_witness:
  "\<exists>locked b' r. lock_bond (tee_stub (sample_env ''live'')) 1000 sample_agent ''TASK-002'' (PFloat 50) 3600 [] = (Inr locked, b') \<and>
     settle_bond (sample_env ''live'') (tee_stub (sample_env ''live'')) 2000 (dget locked ''bond_id'' (PStr []))
       sample_agent True (PFloat (3 / 4)) b' = (Inr r, b') \<and>
     dget r ''payout_amount'' PNone = PFloat (75 / 2)"
proof -
  obtain locked b' where run: "lock_bond (tee_stub (sample_env ''live'')) 1000 sample_agent ''TASK-002'' (PFloat 50) 3600 []
      = (Inr locked, b')"
    using stub_escrow.lock_state [of "sample_env ''live''" 1000 sample_agent "''TASK-002''" 50 3600 "[]"] by blast
  have share: "bond_share True ((2000::int) \<le> 1000 + 3600) (3 / 4) = 3 / 4" by (simp add: bond_share_def)
  have amount: "round2_rat (50 * (3 / 4)) = 75 / 2"
    using round_half_even_int [of 3750] by (simp add: round2_rat_def)
  obtain r where "settle_bond (sample_env ''live'') (tee_stub (sample_env ''live'')) 2000
      (dget locked ''bond_id'' (PStr [])) sample_agent True (PFloat (3 / 4)) b' = (Inr r, b')"
    "dget r ''payout_amount'' PNone = PFloat (75 / 2)"
    using bond_payout_bounded [OF _ run, where epoch' = 2000 and finished = True and quality = "3 / 4" and settler = sample_agent]
    unfolding share amount by auto
  then show ?thesis using run by blast
qed

section \<open>What the agents do not check\<close>

text \<open>Three votes of one agent pass a proposal whose quorum is three.\<close>

lemma repeated_votes_pass:
  "\<exists>r. fst (tally (tee_stub E) (after_votes E (tee_stub E)
       [(agent, ''FOR'', a), (agent, ''FOR'', b), (agent, ''FOR'', c)] (create_dao i 3))) = Inr r \<and>
     dget r ''result'' PNone = PStr ''PASSED''"
proof -
  let ?votes = "[(agent, ''FOR'', a), (agent, ''FOR'', b), (agent, ''FOR'', c)]"
  have "outcome_of 3 (counted ?votes) = ''PASSED''"
    by (simp add: outcome_of_def votes_for_def VOTES_def)
  then show ?thesis using stub_votes.tally_after [of E E ?votes i 3] by (metis fst_conv)
qed

text \<open>A grant is valid for anyone and any action that presents its token until it expires.\<close>

lemma stub_check_grant_valid:
  "now' \<le> until \<Longrightarrow> \<exists>a. tee_stub E ''check-grant'' (check_payload token did action (PInt until) now') = Inr a \<and>
     dget a ''valid'' PNone = PBool True"
  by (simp add: tee_stub_def stub_check_grant_def check_payload_def item_def py_compare_def)

lemma grant_not_bound:
  assumes "issue_grant (tee_stub E) now grantee action duration t = (Inr r, t')" and "now' \<le> now + duration"
  shows "\<exists>a. check_grant (tee_stub E) now' (dget r ''grant_token'' (PStr [])) anyone any_action t' = (Inr a, t') \<and>
    dget a ''valid'' PNone = PBool True"
proof -
  obtain token g where token: "dget r ''grant_token'' (PStr []) = PStr token"
    and g: "vget (td_grants t') (PStr token) = Some g" "dget g ''valid_until_epoch'' (PInt 0) = PInt (now + duration)"
    using assms(1) by (auto simp: issue_grant_def tee_stub_def stub_issue_time_grant_def text_item_def item_def put_def
        Let_def vget_vset)
  show ?thesis using stub_check_grant_valid [OF assms(2), of E "PStr token" "id_did anyone" any_action]
    by (simp add: token check_grant_def look_def g)
qed

end
