(* ===== verification/FeatureDemo.thy ===== *)
theory FeatureDemo
  imports FeatureServices TeeStub
begin

text \<open>
  The run of \<^verbatim>\<open>demo/features_demo.py\<close>: the ten feature agents against \<open>tee_stub\<close>, in the order of the
  script. What a phase prints is not kept, but what the printing reads is, since it may raise.
\<close>

section \<open>Printing a phase\<close>

definition printed_settlement :: "pyval \<Rightarrow> unit py" where
  "printed_settlement s =
     bindE (subscript s ''task_id'') (\<lambda>_.
     bindE (subscript s ''settlement'') (\<lambda>_.
     bindE (subscript s ''payout_pct'') (\<lambda>pct.
     bindE (format2 pct) (\<lambda>_.
     bindE (subscript s ''reason'') (\<lambda>_. Inr ())))))"

definition printed_ranking :: "pyval \<Rightarrow> unit py" where
  "printed_ranking r =
     bindE (subscript r ''agent_name'') (\<lambda>_.
     bindE (subscript r ''reputation_score'') (\<lambda>score.
     bindE (format2 score) (\<lambda>_.
     bindE (subscript r ''tier'') (\<lambda>_. Inr ()))))"

definition print_phase :: "pydict \<Rightarrow> unit py" where
  "print_phase result =
     bindE (mapE (\<lambda>(k, v). case v of
         PList vs \<Rightarrow>
           if k = ''settlements'' then bindE (mapE printed_settlement vs) (\<lambda>_. Inr ())
           else if k = ''rankings'' then bindE (mapE printed_ranking vs) (\<lambda>_. Inr ())
           else Inr ()
       | _ \<Rightarrow> Inr ()) result) (\<lambda>_. Inr ())"

section \<open>The ten phases\<close>

text \<open>What a run takes from outside: the answers of the model, random texts, keys and epochs.\<close>

record features_inputs =
  fi_llm :: "nat \<Rightarrow> llm_fn"
  fi_nonce :: "nat \<Rightarrow> string"
  fi_key :: "nat \<Rightarrow> string"
  fi_secret :: string
  fi_grant_epoch :: "nat \<Rightarrow> int"
  fi_bond_epoch :: "nat \<Rightarrow> int"

definition demo_task_records :: "(nat \<times> string \<times> pyval \<times> bool) list" where
  "demo_task_records =
     [(0, ''T-001'', PFloat (95 / 100), True), (1, ''T-002'', PFloat (82 / 100), True),
      (2, ''T-003'', PFloat (71 / 100), False), (0, ''T-004'', PFloat (98 / 100), True)]"

definition demo_customers :: "(string \<times> string \<times> string) list" where
  "demo_customers =
     [(''CUST-1001'', ''high_value'', ''T-PREMIUM''), (''CUST-2034'', ''at_risk'', ''T-RETAIN''),
      (''CUST-3102'', ''new_user'', ''T-ONBOARD'')]"

text \<open>A phase runs and prints; its number and its result.\<close>

definition demo_phase :: "nat \<Rightarrow> pydict py \<Rightarrow> (nat \<times> pydict) py" where
  "demo_phase n run = bindE run (\<lambda>result. bindE (print_phase result) (\<lambda>_. Inr (n, result)))"

definition demo_phases ::
  "py_env \<Rightarrow> features_inputs \<Rightarrow> agent_identity \<Rightarrow> agent_identity list \<Rightarrow> (nat \<times> pydict) py list" where
  "demo_phases E i coordinator workers =
     (let tee = (\<lambda>_. tee_stub E); all_agents = coordinator # workers
      in [demo_phase 2 (fst (auction_demo (fi_llm i 2) tee (fi_nonce i) workers [PFloat 85, PFloat 72, PFloat 91]
              (create_auction ''TASK-ADN-001''))),
          demo_phase 3 (fst (reputation_demo E (fi_llm i 3) tee workers demo_task_records [])),
          demo_phase 8 (fst (vault_demo E tee (fi_secret i) workers \<lparr>sv_owner = coordinator, sv_vaults = []\<rparr>)),
          demo_phase 5 (fst (temporal_demo tee (fi_grant_epoch i) workers
              \<lparr>td_coordinator = coordinator, td_grants = []\<rparr>)),
          demo_phase 9 (fst (dao_demo E (fi_llm i 9) tee all_agents [''FOR'', ''FOR'', ''FOR'', ''AGAINST'']
              (create_dao ''PROPOSAL-Q2-PRIORITY'' 3))),
          demo_phase 10 (fst (audit_demo E (fi_llm i 10) tee workers
              \<lparr>da_auditor = coordinator, da_entries = []\<rparr>)),
          demo_phase 7 (fst (kyc_demo E tee all_agents (create_kyc ''APPLICANT-7701''))),
          demo_phase 11 (fst (bond_demo E tee (fi_bond_epoch i) workers [])),
          demo_phase 4 (personalization_demo E (fi_llm i 4) tee demo_customers),
          demo_phase 6 (cross_tenant_demo tee)])"

definition features_main :: "py_env \<Rightarrow> nat \<Rightarrow> features_inputs \<Rightarrow> (nat \<times> pydict) list py" where
  "features_main E pid i =
     bindE (create_agent_identity E pid (Some ''coordinator'') None) (\<lambda>coordinator.
     bindE (mapE (\<lambda>n. ephemeral E pid (Some (''worker-'' @ dec n)) (fi_key i n)) [0..<3]) (\<lambda>workers.
     mapE (\<lambda>phase. phase) (demo_phases E i coordinator workers)))"

text \<open>A completed run went through the ten phases in the order of the script.\<close>

lemma demo_phase_number: "demo_phase n run = Inr x \<Longrightarrow> fst x = n"
  by (auto simp: demo_phase_def bindE_eq_Inr)

lemma completed_phases:
  "features_main E pid i = Inr results \<Longrightarrow> map fst results = [2, 3, 8, 5, 9, 10, 7, 11, 4, 6]"
  by (auto simp: features_main_def demo_phases_def Let_def bindE_eq_Inr dest!: demo_phase_number)

end
