(* ===== verification/WorkerExecutor.thy ===== *)
theory WorkerExecutor
  imports AuthAdapter HttpClients
begin

text \<open>
  \<^verbatim>\<open>adn/worker_executor.py\<close>: the process that owns the workers' private keys and answers requests
  on a loopback connection. The state is the dictionary of sessions; a request that raises closes
  its connection and keeps the state. Generated keys and tokens are arguments (\<open>generated\<close>), as is the
  decoding of the received bytes. Sending an answer is taken to succeed.
\<close>

record worker_session =
  ws_priv :: bytes
  ws_did :: string
  ws_agent_id :: string
  ws_public_key_hex :: string

type_synonym sessions = "(string \<times> worker_session) list"

text \<open>\<open>Ed25519PrivateKey.generate()\<close>, \<open>secrets.token_hex(16)\<close> and \<open>secrets.token_hex(8)\<close>.\<close>

record generated =
  gen_private :: bytes
  gen_session_id :: string
  gen_agent_token :: string

text \<open>Without a token in its environment the process exits (\<open>None\<close>).\<close>

definition CAPABILITY_TOKEN :: "py_env \<Rightarrow> string option" where
  "CAPABILITY_TOKEN E =
     (let token = getenv_or E ''WORKER_CAPABILITY_TOKEN'' [] in if token = [] then None else Some token)"

definition worker_auth :: "string \<Rightarrow> pydict \<Rightarrow> bool py" where
  "worker_auth capability data = (case dget data ''token'' (PStr []) of
     PStr token \<Rightarrow> Inr (utf8 token = utf8 capability)
   | v \<Rightarrow> Inl (TypeError (''unsupported operand types(s) or combination of types: '' @
       repr_str (py_type v) @ '' and '' @ repr_str ''bytes'')))"

definition rpc_error :: "string \<Rightarrow> pydict" where
  "rpc_error e = [(''error'', PStr e)]"

definition new_session :: "py_env \<Rightarrow> generated \<Rightarrow> worker_session" where
  "new_session E g =
     (let pub_hex = to_hex (ed25519_public E (gen_private g))
      in \<lparr>ws_priv = gen_private g, ws_did = ''did:key:z'' @ take 32 pub_hex,
          ws_agent_id = ''worker-'' @ gen_agent_token g, ws_public_key_hex = pub_hex\<rparr>)"

definition session_answer :: "worker_session \<Rightarrow> pydict" where
  "session_answer w = [(''agentId'', PStr (ws_agent_id w)), (''did'', PStr (ws_did w)),
     (''publicKeyHex'', PStr (ws_public_key_hex w))]"

text \<open>The session a request names: a list or dictionary as id raises, other values name none.\<close>

definition session_id :: "pydict \<Rightarrow> pyval" where
  "session_id data = dget data ''session_id'' (PStr [])"

definition named_session :: "sessions \<Rightarrow> pyval \<Rightarrow> worker_session option py" where
  "named_session st sid =
     (if \<not> hashable sid then Inl (unhashable_error sid)
      else Inr (case sid of PStr s \<Rightarrow> map_of st s | _ \<Rightarrow> None))"

definition payload_bytes :: "py_env \<Rightarrow> pydict \<Rightarrow> bytes" where
  "payload_bytes E data = (case dget data ''payload'' (PStr []) of
     PStr s \<Rightarrow> utf8 s
   | payload \<Rightarrow> utf8 (json_dumps (float_repr E) payload))"

definition rpc_create :: "py_env \<Rightarrow> generated \<Rightarrow> (sessions, pydict) action" where
  "rpc_create E g st =
     (Inr ((''session_id'', PStr (gen_session_id g)) # session_answer (new_session E g)),
      dset (gen_session_id g) (new_session E g) st)"

definition rpc_sign :: "py_env \<Rightarrow> pydict \<Rightarrow> (sessions, pydict) action" where
  "rpc_sign E data st = (case named_session st (session_id data) of
     Inl e \<Rightarrow> (Inl e, st)
   | Inr None \<Rightarrow> (Inr (rpc_error ''unknown_session''), st)
   | Inr (Some w) \<Rightarrow>
       (Inr [(''signature'', PStr (to_hex (ed25519_sign E (ws_priv w) (payload_bytes E data)))),
             (''session_id'', session_id data)], st))"

definition rpc_public_key :: "pydict \<Rightarrow> (sessions, pydict) action" where
  "rpc_public_key data st = (case named_session st (session_id data) of
     Inl e \<Rightarrow> (Inl e, st)
   | Inr None \<Rightarrow> (Inr (rpc_error ''unknown_session''), st)
   | Inr (Some w) \<Rightarrow>
       (Inr [(''publicKeyHex'', PStr (ws_public_key_hex w)), (''did'', PStr (ws_did w)),
             (''agentId'', PStr (ws_agent_id w))], st))"

definition rpc_close :: "pydict \<Rightarrow> (sessions, pydict) action" where
  "rpc_close data st = (case named_session st (session_id data) of
     Inl e \<Rightarrow> (Inl e, st)
   | Inr _ \<Rightarrow> (Inr [(''closed'', session_id data)],
       (case session_id data of PStr s \<Rightarrow> ddel s st | _ \<Rightarrow> st)))"

definition handle_rpc :: "py_env \<Rightarrow> string \<Rightarrow> generated \<Rightarrow> pydict \<Rightarrow> (sessions, pydict) action" where
  "handle_rpc E capability g data st = (case worker_auth capability data of
     Inl e \<Rightarrow> (Inl e, st)
   | Inr False \<Rightarrow> (Inr (rpc_error ''unauthorized''), st)
   | Inr True \<Rightarrow>
       let called = dget data ''method'' PNone
       in if called = PStr ''create_session'' then rpc_create E g st
          else if called = PStr ''sign_result'' then rpc_sign E data st
          else if called = PStr ''get_public_key'' then rpc_public_key data st
          else if called = PStr ''close_session'' then rpc_close data st
          else (Inr (rpc_error ''unknown_method''), st))"

text \<open>
  \<open>_handle_client\<close>: the chunks received (an empty one is the end of the stream) are collected until
  they parse. The answers sent, the exception that ended the connection, if any, and the state.
\<close>

fun handle_client ::
  "py_env \<Rightarrow> string \<Rightarrow> (bytes \<Rightarrow> string option) \<Rightarrow> (nat \<Rightarrow> generated) \<Rightarrow> bytes \<Rightarrow> bytes list \<Rightarrow> sessions \<Rightarrow>
    bytes list \<times> py_error option \<times> sessions" where
  "handle_client E capability decode g buf [] st = ([], None, st)"
| "handle_client E capability decode g buf (chunk # chunks) st =
     (if chunk = [] then ([], None, st)
      else case decode (buf @ chunk) of
        None \<Rightarrow> ([], Some (OtherError ''UnicodeDecodeError'' []), st)
      | Some received \<Rightarrow> (case json_loads E received of
          None \<Rightarrow> handle_client E capability decode g (buf @ chunk) chunks st
        | Some v \<Rightarrow> (case as_dict v of
            Inl e \<Rightarrow> ([], Some e, st)
          | Inr data \<Rightarrow> (case handle_rpc E capability (g 0) data st of
              (Inl e, st') \<Rightarrow> ([], Some e, st')
            | (Inr answer, st') \<Rightarrow>
                (let (sent, e, st'') = handle_client E capability decode (\<lambda>i. g (Suc i)) [] chunks st'
                 in ((utf8 (json_spaced (float_repr E) (PDict answer)) @ [CHR 0x0A]) # sent, e, st''))))))"

section \<open>Sessions\<close>

text \<open>A session's public key and DID are those of its private key, and its key came from the generator.\<close>

definition session_ok :: "py_env \<Rightarrow> bytes set \<Rightarrow> worker_session \<Rightarrow> bool" where
  "session_ok E keys w \<longleftrightarrow> ws_priv w \<in> keys \<and>
     ws_public_key_hex w = to_hex (ed25519_public E (ws_priv w)) \<and>
     ws_did w = ''did:key:z'' @ take 32 (ws_public_key_hex w)"

definition sessions_ok :: "py_env \<Rightarrow> bytes set \<Rightarrow> sessions \<Rightarrow> bool" where
  "sessions_ok E keys st \<longleftrightarrow> (\<forall>s w. map_of st s = Some w \<longrightarrow> session_ok E keys w)"

lemma new_session_ok: "gen_private g \<in> keys \<Longrightarrow> session_ok E keys (new_session E g)"
  by (simp add: session_ok_def new_session_def Let_def)

lemma sessions_ok_Nil [simp]: "sessions_ok E keys []"
  by (simp add: sessions_ok_def)

lemma sessions_ok_dset: "sessions_ok E keys st \<Longrightarrow> session_ok E keys w \<Longrightarrow> sessions_ok E keys (dset s w st)"
  by (simp add: sessions_ok_def)

lemma sessions_ok_ddel: "sessions_ok E keys st \<Longrightarrow> sessions_ok E keys (ddel s st)"
  by (simp add: sessions_ok_def)

lemma rpc_state [simp]:
  "snd (rpc_sign E data st) = st" "snd (rpc_public_key data st) = st"
  by (simp_all add: rpc_sign_def rpc_public_key_def split: sum.split option.split)

lemma rpc_create_state [simp]: "snd (rpc_create E g st) = dset (gen_session_id g) (new_session E g) st"
  by (simp add: rpc_create_def)

lemma rpc_close_state: "\<exists>sid. snd (rpc_close data st) = st \<or> snd (rpc_close data st) = ddel sid st"
  by (auto simp: rpc_close_def split: sum.split pyval.split)

lemma handle_rpc_True:
  assumes "worker_auth capability data \<noteq> Inr True"
  shows "snd (handle_rpc E capability g data st) = st"
  using assms by (auto simp: handle_rpc_def split: sum.split bool.split)

lemma handle_rpc_ok:
  assumes ok: "sessions_ok E keys st" and key: "gen_private g \<in> keys"
  shows "sessions_ok E keys (snd (handle_rpc E capability g data st))"
proof (cases "worker_auth capability data = Inr True")
  case True
  obtain sid where closed: "snd (rpc_close data st) = st \<or> snd (rpc_close data st) = ddel sid st"
    using rpc_close_state by blast
  have "sessions_ok E keys (snd (rpc_close data st))"
    using closed sessions_ok_ddel [OF ok, of sid] ok by (elim disjE) simp_all
  moreover have "sessions_ok E keys (snd (rpc_create E g st))"
    using sessions_ok_dset [OF ok new_session_ok [OF key]] by simp
  ultimately show ?thesis using True ok by (simp add: handle_rpc_def Let_def)
qed (simp add: handle_rpc_True ok)

lemma as_dict_PDict: "as_dict (PDict d) = Inr d"
  by simp

lemma handle_client_ok:
  assumes "sessions_ok E keys st" and "\<And>i. gen_private (g i) \<in> keys"
  shows "sessions_ok E keys (snd (snd (handle_client E capability decode g buf chunks st)))"
  using assms
proof (induction E capability decode g buf chunks st rule: handle_client.induct)
  case (2 E capability decode g buf chunk chunks st)
  show ?case
  proof (cases "chunk = [] \<or> decode (buf @ chunk) = None")
    case False
    then obtain received where d: "chunk \<noteq> []" "decode (buf @ chunk) = Some received" by auto
    show ?thesis
    proof (cases "json_loads E received")
      case None
      then show ?thesis using d 2(1) [OF d] 2(3,4) by simp
    next
      case (Some v)
      show ?thesis
      proof (cases "as_dict v")
        case (Inl e)
        then show ?thesis using d Some 2(3) by simp
      next
        case (Inr data)
        obtain r st' where r: "handle_rpc E capability (g 0) data st = (r, st')" by fastforce
        have st': "sessions_ok E keys st'" using handle_rpc_ok [OF 2(3) 2(4) [of 0], where capability = capability and data = data] r by simp
        show ?thesis
        proof (cases r)
          case (Inl e)
          then show ?thesis using d Some \<open>as_dict v = Inr data\<close> r st' by (simp add: as_dict_PDict)
        next
          case (Inr answer)
          have "sessions_ok E keys (snd (snd (handle_client E capability decode (\<lambda>i. g (Suc i)) [] chunks st')))"
            using 2(2) [OF d Some \<open>as_dict v = Inr data\<close> _ Inr st'] 2(4) r by simp
          then show ?thesis using d Some \<open>as_dict v = Inr data\<close> r Inr
            by (auto simp: as_dict_PDict Let_def split: prod.split)
        qed
      qed
    qed
  qed (use 2(3) in \<open>auto split: option.split\<close>)
qed simp

section \<open>What a request does to the sessions\<close>

definition creates :: "string \<Rightarrow> pydict \<Rightarrow> bool" where
  "creates capability data \<longleftrightarrow>
     worker_auth capability data = Inr True \<and> dget data ''method'' PNone = PStr ''create_session''"

definition closes :: "string \<Rightarrow> pydict \<Rightarrow> string \<Rightarrow> bool" where
  "closes capability data sid \<longleftrightarrow>
     worker_auth capability data = Inr True \<and> dget data ''method'' PNone = PStr ''close_session'' \<and>
     session_id data = PStr sid"

lemma rpc_close_lookup:
  "map_of (snd (rpc_close data st)) sid = (if session_id data = PStr sid then None else map_of st sid)"
  by (cases "session_id data") (simp_all add: rpc_close_def named_session_def)

lemma handle_rpc_lookup:
  "map_of (snd (handle_rpc E capability g data st)) sid =
     (if creates capability data \<and> gen_session_id g = sid then Some (new_session E g)
      else if closes capability data sid then None
      else map_of st sid)"
proof (cases "worker_auth capability data = Inr True")
  case True
  then show ?thesis
    by (simp add: handle_rpc_def creates_def closes_def Let_def rpc_close_lookup)
qed (simp add: handle_rpc_True creates_def closes_def)

text \<open>The sessions after a sequence of requests, each with what the generator returned to it.\<close>

definition after_rpcs :: "py_env \<Rightarrow> string \<Rightarrow> (generated \<times> pydict) list \<Rightarrow> sessions" where
  "after_rpcs E capability calls =
     foldl (\<lambda>st (g, data). snd (handle_rpc E capability g data st)) [] calls"

lemma after_rpcs_simps [simp]:
  "after_rpcs E capability [] = []"
  "after_rpcs E capability (calls @ [(g, data)]) =
     snd (handle_rpc E capability g data (after_rpcs E capability calls))"
  by (simp_all add: after_rpcs_def)

text \<open>An open session was created by an authorized request, and nothing since created or closed it.\<close>

definition opened_by :: "string \<Rightarrow> (generated \<times> pydict) list \<Rightarrow> string \<Rightarrow> generated \<Rightarrow> bool" where
  "opened_by capability calls sid g \<longleftrightarrow>
     (\<exists>before data later. calls = before @ (g, data) # later \<and> creates capability data \<and> gen_session_id g = sid \<and>
        (\<forall>(g', d) \<in> set later. \<not> closes capability d sid \<and> \<not> (creates capability d \<and> gen_session_id g' = sid)))"

lemma opened_by_last: "creates capability data \<Longrightarrow> opened_by capability (calls @ [(g, data)]) (gen_session_id g) g"
  unfolding opened_by_def by (intro exI [of _ calls] exI [of _ data] exI [of _ "[]"]) simp

lemma opened_by_snoc:
  assumes "opened_by capability calls sid g" and "\<not> closes capability d sid"
    and "\<not> (creates capability d \<and> gen_session_id g' = sid)"
  shows "opened_by capability (calls @ [(g', d)]) sid g"
proof -
  obtain before data later where c: "calls = before @ (g, data) # later" "creates capability data" "gen_session_id g = sid"
    "\<forall>(g', d) \<in> set later. \<not> closes capability d sid \<and> \<not> (creates capability d \<and> gen_session_id g' = sid)"
    using assms(1) unfolding opened_by_def by blast
  show ?thesis unfolding opened_by_def
    by (intro exI [of _ before] exI [of _ data] exI [of _ "later @ [(g', d)]"]) (use c assms(2,3) in auto)
qed

lemma session_opened:
  "map_of (after_rpcs E capability calls) sid = Some w \<Longrightarrow>
   \<exists>g. opened_by capability calls sid g \<and> w = new_session E g"
proof (induction calls rule: rev_induct)
  case (snoc c calls)
  obtain g' d where c: "c = (g', d)" by (cases c)
  show ?case
  proof (cases "creates capability d \<and> gen_session_id g' = sid")
    case True
    then show ?thesis using snoc.prems opened_by_last [of capability d calls g'] by (auto simp: c handle_rpc_lookup)
  next
    case False
    then have "\<not> closes capability d sid" and "map_of (after_rpcs E capability calls) sid = Some w"
      using snoc.prems by (simp_all add: c handle_rpc_lookup split: if_split_asm)
    then show ?thesis using snoc.IH opened_by_snoc [OF _ _ False] c by blast
  qed
qed simp

section \<open>Signatures\<close>

lemma named_session_Some [simp]:
  "named_session st sid = Inr (Some w) \<longleftrightarrow> (\<exists>s. sid = PStr s \<and> map_of st s = Some w)"
  by (cases sid) (auto simp: named_session_def)

lemma rpc_sign_signature:
  assumes "rpc_sign E data st = (Inr r, st')" and "map_of r ''signature'' = Some sg"
  shows "\<exists>s w. session_id data = PStr s \<and> map_of st s = Some w \<and>
    sg = PStr (to_hex (ed25519_sign E (ws_priv w) (payload_bytes E data)))"
proof (cases "named_session st (session_id data)")
  case (Inr found)
  then show ?thesis
  proof (cases found)
    case (Some w)
    then have named: "named_session st (session_id data) = Inr (Some w)" using Inr by simp
    then have "r = [(''signature'', PStr (to_hex (ed25519_sign E (ws_priv w) (payload_bytes E data)))),
        (''session_id'', session_id data)]"
      using assms(1) by (simp add: rpc_sign_def del: named_session_Some)
    then show ?thesis using assms(2) named by auto
  qed (use assms in \<open>auto simp: rpc_sign_def rpc_error_def\<close>)
qed (use assms in \<open>simp add: rpc_sign_def\<close>)

lemma no_signature:
  assumes "map_of r ''signature'' = Some sg"
  shows "r \<noteq> rpc_error e" "rpc_create E g st \<noteq> (Inr r, st')" "rpc_public_key data st \<noteq> (Inr r, st')"
    "rpc_close data st \<noteq> (Inr r, st')"
  using assms
  by (auto simp: rpc_error_def rpc_create_def session_answer_def rpc_public_key_def rpc_close_def
      split: sum.split_asm option.split_asm)

lemma handle_rpc_signature:
  assumes "handle_rpc E capability g data st = (Inr r, st')" and "map_of r ''signature'' = Some sg"
  shows "worker_auth capability data = Inr True \<and> rpc_sign E data st = (Inr r, st')"
  using assms no_signature [OF assms(2)]
  by (auto simp: handle_rpc_def Let_def split: sum.split_asm bool.split_asm if_split_asm)

lemma handle_rpc_public_key:
  assumes "worker_auth capability data = Inr True" "dget data ''method'' PNone = PStr ''get_public_key''"
    "session_id data = PStr s" "map_of st s = Some w"
  shows "handle_rpc E capability g data st =
    (Inr [(''publicKeyHex'', PStr (ws_public_key_hex w)), (''did'', PStr (ws_did w)),
          (''agentId'', PStr (ws_agent_id w))], st)"
  using assms by (simp add: handle_rpc_def rpc_public_key_def named_session_def Let_def)

end
