(* ===== verification/WorkerTheorems.thy ===== *)
theory WorkerTheorems
  imports WorkerExecutor SampleData
begin

text \<open>
  The property of the worker executor (\<^verbatim>\<open>adn/worker_executor.py\<close>) and the process on which it is
  instantiated: its signature function takes key and message into account, so that the check tells
  them apart.
\<close>

definition signing_env :: py_env where
  "signing_env = (sample_env ''live'')\<lparr>
     ed25519_public := \<lambda>k. take 32 k,
     ed25519_sign := \<lambda>k m. take 64 (take 32 k @ m @ replicate 64 CHR ''0''),
     ed25519_verify := \<lambda>k s m. s = take 64 (k @ m @ replicate 64 CHR ''0'')\<rparr>"

definition open_call :: "generated \<times> pydict" where
  "open_call =
     (\<lparr>gen_private = replicate 32 CHR ''p'', gen_session_id = ''s1'', gen_agent_token = ''a1''\<rparr>,
      [(''token'', PStr ''cap''), (''method'', PStr ''create_session'')])"

definition sign_call :: pydict where
  "sign_call =
     [(''token'', PStr ''cap''), (''method'', PStr ''sign_result''), (''session_id'', PStr ''s1''),
      (''payload'', PDict [(''ok'', PBool True)])]"

text \<open>
  C40. After any requests, a worker executor that answers with a signature was given the capability
  token and the id of a session that an authorized request opened and none closed; the signature is
  that of the session's own key on the payload, it verifies under the public key the executor
  reports for the session, and the sessions are unchanged.
\<close>

theorem worker_signature_verifies:
  assumes "handle_rpc E capability g data (after_rpcs E capability calls) = (Inr r, st')"
    and "map_of r ''signature'' = Some signature"
    and "\<forall>(g, _) \<in> set calls. ed25519_ok E (gen_private g)"
  shows "\<exists>s g. worker_auth capability data = Inr True \<and> session_id data = PStr s \<and>
     opened_by capability calls s g \<and> st' = after_rpcs E capability calls \<and>
     signature = PStr (to_hex (ed25519_sign E (gen_private g) (payload_bytes E data))) \<and>
     ed25519_verify E (ed25519_public E (gen_private g)) (ed25519_sign E (gen_private g) (payload_bytes E data))
       (payload_bytes E data) \<and>
     (\<forall>g' query. worker_auth capability query = Inr True \<and>
        dget query ''method'' PNone = PStr ''get_public_key'' \<and> session_id query = PStr s \<longrightarrow>
        (\<exists>answer. handle_rpc E capability g' query st' = (Inr answer, st') \<and>
           dget answer ''publicKeyHex'' PNone = PStr (to_hex (ed25519_public E (gen_private g)))))"
proof -
  let ?st = "after_rpcs E capability calls"
  note signed = handle_rpc_signature [OF assms(1,2)]
  then have st': "st' = ?st" using rpc_state(1) [of E data ?st] by simp
  obtain s w where w: "session_id data = PStr s" "map_of ?st s = Some w"
    "signature = PStr (to_hex (ed25519_sign E (ws_priv w) (payload_bytes E data)))"
    using rpc_sign_signature [OF conjunct2 [OF signed] assms(2)] by blast
  obtain g0 where g0: "opened_by capability calls s g0" "w = new_session E g0" using session_opened [OF w(2)] by blast
  then have "ed25519_ok E (gen_private g0)" using assms(3) unfolding opened_by_def by auto
  then show ?thesis using signed st' w g0 handle_rpc_public_key [OF _ _ _ w(2)]
    by (intro exI [of _ s] exI [of _ g0]) (simp add: ed25519_ok_def new_session_def Let_def)
qed

theorem worker_signature_verifies_witness:
  "\<exists>r st'. handle_rpc signing_env ''cap'' (fst open_call) sign_call (after_rpcs signing_env ''cap'' [open_call]) = (Inr r, st') \<and>
     opened_by ''cap'' [open_call] ''s1'' (fst open_call) \<and>
     ed25519_verify signing_env (ed25519_public signing_env (gen_private (fst open_call)))
       (ed25519_sign signing_env (gen_private (fst open_call)) (payload_bytes signing_env sign_call))
       (payload_bytes signing_env sign_call)"
proof -
  let ?st = "after_rpcs signing_env ''cap'' [open_call]"
  let ?sg = "PStr (to_hex (ed25519_sign signing_env (replicate 32 CHR ''p'') (payload_bytes signing_env sign_call)))"
  have run: "handle_rpc signing_env ''cap'' (fst open_call) sign_call ?st =
      (Inr [(''signature'', ?sg), (''session_id'', PStr ''s1'')], ?st)"
    by (simp add: after_rpcs_def open_call_def handle_rpc_def sign_call_def worker_auth_def rpc_create_def rpc_sign_def
        named_session_def session_id_def new_session_def Let_def)
  have ok: "\<forall>(g, _) \<in> set [open_call]. ed25519_ok signing_env (gen_private g)"
    by (simp add: open_call_def ed25519_ok_def signing_env_def min_def)
  obtain s g where "session_id sign_call = PStr s" "opened_by ''cap'' [open_call] s g"
    "ed25519_verify signing_env (ed25519_public signing_env (gen_private g))
       (ed25519_sign signing_env (gen_private g) (payload_bytes signing_env sign_call)) (payload_bytes signing_env sign_call)"
    using worker_signature_verifies [OF run _ ok, of ?sg] by auto
  moreover from this have "s = ''s1'' \<and> g = fst open_call"
    by (auto simp: sign_call_def session_id_def opened_by_def open_call_def Cons_eq_append_conv)
  ultimately show ?thesis using run by blast
qed

end
