(* ===== verification/DemoHandlers.thy ===== *)
theory DemoHandlers
  imports Network FeatureAgents
begin

text \<open>
  The task handlers of \<^verbatim>\<open>demo/adn_demo.py\<close>. The files that match \<open>sales_*.csv\<close> and the rows that
  \<open>csv.DictReader\<close> reads from one are parameters (\<open>demo_data\<close>); a handler takes the clock's reading.
\<close>

record demo_data =
  dd_candidates :: "string list"               \<comment> \<open>\<open>DATA_DIR.glob("sales_*.csv")\<close>\<close>
  dd_exists :: "string \<Rightarrow> bool"                 \<comment> \<open>\<open>(DATA_DIR / name).exists()\<close>\<close>
  dd_rows :: "string \<Rightarrow> pydict list py"         \<comment> \<open>\<open>csv.DictReader\<close> of the opened file\<close>

section \<open>Aggregation\<close>

definition is_success :: "pyval \<Rightarrow> bool py" where
  "is_success v = bindE (as_dict v) (\<lambda>r. Inr (dget r ''status'' PNone = PStr ''success''))"

definition handle_aggregate_results :: "rat \<Rightarrow> pyval \<Rightarrow> pyval py" where
  "handle_aggregate_results now params_val =
     bindE (as_dict params_val) (\<lambda>params.
     let results = dget params ''results'' (PList [])
     in bindE (py_len results) (\<lambda>total_items.
        bindE (py_iter results) (\<lambda>items.
        bindE (mapE is_success items) (\<lambda>flags.
        Inr (PDict [(''aggregated_result'', PDict
          [(''total_items'', PInt (int total_items)), (''successful'', PInt (int (length (filter id flags)))),
           (''data'', results), (''timestamp'', PFloat now)])])))))"

section \<open>Processing\<close>

text \<open>The value behind the first filter with a prefix, which ends in the only colon split at: \<open>f.split(":")[1]\<close>.\<close>

fun filter_value :: "string \<Rightarrow> pyval list \<Rightarrow> string py" where
  "filter_value prefix [] = Inr []"
| "filter_value prefix (v # vs) =
     bindE (as_str v) (\<lambda>f.
       if startswith f prefix then Inr (takeWhile (\<lambda>c. c \<noteq> CHR '':'') (removeprefix f prefix)) else filter_value prefix vs)"

definition strip_underscores :: "string \<Rightarrow> string" where
  "strip_underscores s =
     (let p = (\<lambda>c. c = CHR ''_'') in dropWhile p (rev (dropWhile p (rev s))))"

definition csv_name :: "py_env \<Rightarrow> pyval \<Rightarrow> string \<Rightarrow> string \<Rightarrow> string" where
  "csv_name E time_period region product =
     ''sales_'' @ py_str (float_repr E) time_period @
     (if region \<noteq> [] \<or> product \<noteq> [] then strip_underscores (''_'' @ region @ ''_'' @ product) else []) @ ''.csv''"

definition csv_file :: "demo_data \<Rightarrow> string \<Rightarrow> string py" where
  "csv_file D name =
     (if dd_exists D name then Inr name
      else case dd_candidates D of
        [] \<Rightarrow> Inl (OSError ''No sales CSV found'')
      | candidate # _ \<Rightarrow> Inr candidate)"

fun sale_amounts :: "py_env \<Rightarrow> pydict list \<Rightarrow> rat list py" where
  "sale_amounts E [] = Inr []"
| "sale_amounts E (r # rows) =
     (if truthy (dget r ''sale_amount'' PNone)
      then bindE (py_float E (dget r ''sale_amount'' PNone)) (\<lambda>q. bindE (sale_amounts E rows) (\<lambda>qs. Inr (q # qs)))
      else sale_amounts E rows)"

definition mean :: "rat list \<Rightarrow> rat" where
  "mean qs = sum_list qs / of_nat (length qs)"

definition trend_of :: "rat list \<Rightarrow> string" where
  "trend_of qs =
     (let mid = length qs div 2
      in if mid \<noteq> 0 \<and> mean (drop mid qs) > mean (take mid qs) then ''increasing'' else ''stable'')"

definition sales_summary :: "pyval \<Rightarrow> string \<Rightarrow> pyval \<Rightarrow> rat list \<Rightarrow> pydict py" where
  "sales_summary data_source file time_period qs =
     (if qs = [] then Inl (ValueError ''min() iterable argument is empty'')
      else Inr [(''source'', data_source), (''csv_file'', PStr file), (''period'', time_period),
        (''records_processed'', PInt (int (length qs))), (''total_revenue'', PFloat (round2_rat (sum_list qs))),
        (''avg_value'', PFloat (round2_rat (mean qs))), (''min_value'', PFloat (round2_rat (Min (set qs)))),
        (''max_value'', PFloat (round2_rat (Max (set qs)))), (''trend'', PStr (trend_of qs))])"

definition handle_process_data :: "py_env \<Rightarrow> demo_data \<Rightarrow> string \<Rightarrow> rat \<Rightarrow> pyval \<Rightarrow> pyval py" where
  "handle_process_data E D worker_id now params_val =
     bindE (as_dict params_val) (\<lambda>params.
     let data_source = dget params ''data_source'' (PStr ''unknown'');
         time_period = dget params ''time_period'' (PStr ''unknown'')
     in bindE (py_iter (dget params ''filters'' (PList []))) (\<lambda>fs.
        bindE (filter_value ''region:'' fs) (\<lambda>region.
        bindE (filter_value ''product_type:'' fs) (\<lambda>product.
        bindE (csv_file D (csv_name E time_period region product)) (\<lambda>file.
        bindE (dd_rows D file) (\<lambda>rows.
        bindE (sale_amounts E rows) (\<lambda>qs.
        bindE (sales_summary data_source file time_period qs) (\<lambda>summary.
        Inr (PDict [(''status'', PStr ''success''), (''processed_data'', PDict summary),
          (''processed_by'', PStr worker_id), (''timestamp'', PFloat now)])))))))))"

section \<open>Conversion\<close>

text \<open>\<open>json.dumps(v, indent=2)\<close>: the keys in their order, two blanks for each level.\<close>

definition indent_at :: "nat \<Rightarrow> string" where
  "indent_at level = CHR 0x0A # replicate (2 * level) CHR '' ''"

primrec dumps_indented :: "(rat \<Rightarrow> string) \<Rightarrow> pyval \<Rightarrow> nat \<Rightarrow> string" where
  "dumps_indented fl PNone = (\<lambda>level. ''null'')"
| "dumps_indented fl (PBool b) = (\<lambda>level. if b then ''true'' else ''false'')"
| "dumps_indented fl (PInt i) = (\<lambda>level. int_text i)"
| "dumps_indented fl (PFloat q) = (\<lambda>level. fl q)"
| "dumps_indented fl (PStr s) = (\<lambda>level. dumps_quote s)"
| "dumps_indented fl (PList xs) = (\<lambda>level. if xs = [] then ''[]''
     else ''['' @ indent_at (Suc level) @
       join ('','' @ indent_at (Suc level)) (map (\<lambda>f. f (Suc level)) (map (dumps_indented fl) xs)) @
       indent_at level @ '']'')"
| "dumps_indented fl (PDict d) = (\<lambda>level. if d = [] then ''{}''
     else ''{'' @ indent_at (Suc level) @
       join ('','' @ indent_at (Suc level))
         (map (\<lambda>(k, f). dumps_quote k @ '': '' @ f (Suc level)) (map (map_prod id (dumps_indented fl)) d)) @
       indent_at level @ ''}'')"

definition as_items :: "pyval \<Rightarrow> pydict py" where
  "as_items v = (case v of
     PDict d \<Rightarrow> Inr d
   | _ \<Rightarrow> Inl (AttributeError (repr_str (py_type v) @ '' object has no attribute '' @ repr_str ''items'')))"

definition converted_text :: "py_env \<Rightarrow> pyval \<Rightarrow> pyval \<Rightarrow> string py" where
  "converted_text E input_data target_format =
     (let txt = py_str (float_repr E)
      in if target_format = PStr ''csv''
      then bindE (as_items input_data) (\<lambda>d.
        Inr (join [CHR 0x0A] (''field,value'' # map (\<lambda>(k, v). k @ '','' @ txt v) d)))
      else if target_format = PStr ''xml''
      then bindE (as_items input_data) (\<lambda>d.
        Inr (''<processed_data>'' @ [CHR 0x0A] @
          join [CHR 0x0A] (map (\<lambda>(k, v). ''  <'' @ k @ ''>'' @ txt v @ ''</'' @ k @ ''>'') d) @
          [CHR 0x0A] @ ''</processed_data>''))
      else Inr (dumps_indented (float_repr E) input_data 0))"

definition handle_format_conversion :: "py_env \<Rightarrow> string \<Rightarrow> rat \<Rightarrow> pyval \<Rightarrow> pyval py" where
  "handle_format_conversion E worker_id now params_val =
     bindE (as_dict params_val) (\<lambda>params.
     let target_format = dget params ''target_format'' (PStr ''json'')
     in bindE (converted_text E (dget params ''input_data'' (PDict [])) target_format) (\<lambda>result.
        Inr (PDict [(''status'', PStr ''success''), (''converted_data'', PStr result), (''format'', target_format),
          (''byte_size'', PInt (int (length (utf8 result)))), (''converted_by'', PStr worker_id),
          (''timestamp'', PFloat now)])))"

section \<open>Validation\<close>

text \<open>The issues in their order, each with what it takes off the score.\<close>

definition quality_issues :: "py_env \<Rightarrow> pydict \<Rightarrow> (string \<times> rat) list py" where
  "quality_issues E data =
     (let records = dget data ''records_processed'' (PInt 0); trend = dget data ''trend'' (PStr [])
      in bindE (py_le (dget data ''avg_value'' (PInt 0)) (PInt 0)) (\<lambda>low_average.
         bindE (py_le (dget data ''total_revenue'' (PInt 0)) (PInt 0)) (\<lambda>low_total.
         Inr
          ((if \<not> truthy records \<or> py_eq records (PInt 0) then [(''records_processed is zero or missing'', 2 / 5)] else []) @
           (if low_average then [(''avg_value is non-positive'', 3 / 10)] else []) @
           (if low_total then [(''total_revenue is non-positive'', 1 / 5)] else []) @
           (if \<not> truthy (dget data ''csv_file'' PNone)
            then [(''no source csv_file recorded (possible hardcoded data)'', 1 / 10)] else []) @
           (if trend \<notin> {PStr ''increasing'', PStr ''stable'', PStr ''decreasing''}
            then [(''unexpected trend value: '' @ py_repr (float_repr E) trend, 1 / 20)] else [])))))"

definition quality_score :: "(string \<times> rat) list \<Rightarrow> rat" where
  "quality_score issues = max 0 (round2_rat (1 - sum_list (map snd issues)))"

definition handle_validate_quality :: "py_env \<Rightarrow> string \<Rightarrow> rat \<Rightarrow> pyval \<Rightarrow> pyval py" where
  "handle_validate_quality E validator_id now params_val =
     bindE (as_dict params_val) (\<lambda>params.
     bindE (as_dict (dget params ''data'' (PDict []))) (\<lambda>data.
     bindE (quality_issues E data) (\<lambda>issues.
     let score = quality_score issues; passed = (score \<ge> 4 / 5)
     in Inr (PDict [(''status'', PStr (if passed then ''success'' else ''failure'')), (''quality_score'', PFloat score),
          (''issues'', PList (map (\<lambda>(text, _). PStr text) issues)), (''passed'', PBool passed),
          (''records_checked'', dget data ''records_processed'' (PInt 0)), (''validated_by'', PStr validator_id),
          (''timestamp'', PFloat now)]))))"

section \<open>What the handlers do\<close>

text \<open>The quality gate passes exactly when the issues take off at most a fifth, rounded to cents.\<close>

lemma quality_score_bounds: "0 \<le> quality_score issues"
  by (simp add: quality_score_def)

lemma quality_score_max: "(\<And>i. i \<in> set issues \<Longrightarrow> 0 \<le> snd i) \<Longrightarrow> quality_score issues \<le> 1"
proof -
  assume nonneg: "\<And>i. i \<in> set issues \<Longrightarrow> 0 \<le> snd i"
  have "0 \<le> sum_list (map snd issues)" by (rule sum_list_nonneg) (use nonneg in auto)
  then have "round2_rat (1 - sum_list (map snd issues)) \<le> round2_rat 1" by (intro round2_rat_mono) simp
  moreover have "round2_rat 1 = 1" by (simp add: round2_rat_def round_half_even_def)
  ultimately show ?thesis by (simp add: quality_score_def)
qed

text \<open>
  The underscore that the file name needs is stripped off together with the others, so the file of a
  filtered period is never the one asked for and the first of the directory is read instead.
\<close>

lemma filtered_file_misnamed:
  "csv_name E (PStr ''Q1-2026'') ''US'' ''premium'' = ''sales_Q1-2026US_premium.csv''"
  by (simp add: csv_name_def strip_underscores_def)

end
