(* ===== verification/DemoNetwork.thy ===== *)
theory DemoNetwork
  imports DemoHandlers
begin

text \<open>
  \<^verbatim>\<open>demo/adn_demo.py\<close>: the four agents of the demonstration, their handlers and policies, and the workflow
  of four delegations. The agents are kept by role, so that the coordinator that delegates to itself is
  one object. Printing is not modelled, but what a message reads is, since it may raise.
\<close>

section \<open>The agents\<close>

type_synonym demo_agents = "(string \<times> network) list"

definition with_policy :: "(delegation_policy \<Rightarrow> delegation_policy) \<Rightarrow> network \<Rightarrow> network" where
  "with_policy f st = st\<lparr>nw_policy := f (nw_policy st)\<rparr>"

definition coordinator_policy :: "string \<Rightarrow> string \<Rightarrow> string \<Rightarrow> string \<Rightarrow> delegation_policy \<Rightarrow> delegation_policy" where
  "coordinator_policy coord_id w1_id w2_id val_id p =
     fold (add_trust_relationship coord_id) [w1_id, w2_id, val_id, coord_id]
       (fold (add_delegation_rule coord_id)
         [''PROCESS_DATA'', ''FORMAT_CONVERSION'', ''VALIDATE_QUALITY'', ''AGGREGATE_RESULTS''] p)"

definition member_policy :: "string \<Rightarrow> string \<Rightarrow> string \<Rightarrow> delegation_policy \<Rightarrow> delegation_policy" where
  "member_policy own action coord_id p = add_trust_relationship own coord_id (add_delegation_rule own action p)"

text \<open>\<open>uuid\<close> gives the fresh UUIDs, \<open>token\<close> the random private keys, \<open>stamp\<close> the clock in each handler.\<close>

definition setup_demo_environment ::
  "py_env \<Rightarrow> demo_data \<Rightarrow> nat \<Rightarrow> (nat \<Rightarrow> string) \<Rightarrow> (nat \<Rightarrow> string) \<Rightarrow> (nat \<Rightarrow> rat) \<Rightarrow> demo_agents py" where
  "setup_demo_environment E D pid uuid token stamp =
     bindE (create_agent E pid (uuid 0) (Some ''demo-coordinator'') None None) (\<lambda>coordinator.
     bindE (create_agent E pid (uuid 1) (Some ''demo-worker-1'') None (Some (token 0))) (\<lambda>worker1.
     bindE (create_agent E pid (uuid 2) (Some ''demo-worker-2'') None (Some (token 1))) (\<lambda>worker2.
     bindE (create_agent E pid (uuid 3) (Some ''demo-validator'') None (Some (token 2))) (\<lambda>validator.
     let coord_id = own_id coordinator; w1_id = own_id worker1; w2_id = own_id worker2; val_id = own_id validator
     in Inr
       [(''coordinator'',
          with_policy (coordinator_policy coord_id w1_id w2_id val_id)
            (register_task_handler ''AGGREGATE_RESULTS'' (Custom_handler (handle_aggregate_results (stamp 3))) coordinator)),
        (''worker1'',
          with_policy (member_policy w1_id ''PROCESS_DATA'' coord_id)
            (register_task_handler ''PROCESS_DATA'' (Custom_handler (handle_process_data E D w1_id (stamp 0))) worker1)),
        (''worker2'',
          with_policy (member_policy w2_id ''FORMAT_CONVERSION'' coord_id)
            (register_task_handler ''FORMAT_CONVERSION''
              (Custom_handler (handle_format_conversion E w2_id (stamp 1))) worker2)),
        (''validator'',
          with_policy (member_policy val_id ''VALIDATE_QUALITY'' coord_id)
            (register_task_handler ''VALIDATE_QUALITY''
              (Custom_handler (handle_validate_quality E val_id (stamp 2))) validator))]))))"

section \<open>One delegation\<close>

text \<open>What one step takes from outside: clock, UUIDs, execution token and the other transactions of the ledger.\<close>

record demo_inputs =
  di_clock :: "nat \<Rightarrow> rat"
  di_uuid :: "nat \<Rightarrow> string"
  di_token :: string
  di_between :: "ledger_op list"

definition reply_value :: "py_env \<Rightarrow> pydict \<Rightarrow> pyval py" where
  "reply_value E signed_result =
     bindE (as_dict (dget signed_result ''result_data'' (PDict []))) (\<lambda>result_data.
     if dget result_data ''status'' PNone = PStr ''FAILED''
     then Inl (RuntimeError (''Delegation failed: '' @
       py_str (float_repr E) (dget result_data ''error'' (PStr ''unknown error''))))
     else Inr (py_or (dget result_data ''result'' PNone) (PDict [])))"

definition delegate_and_execute ::
  "py_env \<Rightarrow> demo_inputs \<Rightarrow> demo_agents \<Rightarrow> ledger \<Rightarrow> string \<Rightarrow> string \<Rightarrow> string \<Rightarrow> string \<Rightarrow> pyval \<Rightarrow> pyval \<Rightarrow>
    pyval py \<times> demo_agents \<times> ledger" where
  "delegate_and_execute E i agents L delegator_role target_role action task_description parameters deadline =
     (case (map_of agents delegator_role, map_of agents target_role) of
        (Some delegator, Some target) \<Rightarrow>
          (case network_delegate_task E (di_clock i) (di_uuid i 0) (di_uuid i 1) delegator (own_id target) action
                  task_description parameters deadline PNone None of
             (Inl e, delegator') \<Rightarrow> (Inl e, dset delegator_role delegator' agents, L)
           | (Inr delegation_id, delegator') \<Rightarrow>
               let agents1 = dset delegator_role delegator' agents
               in (case bindE (case vget (nw_delegations delegator') delegation_id of
                         None \<Rightarrow> Inl (KeyError (py_repr (float_repr E) delegation_id))
                       | Some request \<Rightarrow> Inr request)
                     (\<lambda>request. request_to_action_request E (di_clock i 2) request (nw_identity delegator')) of
                     Inl e \<Rightarrow> (Inl e, agents1, L)
                   | Inr signed_request \<Rightarrow>
                       (case process_delegation_request E (\<lambda>k. di_clock i (3 + k)) (\<lambda>k. di_uuid i (2 + k)) (di_token i)
                               (di_between i) (if target_role = delegator_role then delegator' else target) L
                               signed_request None None None None of
                          (r, target', L') \<Rightarrow> (bindE r (reply_value E), dset target_role target' agents1, L'))))
      | (None, _) \<Rightarrow> (Inl (KeyError (repr_str delegator_role)), agents, L)
      | (_, None) \<Rightarrow> (Inl (KeyError (repr_str target_role)), agents, L))"

section \<open>The workflow\<close>

definition nested_get :: "pyval \<Rightarrow> string \<Rightarrow> pydict py" where
  "nested_get v k = bindE (as_dict v) (\<lambda>d. as_dict (dget d k (PDict [])))"

text \<open>The rate that the last message prints, when there are items.\<close>

definition success_rate :: "pydict \<Rightarrow> unit py" where
  "success_rate agg =
     (let total = dget agg ''total_items'' (PInt 0); successful = dget agg ''successful'' (PInt 0)
      in if \<not> truthy total then Inr ()
         else case (num_of successful, num_of total) of
           (Some _, Some _) \<Rightarrow> Inr ()
         | _ \<Rightarrow> Inl (operand_error ''/'' successful total))"

type_synonym demo_world = "demo_agents \<times> ledger"

definition demo_step ::
  "py_env \<Rightarrow> demo_inputs \<Rightarrow> pyval \<Rightarrow> string \<Rightarrow> string \<Rightarrow> string \<Rightarrow> pyval \<Rightarrow> (demo_world, pyval) action" where
  "demo_step E i deadline target_role action task_description parameters = (\<lambda>(agents, L).
     delegate_and_execute E i agents L ''coordinator'' target_role action task_description parameters deadline)"

definition process_parameters :: pyval where
  "process_parameters = PDict
     [(''data_source'', PStr ''sales_database_v2''), (''time_period'', PStr ''Q1-2026''),
      (''output_format'', PStr ''json''),
      (''filters'', PList [PStr ''region:US'', PStr ''product_type:premium''])]"

definition workflow_steps :: "py_env \<Rightarrow> (nat \<Rightarrow> demo_inputs) \<Rightarrow> pyval \<Rightarrow> (demo_world, unit) action" where
  "workflow_steps E inputs deadline =
     bindS (demo_step E (inputs 0) deadline ''worker1'' ''PROCESS_DATA'' ''Process Q1 2026 sales data from the database''
       process_parameters) (\<lambda>worker1_result.
     bindS (liftS (nested_get worker1_result ''processed_data'')) (\<lambda>processed.
     bindS (demo_step E (inputs 1) deadline ''worker2'' ''FORMAT_CONVERSION''
       ''Convert processed data to CSV format for reporting''
       (PDict [(''input_data'', PDict processed), (''target_format'', PStr ''csv'')])) (\<lambda>worker2_result.
     bindS (liftS (as_dict worker2_result)) (\<lambda>_.
     bindS (demo_step E (inputs 2) deadline ''validator'' ''VALIDATE_QUALITY''
       ''Validate quality of processed and formatted data''
       (PDict [(''data'', PDict processed), (''format_check'', worker2_result)])) (\<lambda>validator_result.
     bindS (liftS (bindE (as_dict validator_result) (\<lambda>vr. format2 (dget vr ''quality_score'' (PInt 0))))) (\<lambda>_.
     bindS (demo_step E (inputs 3) deadline ''coordinator'' ''AGGREGATE_RESULTS''
       ''Aggregate results from all processing steps''
       (PDict [(''results'', PList [worker1_result, worker2_result, validator_result])])) (\<lambda>coordinator_result.
     liftS (bindE (nested_get coordinator_result ''aggregated_result'') success_rate))))))))"

text \<open>\<open>now\<close> is read at the start; a step that raises ends the workflow with \<open>False\<close>.\<close>

definition run_data_processing_demo ::
  "py_env \<Rightarrow> (nat \<Rightarrow> demo_inputs) \<Rightarrow> rat \<Rightarrow> demo_agents \<Rightarrow> ledger \<Rightarrow> bool \<times> demo_agents \<times> ledger" where
  "run_data_processing_demo E inputs now agents L =
     (case workflow_steps E inputs (PFloat (now + 300)) (agents, L) of
        (Inl e, agents', L') \<Rightarrow> (False, agents', L')
      | (Inr _, agents', L') \<Rightarrow> (True, agents', L'))"

text \<open>What the closing reports read; times of the log are readings of the clock.\<close>

definition show_agent_statuses :: "py_env \<Rightarrow> demo_agents \<Rightarrow> unit py" where
  "show_agent_statuses E agents =
     bindE (mapE (\<lambda>(name, agent). get_agent_status E agent) agents) (\<lambda>_. Inr ())"

definition sliced :: "pyval \<Rightarrow> unit py" where
  "sliced v = (case v of PStr s \<Rightarrow> Inr () | PList xs \<Rightarrow> Inr () | _ \<Rightarrow> Inl (TypeError ''object is not subscriptable''))"

definition printed_event :: "pydict \<Rightarrow> unit py" where
  "printed_event entry =
     bindE (item entry ''timestamp'') (\<lambda>_.
     bindE (bindE (item entry ''type'') as_str) (\<lambda>_.
     bindE (mapE (\<lambda>k. sliced (dget entry k (PStr ''N/A''))) [''delegation_id'', ''from_agent'', ''to_agent'']) (\<lambda>_.
     Inr ())))"

definition show_audit_trail :: "demo_agents \<Rightarrow> unit py" where
  "show_audit_trail agents = (case map_of agents ''coordinator'' of
     None \<Rightarrow> Inl (KeyError (repr_str ''coordinator''))
   | Some coordinator \<Rightarrow>
       bindE (mapE printed_event (get_delegation_log coordinator (Some 10))) (\<lambda>_. Inr ()))"

text \<open>The exit code of the demonstration: 0 only after a completed workflow.\<close>

definition demo_main ::
  "py_env \<Rightarrow> demo_data \<Rightarrow> nat \<Rightarrow> (nat \<Rightarrow> string) \<Rightarrow> (nat \<Rightarrow> string) \<Rightarrow> (nat \<Rightarrow> rat) \<Rightarrow> (nat \<Rightarrow> demo_inputs) \<Rightarrow> rat \<Rightarrow>
    ledger \<Rightarrow> int \<times> ledger" where
  "demo_main E D pid uuid token stamp inputs now L =
     (case setup_demo_environment E D pid uuid token stamp of
        Inl e \<Rightarrow> (1, L)
      | Inr agents \<Rightarrow>
          (case run_data_processing_demo E inputs now agents L of
             (False, agents', L') \<Rightarrow> (1, L')
           | (True, agents', L') \<Rightarrow>
               (case bindE (show_agent_statuses E agents') (\<lambda>_. show_audit_trail agents') of
                  Inl e \<Rightarrow> (1, L')
                | Inr _ \<Rightarrow> (0, L'))))"

end
