(* ===== verification/DemoTheorems.thy ===== *)
theory DemoTheorems
  imports DemoNetwork NetworkTypes
begin

text \<open>
  What the demonstration of the delegation network does: its policies deny the first delegation, so the
  workflow never completes.
\<close>

section \<open>The policy of the coordinator\<close>

lemma members_add_member [simp]:
  "members (add_member k v d) k' = (if k' = k then set_add (PStr v) (members d k) else members d k')"
  by (simp add: add_member_def members_def)

lemma members_coordinator_policy:
  "agent \<noteq> coord_id \<Longrightarrow>
    members (po_rules (coordinator_policy coord_id w1_id w2_id val_id p)) agent = members (po_rules p) agent"
  by (simp add: coordinator_policy_def add_delegation_rule_def add_trust_relationship_def)

text \<open>A delegation to an agent without rules in the delegator's own policy changes nothing and raises.\<close>

lemma delegation_to_unlisted_agent:
  assumes "members (po_rules (nw_policy st)) to_agent_id = []"
  shows "\<exists>e. network_delegate_task E clk uuid0 uuid1 st to_agent_id action task_description parameters deadline
    required_capabilities tee_authorization = (Inl e, st)"
proof (cases "create_delegation_request E (clk 0) uuid0 uuid1 (nw_identity st) to_agent_id action
    task_description parameters deadline required_capabilities tee_authorization")
  case (Inr request)
  let ?evaluated = "evaluate_delegation_request E (nw_policy st) request (PStr (own_id st)) (PStr to_agent_id)"
  obtain m where perform: "can_perform_task E (nw_policy st) (PStr to_agent_id) (dr_action request) = Inr (False, m)"
    using assms by (simp add: can_perform_task_def lookup_set_def Let_def)
  have "(\<exists>e. ?evaluated = Inl e) \<or> (\<exists>m. ?evaluated = Inr (False, m))"
  proof (cases "can_delegate E (nw_policy st) (PStr (own_id st)) (PStr to_agent_id) (dr_action request)")
    case answer: (Inr answer)
    then show ?thesis by (cases answer) (simp add: evaluate_delegation_request_def perform)
  qed (simp add: evaluate_delegation_request_def)
  then show ?thesis using Inr by (auto simp: network_delegate_task_def)
qed (simp add: network_delegate_task_def)

lemma demo_agent_simps [simp]:
  "nw_policy (with_policy f st) = f (nw_policy st)" "own_id (with_policy f st) = own_id st"
  "nw_policy (register_task_handler a h st) = nw_policy st" "own_id (register_task_handler a h st) = own_id st"
  by (simp_all add: with_policy_def register_task_handler_def own_id_def)

lemma created_agent_policy:
  assumes "create_agent E pid u name None key = Inr st"
  shows "nw_policy st = create_delegation_policy E None"
proof -
  obtain identity where "Inr \<lparr>nw_agent_id = take 8 u, nw_agent_name = str_or (opt_str name) (''adn-agent-'' @ take 8 u),
      nw_identity = identity, nw_delegations = [], nw_results = [], nw_task_handlers = builtin_handlers,
      nw_delegation_log = [], nw_policy = create_delegation_policy E None\<rparr> = (Inr st :: network py)"
    using assms unfolding create_agent_def Let_def bindE_eq_Inr by auto
  then have "st = \<lparr>nw_agent_id = take 8 u, nw_agent_name = str_or (opt_str name) (''adn-agent-'' @ take 8 u),
      nw_identity = identity, nw_delegations = [], nw_results = [], nw_task_handlers = builtin_handlers,
      nw_delegation_log = [], nw_policy = create_delegation_policy E None\<rparr>" by simp
  then show ?thesis by simp
qed

lemma demo_agents:
  assumes "setup_demo_environment E D pid uuid token stamp = Inr agents"
  shows "\<exists>coordinator worker1 others. agents = (''coordinator'', coordinator) # (''worker1'', worker1) # others \<and>
    (own_id worker1 \<noteq> own_id coordinator \<longrightarrow>
       members (po_rules (nw_policy coordinator)) (own_id worker1) =
       members (po_rules (create_delegation_policy E None)) (own_id worker1))"
proof -
  obtain c w1 w2 v where made: "create_agent E pid (uuid 0) (Some ''demo-coordinator'') None None = Inr c"
    and agents: "agents =
       [(''coordinator'', with_policy (coordinator_policy (own_id c) (own_id w1) (own_id w2) (own_id v))
            (register_task_handler ''AGGREGATE_RESULTS'' (Custom_handler (handle_aggregate_results (stamp 3))) c)),
        (''worker1'', with_policy (member_policy (own_id w1) ''PROCESS_DATA'' (own_id c))
            (register_task_handler ''PROCESS_DATA'' (Custom_handler (handle_process_data E D (own_id w1) (stamp 0))) w1)),
        (''worker2'', with_policy (member_policy (own_id w2) ''FORMAT_CONVERSION'' (own_id c))
            (register_task_handler ''FORMAT_CONVERSION'' (Custom_handler (handle_format_conversion E (own_id w2) (stamp 1))) w2)),
        (''validator'', with_policy (member_policy (own_id v) ''VALIDATE_QUALITY'' (own_id c))
            (register_task_handler ''VALIDATE_QUALITY'' (Custom_handler (handle_validate_quality E (own_id v) (stamp 2))) v))]"
    using assms unfolding setup_demo_environment_def Let_def bindE_eq_Inr
    by (elim exE conjE) (drule sum.inject(2) [THEN iffD1], rule that, assumption, rule sym)
  show ?thesis unfolding agents by (simp add: members_coordinator_policy created_agent_policy [OF made])
qed

lemma setup_of_created:
  assumes "create_agent E pid (uuid 0) (Some ''demo-coordinator'') None None = Inr c"
    and "create_agent E pid (uuid 1) (Some ''demo-worker-1'') None (Some (token 0)) = Inr w1"
    and "create_agent E pid (uuid 2) (Some ''demo-worker-2'') None (Some (token 1)) = Inr w2"
    and "create_agent E pid (uuid 3) (Some ''demo-validator'') None (Some (token 2)) = Inr v"
  shows "\<exists>agents coordinator worker1. setup_demo_environment E D pid uuid token stamp = Inr agents
    \<and> map_of agents ''coordinator'' = Some coordinator \<and> own_id coordinator = own_id c
    \<and> map_of agents ''worker1'' = Some worker1 \<and> own_id worker1 = own_id w1"
  unfolding setup_demo_environment_def assms Let_def by simp

text \<open>Reading the reply of a worker raises nothing but the failure that the worker reports.\<close>

lemma conforming_reply_read:
  assumes "reply_conforms me reply"
  shows "(\<exists>v. reply_value E reply = Inr v) \<or> (\<exists>m. reply_value E reply = Inl (RuntimeError m))"
proof -
  obtain d where "dget reply ''result_data'' PNone = PDict d" using assms unfolding reply_conforms_def by blast
  then have "dget reply ''result_data'' (PDict []) = PDict d" by (simp add: dget_def split: option.splits)
  then show ?thesis by (cases "dget d ''status'' PNone = PStr ''FAILED''") (simp_all add: reply_value_def as_dict_def)
qed

section \<open>Property\<close>

text \<open>
  C29. The demonstration always fails. If the first worker's id is not the coordinator's and the default
  policy file lists no actions for it, the coordinator's own policy denies the first delegation: the
  workflow answers \<open>False\<close> and changes neither the agents nor the ledger, and the exit code is 1.
\<close>

theorem demo_never_completes:
  assumes "setup_demo_environment E D pid uuid token stamp = Inr agents"
    and "map_of agents ''coordinator'' = Some coordinator" and "map_of agents ''worker1'' = Some worker1"
    and "own_id worker1 \<noteq> own_id coordinator"
    and "members (po_rules (create_delegation_policy E None)) (own_id worker1) = []"
  shows "run_data_processing_demo E inputs now agents L = (False, agents, L)
    \<and> demo_main E D pid uuid token stamp inputs now L = (1, L)"
proof -
  obtain others where agents: "agents = (''coordinator'', coordinator) # (''worker1'', worker1) # others"
    and none: "members (po_rules (nw_policy coordinator)) (own_id worker1) = []"
    using demo_agents [OF assms(1)] assms(2-5) by auto
  obtain e where "network_delegate_task E (di_clock (inputs 0)) (di_uuid (inputs 0) 0) (di_uuid (inputs 0) 1) coordinator
      (own_id worker1) ''PROCESS_DATA'' ''Process Q1 2026 sales data from the database'' process_parameters
      (PFloat (now + 300)) PNone None = (Inl e, coordinator)"
    using delegation_to_unlisted_agent [OF none] by blast
  then have "demo_step E (inputs 0) (PFloat (now + 300)) ''worker1'' ''PROCESS_DATA''
      ''Process Q1 2026 sales data from the database'' process_parameters (agents, L) = (Inl e, agents, L)"
    by (simp add: demo_step_def delegate_and_execute_def agents)
  then have "run_data_processing_demo E inputs now agents L = (False, agents, L)"
    by (simp add: run_data_processing_demo_def workflow_steps_def bindS_def)
  then show ?thesis using assms(1) by (simp add: demo_main_def)
qed

definition demo_env :: py_env where
  "demo_env = (sample_env ''test'')
     \<lparr>getenv := \<lambda>v. if v = ''T3_MOCK'' then Some ''true'' else sample_variables ''test'' v,
      sha256_hex := \<lambda>b. if last b = CHR ''w'' then ''worker-id'' else ''other-id'', ed25519_public := \<lambda>k. k\<rparr>"

definition demo_token :: "nat \<Rightarrow> string" where
  "demo_token i = to_hex (replicate 32 (if i = 0 then CHR ''w'' else CHR ''v''))"

definition no_data :: demo_data where
  "no_data = \<lparr>dd_candidates = [], dd_exists = \<lambda>name. False, dd_rows = \<lambda>name. Inr []\<rparr>"

definition idle_inputs :: demo_inputs where
  "idle_inputs = \<lparr>di_clock = \<lambda>i. 1000, di_uuid = \<lambda>i. ''u'', di_token = ''t'', di_between = []\<rparr>"

lemma demo_created:
  "\<exists>c. create_agent demo_env 1 u (Some name) None None = Inr c \<and> own_id c = ''other-id''"
proof -
  have "is_mock demo_env" "load_private_key demo_env = Inl (ValueError ''T3N_API_KEY not set'')"
    "key_fingerprint demo_env MOCK_PUBLIC_KEY_HEX = Inr ''other-id''"
    by code_simp+
  then show ?thesis
    by (simp add: create_agent_def create_agent_identity_def load_identity_def own_id_def Let_def)
qed

lemma demo_created_ephemeral:
  "\<exists>a. create_agent demo_env 1 u (Some name) None (Some (demo_token i)) = Inr a \<and>
    own_id a = (if i = 0 then ''worker-id'' else ''other-id'')"
proof -
  have "demo_token i \<noteq> []" by (simp add: demo_token_def to_hex_def hex2_def)
  then show ?thesis
    by (simp add: create_agent_def create_agent_identity_def load_identity_def own_id_def Let_def ephemeral_identity_def
        bytes_fromhex_def demo_token_def from_private_bytes_def key_fingerprint_def demo_env_def)
qed

theorem demo_never_completes_witness:
  "\<exists>agents. setup_demo_environment demo_env no_data 1 (\<lambda>i. ''u'') demo_token (\<lambda>i. 1000) = Inr agents \<and>
    run_data_processing_demo demo_env (\<lambda>i. idle_inputs) 1000 agents Map.empty = (False, agents, Map.empty)"
proof -
  obtain c where c: "create_agent demo_env 1 ''u'' (Some ''demo-coordinator'') None None = Inr c" "own_id c = ''other-id''"
    using demo_created by blast
  obtain w where w: "create_agent demo_env 1 ''u'' (Some ''demo-worker-1'') None (Some (demo_token 0)) = Inr w"
      "own_id w = ''worker-id''"
    using demo_created_ephemeral [of "''u''" "''demo-worker-1''" 0] by auto
  obtain w2 where w2: "create_agent demo_env 1 ''u'' (Some ''demo-worker-2'') None (Some (demo_token 1)) = Inr w2"
    using demo_created_ephemeral by blast
  obtain v where v: "create_agent demo_env 1 ''u'' (Some ''demo-validator'') None (Some (demo_token 2)) = Inr v"
    using demo_created_ephemeral by blast
  have policy: "create_delegation_policy demo_env None = default_policy"
    by (simp add: create_delegation_policy_def load_policy_def demo_env_def sample_files_def)
  obtain agents coordinator worker1 where
    agents: "setup_demo_environment demo_env no_data 1 (\<lambda>i. ''u'') demo_token (\<lambda>i. 1000) = Inr agents"
      "map_of agents ''coordinator'' = Some coordinator" "map_of agents ''worker1'' = Some worker1"
    and ids: "own_id coordinator = own_id c" "own_id worker1 = own_id w"
    using setup_of_created [where uuid = "\<lambda>i. ''u''" and token = demo_token, OF c(1) w(1) w2 v] by blast
  have "members (po_rules (create_delegation_policy demo_env None)) (own_id worker1) = []"
    by (simp add: policy default_policy_def members_def)
  from demo_never_completes [OF agents _ this] show ?thesis using agents(1) ids c(2) w(2) by simp
qed

end
