(* ===== verification/Narrator.thy ===== *)
theory Narrator
  imports PyOps
begin

text \<open>
  \<^verbatim>\<open>host_agent.py\<close>: the narrator that reads the output of the demonstration line by line, asks the language
  model to narrate the lines it recognises and speaks the answer. The model call is a parameter, the
  speech queue is the list of what is said. Em dashes of the prompts are written as hyphens.
\<close>

section \<open>Asking for a narration\<close>

record narration_request =
  nr_model :: string
  nr_max_tokens :: int
  nr_system :: string
  nr_content :: string

text \<open>The texts of the content blocks of the answer, or the exception of the call.\<close>

type_synonym claude = "narration_request \<Rightarrow> string list py"

datatype utterance =
    Spoken string
  | Printed_error string

abbreviation newline :: string where
  "newline \<equiv> [CHR 0x0A]"

definition SYSTEM :: string where
  "SYSTEM = join newline
    [''You are the live video narrator for an Agent Delegation Network demo running against'',
     ''the Terminal 3 blockchain testnet. You narrate each phase as it happens - clear, confident,'',
     ''technical but not dense. You are the VOICE of this demo.'',
     '''',
     ''Rules:'',
     ''- 2-4 sentences max per narration. Short and punchy.'',
     ''- No filler words. No \"okay\" or \"so\". Just explain what happened and why it matters.'',
     ''- When you see REJECTED lines, emphasize these are REAL HTTP 400s from the live T3N server.'',
     ''- When you see _in_tee: true fields, call them TEE attestation fields - proof the computation ran in the enclave.'',
     ''- Speak in present tense as events happen.'',
     ''- Do NOT say \"I\" - you are a narrator, not a participant.'',
     ''- Output ONLY the narration text. No markdown, no labels, no quotes.'']"

definition narration_request_of :: "string \<Rightarrow> string \<Rightarrow> narration_request" where
  "narration_request_of event_label raw_lines =
     \<lparr>nr_model = ''claude-haiku-4-5-20251001'', nr_max_tokens = 120, nr_system = SYSTEM,
      nr_content = ''EVENT: '' @ event_label @ newline @ newline @ ''RAW OUTPUT:'' @ newline @ raw_lines
        @ newline @ newline @ ''Narrate this moment.''\<rparr>"

definition narrate :: "claude \<Rightarrow> string \<Rightarrow> string \<Rightarrow> utterance" where
  "narrate ask event_label raw_lines =
     (case ask (narration_request_of event_label raw_lines) of
        Inl e \<Rightarrow> Printed_error (exc_message e)
      | Inr [] \<Rightarrow> Printed_error ''list index out of range''
      | Inr (first # _) \<Rightarrow> Spoken (py_strip first))"

section \<open>The state and the lines it reacts to\<close>

record narrator =
  na_phase :: "int option"
  na_wit_count :: int
  na_neg_lines :: "string list"
  na_intro_done :: bool

definition narrator_start :: narrator where
  "narrator_start = \<lparr>na_phase = None, na_wit_count = 0, na_neg_lines = [], na_intro_done = False\<rparr>"

definition WIT_NAMES :: "string list" where
  "WIT_NAMES = [''delegate-task'', ''submit-bid'', ''resolve-auction'', ''record-completion'',
     ''get-reputation'', ''send-personalized-outreach'', ''issue-time-grant'',
     ''check-grant'', ''kyc-submit-step'', ''kyc-get-status'', ''store-secret'',
     ''invoke-with-secret'', ''cast-vote'', ''tally-votes'', ''log-decision'',
     ''audit-decisions'', ''lock-bond'', ''verify-and-settle'']"

text \<open>What a line is answered with: a moment to narrate (label and raw text), a fixed sentence, or nothing.\<close>

datatype cue =
    Moment string string
  | Sentence string
  | Nothing

definition negative_test :: "string \<Rightarrow> bool" where
  "negative_test line \<longleftrightarrow> contains line ''missing agent_sig'' \<or> contains line ''short nonce''
     \<or> contains line ''no envelope at all''"

definition wit_reported :: "string \<Rightarrow> string option" where
  "wit_reported line = List.find (\<lambda>fn. contains line (''[+] '' @ fn @ '':'')) WIT_NAMES"

text \<open>The lines after the count of the exported functions.\<close>

definition closing_cue :: "string \<Rightarrow> cue" where
  "closing_cue line =
     (if contains line ''All 20 WIT exports invoked'' then Moment ''All 20 WIT exports complete'' line
      else if contains line ''BUILT + SIGNED + ENFORCED''
      then Moment ''Agent Auth summary line - enforced means all assertions passed'' line
      else if contains line ''20/20 WIT functions''
      then Moment ''Final summary - 20 of 20 WIT functions, live T3N testnet run'' line
      else if contains line ''FATAL:'' then Sentence ''Hard failure detected. Check the terminal output.''
      else Nothing)"

text \<open>The lines of the phases 2 to 4.\<close>

definition later_cue :: "string \<Rightarrow> narrator \<Rightarrow> cue \<times> narrator" where
  "later_cue line s =
     (if contains line ''[Phase 2]''
      then (Moment ''Phase 2 starting - Python multi-agent delegation network'' line, s\<lparr>na_phase := Some 2\<rparr>)
      else if contains line ''Session DID injected correctly''
      then (Moment ''Phase 2 complete - DID binding confirmed'' line, s)
      else if contains line ''[Phase 3]''
      then (Moment ''Phase 3 starting - Rust/WASM TEE contract v3.8.1'' line, s\<lparr>na_phase := Some 3\<rparr>)
      else if contains line ''processed_in_tee: true''
      then (Moment ''TEE computation complete - attestation field confirmed'' line, s)
      else if contains line ''validated_in_tee: true''
      then (Moment ''Quality validation complete inside TEE'' line, s)
      else if contains line ''correctly rejected empty records''
      then (Moment ''TEE rejected empty records input - contract-layer validation'' line, s)
      else if contains line ''[Phase 4]''
      then (Moment ''Phase 4 starting - all 20 WIT exports against live T3N TEE'' line,
            s\<lparr>na_phase := Some 4, na_wit_count := 0\<rparr>)
      else if contains line ''waiting 65s'' \<or> contains line ''fuel window reset''
      then (Moment ''Fuel window reset - testnet throttle limit, 65 second wait'' line, s)
      else case (if na_phase s = Some 4 \<and> contains line ''[+]'' then wit_reported line else None) of
          Some fn \<Rightarrow>
            let n = na_wit_count s + 1
            in (Moment (''WIT function '' @ int_text n @ '' of 18: '' @ fn)
                  (''Function: '' @ fn @ newline @ ''Output: '' @ py_strip line),
                s\<lparr>na_wit_count := n\<rparr>)
        | None \<Rightarrow> (closing_cue line, s))"

definition handle :: "string \<Rightarrow> narrator \<Rightarrow> cue \<times> narrator" where
  "handle line s =
     (if contains line ''88b7b88'' \<and> \<not> na_intro_done s
      then (Moment ''Demo start / commit binding'' line, s\<lparr>na_intro_done := True\<rparr>)
      else if contains line ''[Phase 1]''
      then (Moment ''Phase 1 starting - T3N authentication'' line, s\<lparr>na_phase := Some 1\<rparr>)
      else if contains line ''Authenticated DID''
      then (Moment ''Live DID received from T3N handshake API'' line, s)
      else if contains line ''[Phase 0]''
      then (Moment ''Phase 0 starting - Agent Auth SDK credential lifecycle'' line,
            s\<lparr>na_phase := Some 0, na_neg_lines := []\<rparr>)
      else if contains line ''credential built''
      then (Moment ''Delegation credential built - vc_id is fresh random bytes this run'' line, s)
      else if contains line ''pre-revocation call:''
      then (Moment ''Pre-revocation delegated call result'' line, s)
      else if contains line ''revocation: SUCCESS''
      then (Moment ''Credential revoked - 35 second sleep starting for TTL expiry'' line, s)
      else if contains line ''post-revocation call:''
      then (Moment ''Post-expiry delegated call result - TEE clock check fired'' line, s)
      else if negative_test line
      then (let seen = na_neg_lines s @ [py_strip line]
            in (if length seen = 3
                then Moment ''C-01 negative envelope tests - all three results from live T3N server'' (join newline seen)
                else Nothing, s\<lparr>na_neg_lines := seen\<rparr>))
      else later_cue line s)"

section \<open>The session\<close>

fun utter :: "claude \<Rightarrow> cue \<Rightarrow> utterance list" where
  "utter ask (Moment label raw) = [narrate ask label raw]"
| "utter ask (Sentence t) = [Spoken t]"
| "utter ask Nothing = []"

fun handle_lines :: "string list \<Rightarrow> narrator \<Rightarrow> cue list \<times> narrator" where
  "handle_lines [] s = ([], s)"
| "handle_lines (raw # rest) s =
     (let line = py_rstrip raw;
          (c, s1) = (if line \<noteq> [] then handle line s else (Nothing, s));
          (cs, s2) = handle_lines rest s1
      in (c # cs, s2))"

text \<open>The whole session: \<open>ask i\<close> is what the model answers while the line \<open>i\<close> is handled.\<close>

definition narrator_main :: "(nat \<Rightarrow> claude) \<Rightarrow> string list \<Rightarrow> utterance list" where
  "narrator_main ask input =
     Spoken ''Agent Delegation Network narrator online. Waiting for demo output.''
     # concat (map (\<lambda>(i, c). utter (ask i) c) (List.enumerate 0 (fst (handle_lines input narrator_start))))"

section \<open>What the narrator does\<close>

text \<open>The start of the demonstration is announced at most once.\<close>

definition announces_start :: "cue \<Rightarrow> bool" where
  "announces_start c \<longleftrightarrow> (case c of Moment label _ \<Rightarrow> label = ''Demo start / commit binding'' | _ \<Rightarrow> False)"

lemma closing_starts: "\<not> announces_start (closing_cue line)"
  by (simp add: closing_cue_def announces_start_def)

lemma later_starts: "\<not> announces_start (fst (later_cue line s)) \<and> na_intro_done (snd (later_cue line s)) = na_intro_done s"
  by (simp add: later_cue_def announces_start_def closing_starts [unfolded announces_start_def] Let_def split: option.split)

lemma handle_starts:
  "(announces_start (fst (handle line s)) \<longrightarrow> \<not> na_intro_done s \<and> na_intro_done (snd (handle line s)))
   \<and> (na_intro_done s \<longrightarrow> na_intro_done (snd (handle line s)))"
  using later_starts [of line s] by (simp add: handle_def announces_start_def Let_def)

lemma started_stays_quiet:
  "na_intro_done s \<Longrightarrow> filter announces_start (fst (handle_lines input s)) = []"
proof (induction input arbitrary: s)
  case (Cons raw rest)
  obtain c s1 where step: "(if py_rstrip raw \<noteq> [] then handle (py_rstrip raw) s else (Nothing, s)) = (c, s1)"
    by fastforce
  then have "\<not> announces_start c" "na_intro_done s1"
    using Cons.prems handle_starts [of "py_rstrip raw" s] by (auto simp: announces_start_def split: if_splits)
  then show ?case using Cons.IH [of s1] step by (simp add: Let_def split_beta)
qed simp

lemma start_announced_once: "length (filter announces_start (fst (handle_lines input s))) \<le> 1"
proof (induction input arbitrary: s)
  case (Cons raw rest)
  obtain c s1 where step: "(if py_rstrip raw \<noteq> [] then handle (py_rstrip raw) s else (Nothing, s)) = (c, s1)"
    by fastforce
  show ?case
  proof (cases "announces_start c")
    case True
    then have "na_intro_done s1"
      using step handle_starts [of "py_rstrip raw" s] by (auto simp: announces_start_def split: if_splits)
    then show ?thesis using step started_stays_quiet [of s1 rest] by (simp add: Let_def split_beta)
  qed (use Cons.IH [of s1] step in \<open>simp add: Let_def split_beta\<close>)
qed simp

text \<open>
  The count of the reported functions is not bounded by the eighteen names: a function that is reported
  again is counted again.
\<close>

definition report :: string where
  "report = ''[+] cast-vote: ok''"

lemma reported_again:
  assumes "na_phase s = Some 4"
  shows "handle report s = (Moment (''WIT function '' @ int_text (na_wit_count s + 1) @ '' of 18: '' @ ''cast-vote'')
    (''Function: '' @ ''cast-vote'' @ newline @ ''Output: '' @ report), s\<lparr>na_wit_count := na_wit_count s + 1\<rparr>)"
proof -
  have "wit_reported report = Some ''cast-vote''" "py_strip report = report" "contains report ''[+]''"
    "\<not> negative_test report" "\<not> contains report ''88b7b88''"
    "\<forall>w \<in> set [''[Phase 1]'', ''Authenticated DID'', ''[Phase 0]'', ''credential built'', ''pre-revocation call:'',
      ''revocation: SUCCESS'', ''post-revocation call:'', ''[Phase 2]'', ''Session DID injected correctly'', ''[Phase 3]'',
      ''processed_in_tee: true'', ''validated_in_tee: true'', ''correctly rejected empty records'', ''[Phase 4]'',
      ''waiting 65s'', ''fuel window reset'']. \<not> contains report w"
    by code_simp+
  then show ?thesis using assms unfolding handle_def later_cue_def Let_def
    by (simp only: list.set ball_simps simp_thms if_False if_True option.case)
qed

lemma reports_counted:
  "na_phase s = Some 4 \<Longrightarrow> na_wit_count (snd (handle_lines (replicate n report) s)) = na_wit_count s + int n"
proof (induction n arbitrary: s)
  case (Suc n)
  have "py_rstrip report = report \<and> report \<noteq> []" by code_simp
  with Suc show ?case by (simp add: reported_again Let_def split_beta)
qed simp

end
