(* ===== verification/Spec2Isabelle.thy ===== *)
theory Spec2Isabelle
  imports PolicyTheorems ReceiptTheorems EdgeTheorems NetworkTypes AssetTheorems RemoteTheorems GateTheorems
    ReadmeGate FeatureTheorems FeatureDemo WorkerTheorems DemoTheorems Narrator
begin

text \<open>
  This library models the Python code of the agent delegation network: agents that sign action
  requests with Ed25519 keys, delegate tasks to each other under a default-deny policy, carry receipts
  of a TEE gateway, execute each delegation at most a bounded number of times behind a replay ledger
  kept in SQLite, and verify the signed results; with the tools that verify a release of it, the feature
  agents built on the TEE's functions, the process that holds the workers' keys, and the demonstrations
  with their narrator.

  \<^bold>\<open>How the parts interact.\<close> A coordinator creates and signs a delegation request (protocol over the
  signing adapter), has the gateway route it and attaches the gateway's receipt. The worker's handler
  admits it (validation of the envelope, the addressee, the expiry, the receipt and the policy), reserves
  its execution in the ledger, runs the handler of the action with heartbeats of its lease, finalizes the
  ledger row and signs the result. The coordinator verifies the result against what it expects and
  consumes it in the ledger, so that it cannot be replayed. Execution receipts and release manifests
  record runs and releases; their verifiers recompute digests and check signatures, locally, against GitHub's
  answers and on the assets of a tagged release. The release gate checks the repository itself before a release.

  \<^bold>\<open>Theories, in the order of their imports.\<close>
  \<^item> \<^verbatim>\<open>Prelude\<close>: errors as values (\<open>py_error\<close>, \<open>'a py\<close> with \<open>bindE\<close>, \<open>mapE\<close>), insertion-ordered dictionaries,
    list lemmas. \<^verbatim>\<open>PyText\<close>, \<^verbatim>\<open>PyValue\<close>, \<^verbatim>\<open>PySets\<close>, \<^verbatim>\<open>PyOps\<close>: the language's strings, bytes, values, equality,
    sets, operators and exceptions, and the actions of an object.
  \<^item> \<^verbatim>\<open>CanonicalJson\<close>, \<^verbatim>\<open>JsonEncoders\<close>: the canonical JSON texts (\<open>_canonical\<close>, \<open>canonical_json\<close>). The locales
    about quoting and escaping say when a text determines its value up to key order; they are
    interpreted on both encoders and on the pair of them.
  \<^item> \<^verbatim>\<open>Runtime\<close> (\<^verbatim>\<open>runtime_security.py\<close> and the process environment), \<^verbatim>\<open>AuthAdapter\<close>
    (\<^verbatim>\<open>terminal3_agent_auth_adapter.py\<close>), \<^verbatim>\<open>Identity\<close> (\<^verbatim>\<open>agent_identity.py\<close>), \<^verbatim>\<open>TeeAuthorization\<close>
    (\<^verbatim>\<open>tee_authorization.py\<close>).
  \<^item> \<^verbatim>\<open>ReplayLedger\<close>, \<^verbatim>\<open>LedgerConfig\<close> (\<^verbatim>\<open>replay_ledger.py\<close>: transactions on the rows; key files and opening
    of the database), \<^verbatim>\<open>LedgerLaws\<close>, \<^verbatim>\<open>LedgerReach\<close>, \<^verbatim>\<open>LedgerSafety\<close>: each transaction on every branch, the
    reachable tables of any interleaving, and the bounds on executions.
  \<^item> \<^verbatim>\<open>Protocol\<close>, \<^verbatim>\<open>ProtocolLaws\<close> (\<^verbatim>\<open>delegation_protocol.py\<close>), \<^verbatim>\<open>Policy\<close>, \<^verbatim>\<open>PolicyLaws\<close>, \<^verbatim>\<open>PolicyTheorems\<close>
    (\<^verbatim>\<open>delegation_policy.py\<close>), \<^verbatim>\<open>ResultVerifier\<close>, \<^verbatim>\<open>ResultLaws\<close> (\<^verbatim>\<open>result_verifier.py\<close>), \<^verbatim>\<open>ExecutionReceipt\<close>,
    \<^verbatim>\<open>ReceiptLaws\<close>, \<^verbatim>\<open>ReceiptTheorems\<close> (\<^verbatim>\<open>execution_receipt.py\<close>).
  \<^item> \<^verbatim>\<open>Network\<close>, \<^verbatim>\<open>NetworkLaws\<close> (\<^verbatim>\<open>agent_delegation_network.py\<close>): the worker's handler and the coordinator's
    side. \<^verbatim>\<open>SampleData\<close>: the concrete process, agents and requests of the witnesses. \<^verbatim>\<open>NetworkTypes\<close>: the
    shape of an agent's tables and replies. \<^verbatim>\<open>EdgeTheorems\<close>: behaviours at the edges that the code allows.
  \<^item> \<^verbatim>\<open>ReleaseVerifier\<close>, \<^verbatim>\<open>ManifestValidator\<close>, \<^verbatim>\<open>ReleaseLaws\<close>, \<^verbatim>\<open>ReleaseTheorems\<close>
    (\<^verbatim>\<open>scripts/verify_release.py\<close>, \<^verbatim>\<open>scripts/validate_manifest.py\<close>). \<^verbatim>\<open>Archives\<close>, \<^verbatim>\<open>ReleaseAsset\<close>,
    \<^verbatim>\<open>ReleaseAssetLaws\<close>, \<^verbatim>\<open>AssetTheorems\<close> (\<^verbatim>\<open>verify_release_asset.py\<close>); \<^verbatim>\<open>ReleaseRemote\<close>, \<^verbatim>\<open>ReleaseAssetRemote\<close>,
    \<^verbatim>\<open>ReleaseRemoteLaws\<close>, \<^verbatim>\<open>RemoteTheorems\<close> (\<^verbatim>\<open>verify_release_remote.py\<close>, \<^verbatim>\<open>verify_release_asset_remote.py\<close>).
  \<^item> \<^verbatim>\<open>TextSearch\<close> (the scripts' regular expressions as searches written out), \<^verbatim>\<open>ReleaseGate\<close>, \<^verbatim>\<open>ReleaseGateLaws\<close>,
    \<^verbatim>\<open>GateTheorems\<close> (\<^verbatim>\<open>release_gate.py\<close>), \<^verbatim>\<open>ReadmeGate\<close> (\<^verbatim>\<open>check_readme_claims.py\<close>).
  \<^item> \<^verbatim>\<open>HttpClients\<close> (\<^verbatim>\<open>terminal3_api_client.py\<close>, \<^verbatim>\<open>llm/client.py\<close>), \<^verbatim>\<open>TeeStub\<close> (\<open>_tee_stub\<close> of
    \<^verbatim>\<open>demo/features_demo.py\<close>), \<^verbatim>\<open>FeatureAgents\<close>, \<^verbatim>\<open>FeatureServices\<close> (the ten feature modules of \<^verbatim>\<open>src/\<close>),
    \<^verbatim>\<open>FeatureLaws\<close>, \<^verbatim>\<open>FeatureTheorems\<close>: the interfaces the agents rely on (KYC, voting and escrow services)
    as locales, interpreted on \<open>tee_stub\<close>. \<^verbatim>\<open>FeatureDemo\<close>: the ten phases of \<^verbatim>\<open>demo/features_demo.py\<close>.
  \<^item> \<^verbatim>\<open>WorkerExecutor\<close>, \<^verbatim>\<open>WorkerTheorems\<close> (\<^verbatim>\<open>adn/worker_executor.py\<close>).
  \<^item> \<^verbatim>\<open>DemoHandlers\<close>, \<^verbatim>\<open>DemoNetwork\<close>, \<^verbatim>\<open>DemoTheorems\<close> (\<^verbatim>\<open>demo/adn_demo.py\<close>): the handlers, the four agents with
    their policies, and the workflow. \<^verbatim>\<open>Narrator\<close> (\<^verbatim>\<open>host_agent.py\<close>): the cue of each line and the session.
  \<^item> This theory: the properties that span components.

  \<^bold>\<open>What the lemmas show.\<close> The execution gate (C1, C2, C33), at-most-once and bounded executions and their
  leases (C3 to C6), consumption of results (C7, C10, C11, C12), integrity of ledger rows and of the
  opening of the database (C8, C9, C20), round trips and bindings of signed data and receipts (C13 to C16,
  C26 to C28), the types of an agent's tables and replies (C17), the nonce cache as a window (C18), runtime
  modes (C21), the policy (C22 to C24), what the code lets happen at its edges (C19, C30, C32), why the
  demonstration fails (C29), releases, their assets and the repository they are made from (C25, C31, C34 to
  C36, C38), the feature agents (C37, C39) and the worker executor (C40).

  \<^bold>\<open>Modelling choices.\<close> A raised exception is a value of \<open>py_error\<close>; its class and the messages that are
  the repository's own are kept (an em dash is written as a hyphen), the message of a JSON decoding error
  is not. Floats are exact rationals and decimal literals their decimal values; the text of a float is a
  parameter. Characters are those of code point at most 255. A function that reads the clock takes \<open>clk\<close>,
  the reading as a function of its index, a skipped reading keeping its number; uuids, tokens, keys and
  epochs are arguments. SHA-256, HMAC, Ed25519, the ISO date functions, the JSON reader, \<open>int\<close>, \<open>float\<close> and
  the regular expressions not written out are fields of \<open>py_env\<close>; what a property uses of them is a hypothesis, or a named
  collision in its conclusion. Paths are POSIX paths and the file system is a snapshot. A SQLite
  transaction is atomic and the ledger is a map from keys to rows; between the transactions of one
  execution other processes may act (\<open>between\<close>), and the reachability relation interleaves them freely.
  A failure to open the database is modelled where it is opened and not threaded through the operations.
  Agent objects are used by one thread. A TEE function, the language model and \<open>urlopen\<close> are functions of
  the call, indexed where an operation makes several. Values are ordered as numbers or as strings only.

  The listings, archives and downloads of GitHub are functions of the request; the rows of the CSV files of the
  demonstration are a function of the file name.

  \<^bold>\<open>Bounds.\<close> No definition uses fuel: the loops are structural recursions on their input (rows, chunks,
  entries, characters, lines; \<open>uses_refs\<close> on the text left) or on the number of attempts left to open the
  database, eight. \<open>list_pages\<close> reads pages until the announced total is reached, which a host may never let happen: it
  is a partial function, and \<open>list_pages_returns\<close> shows that it returns when the totals are bounded.

  \<^bold>\<open>Not modelled.\<close> Logging and printed texts (what printing reads is, where it may raise), the parsing of command
  lines, the threads, sockets and locks, the SQLite schema, the speech engine, the launchers (\<^verbatim>\<open>run_live.py\<close>,
  \<^verbatim>\<open>run_test.py\<close>, \<^verbatim>\<open>run_demo_direct.py\<close>, \<^verbatim>\<open>capture_run.py\<close>, \<^verbatim>\<open>final_proof.py\<close>: they only start other programs),
  the Rust contract and the TypeScript bridge (other languages), and the tests.
\<close>

section \<open>The worker execution gate\<close>

text \<open>
  C1. In live mode a worker that answers \<open>COMPLETED\<close> has checked everything: the request is
  authentic, addressed to it and live, its policy permits the delegation, the request carries a
  gateway receipt that authorizes exactly this delegation, and the ledger reserved the execution.
\<close>

theorem worker_gate_live:
  assumes "process_delegation_request E clk uuid token between st L sr pk kid bid require = (Inr reply, st', L')"
    and "reply_status reply = PStr ''COMPLETED''"
    and "resolve_runtime_mode E None = Inr ''live''"
  shows "\<exists>request receipt k secret x L1.
     authentic E (clk 2) sr ''DELEGATE_TASK'' \<and> data_hash_ok E sr \<and>
     request_from_action_request (clk 0) sr = Inr request \<and> request_is_expired (clk 1) request = Inr False \<and>
     dr_to_agent_id request = PStr (own_id st) \<and>
     dr_tee_authorization request = PDict receipt \<and>
     receipt_authorizes E (\<lambda>i. clk (5 + i)) receipt (opt_str pk) (opt_str kid) (dr_delegation_id request)
       (PStr (own_id st)) (dr_action request) (dr_parameters request) (opt_str bid) \<and>
     (\<exists>m. evaluate_delegation_request E (nw_policy st) request (dr_from_agent_id request) (PStr (own_id st))
        = Inr (True, m)) \<and>
     k = replay_key_of E request (request_hash_of E sr) \<and> reserved E (clk 8) token st L request k secret x L1"
proof -
  obtain request k secret x L1 where adm: "admitted E clk st sr pk kid bid require request k"
    and res: "reserved E (clk 8) token st L request k secret x L1"
    using process_completed [OF assms(1,2)] by blast
  obtain seen where r: "request_from_action_request (clk 0) sr = Inr request"
    and gate: "gate_open E (\<lambda>i. clk (2 + i)) sr (own_id st) (opt_str pk) (opt_str kid) (opt_str bid) True seen"
    using adm assms(3) unfolding admitted_def by auto
  have "request_from_action_request (clk (2 + 1)) sr = Inr seen" using gate by (simp only: gate_open_def)
  note same = read_twice [OF r this]
  obtain receipt where "dr_tee_authorization seen = PDict receipt"
    "receipt_authorizes E (\<lambda>i. clk (2 + (3 + i))) receipt (opt_str pk) (opt_str kid) (dr_delegation_id seen)
       (PStr (own_id st)) (dr_action seen) (dr_parameters seen) (opt_str bid)"
    "authentic E (clk (2 + 0)) sr ''DELEGATE_TASK''" "data_hash_ok E sr" "dr_to_agent_id seen = PStr (own_id st)"
    using gate unfolding gate_open_def by blast
  then show ?thesis using adm res same r by (simp add: admitted_def) blast
qed

theorem worker_gate_live_witness:
  "\<exists>request receipt k secret x L1.
     authentic (sample_env ''live'') 1000 (sample_signed ''live'') ''DELEGATE_TASK'' \<and>
     data_hash_ok (sample_env ''live'') (sample_signed ''live'') \<and>
     request_from_action_request 1000 (sample_signed ''live'') = Inr request \<and>
     request_is_expired 1000 request = Inr False \<and>
     dr_to_agent_id request = PStr (own_id sample_worker) \<and> dr_tee_authorization request = PDict receipt \<and>
     receipt_authorizes (sample_env ''live'') (\<lambda>i. 1000) receipt pub ''gw1'' (dr_delegation_id request)
       (PStr (own_id sample_worker)) (dr_action request) (dr_parameters request) ''b1'' \<and>
     (\<exists>m. evaluate_delegation_request (sample_env ''live'') (nw_policy sample_worker) request
        (dr_from_agent_id request) (PStr (own_id sample_worker)) = Inr (True, m)) \<and>
     k = replay_key_of (sample_env ''live'') request (request_hash_of (sample_env ''live'') (sample_signed ''live'')) \<and>
     reserved (sample_env ''live'') 1000 ''t1'' sample_worker Map.empty request k secret x L1"
proof -
  obtain reply st' where run: "process_delegation_request (sample_env ''live'') (\<lambda>i. 1000) (\<lambda>i. ''u1'') ''t1'' []
      sample_worker Map.empty (sample_signed ''live'') (Some pub) (Some ''gw1'') (Some ''b1'') None
      = (Inr reply, st', [''ab'' \<mapsto> sample_row REQUEST_STATE_COMPLETED None])" "reply_status reply = PStr ''COMPLETED''"
    using sample_run by blast
  have "resolve_runtime_mode (sample_env ''live'') None = Inr ''live''" by (rule sample_mode) simp
  from worker_gate_live [OF run this] show ?thesis by simp
qed

text \<open>
  C2. A worker's state (its delegations, results and audit trail) changes only when the request was
  admitted by the gate and the policy, its action has a handler, and the ledger granted the
  execution; every other request leaves it as it was, whatever is answered.
\<close>

theorem state_change_needs_reservation:
  assumes "process_delegation_request E clk uuid token between st L sr pk kid bid require = (r, st', L')"
    and "st' \<noteq> st"
  shows "\<exists>request k a secret x L1. admitted E clk st sr pk kid bid require request k \<and>
     dr_action request = PStr a \<and> map_of (nw_task_handlers st) a \<noteq> None \<and>
     reserved E (clk 8) token st L request k secret x L1"
  using process_changes [OF assms] by blast

theorem state_change_needs_reservation_witness:
  "\<exists>request k a secret x L1. admitted (sample_env ''live'') (\<lambda>i. 1000) sample_worker (sample_signed ''live'')
       (Some pub) (Some ''gw1'') (Some ''b1'') None request k \<and>
     dr_action request = PStr a \<and> map_of (nw_task_handlers sample_worker) a \<noteq> None \<and>
     reserved (sample_env ''live'') 1000 ''t1'' sample_worker Map.empty request k secret x L1"
proof -
  obtain reply st' where run: "process_delegation_request (sample_env ''live'') (\<lambda>i. 1000) (\<lambda>i. ''u1'') ''t1'' []
      sample_worker Map.empty (sample_signed ''live'') (Some pub) (Some ''gw1'') (Some ''b1'') None
      = (Inr reply, st', [''ab'' \<mapsto> sample_row REQUEST_STATE_COMPLETED None])"
      "nw_results st' \<noteq> []"
    using sample_run by blast
  have "st' \<noteq> sample_worker" using run(2) by (auto simp: sample_worker_def)
  from state_change_needs_reservation [OF run(1) this] show ?thesis by simp
qed

text \<open>
  C3. A completed request runs once: after an execution that kept its lease until it was finalized,
  whatever other transactions that do not finalize its key follow, a worker that sees the same
  signed request again, while the row is retained, executes nothing and does not answer \<open>COMPLETED\<close>.
\<close>

theorem completed_request_runs_once:
  assumes "process_delegation_request E clk uuid token between st L sr pk kid bid require = (Inr reply, st', L')"
    and "reply_status reply = PStr ''COMPLETED''" and "token \<noteq> []"
    and adm: "admitted E clk st sr pk kid bid require request k"
    and exp: "delegation_request_replay_expires_at E (clk 7) request = Inr x"
    and res: "reserved E (clk 8) token st L request k secret x L1" and e: "L1 k = Some e"
    and lease: "lease_kept E k between L1" "list_all (\<lambda>op. \<not> releases k token op) between"
    and later: "list_all (\<lambda>op. covers (le_expires_at e) k op \<and> \<not> finalizes k op) later"
    and again: "process_delegation_request E clk' uuid' token' between' worker (run_ops E later L') sr
       pk' kid' bid' require' = (r, worker', L'')" and "clk' 8 < le_expires_at e"
  shows "worker' = worker \<and> (\<forall>reply. r = Inr reply \<longrightarrow> reply_status reply \<noteq> PStr ''COMPLETED'')"
proof -
  obtain request0 k0 handler secret0 x0 M where a: "admitted E clk st sr pk kid bid require request0 k0"
    and x0: "delegation_request_replay_expires_at E (clk 7) request0 = Inr x0"
    and r0: "reserved E (clk 8) token st L request0 k0 secret0 x0 M"
    and run: "run_reserved E clk uuid between st M request0 k0 secret0 (Some token) handler = (Inr reply, st', L')"
    using process_completed [OF assms(1,2)] by blast
  have "request0 = request" "k0 = k" using a adm by (simp_all add: admitted_def)
  moreover have "M = L1" "secret0 = secret" using r0 res x0 exp calculation by (simp_all add: reserved_def)
  ultimately have "completed (le_expires_at e) k L'"
    using execution_recorded [OF res e assms(3) lease] run assms(2) by blast
  then have c: "completed (le_expires_at e) k (run_ops E later L')" using completed_run later by blast
  have "k' = k" if "admitted E clk' worker sr pk' kid' bid' require' request' k'" for request' k'
    by (rule admitted_same_key [OF adm that])
  from completed_blocks [OF c assms(12) this again] show ?thesis by simp
qed

theorem completed_request_runs_once_witness:
  "\<exists>worker' L'' r. process_delegation_request (sample_env ''live'') (\<lambda>i. 1100) (\<lambda>i. ''u2'') ''t2'' [] sample_worker
       [''ab'' \<mapsto> sample_row REQUEST_STATE_COMPLETED None] (sample_signed ''live'') (Some pub) (Some ''gw1'') (Some ''b1'')
       None = (r, worker', L'') \<and>
     worker' = sample_worker \<and> (\<forall>reply. r = Inr reply \<longrightarrow> reply_status reply \<noteq> PStr ''COMPLETED'')"
proof -
  obtain reply st' where run: "process_delegation_request (sample_env ''live'') (\<lambda>i. 1000) (\<lambda>i. ''u1'') ''t1'' []
      sample_worker Map.empty (sample_signed ''live'') (Some pub) (Some ''gw1'') (Some ''b1'') None
      = (Inr reply, st', [''ab'' \<mapsto> sample_row REQUEST_STATE_COMPLETED None])" "reply_status reply = PStr ''COMPLETED''"
    using sample_run by blast
  obtain r worker' L'' where again: "process_delegation_request (sample_env ''live'') (\<lambda>i. 1100) (\<lambda>i. ''u2'') ''t2'' []
      sample_worker (run_ops (sample_env ''live'') [] [''ab'' \<mapsto> sample_row REQUEST_STATE_COMPLETED None])
      (sample_signed ''live'') (Some pub) (Some ''gw1'') (Some ''b1'') None = (r, worker', L'')"
    by (cases "process_delegation_request (sample_env ''live'') (\<lambda>i. 1100) (\<lambda>i. ''u2'') ''t2'' []
      sample_worker (run_ops (sample_env ''live'') [] [''ab'' \<mapsto> sample_row REQUEST_STATE_COMPLETED None])
      (sample_signed ''live'') (Some pub) (Some ''gw1'') (Some ''b1'') None") auto
  have "worker' = sample_worker \<and> (\<forall>reply. r = Inr reply \<longrightarrow> reply_status reply \<noteq> PStr ''COMPLETED'')"
    by (rule completed_request_runs_once [where e = "sample_row REQUEST_STATE_RUNNING (Some ''t1'')",
          OF run _ sample_admitted sample_retention sample_reserved _ _ _ _ again])
       (simp_all add: sample_row_def)
  then show ?thesis using again by simp
qed

text \<open>
  C33. An admitted, reserved request is answered: if the handler returns a value, the retention can be
  computed and the holder's finalization does not raise, the worker records the result under the
  delegation id, signs it and replies \<open>COMPLETED\<close> with it.
\<close>

theorem authorized_request_completes:
  assumes "admitted E clk st sr pk kid bid require request k"
    and "dr_action request = PStr a" and "map_of (nw_task_handlers st) a = Some handler"
    and "\<And>st'. nw_identity st' = nw_identity st \<Longrightarrow> run_handler E (clk 10) st' handler (dr_parameters request) = Inr v"
    and "delegation_request_replay_expires_at E (clk 7) request = Inr x"
    and "reserved E (clk 8) token st L request k secret x L1" and "hashable (dr_delegation_id request)"
    and "finalize_request_execution E (clk 12) (run_ops E between L1) k REQUEST_STATE_COMPLETED secret None
      (Some token) = (Inr ok, L')"
    and "able_to_sign E (nw_identity st)"
  shows "\<exists>reply st' res. process_delegation_request E clk uuid token between st L sr pk kid bid require = (Inr reply, st', L')
    \<and> reply_status reply = PStr ''COMPLETED'' \<and>
    res = create_delegation_result (clk 11) (uuid 0) request (nw_identity st) COMPLETED v PNone \<and>
    vget (nw_results st') (dr_delegation_id request) = Some res \<and>
    result_to_action_request E (clk 17) res (nw_identity st) = Inr reply"
  using process_completes [of E clk st sr pk kid bid require request k a handler v x token L secret L1 between ok L' uuid,
      OF assms] by blast

theorem authorized_request_completes_witness:
  "\<exists>reply st' res. process_delegation_request (sample_env ''live'') (\<lambda>i. 1000) (\<lambda>i. ''u1'') ''t1'' [] sample_worker Map.empty
      (sample_signed ''live'') (Some pub) (Some ''gw1'') (Some ''b1'') None
      = (Inr reply, st', [''ab'' \<mapsto> sample_row REQUEST_STATE_COMPLETED None]) \<and>
    vget (nw_results st') (PStr ''d1'') = Some res \<and> ds_status res = COMPLETED"
proof -
  let ?E = "sample_env ''live''"
  have h: "dr_action (sample_request ''live'') = PStr ''PING''" "dr_delegation_id (sample_request ''live'') = PStr ''d1''"
    "map_of (nw_task_handlers sample_worker) ''PING'' = Some Handle_ping"
    "able_to_sign ?E (nw_identity sample_worker)"
    by (simp_all add: sample_request_def sample_worker_def builtin_handlers_def)
  then have id: "hashable (dr_delegation_id (sample_request ''live''))" by simp
  have run: "run_handler ?E 1000 st' Handle_ping (dr_parameters (sample_request ''live'')) =
      Inr (PDict [(''pong'', PBool True), (''timestamp'', PFloat 1000), (''agent_id'', PStr ''ab'')])"
    if "nw_identity st' = nw_identity sample_worker" for st'
    using that by (simp add: handle_ping_def own_id_def sample_worker_def sample_agent_def)
  have fin: "finalize_request_execution ?E 1000 (run_ops ?E [] [''ab'' \<mapsto> sample_row REQUEST_STATE_RUNNING (Some ''t1'')])
      ''ab'' REQUEST_STATE_COMPLETED (Some ''cd'') None (Some ''t1'') =
      (Inr True, [''ab'' \<mapsto> sample_row REQUEST_STATE_COMPLETED None])"
    by (simp only: run_ops_simps sample_finalized)
  from authorized_request_completes [OF sample_admitted h(1,3) run sample_retention sample_reserved id fin h(4), of "\<lambda>i. ''u1''"]
  show ?thesis by (auto simp: h(2) fun_eq_iff)
qed

section \<open>The replay ledger\<close>

text \<open>
  C4. However the transactions of all processes interleave, one request is granted at most two
  executions as long as its row is retained.
\<close>

theorem at_most_two_executions:
  assumes "kept X k L" and "list_all (covers X k) ops"
  shows "count_granted (exec_op E) (grants_execution E k) ops L \<le> 2"
  by (rule requests.grants_cap [OF assms])

definition sample_ops :: "ledger_op list" where
  "sample_ops =
     [Begin 1000 ''t1'' ''ab'' 4000 ''ab'' (PStr ''d1'') ''f'' None,
      Begin 1299 ''t2'' ''ab'' 4000 ''ab'' (PStr ''d1'') ''f'' None,
      Begin 1300 ''t3'' ''ab'' 4000 ''ab'' (PStr ''d1'') ''f'' None,
      Begin 1600 ''t4'' ''ab'' 4000 ''ab'' (PStr ''d1'') ''f'' None]"

theorem at_most_two_executions_witness:
  "kept 4000 ''ab'' Map.empty \<and> list_all (covers 4000 ''ab'') sample_ops \<and>
   count_granted (exec_op (sample_env ''test'')) (grants_execution (sample_env ''test'') ''ab'') sample_ops Map.empty \<le> 2"
proof -
  have "kept 4000 ''ab'' Map.empty" "list_all (covers 4000 ''ab'') sample_ops"
    by (simp_all add: kept_def sample_ops_def)
  then show ?thesis using at_most_two_executions by blast
qed

text \<open>
  C5. A running execution is exclusive: while every transaction comes before the row expires and
  within the lease of the last heartbeat, nobody else is granted the request and the holder's token
  stays in the row, whatever the others try.
\<close>

theorem running_execution_exclusive:
  assumes "holds X k tok L" and "tok \<noteq> []" and "lease_kept E k ops L"
    and "list_all (\<lambda>op. \<not> releases k tok op) ops"
  shows "holds X k tok (run_ops E ops L) \<and> count_granted (exec_op E) (grants_execution E k) ops L = 0"
  by (rule holds_run [OF assms])

definition sample_interleaving :: "ledger_op list" where
  "sample_interleaving =
     [Begin 1100 ''t2'' ''ab'' 4000 ''ab'' (PStr ''d1'') ''f'' (Some ''cd''),
      Finalize 1150 ''ab'' REQUEST_STATE_RETRYABLE_FAILURE (Some ''cd'') None (Some ''t2'')]"

theorem running_execution_exclusive_witness:
  "holds 1300 ''ab'' ''t1'' (run_ops (sample_env ''live'') sample_interleaving
     [''ab'' \<mapsto> sample_row REQUEST_STATE_RUNNING (Some ''t1'')]) \<and>
   count_granted (exec_op (sample_env ''live'')) (grants_execution (sample_env ''live'') ''ab'') sample_interleaving
     [''ab'' \<mapsto> sample_row REQUEST_STATE_RUNNING (Some ''t1'')] = 0"
proof -
  let ?L = "[''ab'' \<mapsto> sample_row REQUEST_STATE_RUNNING (Some ''t1'')]"
  let ?b = "Begin 1100 ''t2'' ''ab'' 4000 ''ab'' (PStr ''d1'') ''f'' (Some ''cd'')"
  have "begin_request_execution (sample_env ''live'') 1100 ''t2'' ?L ''ab'' 4000 ''ab'' (PStr ''d1'') ''f'' (Some ''cd'')
      = (Inr (False, ''Delegation request already running'', None), purge 1100 ?L)"
    by (rule begin_running [of _ _ "sample_row REQUEST_STATE_RUNNING (Some ''t1'')"])
       (simp_all add: sample_verifies, simp_all add: sample_row_def RUNNING_LEASE_SECONDS_def)
  then have "exec_op (sample_env ''live'') ?b ?L = ?L"
    by (auto simp: purge_def sample_row_def)
  then have "lease_kept (sample_env ''live'') ''ab'' sample_interleaving ?L"
    by (simp add: sample_interleaving_def in_lease_def RUNNING_LEASE_SECONDS_def)
       (simp add: sample_row_def)
  moreover have "holds 1300 ''ab'' ''t1'' ?L" by (simp add: holds_def) (simp add: sample_row_def)
  moreover have "list_all (\<lambda>op. \<not> releases ''ab'' ''t1'' op) sample_interleaving"
    by (simp add: sample_interleaving_def)
  ultimately show ?thesis using running_execution_exclusive [of 1300 "''ab''" "''t1''"] by simp
qed

text \<open>
  C6. Every row of every table reachable by the protocol's transactions is well formed: it has made
  between one and two attempts, its state is one of the five, a token is stored exactly while it
  runs, and only consumed results are of the result kind.
\<close>

theorem reachable_rows_ok:
  assumes "reachable E L" and "L k = Some e"
  shows "le_replay_key e = k \<and> 1 \<le> le_attempt_count e \<and> le_attempt_count e \<le> le_max_attempts e \<and>
     le_max_attempts e \<le> 2 \<and>
     le_state e \<in> {''RUNNING'', ''COMPLETED'', ''RETRYABLE_FAILURE'', ''FINAL_FAILURE'', ''CONSUMED''} \<and>
     (le_state e = ''RUNNING'' \<longleftrightarrow> le_execution_token e \<noteq> None) \<and>
     (le_kind e = ''result'' \<longleftrightarrow> le_state e = ''CONSUMED'')"
  using ledger_okD [OF reachable_ok [OF assms(1)] assms(2)]
  unfolding entry_ok_def row_ok_def by (auto simp: state_consts MAX_REQUEST_ATTEMPTS_def)

theorem reachable_rows_ok_witness:
  "le_attempt_count (sample_row REQUEST_STATE_RUNNING (Some ''t1'')) \<le> 2"
proof -
  let ?op = "Begin 1000 ''t1'' ''ab'' 1300 ''ab'' (PStr ''d1'') ''ab'' (Some ''cd'')"
  have "reachable (sample_env ''live'') (run_ops (sample_env ''live'') [?op] Map.empty)"
    by (rule reachable_run [OF reachable_empty]) simp
  then have "reachable (sample_env ''live'') (exec_op (sample_env ''live'') ?op Map.empty)" by simp
  moreover have "exec_op (sample_env ''live'') (Begin 1000 ''t1'' ''ab'' 1300 ''ab'' (PStr ''d1'') ''ab'' (Some ''cd''))
      Map.empty = [''ab'' \<mapsto> sample_row REQUEST_STATE_RUNNING (Some ''t1'')]"
    using sample_reserved sample_own_id by (simp add: reserved_def) (simp add: sample_request_def)
  ultimately have "reachable (sample_env ''live'') [''ab'' \<mapsto> sample_row REQUEST_STATE_RUNNING (Some ''t1'')]" by simp
  from reachable_rows_ok [OF this, of "''ab''"] show ?thesis by simp
qed

text \<open>
  C7. A result is consumed at most once: of all the consumptions of one replay key, in any
  interleaving before the instant until which they ask it to be kept, at most one succeeds.
\<close>

theorem result_consumed_once:
  assumes "list_all (covers X k) ops"
  shows "count_granted (exec_op E) (consumes E k) ops L \<le> 1"
  by (rule results.grants_cap [OF TrueI assms])

theorem result_consumed_once_witness:
  "count_granted (exec_op (sample_env ''test'')) (consumes (sample_env ''test'') ''r'')
     [Consume 1000 ''r'' ''c'' (PStr ''d1'') ''f'' None (Some ''cd''),
      Consume 1500 ''r'' ''c'' (PStr ''d1'') ''f'' None (Some ''cd'')] Map.empty \<le> 1"
  by (rule result_consumed_once [where X = 1800])
     (simp add: effective_expiry_def RESULT_REPLAY_TTL_SECONDS_def)

text \<open>
  C8. The integrity MAC binds the whole row: two rows that pass the check under the configured key
  and carry the same MAC are the same row, unless two different payloads have one HMAC.
\<close>

theorem verified_rows_bound:
  assumes "float_ok (float_repr E)" and "opt_str sec \<noteq> []"
    and "verify_integrity E e sec = Inr ()" and "verify_integrity E e' sec = Inr ()"
    and "le_integrity_mac e = le_integrity_mac e'"
  shows "e = e' \<or> (\<exists>key. fromhex (opt_str sec) = Some key \<and>
     stable_record_payload E (entry_body e) \<noteq> stable_record_payload E (entry_body e') \<and>
     hmac_sha256_hex E key (utf8 (stable_record_payload E (entry_body e))) =
       hmac_sha256_hex E key (utf8 (stable_record_payload E (entry_body e'))))"
  by (rule verified_rows_equal [OF assms])

theorem verified_rows_bound_witness:
  "sample_row REQUEST_STATE_RUNNING None = sample_row REQUEST_STATE_COMPLETED None \<or>
   (\<exists>key. fromhex ''cd'' = Some key \<and>
     stable_record_payload (sample_env ''live'') (entry_body (sample_row REQUEST_STATE_RUNNING None)) \<noteq>
     stable_record_payload (sample_env ''live'') (entry_body (sample_row REQUEST_STATE_COMPLETED None)))"
proof -
  have "le_integrity_mac (sample_row REQUEST_STATE_RUNNING None) = le_integrity_mac (sample_row REQUEST_STATE_COMPLETED None)"
    by (simp add: sample_row_def)
  from verified_rows_bound [OF sample_float_ok _ sample_verifies sample_verifies this] show ?thesis by auto
qed

text \<open>
  C9. Opening the database ends: at most eight attempts are made and at most 1.8 seconds are slept,
  and it succeeds exactly when one of the eight attempts does after failures that were only locks.
\<close>

theorem database_open_bounded:
  "length (snd (connect outcome)) \<le> 8 \<and> sum_list (snd (connect outcome)) \<le> 9 / 5 \<and>
   (fst (connect outcome) = Inr () \<longleftrightarrow>
      (\<exists>i < 8. outcome i = Connected \<and> (\<forall>j < i. \<exists>msg. outcome j = OperationalError msg \<and> retryable msg)))"
  using connect_bounded connect_loop_ok [of outcome 0 8 None]
  by (simp add: connect_def CONNECT_RETRY_ATTEMPTS_def)

theorem database_open_bounded_witness:
  "fst (connect (\<lambda>i. if i < 2 then OperationalError ''database is locked'' else Connected)) = Inr ()"
proof -
  let ?o = "\<lambda>i::nat. if i < 2 then OperationalError ''database is locked'' else Connected"
  have "retryable ''database is locked''" by code_simp
  then have "\<exists>i < 8. ?o i = Connected \<and> (\<forall>j < i. \<exists>msg. ?o j = OperationalError msg \<and> retryable msg)"
    by (intro exI [of _ 2]) auto
  then show ?thesis using database_open_bounded [of ?o] by blast
qed

section \<open>Results\<close>

text \<open>
  C10. A result that the coordinator accepts satisfies every condition it set (signature, worker,
  audience, delegation, status, and a receipt with the expected fingerprint that authorizes the
  expected action and parameters), its nonce was fresh, and its durable replay key is spent.
\<close>

theorem accepted_result_sound:
  assumes "verify_worker_result E clk ticks c L worker_result x = (Inr rd, c', L')"
  shows "\<exists>receipt. worker_result_ok E clk worker_result x rd receipt \<and>
    consume_result_nonce ticks (dget rd ''nonce'' PNone) c = (Inr (), c') \<and>
    recorded (clk 3 + RESULT_REPLAY_TTL_SECONDS)
      (result_replay_key E (ex_worker_pubkey_hex x) (ex_coordinator_id x) rd receipt) L'"
proof -
  obtain receipt where r: "worker_result_ok E clk worker_result x rd receipt"
    "recorded (clk 3 + RESULT_REPLAY_TTL_SECONDS)
      (result_replay_key E (ex_worker_pubkey_hex x) (ex_coordinator_id x) rd receipt) L'"
    using verified_recorded [OF assms] by blast
  moreover have "consume_result_nonce ticks (dget rd ''nonce'' PNone) c = (Inr (), c')"
    using verify_worker_result_Inr [OF assms] by blast
  ultimately show ?thesis by blast
qed

theorem accepted_result_sound_witness:
  "\<exists>rd c' L' receipt. verify_worker_result (sample_env ''live'') (\<lambda>i. 1000) 5 (cache_of []) Map.empty
       sample_reply sample_expectations = (Inr rd, c', L') \<and>
     worker_result_ok (sample_env ''live'') (\<lambda>i. 1000) sample_reply sample_expectations rd receipt"
  using sample_verified accepted_result_sound by metis

text \<open>
  C11. An accepted result is not accepted again: whatever transactions follow, a second verification
  of the same signed result before the retention ends fails, even with an empty nonce cache (after
  a restart, or in another process).
\<close>

theorem accepted_result_not_replayable:
  assumes first: "verify_worker_result E clk ticks c L worker_result x = (Inr rd, c', L')"
    and "list_all (covers (clk 3 + RESULT_REPLAY_TTL_SECONDS)
      (result_replay_key E (ex_worker_pubkey_hex x) (ex_coordinator_id x) rd
         (receipt_or_empty (dget rd ''tee_authorization'' PNone)))) ops"
    and "clk' 3 < clk 3 + RESULT_REPLAY_TTL_SECONDS"
  shows "fst (verify_worker_result E clk' ticks' d (run_ops E ops L') worker_result x) \<noteq> Inr rd'"
proof
  assume second: "fst (verify_worker_result E clk' ticks' d (run_ops E ops L') worker_result x) = Inr rd'"
  obtain d' M where s: "verify_worker_result E clk' ticks' d (run_ops E ops L') worker_result x = (Inr rd', d', M)"
    using second by (cases "verify_worker_result E clk' ticks' d (run_ops E ops L') worker_result x") simp
  obtain receipt where r: "worker_result_ok E clk worker_result x rd receipt"
    and rec: "recorded (clk 3 + RESULT_REPLAY_TTL_SECONDS)
      (result_replay_key E (ex_worker_pubkey_hex x) (ex_coordinator_id x) rd receipt) L'"
    using verified_recorded [OF first] by blast
  obtain receipt' where r': "worker_result_ok E clk' worker_result x rd' receipt'"
    using verified_recorded [OF s] by blast
  have same: "rd' = rd" "receipt' = receipt" using r r' by (auto simp: worker_result_ok_def)
  have "dget rd ''tee_authorization'' PNone = PDict receipt" using r by (simp add: worker_result_ok_def)
  then have "recorded (clk 3 + RESULT_REPLAY_TTL_SECONDS)
      (result_replay_key E (ex_worker_pubkey_hex x) (ex_coordinator_id x) rd receipt) (run_ops E ops L')"
    using recorded_run [OF rec] assms(2) by (simp add: receipt_or_empty_def)
  from recorded_refuses_result [where clk = clk', OF this assms(3) s [unfolded same] r' [unfolded same]]
  show False .
qed

theorem accepted_result_not_replayable_witness:
  "\<exists>rd c' L'. verify_worker_result (sample_env ''live'') (\<lambda>i. 1000) 5 (cache_of []) Map.empty
       sample_reply sample_expectations = (Inr rd, c', L') \<and>
     (\<forall>rd'. fst (verify_worker_result (sample_env ''live'') (\<lambda>i. 1100) 6 (cache_of []) L' sample_reply sample_expectations)
       \<noteq> Inr rd')"
proof -
  obtain rd c' L' where v: "verify_worker_result (sample_env ''live'') (\<lambda>i. 1000) 5 (cache_of []) Map.empty
       sample_reply sample_expectations = (Inr rd, c', L')"
    using sample_verified by blast
  have "fst (verify_worker_result (sample_env ''live'') (\<lambda>i. 1100) 6 (cache_of [])
      (run_ops (sample_env ''live'') [] L') sample_reply sample_expectations) \<noteq> Inr rd'" for rd'
    by (rule accepted_result_not_replayable [OF v]) (simp_all add: RESULT_REPLAY_TTL_SECONDS_def)
  then show ?thesis using v by simp
qed

text \<open>
  C12. Worker and coordinator agree: the reply of a completed execution passes every check of the
  coordinator that expects this worker, delegation, receipt, action and parameters.
\<close>

theorem completed_reply_accepted:
  assumes "process_delegation_request E clk uuid token between st L sr pk kid bid require = (Inr reply, st', L')"
    and "reply_status reply = PStr ''COMPLETED''" and "able_to_sign E (nw_identity st)"
    and "clock_text_ok E (clk 17 + 300)" and "clk' 0 \<le> clk 17 + 300"
    and "request_from_action_request (clk 0) sr = Inr request"
    and "dr_from_agent_id request = PStr coordinator" and "dr_delegation_id request = PStr did"
    and "dr_action request = PStr act" and "dr_parameters request \<noteq> PNone" and "act \<noteq> []"
    and "dr_tee_authorization request = PDict receipt" and "gateway_pub \<noteq> []"
    and "receipt_authorizes E (\<lambda>i. clk' (1 + i)) receipt gateway_pub key_id (PStr did)
       (PStr (id_agent_id (nw_identity st))) (PStr act) (dr_parameters request) build"
  shows "\<exists>rd. check_worker_result E clk' reply
      (expected_of (nw_identity st) did coordinator receipt gateway_pub key_id act (dr_parameters request) build)
      = Inr (rd, receipt)"
  by (rule completed_reply_accepted_by_check [OF assms])

theorem completed_reply_accepted_witness:
  "\<exists>reply rd. fst (process_delegation_request (sample_env ''live'') (\<lambda>i. 1000) (\<lambda>i. ''u1'') ''t1'' [] sample_worker Map.empty
     (sample_signed ''live'') (Some pub) (Some ''gw1'') (Some ''b1'') None) = Inr reply \<and>
   check_worker_result (sample_env ''live'') (\<lambda>i. 1000) reply
      (expected_of sample_agent ''d1'' ''coord'' (sample_receipt ''live'') pub ''gw1'' ''PING'' (PDict []) ''b1'')
      = Inr (rd, sample_receipt ''live'')"
proof -
  obtain reply st' where run: "process_delegation_request (sample_env ''live'') (\<lambda>i. 1000) (\<lambda>i. ''u1'') ''t1'' []
      sample_worker Map.empty (sample_signed ''live'') (Some pub) (Some ''gw1'') (Some ''b1'') None
      = (Inr reply, st', [''ab'' \<mapsto> sample_row REQUEST_STATE_COMPLETED None])" "reply_status reply = PStr ''COMPLETED''"
    using sample_run by blast
  have id: "nw_identity sample_worker = sample_agent" by (simp add: sample_worker_def)
  have read: "request_from_action_request 1000 (sample_signed ''live'') = Inr (sample_request ''live'')"
    using sample_admitted by (simp add: admitted_def)
  have "\<exists>rd. check_worker_result (sample_env ''live'') (\<lambda>i. 1000) reply
      (expected_of (nw_identity sample_worker) ''d1'' ''coord'' (sample_receipt ''live'') pub ''gw1'' ''PING''
        (dr_parameters (sample_request ''live'')) ''b1'') = Inr (rd, sample_receipt ''live'')"
    by (rule completed_reply_accepted [OF run _ _ _ read])
       (use sample_receipt_authorizes [of "''live''"] sample_pub in
         \<open>simp_all add: id sample_request_def clock_text_ok_def pub_def, simp_all add: sample_agent_def\<close>)
  then show ?thesis using run by (simp add: id sample_request_def)
qed

section \<open>Requests and receipts\<close>

text \<open>
  C13. A complete request signed by an agent reads back as itself, and until it or its signature expires it
  validates at its addressee exactly when its TEE receipt suffices: without a receipt when none is
  required (live mode always requires one), with a receipt when it authorizes this delegation under the
  expected gateway key. Nothing in this relates the signer to the delegating agent that the request names.
\<close>

theorem signed_request_validates:
  assumes "able_to_sign E a" and "clock_text_ok E (now + 300)" and "clk 0 \<le> now + 300"
    and "complete_request r" and "num_of (dr_expires_at r) = Some q" and "clk 2 \<le> q"
    and "dr_to_agent_id r = PStr receiver" and "\<And>b. sha256_hex E b \<noteq> []"
  shows "\<exists>sr. request_to_action_request E now r a = Inr sr \<and> request_from_action_request t sr = Inr r \<and>
    ((\<exists>k. validate_delegation_request E clk sr receiver pk kid bid require =
         Inr (True, ''Delegation request is valid'', Some k)) \<longleftrightarrow>
     (if truthy (dr_tee_authorization r)
      then pk \<noteq> [] \<and> (\<exists>receipt. dr_tee_authorization r = PDict receipt \<and>
        receipt_authorizes E (\<lambda>i. clk (3 + i)) receipt pk kid (dr_delegation_id r) (PStr receiver)
          (dr_action r) (dr_parameters r) bid)
      else \<not> require))"
proof -
  obtain sr where sr: "request_to_action_request E now r a = Inr sr" using able_to_sign_request [OF assms(1)] by blast
  have wire: "request_from_action_request t' sr = Inr r" for t'
    using request_wire(1) [OF sr] post_init_complete [OF assms(4)] by simp
  have "replay_key_of E r (request_hash_of E sr) \<noteq> []"
    using assms(8) by (simp add: replay_key_of_def sha256_def)
  moreover have "request = r" if "gate_open E clk sr receiver pk kid bid require request" for request
    using that wire by (simp add: gate_open_def)
  ultimately have "(\<exists>k. validate_delegation_request E clk sr receiver pk kid bid require =
      Inr (True, ''Delegation request is valid'', Some k)) \<longleftrightarrow> gate_open E clk sr receiver pk kid bid require r"
    unfolding validate_iff by blast
  also have "\<dots> \<longleftrightarrow> (require \<longrightarrow> truthy (dr_tee_authorization r)) \<and> (truthy (dr_tee_authorization r) \<longrightarrow>
      pk \<noteq> [] \<and> (\<exists>receipt. dr_tee_authorization r = PDict receipt \<and>
        receipt_authorizes E (\<lambda>i. clk (3 + i)) receipt pk kid (dr_delegation_id r) (PStr receiver)
          (dr_action r) (dr_parameters r) bid))"
    using signed_request_gate [OF assms(1-3) sr assms(4-7), of require pk kid bid] unfolding gate_open_def by blast
  finally show ?thesis using sr wire by auto
qed

definition claimed_request :: delegation_request where
  "claimed_request = (sample_request ''test'')\<lparr>dr_tee_authorization := PNone, dr_from_agent_id := PStr ''somebody-else''\<rparr>"

theorem signed_request_validates_witness:
  "\<exists>sr. request_to_action_request (sample_env ''test'') 1000 claimed_request sample_agent = Inr sr \<and>
    request_from_action_request 1001 sr = Inr claimed_request \<and>
    (\<exists>k. validate_delegation_request (sample_env ''test'') (\<lambda>i. 1001) sr ''ab'' [] [] [] False =
      Inr (True, ''Delegation request is valid'', Some k)) \<and>
    \<not> (\<exists>k. validate_delegation_request (sample_env ''test'') (\<lambda>i. 1001) sr ''ab'' [] [] [] True =
      Inr (True, ''Delegation request is valid'', Some k))"
proof -
  have at_addressee: "\<exists>sr. request_to_action_request (sample_env ''test'') 1000 claimed_request sample_agent = Inr sr \<and>
      request_from_action_request 1001 sr = Inr claimed_request \<and>
      ((\<exists>k. validate_delegation_request (sample_env ''test'') (\<lambda>i. 1001) sr ''ab'' [] [] [] require =
        Inr (True, ''Delegation request is valid'', Some k)) \<longleftrightarrow>
       (if truthy (dr_tee_authorization claimed_request)
        then [] \<noteq> ([]::string) \<and> (\<exists>receipt. dr_tee_authorization claimed_request = PDict receipt \<and>
          receipt_authorizes (sample_env ''test'') (\<lambda>i. 1001) receipt [] [] (dr_delegation_id claimed_request) (PStr ''ab'')
            (dr_action claimed_request) (dr_parameters claimed_request) [])
        else \<not> require))" for require
    by (rule signed_request_validates [where q = 4600, OF sample_able])
       (simp_all add: clock_text_ok_def claimed_request_def sample_request_def complete_request_def)
  have "dr_tee_authorization claimed_request = PNone" by (simp add: claimed_request_def)
  then show ?thesis using at_addressee [of False] at_addressee [of True] by auto
qed

text \<open>
  C14. The gateway and the worker agree: a receipt that the gateway builds from a routing answer is
  accepted for that delegation, target, action and those parameters until the authorization or
  the gateway's signature expires.
\<close>

theorem gateway_receipt_accepted:
  assumes "able_to_sign E gw" and "clock_text_ok E (clk 1 + 300)" and "clk' 1 \<le> clk 1 + 300"
    and "routed_answer E tee did to build expires" and "clk' 0 \<le> expires"
    and "sha256 E (canonical E (PDict tee)) \<noteq> []" and "key_id \<noteq> []"
    and "build_tee_authorization_receipt E clk gw key_id tee (PStr action) params = Inr r"
  shows "verify_tee_authorization_receipt E clk' (PDict r) (id_public_key_hex gw) key_id (PStr did) (PStr to)
    (PStr action) params build = Inr r"
  using gateway_receipt_authorizes [OF assms] by (simp add: verify_tee_authorization_receipt_iff)

theorem gateway_receipt_accepted_witness:
  "verify_tee_authorization_receipt (sample_env ''live'') (\<lambda>i. 1200) (PDict (sample_receipt ''live''))
     (id_public_key_hex sample_agent) ''gw1'' (PStr ''d1'') (PStr ''ab'') (PStr ''PING'') (PDict []) ''b1''
     = Inr (sample_receipt ''live'')"
  by (rule gateway_receipt_accepted [OF sample_able _ _ sample_routed _ _ _ sample_receipt_built])
     (simp_all add: clock_text_ok_def)

text \<open>
  C15. A receipt binds the parameters: if one receipt is accepted with two parameter sets, they are
  equal up to the order of keys, or two different request records have one SHA-256 digest.
\<close>

theorem receipt_binds_parameters:
  assumes "float_ok (float_repr E)" and "params \<noteq> PNone" and "params' \<noteq> PNone"
    and "verify_tee_authorization_receipt E clk rv pk kid did t a params build = Inr r"
    and "verify_tee_authorization_receipt E clk' rv pk' kid' did' t' a' params' build' = Inr r'"
  shows "sort_keys (py_or params (PDict [])) = sort_keys (py_or params' (PDict [])) \<or>
    collides E (utf8 (canonical E (authorized_request t a params)))
      (utf8 (canonical E (authorized_request t' a' params')))"
proof -
  have "rv = PDict r" "receipt_authorizes E clk r pk kid did t a params build"
    "receipt_authorizes E clk' r pk' kid' did' t' a' params' build'"
    using assms(4,5) by (auto simp: verify_tee_authorization_receipt_iff)
  from receipt_binds [OF assms(1-3) this(2,3)] show ?thesis .
qed

theorem receipt_binds_parameters_witness:
  "sort_keys (PDict []) = sort_keys (PDict []) \<or>
    collides (sample_env ''live'') (utf8 (canonical (sample_env ''live'') (authorized_request (PStr ''ab'') (PStr ''PING'') (PDict []))))
      (utf8 (canonical (sample_env ''live'') (authorized_request (PStr ''ab'') (PStr ''PING'') (PDict []))))"
proof -
  have v: "verify_tee_authorization_receipt (sample_env ''live'') (\<lambda>i. 1000) (PDict (sample_receipt ''live''))
     (id_public_key_hex sample_agent) ''gw1'' (PStr ''d1'') (PStr ''ab'') (PStr ''PING'') (PDict []) ''b1''
     = Inr (sample_receipt ''live'')"
    using sample_receipt_authorizes by (simp add: verify_tee_authorization_receipt_iff)
  from receipt_binds_parameters [OF sample_float_ok _ _ v v] show ?thesis by (simp add: py_or_def)
qed

text \<open>
  C16. The replay key identifies the delegation: two validated requests with one replay key carry the
  same delegation data up to the order of keys, or SHA-256 collides on one of the two named pairs.
\<close>

theorem replay_key_binds_request:
  assumes "float_ok (float_repr E)"
    and "validate_delegation_request E clk sr receiver pk kid bid require = Inr (True, m, Some k)"
    and "validate_delegation_request E clk' sr' receiver' pk' kid' bid' require' = Inr (True, m', Some k)"
    and "request_from_action_request (clk 1) sr = Inr r" and "request_from_action_request (clk' 1) sr' = Inr r'"
  shows "sort_keys (dget sr ''delegation_data'' (PDict [])) = sort_keys (dget sr' ''delegation_data'' (PDict [])) \<or>
    collides E (utf8 (canonical E (replay_record E r (request_hash_of E sr))))
      (utf8 (canonical E (replay_record E r' (request_hash_of E sr')))) \<or>
    collides E (utf8 (canonical E (dget sr ''delegation_data'' (PDict []))))
      (utf8 (canonical E (dget sr' ''delegation_data'' (PDict []))))"
proof -
  obtain r0 where g: "gate_open E clk sr receiver pk kid bid require r0" "k = replay_key_of E r0 (request_hash_of E sr)"
    using assms(2) unfolding validate_iff by auto
  obtain r1 where g': "gate_open E clk' sr' receiver' pk' kid' bid' require' r1" "k = replay_key_of E r1 (request_hash_of E sr')"
    using assms(3) unfolding validate_iff by auto
  have "r0 = r" "r1 = r'" using g(1) g'(1) assms(4,5) unfolding gate_open_def by simp_all
  then have "data_hash_ok E sr" "data_hash_ok E sr'"
    "replay_key_of E r (request_hash_of E sr) = replay_key_of E r' (request_hash_of E sr')"
    using g g' unfolding gate_open_def by simp_all
  from replay_key_binds_data [OF assms(1) this] show ?thesis .
qed

theorem replay_key_binds_request_witness:
  "let E = sample_env ''live''; sr = sample_signed ''live''; d = dget sr ''delegation_data'' (PDict []);
       rec = replay_record E (sample_request ''live'') (request_hash_of E sr)
   in sort_keys d = sort_keys d \<or> collides E (utf8 (canonical E rec)) (utf8 (canonical E rec)) \<or>
      collides E (utf8 (canonical E d)) (utf8 (canonical E d))"
proof -
  have v: "validate_delegation_request (sample_env ''live'') (\<lambda>i. 1000) (sample_signed ''live'') ''ab'' pub ''gw1'' ''b1'' True
      = Inr (True, ''Delegation request is valid'', Some ''ab'')"
    unfolding validate_iff pub_def using sample_gate [of "''live''"] by (auto simp: replay_key_of_def)
  have r: "request_from_action_request 1000 (sample_signed ''live'') = Inr (sample_request ''live'')"
    using sample_gate [of "''live''"] by (simp add: gate_open_def)
  from replay_key_binds_request [OF sample_float_ok v v r r] show ?thesis by (simp add: Let_def)
qed

text \<open>
  A signature binds the envelope: two accepted action requests with one payload hash agree on
  every signed field (agent, DID, key, action, nonce, times, audience, data hash), or SHA-256
  collides on their payloads.
\<close>

theorem signed_fields_bound:
  assumes "float_ok (float_repr E)"
    and "verify_action_request E t p a = Inr (True, err)" and "verify_action_request E t' p' a' = Inr (True, err')"
    and "dget p ''payload_hash'' PNone = dget p' ''payload_hash'' PNone"
  shows "(\<forall>k \<in> set signed_keys. sort_keys (dget p k PNone) = sort_keys (dget p' k PNone)) \<or>
    collides E (utf8 (canonical E (PDict (payload_fields p)))) (utf8 (canonical E (PDict (payload_fields p'))))"
  using authentic_binds [OF assms(1) verify_action_request_ok [OF assms(2)] verify_action_request_ok [OF assms(3)] assms(4)] .

theorem signed_fields_bound_witness:
  "(\<forall>k \<in> set signed_keys. sort_keys (dget sample_reply k PNone) = sort_keys (dget sample_reply k PNone)) \<or>
    collides (sample_env ''live'') (utf8 (canonical (sample_env ''live'') (PDict (payload_fields sample_reply))))
      (utf8 (canonical (sample_env ''live'') (PDict (payload_fields sample_reply))))"
proof -
  have "authentic (sample_env ''live'') 1000 sample_reply ''TASK_RESULT''"
    by (rule result_reply_authentic(1) [OF sample_able _ _ sample_reply]) (simp_all add: clock_text_ok_def)
  then have "verify_action_request (sample_env ''live'') 1000 sample_reply ''TASK_RESULT'' = Inr (True, [])"
    by (simp add: verify_action_request_iff)
  from signed_fields_bound [OF sample_float_ok this this refl] show ?thesis .
qed

section \<open>The nonce cache\<close>

text \<open>
  C18. The nonce cache refines its specification, a window over the accepted nonces: those of the
  last fifteen minutes, at most 4096 of them. A consumption answers by membership in the window and
  keeps the cache well formed and bounded.
\<close>

theorem nonce_cache_refines_window:
  assumes "cache_ok c"
  shows "cache_ok (snd (consume_result_nonce now n c)) \<and>
    length (nc_seen (snd (consume_result_nonce now n c))) \<le> 4096 \<and>
    (fst (consume_result_nonce now n c) = Inr () \<longleftrightarrow>
       truthy n \<and> hashable n \<and> \<not> set_mem n (map fst (window now (nc_order c)))) \<and>
    nc_order (snd (consume_result_nonce now n c)) =
      (if fst (consume_result_nonce now n c) = Inr () then window now (window now (nc_order c) @ [(n, now)])
       else window now (nc_order c))"
  using consume_nonce_cases [OF assms, of now n] window_length [of now, unfolded MAX_SEEN_NONCES_def]
  by (auto simp: Let_def)

theorem nonce_cache_refines_window_witness:
  "cache_ok (cache_of []) \<and> length (nc_seen (snd (consume_result_nonce 5 (PStr ''u1'') (cache_of [])))) \<le> 4096"
proof -
  have "cache_ok (cache_of [])" by (simp add: cache_ok_def)
  then show ?thesis using nonce_cache_refines_window by blast
qed

text \<open>
  An accepted nonce is refused for fifteen minutes: among the next 4095 consumptions in that
  time, none of the same nonce succeeds.
\<close>

theorem accepted_nonce_refused:
  assumes "cache_ok c" and "fst (consume_result_nonce t n c) = Inr ()" and "length ops < 4096"
    and "list_all (\<lambda>op. fst op - t < SEEN_NONCE_TTL_SECONDS) ops"
  shows "count_granted nonce_step (nonce_accepted n) ops (snd (consume_result_nonce t n c)) = 0"
  using remembered_run [OF accepted_remembered [OF assms(1,2)]] assms(3,4) by (simp add: MAX_SEEN_NONCES_def)

theorem accepted_nonce_refused_witness:
  "count_granted nonce_step (nonce_accepted (PStr ''u1'')) [(6, PStr ''u1''), (700, PStr ''u2''), (900, PStr ''u1'')]
     (snd (consume_result_nonce 5 (PStr ''u1'') (cache_of []))) = 0"
proof -
  have c: "cache_ok (cache_of [])" by (simp add: cache_ok_def)
  have "fst (consume_result_nonce 5 (PStr ''u1'') (cache_of [])) = Inr ()"
    by (simp add: consume_nonce_cases(1) [OF c] window_def set_mem_def Let_def)
  then show ?thesis by (intro accepted_nonce_refused [OF c]) (simp_all add: SEEN_NONCE_TTL_SECONDS_def)
qed

section \<open>Configuration\<close>

text \<open>
  C20. In live mode the integrity key comes from a protected file only: no key in the environment, an
  absolute path of a regular file with mode 0600 in a directory with mode 0700, both owned by the
  service user, and the secret is the file's text.
\<close>

theorem live_key_file_protected:
  assumes "resolve_runtime_mode E None = Inr ''live''" and "configured_integrity_secret_hex E = Inr s"
  shows "py_strip (getenv_or E KEY_HEX []) = [] \<and> protected_key_file E (py_strip (getenv_or E KEY_FILE [])) \<and>
    (\<exists>t. read_text (filesystem E) (py_strip (getenv_or E KEY_FILE [])) = Inr t \<and> s = Some (secret_text t))"
  by (rule live_secret_cases [OF assms])

theorem live_key_file_protected_witness:
  "protected_key_file (sample_env ''live'') (py_strip (getenv_or (sample_env ''live'') KEY_FILE []))"
proof -
  have m: "resolve_runtime_mode (sample_env ''live'') None = Inr ''live''" by (rule sample_mode) simp
  obtain s where "configured_integrity_secret_hex (sample_env ''live'') = Inr s"
    using sample_secret [of "''request''"] by (auto simp: configured_integrity_key_def)
  from live_key_file_protected [OF m this] show ?thesis by blast
qed

lemma unknown_mode_raises:
  assumes "getenv E ''ADN_RUNTIME_MODE'' = Some raw" and "py_lower (py_strip raw) \<notin> {''live'', ''demo'', ''test''}"
  shows "resolve_runtime_mode E None = Inl (RuntimeError RUNTIME_MODE_ERROR)"
    and "from_trusted_config E pk kid bid require = Inl (RuntimeError RUNTIME_MODE_ERROR)"
proof -
  show "resolve_runtime_mode E None = Inl (RuntimeError RUNTIME_MODE_ERROR)"
    using assms by (simp add: resolve_runtime_mode_def getenv_or_def VALID_RUNTIME_MODES_def Let_def)
  then show "from_trusted_config E pk kid bid require = Inl (RuntimeError RUNTIME_MODE_ERROR)"
    by (simp add: from_trusted_config_def)
qed

lemma unconfigured_worker_refuses:
  assumes "from_trusted_config E pk kid bid require = Inl e"
    and "process_delegation_request E clk uuid token between st L sr pk kid bid require = (r, st', L')"
  shows "st' = st \<and> L' = L \<and> (\<forall>reply. r = Inr reply \<longrightarrow> reply_status reply = PStr ''FAILED'')"
proof -
  have "\<exists>e. admit_request E clk uuid st sr pk kid bid require = Inl e"
  proof (cases "request_from_action_request (clk 0) sr")
    case (Inr request)
    then show ?thesis using assms(1)
      by (cases "request_is_expired (clk 1) request") (simp_all add: admit_request_def)
  qed (simp add: admit_request_def)
  then show ?thesis using assms(2) error_reply_status by (auto simp: process_delegation_request_def)
qed

text \<open>
  C21. The runtime mode fails closed. Without configuration it is live. A value that is none of the three
  modes (after stripping and lowering) raises, given or configured; a worker configured so executes
  nothing: it answers every request \<open>FAILED\<close> and neither its state nor the ledger changes. Otherwise the
  mode is one of the three, and a worker waives the TEE authorization only outside live mode, with no
  gateway configured and without being asked to require it.
\<close>

theorem runtime_mode_fails_closed:
  "(getenv E ''ADN_RUNTIME_MODE'' = None \<longrightarrow> resolve_runtime_mode E None = Inr ''live'') \<and>
   (\<forall>raw. py_lower (py_strip raw) \<notin> {''live'', ''demo'', ''test''} \<longrightarrow>
      resolve_runtime_mode E (Some raw) = Inl (RuntimeError RUNTIME_MODE_ERROR) \<and>
      (getenv E ''ADN_RUNTIME_MODE'' = Some raw \<longrightarrow>
         resolve_runtime_mode E None = Inl (RuntimeError RUNTIME_MODE_ERROR) \<and>
         (\<forall>clk uuid token between st L sr r st' L'.
            process_delegation_request E clk uuid token between st L sr pk kid bid require = (r, st', L') \<longrightarrow>
            st' = st \<and> L' = L \<and> (\<forall>reply. r = Inr reply \<longrightarrow> reply_status reply = PStr ''FAILED'')))) \<and>
   (\<forall>mode. resolve_runtime_mode E v = Inr mode \<longrightarrow> mode \<in> {''live'', ''demo'', ''test''}) \<and>
   (\<forall>ctx. from_trusted_config E pk kid bid require = Inr ctx \<longrightarrow> \<not> ctx_require_tee_authorization ctx \<longrightarrow>
      resolve_runtime_mode E None \<noteq> Inr ''live'' \<and> \<not> gateway_context_configured pk kid bid \<and> require \<noteq> Some True)"
proof -
  have given: "resolve_runtime_mode E (Some raw) = Inl (RuntimeError RUNTIME_MODE_ERROR)"
    if "py_lower (py_strip raw) \<notin> {''live'', ''demo'', ''test''}" for raw
    using that by (simp add: resolve_runtime_mode_def VALID_RUNTIME_MODES_def Let_def)
  have worker: "st' = st \<and> L' = L \<and> (\<forall>reply. r = Inr reply \<longrightarrow> reply_status reply = PStr ''FAILED'')"
    if "getenv E ''ADN_RUNTIME_MODE'' = Some raw" "py_lower (py_strip raw) \<notin> {''live'', ''demo'', ''test''}"
      "process_delegation_request E clk uuid token between st L sr pk kid bid require = (r, st', L')"
    for raw clk uuid token between st L sr r st' L'
    by (rule unconfigured_worker_refuses [OF unknown_mode_raises(2) [OF that(1,2)] that(3)])
  have waived: "resolve_runtime_mode E None \<noteq> Inr ''live'' \<and> \<not> gateway_context_configured pk kid bid \<and> require \<noteq> Some True"
    if "from_trusted_config E pk kid bid require = Inr ctx" "\<not> ctx_require_tee_authorization ctx" for ctx
    using from_trusted_config_requires [OF that(1)] that(2) by blast
  show ?thesis
    by (intro conjI allI impI)
       (erule unset_mode_live, erule given, erule (1) unknown_mode_raises(1), use worker in blast, use worker in blast,
        use worker in blast, erule resolve_runtime_mode_valid, use waived in blast, use waived in blast, use waived in blast)
qed

theorem runtime_mode_fails_closed_witness:
  "resolve_runtime_mode ((sample_env ''test'')\<lparr>getenv := \<lambda>v. None\<rparr>) None = Inr ''live'' \<and>
   resolve_runtime_mode ((sample_env ''test'')\<lparr>getenv := \<lambda>v. Some ''prod''\<rparr>) None = Inl (RuntimeError RUNTIME_MODE_ERROR)"
proof -
  have "py_lower (py_strip ''prod'') \<notin> {''live'', ''demo'', ''test''}" by code_simp
  then show ?thesis
    using runtime_mode_fails_closed [of "(sample_env ''test'')\<lparr>getenv := \<lambda>v. None\<rparr>"]
      runtime_mode_fails_closed [of "(sample_env ''test'')\<lparr>getenv := \<lambda>v. Some ''prod''\<rparr>"] by simp
qed

end
